(* ===== verification/Pwc_Prelude.thy ===== *)
theory Pwc_Prelude
  imports Main "HOL-Library.Word"
begin

text \<open>
  Shared vocabulary of the development: the C integer types as words, the AUTOSAR standard
  return codes and levels (\<open>Std_Types.h\<close>), lemma collections and generic facts on words,
  bits and lists that several components use.
\<close>

unbundle bit_operations_syntax

section \<open>Types and constants\<close>

type_synonym u8 = "8 word"
type_synonym u16 = "16 word"
type_synonym u32 = "32 word"

type_synonym Std_ReturnType = u8

abbreviation E_OK :: Std_ReturnType where "E_OK \<equiv> 0"
abbreviation E_NOT_OK :: Std_ReturnType where "E_NOT_OK \<equiv> 1"

abbreviation STD_HIGH :: u8 where "STD_HIGH \<equiv> 1"
abbreviation STD_LOW :: u8 where "STD_LOW \<equiv> 0"

abbreviation IOHWAB_LOW :: u8 where "IOHWAB_LOW \<equiv> STD_LOW"
abbreviation IOHWAB_HIGH :: u8 where "IOHWAB_HIGH \<equiv> STD_HIGH"

text \<open>The collection \<open>frame\<close> gathers the facts that say which global variables an operation
  leaves alone.\<close>

named_theorems frame \<open>fields an operation does not change\<close>

section \<open>Words\<close>

text \<open>A single-bit mask \<open>1 << n\<close> within the width selects exactly bit \<open>n\<close>.\<close>

lemma and_bit_mask_eq_0:
  fixes x :: "'a::len word"
  assumes "n < LENGTH('a)"
  shows "x AND push_bit n 1 = 0 \<longleftrightarrow> \<not> bit x n"
proof
  assume "x AND push_bit n 1 = 0"
  then have "\<not> bit (x AND push_bit n 1) n" by simp
  with assms show "\<not> bit x n" by (simp add: bit_simps)
next
  assume "\<not> bit x n"
  then show "x AND push_bit n 1 = 0" by (auto intro!: bit_eqI simp: bit_simps)
qed

lemma bit_or_mask:
  fixes x :: "'a::len word"
  assumes "n < LENGTH('a)"
  shows "bit (x OR push_bit n 1) m \<longleftrightarrow> bit x m \<or> m = n"
  using assms by (auto simp: bit_simps dest: bit_imp_le_length)

lemma bit_andnot_mask:
  fixes x :: "'a::len word"
  assumes "n < LENGTH('a)"
  shows "bit (x AND NOT (push_bit n 1)) m \<longleftrightarrow> bit x m \<and> m \<noteq> n"
  using assms by (auto simp: bit_simps dest: bit_imp_le_length)

text \<open>Incrementing below a bound never wraps around.\<close>

lemma unat_Suc_below:
  fixes x y :: "'a::len word"
  assumes "x < y"
  shows "unat (x + 1) = Suc (unat x)"
proof -
  have "unat x < unat y" using assms by (simp add: word_less_nat_alt)
  moreover have "unat y < 2 ^ LENGTH('a)" by simp
  ultimately have "unat x + 1 < 2 ^ LENGTH('a)" by linarith
  then show ?thesis by (simp add: unat_word_ariths)
qed

section \<open>Ring buffers\<close>

text \<open>Two positions less than a full turn apart are different slots.\<close>

lemma ring_slot_distinct:
  fixes i k n m :: nat
  assumes "k < n" and "n < k + m"
  shows "(i + n) mod m \<noteq> (i + k) mod m"
proof
  assume "(i + n) mod m = (i + k) mod m"
  with assms(1) have "m dvd n - k"
    by (simp add: mod_eq_dvd_iff_nat)
  with assms(1) have "m \<le> n - k" by (simp add: dvd_imp_le)
  with assms show False by simp
qed


text \<open>Addition and difference in a ring of \<open>m\<close> positions.\<close>

lemma ring_diff_add:
  fixes a c m :: nat
  assumes "a < m" and "c < m"
  shows "((c + a) mod m + m - c) mod m = a"
proof (cases "c + a < m")
  case True
  then have "(c + a) mod m + m - c = a + m" by simp
  with assms show ?thesis by simp
next
  case False
  then have "(c + a) mod m = c + a - m" using assms by (simp add: le_mod_geq)
  with False have "(c + a) mod m + m - c = a" by linarith
  with assms show ?thesis by simp
qed

lemma ring_add_diff:
  fixes b c m :: nat
  assumes "b < m" and "c < m"
  shows "(b + (c + m - b) mod m) mod m = c"
proof -
  have "(b + (c + m - b) mod m) mod m = (b + (c + m - b)) mod m" by (simp add: mod_simps)
  also have "b + (c + m - b) = c + m" using assms by linarith
  finally show ?thesis using assms by simp
qed

lemma plain_difference: "l \<le> r \<Longrightarrow> r < n \<Longrightarrow> (r + n - l) mod n = r - l" for l r n :: nat
proof -
  assume "l \<le> r" "r < n"
  then have "r + n - l = r - l + n" "r - l < n" by linarith+
  then show ?thesis by (simp only: mod_add_self2 mod_less)
qed

section \<open>Sequence counters\<close>

text \<open>The sender steps its counter with \<open>nxt\<close>; \<open>delta\<close> is the receiver's difference of the
  counter just received and the last valid one, both below the period.\<close>

locale e2e_counter =
  fixes period :: nat and nxt :: "u8 \<Rightarrow> u8" and delta :: "u8 \<Rightarrow> u8 \<Rightarrow> u8"
  assumes period_pos: "0 < period" and period_max: "period \<le> 256"
    and nxt_unat: "unat c < period \<Longrightarrow> unat (nxt c) = (unat c + 1) mod period"
    and delta_unat: "unat r < period \<Longrightarrow> unat l < period \<Longrightarrow>
      unat (delta r l) = (unat r + period - unat l) mod period"
begin

lemma nxts_unat: "unat ((nxt ^^ k) c) = (unat c + k) mod period" if "unat c < period"
  using that
proof (induction k)
  case (Suc k)
  then have "unat ((nxt ^^ k) c) < period" using period_pos by simp
  then have "unat (nxt ((nxt ^^ k) c)) = ((unat c + k) mod period + 1) mod period"
    using Suc nxt_unat by simp
  then show ?case by (simp add: mod_Suc_eq)
qed simp

lemma nxts_below: "unat c < period \<Longrightarrow> unat ((nxt ^^ k) c) < period"
  using nxts_unat period_pos by simp

text \<open>The receiver sees the number of messages sent since the last valid one, modulo the period.\<close>

lemma delta_nxts: "unat (delta ((nxt ^^ k) l) l) = k mod period" if "unat l < period"
proof -
  let ?r = "unat ((nxt ^^ k) l)"
  have "(?r + period - unat l) mod period = ((unat l + k) mod period + (period - unat l)) mod period"
    using that nxts_unat by simp
  also have "\<dots> = (unat l + k + (period - unat l)) mod period" by (simp add: mod_add_left_eq)
  also have "\<dots> = k mod period" using that by simp
  finally show ?thesis using that delta_unat nxts_below by simp
qed

lemma delta_next: "delta (nxt l) l = 1" if "unat l < period" "1 < period"
  using delta_nxts [of l 1] that by (simp add: word_unat_eq_iff)

lemma delta_period: "delta ((nxt ^^ period) l) l = 0" if "unat l < period"
  using delta_nxts [of l period] that by (simp add: word_unat_eq_iff)

end

end
