(* ===== verification/Det.thy ===== *)
theory Det
  imports Pwc_Prelude
begin

text \<open>
  The Development Error Tracer (\<open>core/diagnostic/Det/Det.c\<close>) in the configuration of the
  power window controller (\<open>Det_Cfg.h\<close>): callbacks, static callbacks, stderr output and the
  de-init API are off, the RAM log of 16 entries is on and wraps around.  The record \<open>Det\<close>
  holds the module's global variables; later theories extend it with theirs, so an
  operation of this theory runs unchanged inside every extension.
\<close>

section \<open>State\<close>

record Det_EntryType =
  moduleId :: u16
  instanceId :: u8
  apiId :: u8
  errorId :: u8

datatype Det_StateType = DET_UNINITIALIZED | DET_INITIALIZED | DET_STARTED

record Det =
  detState :: Det_StateType
  Det_RamlogIndex :: u32
  Det_RamLog :: "Det_EntryType list"

abbreviation DET_RAMLOG_SIZE :: u32 where "DET_RAMLOG_SIZE \<equiv> 16"

definition det_zero_entry :: Det_EntryType where
  "det_zero_entry = \<lparr>moduleId = 0, instanceId = 0, apiId = 0, errorId = 0\<rparr>"

section \<open>Operations\<close>

definition Det_Init :: "'a Det_scheme \<Rightarrow> 'a Det_scheme" where
  "Det_Init s =
     s\<lparr>Det_RamLog := replicate (unat DET_RAMLOG_SIZE) det_zero_entry,
       Det_RamlogIndex := 0,
       detState := DET_INITIALIZED\<rparr>"

definition Det_Start :: "'a Det_scheme \<Rightarrow> 'a Det_scheme" where
  "Det_Start s = s\<lparr>detState := DET_STARTED\<rparr>"

definition Det_ReportError ::
  "u16 \<Rightarrow> u8 \<Rightarrow> u8 \<Rightarrow> u8 \<Rightarrow> 'a Det_scheme \<Rightarrow> 'a Det_scheme" where
  "Det_ReportError ModuleId InstanceId ApiId ErrorId s =
     (if detState s = DET_STARTED then
        (if Det_RamlogIndex s < DET_RAMLOG_SIZE then
           (let s1 = s\<lparr>Det_RamLog := (Det_RamLog s)[unat (Det_RamlogIndex s) :=
                        \<lparr>moduleId = ModuleId, instanceId = InstanceId,
                         apiId = ApiId, errorId = ErrorId\<rparr>],
                      Det_RamlogIndex := Det_RamlogIndex s + 1\<rparr>
            in if Det_RamlogIndex s1 = DET_RAMLOG_SIZE then s1\<lparr>Det_RamlogIndex := 0\<rparr> else s1)
         else s)
      else s)"

text \<open>A sequence of reports, oldest first.\<close>

definition det_report_entry :: "Det_EntryType \<Rightarrow> 'a Det_scheme \<Rightarrow> 'a Det_scheme" where
  "det_report_entry e = Det_ReportError (moduleId e) (instanceId e) (apiId e) (errorId e)"

definition det_report_all :: "Det_EntryType list \<Rightarrow> 'a Det_scheme \<Rightarrow> 'a Det_scheme" where
  "det_report_all es s = fold det_report_entry es s"

section \<open>Invariant\<close>

text \<open>The log has its 16 slots and the write index is one of them.\<close>

definition det_inv :: "'a Det_scheme \<Rightarrow> bool" where
  "det_inv s \<longleftrightarrow> length (Det_RamLog s) = unat DET_RAMLOG_SIZE \<and> Det_RamlogIndex s < DET_RAMLOG_SIZE"

lemma det_inv_Init: "det_inv (Det_Init s)"
  by (simp add: det_inv_def Det_Init_def)

lemma det_inv_Start: "det_inv s \<Longrightarrow> det_inv (Det_Start s)"
  by (simp add: det_inv_def Det_Start_def)

lemma det_inv_ReportError: "det_inv s \<Longrightarrow> det_inv (Det_ReportError m i a e s)"
  unfolding det_inv_def Det_ReportError_def Let_def
  by (auto simp: word_less_nat_alt unat_word_ariths word_unat_eq_iff)

section \<open>The log as a ring of the last sixteen reports\<close>

lemma Det_ReportError_started:
  assumes "det_inv s" and "detState s = DET_STARTED"
  shows "Det_RamLog (det_report_entry e s) = (Det_RamLog s)[unat (Det_RamlogIndex s) := e]"
    and "unat (Det_RamlogIndex (det_report_entry e s)) = (unat (Det_RamlogIndex s) + 1) mod 16"
    and "detState (det_report_entry e s) = DET_STARTED"
    and "det_inv (det_report_entry e s)"
proof -
  have lt: "unat (Det_RamlogIndex s) < 16"
    using assms(1) by (simp add: det_inv_def word_less_nat_alt)
  have suc: "unat (Det_RamlogIndex s + 1) = Suc (unat (Det_RamlogIndex s))"
    using assms(1) by (intro unat_Suc_below [where y = 16]) (simp add: det_inv_def)
  have wrap: "Det_RamlogIndex s + 1 = 16 \<longleftrightarrow> unat (Det_RamlogIndex s) = 15"
    using suc by (simp add: word_unat_eq_iff)
  show "Det_RamLog (det_report_entry e s) = (Det_RamLog s)[unat (Det_RamlogIndex s) := e]"
    using assms by (cases e) (simp add: det_report_entry_def Det_ReportError_def det_inv_def Let_def)
  show "unat (Det_RamlogIndex (det_report_entry e s)) = (unat (Det_RamlogIndex s) + 1) mod 16"
    using assms lt suc wrap
    by (auto simp: det_report_entry_def Det_ReportError_def det_inv_def Let_def)
  show "detState (det_report_entry e s) = DET_STARTED"
    using assms by (simp add: det_report_entry_def Det_ReportError_def Let_def)
  show "det_inv (det_report_entry e s)"
    using assms(1) by (simp add: det_report_entry_def det_inv_ReportError)
qed

lemma det_report_all_ring:
  assumes "det_inv s" and "detState s = DET_STARTED"
  shows "det_inv (det_report_all es s)
    \<and> detState (det_report_all es s) = DET_STARTED
    \<and> unat (Det_RamlogIndex (det_report_all es s)) = (unat (Det_RamlogIndex s) + length es) mod 16
    \<and> (\<forall>k < length es. length es \<le> k + 16 \<longrightarrow>
          Det_RamLog (det_report_all es s) ! ((unat (Det_RamlogIndex s) + k) mod 16) = es ! k)"
proof (induction es rule: rev_induct)
  case Nil
  from assms show ?case
    by (simp add: det_report_all_def det_inv_def word_less_nat_alt)
next
  case (snoc e es)
  let ?t = "det_report_all es s" and ?i = "unat (Det_RamlogIndex s)"
  have step: "det_report_all (es @ [e]) s = det_report_entry e ?t"
    by (simp add: det_report_all_def)
  from snoc have inv: "det_inv ?t" and st: "detState ?t = DET_STARTED"
    and ix: "unat (Det_RamlogIndex ?t) = (?i + length es) mod 16" by auto
  note e = Det_ReportError_started [OF inv st, of e]
  have len: "length (Det_RamLog ?t) = 16" using inv by (simp add: det_inv_def)
  have "Det_RamLog (det_report_entry e ?t) ! ((?i + k) mod 16) = (es @ [e]) ! k"
    if k: "k < Suc (length es)" "Suc (length es) \<le> k + 16" for k
  proof (cases "k = length es")
    case True
    then show ?thesis using len by (simp add: e(1) ix)
  next
    case False
    with k have lt: "k < length es" and le: "length es \<le> k + 16" and near: "length es < k + 16"
      by auto
    from lt near have "(?i + length es) mod 16 \<noteq> (?i + k) mod 16"
      by (rule ring_slot_distinct)
    with snoc lt le len show ?thesis by (simp add: e(1) ix nth_append)
  qed
  with e ix show ?case
    by (simp add: step mod_simps)
qed

section \<open>Frame facts\<close>

lemma det_more_ReportError [frame, simp]: "Det.more (Det_ReportError m i a e s) = Det.more s"
  by (simp add: Det_ReportError_def Let_def)

text \<open>Before \<open>Det_Start\<close> a report changes nothing.\<close>

lemma Det_ReportError_not_started [simp]:
  "detState s \<noteq> DET_STARTED \<Longrightarrow> Det_ReportError m i a e s = s"
  by (simp add: Det_ReportError_def)


section \<open>Property\<close>

text \<open>The error log after \<open>Det_Init\<close> and \<open>Det_Start\<close>: whatever the reports are, the log keeps
  16 slots, the write index is the number of reports modulo 16, and each of the last 16
  reports stands in the slot of its number modulo 16: older ones are overwritten, newer ones
  never lost.\<close>

theorem det_log_keeps_last_reports:
  "length (Det_RamLog (det_report_all es (Det_Start (Det_Init s)))) = 16
   \<and> unat (Det_RamlogIndex (det_report_all es (Det_Start (Det_Init s)))) = length es mod 16
   \<and> (\<forall>k < length es. length es \<le> k + 16 \<longrightarrow>
        Det_RamLog (det_report_all es (Det_Start (Det_Init s))) ! (k mod 16) = es ! k)"
proof -
  have "det_inv (Det_Start (Det_Init s))" and "detState (Det_Start (Det_Init s)) = DET_STARTED"
    by (simp_all add: det_inv_Start det_inv_Init) (simp add: Det_Start_def)
  from det_report_all_ring [OF this, of es] show ?thesis
    by (simp add: det_inv_def) (simp add: Det_Start_def Det_Init_def)
qed

definition det_boot :: Det where
  "det_boot = \<lparr>detState = DET_UNINITIALIZED, Det_RamlogIndex = 0, Det_RamLog = []\<rparr>"

lemma det_log_keeps_last_reports_witness:
  "Det_RamLog (det_report_all (replicate 17 det_zero_entry @
      [\<lparr>moduleId = 120, instanceId = 0, apiId = 1, errorId = 10\<rparr>]) (Det_Start (Det_Init det_boot))) ! 1
    = \<lparr>moduleId = 120, instanceId = 0, apiId = 1, errorId = 10\<rparr>"
  using det_log_keeps_last_reports [of "replicate 17 det_zero_entry @
      [\<lparr>moduleId = 120, instanceId = 0, apiId = 1, errorId = 10\<rparr>]" det_boot]
  by (auto dest: spec [of _ 17] simp: nth_append)

end
