(* ===== verification/Dio.thy ===== *)
theory Dio
  imports Det
begin

text \<open>
  The digital I/O driver of the STM32 port (\<open>core/arch/arm/arm_cm3/drivers/Dio.c\<close>), with
  development error detection on as in \<open>Dio_Cfg.h\<close>, and the configuration the project
  generates (\<open>Dio_Lcfg.c\<close>).  The GPIO peripheral is hardware: its input and output data
  registers are the fields \<open>GPIO_IDR\<close> and \<open>GPIO_ODR\<close>, indexed as the array \<open>GPIO_ports\<close>
  (0 is GPIOA, 5 is GPIOF), and \<open>GPIO_ReadInputData\<close>, \<open>GPIO_ReadOutputData\<close> and
  \<open>GPIO_Write\<close> read and write them.  The input registers belong to the environment; no
  operation of the program writes them.  The interface \<open>output_latch\<close> at the end states
  what the users of the driver rely on.
\<close>

section \<open>Types and state\<close>

type_synonym Dio_ChannelType = u32
type_synonym Dio_PortType = u32
type_synonym Dio_LevelType = u8
type_synonym Dio_PortLevelType = u16

record Dio_ChannelGroupType =
  cg_port :: Dio_PortType
  cg_offset :: u8
  cg_mask :: u16

record Dio_ConfigType =
  ChannelConfig :: "Dio_ChannelType list"
  GroupConfig :: "Dio_ChannelGroupType list"
  PortConfig :: "Dio_PortType list"

record Dio = Det +
  Dio_InitRun :: bool
  Dio_Config :: "Dio_ConfigType option"
  GPIO_IDR :: "nat \<Rightarrow> u16"
  GPIO_ODR :: "nat \<Rightarrow> u16"

abbreviation DIO_END_OF_LIST :: u32 where "DIO_END_OF_LIST \<equiv> 0xFFFFFFFF"

abbreviation DIO_MODULE_ID :: u16 where "DIO_MODULE_ID \<equiv> 120"
abbreviation DIO_READCHANNEL_ID :: u8 where "DIO_READCHANNEL_ID \<equiv> 0x00"
abbreviation DIO_WRITECHANNEL_ID :: u8 where "DIO_WRITECHANNEL_ID \<equiv> 0x01"
abbreviation DIO_READPORT_ID :: u8 where "DIO_READPORT_ID \<equiv> 0x02"
abbreviation DIO_WRITEPORT_ID :: u8 where "DIO_WRITEPORT_ID \<equiv> 0x03"
abbreviation DIO_READCHANNELGROUP_ID :: u8 where "DIO_READCHANNELGROUP_ID \<equiv> 0x04"
abbreviation DIO_WRITECHANNELGROUP_ID :: u8 where "DIO_WRITECHANNELGROUP_ID \<equiv> 0x05"
abbreviation DIO_INIT_ID :: u8 where "DIO_INIT_ID \<equiv> 0x10"
abbreviation DIO_E_PARAM_INVALID_CHANNEL_ID :: u8 where "DIO_E_PARAM_INVALID_CHANNEL_ID \<equiv> 10"
abbreviation DIO_E_PARAM_INVALID_PORT_ID :: u8 where "DIO_E_PARAM_INVALID_PORT_ID \<equiv> 20"
abbreviation DIO_E_PARAM_INVALID_GROUP_ID :: u8 where "DIO_E_PARAM_INVALID_GROUP_ID \<equiv> 31"
abbreviation DIO_E_PARAM_CONFIG :: u8 where "DIO_E_PARAM_CONFIG \<equiv> 0x10"
abbreviation DIO_E_UNINIT :: u8 where "DIO_E_UNINIT \<equiv> 0x30"

text \<open>The channels and ports of the board (\<open>Dio_Cfg.h\<close>).\<close>

abbreviation CH_I2C_SCL :: u32 where "CH_I2C_SCL \<equiv> 21"
abbreviation CH_I2C_SDA :: u32 where "CH_I2C_SDA \<equiv> 22"
abbreviation CH_Key :: u32 where "CH_Key \<equiv> 25"
abbreviation CH_LED_1 :: u32 where "CH_LED_1 \<equiv> 55"
abbreviation CH_LED_2 :: u32 where "CH_LED_2 \<equiv> 61"
abbreviation CH_LED_3 :: u32 where "CH_LED_3 \<equiv> 51"
abbreviation CH_LED_4 :: u32 where "CH_LED_4 \<equiv> 52"
abbreviation CH_Tamper :: u32 where "CH_Tamper \<equiv> 45"
abbreviation CH_WakeUp :: u32 where "CH_WakeUp \<equiv> 0"

definition DioConfigData :: Dio_ConfigType where
  "DioConfigData =
     \<lparr>ChannelConfig = [CH_I2C_SCL, CH_I2C_SDA, CH_Key, CH_LED_1, CH_LED_2, CH_LED_3,
                       CH_LED_4, CH_Tamper, CH_WakeUp, DIO_END_OF_LIST],
      GroupConfig = [\<lparr>cg_port = DIO_END_OF_LIST, cg_offset = 0, cg_mask = 0\<rparr>],
      PortConfig = [3, 0, 1, 2, DIO_END_OF_LIST]\<rparr>"

section \<open>Configuration scans\<close>

text \<open>
  The scans run up to the end-of-list marker.  A list without the marker would make the C
  code read past the array; the empty list stands for that end and no scan of a
  configuration with a marker reaches it.
\<close>

fun config_contains :: "u32 list \<Rightarrow> u32 \<Rightarrow> bool" where
  "config_contains [] x = False"
| "config_contains (y # ys) x =
     (if y = DIO_END_OF_LIST then False else if y = x then True else config_contains ys x)"

definition Channel_Config_Contains :: "'a Dio_scheme \<Rightarrow> Dio_ChannelType \<Rightarrow> bool" where
  "Channel_Config_Contains s channelId =
     (case Dio_Config s of None \<Rightarrow> False | Some c \<Rightarrow> config_contains (ChannelConfig c) channelId)"

definition Port_Config_Contains :: "'a Dio_scheme \<Rightarrow> Dio_PortType \<Rightarrow> bool" where
  "Port_Config_Contains s portId =
     (case Dio_Config s of None \<Rightarrow> False | Some c \<Rightarrow> config_contains (PortConfig c) portId)"

fun group_contains :: "Dio_ChannelGroupType list \<Rightarrow> Dio_ChannelGroupType \<Rightarrow> bool" where
  "group_contains [] x = False"
| "group_contains (y # ys) x =
     (if cg_port y = DIO_END_OF_LIST then False
      else if cg_port y = cg_port x \<and> cg_mask y = cg_mask x then True
      else group_contains ys x)"

definition Channel_Group_Config_Contains ::
  "'a Dio_scheme \<Rightarrow> Dio_ChannelGroupType option \<Rightarrow> bool" where
  "Channel_Group_Config_Contains s g =
     (case g of None \<Rightarrow> False
      | Some x \<Rightarrow> (case Dio_Config s of None \<Rightarrow> False | Some c \<Rightarrow> group_contains (GroupConfig c) x))"

definition DIO_GET_PORT_FROM_CHANNEL_ID :: "Dio_ChannelType \<Rightarrow> Dio_PortType" where
  "DIO_GET_PORT_FROM_CHANNEL_ID c = c div 16"

definition DIO_GET_BIT_FROM_CHANNEL_ID :: "Dio_ChannelType \<Rightarrow> u16" where
  "DIO_GET_BIT_FROM_CHANNEL_ID c = push_bit (unat (c mod 16)) 1"

section \<open>Operations\<close>

definition dio_det :: "u8 \<Rightarrow> u8 \<Rightarrow> 'a Dio_scheme \<Rightarrow> 'a Dio_scheme" where
  "dio_det api err s = Det_ReportError DIO_MODULE_ID 0 api err s"

definition Dio_ReadPort :: "Dio_PortType \<Rightarrow> 'a Dio_scheme \<Rightarrow> Dio_PortLevelType \<times> 'a Dio_scheme" where
  "Dio_ReadPort portId s =
     (if \<not> Dio_InitRun s then (0, dio_det DIO_READPORT_ID DIO_E_UNINIT s)
      else if \<not> Port_Config_Contains s portId
        then (0, dio_det DIO_READPORT_ID DIO_E_PARAM_INVALID_PORT_ID s)
      else (GPIO_IDR s (unat portId), s))"

definition Dio_WritePort :: "Dio_PortType \<Rightarrow> Dio_PortLevelType \<Rightarrow> 'a Dio_scheme \<Rightarrow> 'a Dio_scheme" where
  "Dio_WritePort portId level s =
     (if \<not> Dio_InitRun s then dio_det DIO_READCHANNELGROUP_ID DIO_E_UNINIT s
      else if \<not> Port_Config_Contains s portId
        then dio_det DIO_WRITEPORT_ID DIO_E_PARAM_INVALID_PORT_ID s
      else s\<lparr>GPIO_ODR := (GPIO_ODR s)(unat portId := level)\<rparr>)"

definition Dio_ReadChannel :: "Dio_ChannelType \<Rightarrow> 'a Dio_scheme \<Rightarrow> Dio_LevelType \<times> 'a Dio_scheme" where
  "Dio_ReadChannel channelId s =
     (if \<not> Dio_InitRun s then (0, dio_det DIO_READCHANNEL_ID DIO_E_UNINIT s)
      else if \<not> Channel_Config_Contains s channelId
        then (0, dio_det DIO_READCHANNEL_ID DIO_E_PARAM_INVALID_CHANNEL_ID s)
      else (let (portVal, s1) = Dio_ReadPort (DIO_GET_PORT_FROM_CHANNEL_ID channelId) s;
                b = DIO_GET_BIT_FROM_CHANNEL_ID channelId
            in (if portVal AND b \<noteq> 0 then STD_HIGH else STD_LOW, s1)))"

definition Dio_WriteChannel :: "Dio_ChannelType \<Rightarrow> Dio_LevelType \<Rightarrow> 'a Dio_scheme \<Rightarrow> 'a Dio_scheme" where
  "Dio_WriteChannel channelId level s =
     (if \<not> Dio_InitRun s then dio_det DIO_WRITECHANNEL_ID DIO_E_UNINIT s
      else if \<not> Channel_Config_Contains s channelId
        then dio_det DIO_WRITECHANNEL_ID DIO_E_PARAM_INVALID_CHANNEL_ID s
      else (let p = DIO_GET_PORT_FROM_CHANNEL_ID channelId;
                portVal = GPIO_ODR s (unat p);
                b = DIO_GET_BIT_FROM_CHANNEL_ID channelId;
                portVal' = (if level = STD_HIGH then portVal OR b else portVal AND NOT b)
            in Dio_WritePort p portVal' s))"

definition Dio_ReadChannelGroup ::
  "Dio_ChannelGroupType option \<Rightarrow> 'a Dio_scheme \<Rightarrow> Dio_PortLevelType \<times> 'a Dio_scheme" where
  "Dio_ReadChannelGroup g s =
     (if \<not> Dio_InitRun s then (0, dio_det DIO_READCHANNELGROUP_ID DIO_E_UNINIT s)
      else if \<not> Channel_Group_Config_Contains s g
        then (0, dio_det DIO_READCHANNELGROUP_ID DIO_E_PARAM_INVALID_GROUP_ID s)
      else (let grp = the g;
                (v, s1) = Dio_ReadPort (cg_port grp) s
            in (drop_bit (unat (cg_offset grp)) (v AND cg_mask grp), s1)))"

definition Dio_WriteChannelGroup ::
  "Dio_ChannelGroupType option \<Rightarrow> Dio_PortLevelType \<Rightarrow> 'a Dio_scheme \<Rightarrow> 'a Dio_scheme" where
  "Dio_WriteChannelGroup g level s =
     (if \<not> Dio_InitRun s then dio_det DIO_WRITECHANNELGROUP_ID DIO_E_UNINIT s
      else if \<not> Channel_Group_Config_Contains s g
        then dio_det DIO_WRITECHANNELGROUP_ID DIO_E_PARAM_INVALID_GROUP_ID s
      else (let grp = the g;
                lvl = push_bit (unat (cg_offset grp)) level AND cg_mask grp;
                portVal = GPIO_ODR s (unat (cg_port grp)) AND NOT (cg_mask grp)
            in Dio_WritePort (cg_port grp) (portVal OR lvl) s))"

definition Dio_Init :: "Dio_ConfigType option \<Rightarrow> 'a Dio_scheme \<Rightarrow> 'a Dio_scheme" where
  "Dio_Init ConfigPtr s =
     (case ConfigPtr of
        None \<Rightarrow> dio_det DIO_INIT_ID DIO_E_PARAM_CONFIG s
      | Some c \<Rightarrow> s\<lparr>Dio_Config := Some c, Dio_InitRun := True\<rparr>)"

section \<open>Frame facts\<close>

lemma dio_det_frame [frame, simp]:
  "Dio_InitRun (dio_det api err s) = Dio_InitRun s"
  "Dio_Config (dio_det api err s) = Dio_Config s"
  "GPIO_IDR (dio_det api err s) = GPIO_IDR s"
  "GPIO_ODR (dio_det api err s) = GPIO_ODR s"
  "Dio.more (dio_det api err s) = Dio.more s"
  by (simp_all add: dio_det_def Det_ReportError_def Let_def)

lemma Dio_WritePort_frame [frame, simp]:
  "Dio_InitRun (Dio_WritePort p v s) = Dio_InitRun s"
  "Dio_Config (Dio_WritePort p v s) = Dio_Config s"
  "GPIO_IDR (Dio_WritePort p v s) = GPIO_IDR s"
  "Dio.more (Dio_WritePort p v s) = Dio.more s"
  by (simp_all add: Dio_WritePort_def)

lemma Dio_WriteChannel_frame [frame, simp]:
  "Dio_InitRun (Dio_WriteChannel c v s) = Dio_InitRun s"
  "Dio_Config (Dio_WriteChannel c v s) = Dio_Config s"
  "GPIO_IDR (Dio_WriteChannel c v s) = GPIO_IDR s"
  "Dio.more (Dio_WriteChannel c v s) = Dio.more s"
  by (simp_all add: Dio_WriteChannel_def Let_def)

lemma Dio_ReadChannel_frame [frame, simp]:
  "Dio_InitRun (snd (Dio_ReadChannel c s)) = Dio_InitRun s"
  "Dio_Config (snd (Dio_ReadChannel c s)) = Dio_Config s"
  "GPIO_IDR (snd (Dio_ReadChannel c s)) = GPIO_IDR s"
  "GPIO_ODR (snd (Dio_ReadChannel c s)) = GPIO_ODR s"
  "Dio.more (snd (Dio_ReadChannel c s)) = Dio.more s"
  by (simp_all add: Dio_ReadChannel_def Dio_ReadPort_def Let_def)

lemma dio_configured_frame [frame, simp]:
  "Channel_Config_Contains (Dio_WriteChannel c v s) = Channel_Config_Contains s"
  "Port_Config_Contains (Dio_WriteChannel c v s) = Port_Config_Contains s"
  "Channel_Config_Contains (snd (Dio_ReadChannel c s)) = Channel_Config_Contains s"
  "Port_Config_Contains (snd (Dio_ReadChannel c s)) = Port_Config_Contains s"
  by (simp_all add: Channel_Config_Contains_def Port_Config_Contains_def fun_eq_iff)

section \<open>Levels of the channels\<close>

text \<open>The level a channel's output latch drives, and the level its input register shows.\<close>

definition dio_level :: "'a Dio_scheme \<Rightarrow> Dio_ChannelType \<Rightarrow> bool" where
  "dio_level s c = bit (GPIO_ODR s (unat (DIO_GET_PORT_FROM_CHANNEL_ID c))) (unat (c mod 16))"

definition dio_input :: "'a Dio_scheme \<Rightarrow> Dio_ChannelType \<Rightarrow> bool" where
  "dio_input s c = bit (GPIO_IDR s (unat (DIO_GET_PORT_FROM_CHANNEL_ID c))) (unat (c mod 16))"

text \<open>A channel is ready when the driver is initialised and knows it and its port.\<close>

definition dio_ready :: "'a Dio_scheme \<Rightarrow> Dio_ChannelType \<Rightarrow> bool" where
  "dio_ready s c \<longleftrightarrow> Dio_InitRun s \<and> Channel_Config_Contains s c
     \<and> Port_Config_Contains s (DIO_GET_PORT_FROM_CHANNEL_ID c)"

lemma unat_16_u32: "unat (16 :: u32) = 16"
  by simp

lemma channel_bit_below: "unat ((c :: u32) mod 16) < 16"
  by (simp add: unat_mod_distrib)

text \<open>Two different channels are different bits, of one port or of two.\<close>

lemma channel_distinct:
  assumes "(c :: u32) \<noteq> c'"
    and "DIO_GET_PORT_FROM_CHANNEL_ID c = DIO_GET_PORT_FROM_CHANNEL_ID c'"
  shows "unat (c mod 16) \<noteq> unat (c' mod 16)"
proof
  assume "unat (c mod 16) = unat (c' mod 16)"
  moreover have "unat c div 16 = unat c' div 16"
    using assms(2) by (metis DIO_GET_PORT_FROM_CHANNEL_ID_def unat_div_distrib unat_16_u32)
  ultimately have "unat c = unat c'"
    by (metis div_mult_mod_eq unat_mod_distrib unat_16_u32)
  with assms(1) show False by (simp add: word_unat_eq_iff)
qed

section \<open>The output-latch interface\<close>

text \<open>
  What the program relies on when it drives outputs: a write to a ready channel sets the
  level of that channel and of no other, a write to a channel that is not ready changes no
  level, and writing changes no channel's readiness.
\<close>

locale output_latch =
  fixes wr :: "u32 \<Rightarrow> u8 \<Rightarrow> 's \<Rightarrow> 's"
    and lvl :: "'s \<Rightarrow> u32 \<Rightarrow> bool"
    and rdy :: "'s \<Rightarrow> u32 \<Rightarrow> bool"
  assumes lvl_wr: "rdy s c \<Longrightarrow> lvl (wr c v s) c' = (if c' = c then v = STD_HIGH else lvl s c')"
    and lvl_wr_unready: "\<not> rdy s c \<Longrightarrow> lvl (wr c v s) c' = lvl s c'"
    and rdy_wr: "rdy (wr c v s) c' = rdy s c'"
begin

lemma lvl_same: "rdy s c \<Longrightarrow> lvl (wr c v s) c = (v = STD_HIGH)"
  by (simp add: lvl_wr)

lemma lvl_other: "c' \<noteq> c \<Longrightarrow> lvl (wr c v s) c' = lvl s c'"
  by (cases "rdy s c") (simp_all add: lvl_wr lvl_wr_unready)

lemma last_write_wins: "rdy s c \<Longrightarrow> lvl (wr c v (wr c w s)) c' = lvl (wr c v s) c'"
  by (simp add: lvl_wr rdy_wr)

lemma writes_commute:
  "c \<noteq> c' \<Longrightarrow> lvl (wr c v (wr c' w s)) d = lvl (wr c' w (wr c v s)) d"
  by (cases "rdy s c"; cases "rdy s c'") (simp_all add: lvl_wr lvl_wr_unready rdy_wr)

text \<open>A batch of writes: the last value written to a channel is its level.\<close>

lemma lvl_write_batch:
  assumes "\<forall>c \<in> fst ` set ws. rdy s c"
  shows "lvl (fold (\<lambda>(c, v). wr c v) ws s) d =
    (case map_of (rev ws) d of None \<Rightarrow> lvl s d | Some v \<Rightarrow> v = STD_HIGH)"
  using assms
proof (induction ws rule: rev_induct)
  case Nil
  then show ?case by simp
next
  case (snoc w ws)
  obtain c v where w: "w = (c, v)" by (cases w)
  have pres: "rdy (fold (\<lambda>(c, v). wr c v) xs t) e = rdy t e" for xs t e
    by (induction xs arbitrary: t) (auto simp: rdy_wr split: prod.splits)
  from snoc w show ?case
    by (auto simp: lvl_wr pres split: option.splits)
qed

end

lemma lvl_Dio_WriteChannel:
  assumes "dio_ready s c"
  shows "dio_level (Dio_WriteChannel c v s) c' = (if c' = c then v = STD_HIGH else dio_level s c')"
proof -
  let ?p = "DIO_GET_PORT_FROM_CHANNEL_ID"
  note defs = Dio_WriteChannel_def Dio_WritePort_def dio_level_def Let_def
    DIO_GET_BIT_FROM_CHANNEL_ID_def
  have bits: "unat (c mod 16) < LENGTH(16)" by (simp add: channel_bit_below)
  show ?thesis
  proof (cases "?p c' = ?p c")
    case True
    with assms show ?thesis
      using channel_distinct [of c c'] bit_or_mask [OF bits] bit_andnot_mask [OF bits]
      by (auto simp: defs dio_ready_def)
  next
    case False
    then have "unat (?p c') \<noteq> unat (?p c)" by (simp add: word_unat_eq_iff)
    with assms False show ?thesis by (auto simp: defs dio_ready_def)
  qed
qed

lemma lvl_Dio_WriteChannel_unready:
  "\<not> dio_ready s c \<Longrightarrow> dio_level (Dio_WriteChannel c v s) c' = dio_level s c'"
  by (auto simp: Dio_WriteChannel_def Dio_WritePort_def dio_level_def dio_ready_def Let_def)

lemma dio_ready_Dio_WriteChannel [simp]: "dio_ready (Dio_WriteChannel c v s) c' = dio_ready s c'"
  by (simp add: dio_ready_def)

interpretation dio_out: output_latch Dio_WriteChannel dio_level dio_ready
  by unfold_locales (simp_all add: lvl_Dio_WriteChannel lvl_Dio_WriteChannel_unready)

section \<open>Reading\<close>

lemma Dio_ReadChannel_ready:
  "dio_ready s c \<Longrightarrow>
     Dio_ReadChannel c s = (if dio_input s c then STD_HIGH else STD_LOW, s)"
  using and_bit_mask_eq_0 [of "unat (c mod 16)" "GPIO_IDR s (unat (DIO_GET_PORT_FROM_CHANNEL_ID c))"]
  by (simp add: Dio_ReadChannel_def Dio_ReadPort_def dio_ready_def dio_input_def
      DIO_GET_BIT_FROM_CHANNEL_ID_def channel_bit_below)

text \<open>Every channel of the board is ready once the driver is initialised, and lies on one of
  the six ports of \<open>GPIO_ports\<close>.\<close>

definition board_channels :: "u32 list" where
  "board_channels = [CH_I2C_SCL, CH_I2C_SDA, CH_Key, CH_LED_1, CH_LED_2, CH_LED_3, CH_LED_4,
     CH_Tamper, CH_WakeUp]"

lemma board_channel_ready:
  assumes "Dio_InitRun s" and "Dio_Config s = Some DioConfigData" and "c \<in> set board_channels"
  shows "dio_ready s c" and "unat (DIO_GET_PORT_FROM_CHANNEL_ID c) < 6"
  using assms
  by (auto simp: dio_ready_def board_channels_def Channel_Config_Contains_def
      Port_Config_Contains_def DioConfigData_def DIO_GET_PORT_FROM_CHANNEL_ID_def)


text \<open>The board after \<open>Det_Init\<close>, \<open>Det_Start\<close> and \<open>Dio_Init\<close>, all pins low: a concrete state
  for the evaluated instances.\<close>

definition board_after_init :: Dio where
  "board_after_init =
     Dio_Init (Some DioConfigData) (Det_Start (Det_Init
       \<lparr>detState = DET_UNINITIALIZED, Det_RamlogIndex = 0, Det_RamLog = [],
        Dio_InitRun = False, Dio_Config = None, GPIO_IDR = (\<lambda>_. 0), GPIO_ODR = (\<lambda>_. 0)\<rparr>))"

lemma board_after_init_ready: "c \<in> set board_channels \<Longrightarrow> dio_ready board_after_init c"
  by (rule board_channel_ready(1))
    (simp_all add: board_after_init_def Dio_Init_def Det_Start_def Det_Init_def)


section \<open>Properties\<close>

text \<open>C10: A sequence of channel writes on ready channels: each channel of every port ends at the
  level of the last value written to it (high for \<open>STD_HIGH\<close> only), and a channel that was not
  written keeps its level, those that share its port register included.\<close>

theorem dio_write_sequence:
  assumes "\<forall>c \<in> fst ` set ws. dio_ready s c"
  shows "dio_level (fold (\<lambda>(c, v). Dio_WriteChannel c v) ws s) d =
    (case map_of (rev ws) d of None \<Rightarrow> dio_level s d | Some v \<Rightarrow> v = STD_HIGH)"
  using assms by (rule dio_out.lvl_write_batch)

lemma dio_write_sequence_witness:
  "dio_level (fold (\<lambda>(c, v). Dio_WriteChannel c v)
     [(CH_LED_3, 1), (CH_LED_1, 1), (CH_LED_3, 0), (CH_LED_4, 1)] board_after_init) CH_LED_3 = False"
  using dio_write_sequence [of "[(CH_LED_3, 1), (CH_LED_1, 1), (CH_LED_3, 0), (CH_LED_4, 1)]"
      board_after_init CH_LED_3]
  by (simp add: board_after_init_ready board_channels_def)

end
