(* ===== verification/IoHwAb.thy ===== *)
theory IoHwAb
  imports Dio
begin

text \<open>
  The I/O hardware abstraction of the window controller
  (\<open>config/stm32_stm3210c/IoHwAb_Digital.c\<close>): two motor outputs on the channels LED_1 and
  LED_2, the end-stop input on the channel Key and the obstacle input on the channel Tamper.
  Each signal can be taken over by a diagnostic tester through its \<open>IoHwAb_Dcm_\<close> function;
  the flags \<open>_Locked\<close> and the values \<open>_Saved\<close> record that.  \<open>IoHwAb_LockSave\<close> and
  \<open>IoHwAb_LockRestore\<close> mask the interrupts around the diagnostic functions: each is one
  atomic step of the model.  A pointer argument is an optional cell: \<open>None\<close> is NULL and
  \<open>Some v\<close> a cell that holds \<open>v\<close>.
\<close>

section \<open>State\<close>

type_synonym IoHwAb_LevelType = u8
type_synonym IoHwAb_SignalType = u32

record IoHwAb = Dio +
  IoHwAb_MOTOR_1_Locked :: bool
  IoHwAb_MOTOR_1_Saved :: IoHwAb_LevelType
  IoHwAb_EndStop_Locked :: bool
  IoHwAb_EndStop_Saved :: IoHwAb_LevelType
  IoHwAb_Obstacle_Locked :: bool
  IoHwAb_Obstacle_Saved :: IoHwAb_LevelType
  IoHwAb_MOTOR_2_Locked :: bool
  IoHwAb_MOTOR_2_Saved :: IoHwAb_LevelType

abbreviation IoHwAb_MOTOR_1_Default :: u8 where "IoHwAb_MOTOR_1_Default \<equiv> IOHWAB_LOW"
abbreviation IoHwAb_EndStop_Default :: u8 where "IoHwAb_EndStop_Default \<equiv> IOHWAB_HIGH"
abbreviation IoHwAb_Obstacle_Default :: u8 where "IoHwAb_Obstacle_Default \<equiv> IOHWAB_HIGH"
abbreviation IoHwAb_MOTOR_2_Default :: u8 where "IoHwAb_MOTOR_2_Default \<equiv> IOHWAB_LOW"

abbreviation IOHWAB_SIGNAL_MOTOR_1 :: u32 where "IOHWAB_SIGNAL_MOTOR_1 \<equiv> 0"
abbreviation IOHWAB_SIGNAL_ENDSTOP :: u32 where "IOHWAB_SIGNAL_ENDSTOP \<equiv> 1"
abbreviation IOHWAB_SIGNAL_OBSTACLE :: u32 where "IOHWAB_SIGNAL_OBSTACLE \<equiv> 2"
abbreviation IOHWAB_SIGNAL_MOTOR_2 :: u32 where "IOHWAB_SIGNAL_MOTOR_2 \<equiv> 3"

abbreviation IOHWAB_RETURNCONTROLTOECU :: u8 where "IOHWAB_RETURNCONTROLTOECU \<equiv> 0"
abbreviation IOHWAB_RESETTODEFAULT :: u8 where "IOHWAB_RESETTODEFAULT \<equiv> 1"
abbreviation IOHWAB_FREEZECURRENTSTATE :: u8 where "IOHWAB_FREEZECURRENTSTATE \<equiv> 2"
abbreviation IOHWAB_SHORTTERMADJUST :: u8 where "IOHWAB_SHORTTERMADJUST \<equiv> 3"

abbreviation IOHWAB_GOOD :: u8 where "IOHWAB_GOOD \<equiv> 3"

abbreviation IOHWAB_MODULE_ID :: u16 where "IOHWAB_MODULE_ID \<equiv> 254"
abbreviation IOHWAB_DIGITAL_READ_ID :: u8 where "IOHWAB_DIGITAL_READ_ID \<equiv> 0x30"
abbreviation IOHWAB_DIGITAL_WRITE_ID :: u8 where "IOHWAB_DIGITAL_WRITE_ID \<equiv> 0x31"
abbreviation IOHWAB_DIGITAL_IO_CONTROL_ID :: u8 where "IOHWAB_DIGITAL_IO_CONTROL_ID \<equiv> 0x33"
abbreviation IOHWAB_E_PARAM_SIGNAL :: u8 where "IOHWAB_E_PARAM_SIGNAL \<equiv> 0x11"
abbreviation IOHWAB_E_PARAM_LEVEL :: u8 where "IOHWAB_E_PARAM_LEVEL \<equiv> 0x13"
abbreviation IOHWAB_E_PARAM_ACTION :: u8 where "IOHWAB_E_PARAM_ACTION \<equiv> 0x14"
abbreviation IOHWAB_E_PARAM_PTR :: u8 where "IOHWAB_E_PARAM_PTR \<equiv> 0x15"

definition IS_VALID_DIO_LEVEL :: "u8 \<Rightarrow> bool" where
  "IS_VALID_DIO_LEVEL x \<longleftrightarrow> STD_LOW = x \<or> STD_HIGH = x"

definition IOHWAB_DET_REPORT_ERROR :: "u8 \<Rightarrow> u8 \<Rightarrow> 'a IoHwAb_scheme \<Rightarrow> 'a IoHwAb_scheme" where
  "IOHWAB_DET_REPORT_ERROR api err s = Det_ReportError IOHWAB_MODULE_ID 0 api err s"

section \<open>Writing and reading the signals\<close>

definition IoHwAb_Digital_Write_MOTOR_1 ::
  "IoHwAb_LevelType \<Rightarrow> 'a IoHwAb_scheme \<Rightarrow> Std_ReturnType \<times> 'a IoHwAb_scheme" where
  "IoHwAb_Digital_Write_MOTOR_1 newValue s =
     (if \<not> IS_VALID_DIO_LEVEL newValue
      then (E_NOT_OK, IOHWAB_DET_REPORT_ERROR IOHWAB_DIGITAL_WRITE_ID IOHWAB_E_PARAM_LEVEL s)
      else (let setLevel = (if IoHwAb_MOTOR_1_Locked s then IoHwAb_MOTOR_1_Saved s else newValue);
                s1 = s\<lparr>IoHwAb_MOTOR_1_Saved := setLevel\<rparr>
            in (E_OK, Dio_WriteChannel CH_LED_1 setLevel s1)))"

definition IoHwAb_Digital_Write_MOTOR_2 ::
  "IoHwAb_LevelType \<Rightarrow> 'a IoHwAb_scheme \<Rightarrow> Std_ReturnType \<times> 'a IoHwAb_scheme" where
  "IoHwAb_Digital_Write_MOTOR_2 newValue s =
     (if \<not> IS_VALID_DIO_LEVEL newValue
      then (E_NOT_OK, IOHWAB_DET_REPORT_ERROR IOHWAB_DIGITAL_WRITE_ID IOHWAB_E_PARAM_LEVEL s)
      else (let setLevel = (if IoHwAb_MOTOR_2_Locked s then IoHwAb_MOTOR_2_Saved s else newValue);
                s1 = s\<lparr>IoHwAb_MOTOR_2_Saved := setLevel\<rparr>
            in (E_OK, Dio_WriteChannel CH_LED_2 setLevel s1)))"

text \<open>
  The four read functions share their shape: a null check of each pointer, the read, the
  quality.  \<open>src\<close> is the value and the state after the read of the signal.
\<close>

definition iohwab_read_checks ::
  "u8 option \<Rightarrow> u8 option \<Rightarrow> ('a IoHwAb_scheme \<Rightarrow> u8 \<times> 'a IoHwAb_scheme) \<Rightarrow> 'a IoHwAb_scheme
     \<Rightarrow> Std_ReturnType \<times> u8 option \<times> u8 option \<times> 'a IoHwAb_scheme" where
  "iohwab_read_checks val status src s =
     (if val = None
      then (E_NOT_OK, val, status, IOHWAB_DET_REPORT_ERROR IOHWAB_DIGITAL_READ_ID IOHWAB_E_PARAM_PTR s)
      else if status = None
      then (E_NOT_OK, val, status, IOHWAB_DET_REPORT_ERROR IOHWAB_DIGITAL_READ_ID IOHWAB_E_PARAM_PTR s)
      else (let (v, s1) = src s in (E_OK, Some v, Some IOHWAB_GOOD, s1)))"

definition IoHwAb_Digital_Read_MOTOR_1 ::
  "u8 option \<Rightarrow> u8 option \<Rightarrow> 'a IoHwAb_scheme
     \<Rightarrow> Std_ReturnType \<times> u8 option \<times> u8 option \<times> 'a IoHwAb_scheme" where
  "IoHwAb_Digital_Read_MOTOR_1 val status s =
     iohwab_read_checks val status (Dio_ReadChannel CH_LED_1) s"

definition IoHwAb_Digital_Read_MOTOR_2 ::
  "u8 option \<Rightarrow> u8 option \<Rightarrow> 'a IoHwAb_scheme
     \<Rightarrow> Std_ReturnType \<times> u8 option \<times> u8 option \<times> 'a IoHwAb_scheme" where
  "IoHwAb_Digital_Read_MOTOR_2 val status s =
     iohwab_read_checks val status (Dio_ReadChannel CH_LED_2) s"

definition IoHwAb_Digital_Read_EndStop ::
  "u8 option \<Rightarrow> u8 option \<Rightarrow> 'a IoHwAb_scheme
     \<Rightarrow> Std_ReturnType \<times> u8 option \<times> u8 option \<times> 'a IoHwAb_scheme" where
  "IoHwAb_Digital_Read_EndStop val status s =
     iohwab_read_checks val status
       (\<lambda>s. if \<not> IoHwAb_EndStop_Locked s then Dio_ReadChannel CH_Key s
            else (IoHwAb_EndStop_Saved s, s)) s"

definition IoHwAb_Digital_Read_Obstacle ::
  "u8 option \<Rightarrow> u8 option \<Rightarrow> 'a IoHwAb_scheme
     \<Rightarrow> Std_ReturnType \<times> u8 option \<times> u8 option \<times> 'a IoHwAb_scheme" where
  "IoHwAb_Digital_Read_Obstacle val status s =
     iohwab_read_checks val status
       (\<lambda>s. if \<not> IoHwAb_Obstacle_Locked s then Dio_ReadChannel CH_Tamper s
            else (IoHwAb_Obstacle_Saved s, s)) s"

definition IoHwAb_Digital_Write ::
  "IoHwAb_SignalType \<Rightarrow> IoHwAb_LevelType \<Rightarrow> 'a IoHwAb_scheme \<Rightarrow> Std_ReturnType \<times> 'a IoHwAb_scheme" where
  "IoHwAb_Digital_Write signal newValue s =
     (if signal = IOHWAB_SIGNAL_MOTOR_1 then IoHwAb_Digital_Write_MOTOR_1 newValue s
      else if signal = IOHWAB_SIGNAL_MOTOR_2 then IoHwAb_Digital_Write_MOTOR_2 newValue s
      else (E_NOT_OK, IOHWAB_DET_REPORT_ERROR IOHWAB_DIGITAL_WRITE_ID IOHWAB_E_PARAM_SIGNAL s))"

definition IoHwAb_Digital_Read ::
  "IoHwAb_SignalType \<Rightarrow> u8 option \<Rightarrow> u8 option \<Rightarrow> 'a IoHwAb_scheme
     \<Rightarrow> Std_ReturnType \<times> u8 option \<times> u8 option \<times> 'a IoHwAb_scheme" where
  "IoHwAb_Digital_Read signal val status s =
     (if signal = IOHWAB_SIGNAL_ENDSTOP then IoHwAb_Digital_Read_EndStop val status s
      else if signal = IOHWAB_SIGNAL_OBSTACLE then IoHwAb_Digital_Read_Obstacle val status s
      else (E_NOT_OK, val, status,
            IOHWAB_DET_REPORT_ERROR IOHWAB_DIGITAL_READ_ID IOHWAB_E_PARAM_SIGNAL s))"

section \<open>Diagnostic control of the outputs\<close>

definition IoHwAb_Dcm_MOTOR_1 ::
  "u8 \<Rightarrow> u8 \<Rightarrow> 'a IoHwAb_scheme \<Rightarrow> Std_ReturnType \<times> 'a IoHwAb_scheme" where
  "IoHwAb_Dcm_MOTOR_1 action val s =
     (let tempLock = IoHwAb_MOTOR_1_Locked s in
      if action = IOHWAB_RETURNCONTROLTOECU then (E_OK, s\<lparr>IoHwAb_MOTOR_1_Locked := False\<rparr>)
      else if action = IOHWAB_RESETTODEFAULT then
        (let s1 = s\<lparr>IoHwAb_MOTOR_1_Locked := False\<rparr>;
             (r, s2) = IoHwAb_Digital_Write_MOTOR_1 IoHwAb_MOTOR_1_Default s1
         in if r \<noteq> E_OK then (E_NOT_OK, s2\<lparr>IoHwAb_MOTOR_1_Locked := tempLock\<rparr>)
            else (E_OK, s2\<lparr>IoHwAb_MOTOR_1_Saved := IoHwAb_MOTOR_1_Default,
                           IoHwAb_MOTOR_1_Locked := True\<rparr>))
      else if action = IOHWAB_FREEZECURRENTSTATE then (E_OK, s\<lparr>IoHwAb_MOTOR_1_Locked := True\<rparr>)
      else if action = IOHWAB_SHORTTERMADJUST then
        (if IS_VALID_DIO_LEVEL val then
           (let s1 = s\<lparr>IoHwAb_MOTOR_1_Locked := False\<rparr>;
                (r, s2) = IoHwAb_Digital_Write_MOTOR_1 val s1
            in if r \<noteq> E_OK then (E_NOT_OK, s2\<lparr>IoHwAb_MOTOR_1_Locked := tempLock\<rparr>)
               else (E_OK, s2\<lparr>IoHwAb_MOTOR_1_Saved := val, IoHwAb_MOTOR_1_Locked := True\<rparr>))
         else (E_NOT_OK, IOHWAB_DET_REPORT_ERROR IOHWAB_DIGITAL_IO_CONTROL_ID IOHWAB_E_PARAM_LEVEL s))
      else (E_NOT_OK, IOHWAB_DET_REPORT_ERROR IOHWAB_DIGITAL_IO_CONTROL_ID IOHWAB_E_PARAM_ACTION s))"

definition IoHwAb_Dcm_Read_MOTOR_1 ::
  "u8 option \<Rightarrow> 'a IoHwAb_scheme \<Rightarrow> Std_ReturnType \<times> u8 option \<times> 'a IoHwAb_scheme" where
  "IoHwAb_Dcm_Read_MOTOR_1 val s =
     (let tempLock = IoHwAb_MOTOR_1_Locked s;
          s1 = s\<lparr>IoHwAb_MOTOR_1_Locked := False\<rparr>;
          (ret, val', status', s2) = IoHwAb_Digital_Read_MOTOR_1 val (Some 0) s1
      in (ret, val', s2\<lparr>IoHwAb_MOTOR_1_Locked := tempLock\<rparr>))"

definition IoHwAb_Dcm_MOTOR_2 ::
  "u8 \<Rightarrow> u8 \<Rightarrow> 'a IoHwAb_scheme \<Rightarrow> Std_ReturnType \<times> 'a IoHwAb_scheme" where
  "IoHwAb_Dcm_MOTOR_2 action val s =
     (let tempLock = IoHwAb_MOTOR_2_Locked s in
      if action = IOHWAB_RETURNCONTROLTOECU then (E_OK, s\<lparr>IoHwAb_MOTOR_2_Locked := False\<rparr>)
      else if action = IOHWAB_RESETTODEFAULT then
        (let s1 = s\<lparr>IoHwAb_MOTOR_2_Locked := False\<rparr>;
             (r, s2) = IoHwAb_Digital_Write_MOTOR_2 IoHwAb_MOTOR_2_Default s1
         in if r \<noteq> E_OK then (E_NOT_OK, s2\<lparr>IoHwAb_MOTOR_2_Locked := tempLock\<rparr>)
            else (E_OK, s2\<lparr>IoHwAb_MOTOR_2_Saved := IoHwAb_MOTOR_2_Default,
                           IoHwAb_MOTOR_2_Locked := True\<rparr>))
      else if action = IOHWAB_FREEZECURRENTSTATE then (E_OK, s\<lparr>IoHwAb_MOTOR_2_Locked := True\<rparr>)
      else if action = IOHWAB_SHORTTERMADJUST then
        (if IS_VALID_DIO_LEVEL val then
           (let s1 = s\<lparr>IoHwAb_MOTOR_2_Locked := False\<rparr>;
                (r, s2) = IoHwAb_Digital_Write_MOTOR_2 val s1
            in if r \<noteq> E_OK then (E_NOT_OK, s2\<lparr>IoHwAb_MOTOR_2_Locked := tempLock\<rparr>)
               else (E_OK, s2\<lparr>IoHwAb_MOTOR_2_Saved := val, IoHwAb_MOTOR_2_Locked := True\<rparr>))
         else (E_NOT_OK, IOHWAB_DET_REPORT_ERROR IOHWAB_DIGITAL_IO_CONTROL_ID IOHWAB_E_PARAM_LEVEL s))
      else (E_NOT_OK, IOHWAB_DET_REPORT_ERROR IOHWAB_DIGITAL_IO_CONTROL_ID IOHWAB_E_PARAM_ACTION s))"

definition IoHwAb_Dcm_Read_MOTOR_2 ::
  "u8 option \<Rightarrow> 'a IoHwAb_scheme \<Rightarrow> Std_ReturnType \<times> u8 option \<times> 'a IoHwAb_scheme" where
  "IoHwAb_Dcm_Read_MOTOR_2 val s =
     (let tempLock = IoHwAb_MOTOR_2_Locked s;
          s1 = s\<lparr>IoHwAb_MOTOR_2_Locked := False\<rparr>;
          (ret, val', status', s2) = IoHwAb_Digital_Read_MOTOR_2 val (Some 0) s1
      in (ret, val', s2\<lparr>IoHwAb_MOTOR_2_Locked := tempLock\<rparr>))"

section \<open>Diagnostic control of the inputs\<close>

definition IoHwAb_Dcm_EndStop ::
  "u8 \<Rightarrow> u8 \<Rightarrow> 'a IoHwAb_scheme \<Rightarrow> Std_ReturnType \<times> 'a IoHwAb_scheme" where
  "IoHwAb_Dcm_EndStop action val s =
     (let tempLock = IoHwAb_EndStop_Locked s in
      if action = IOHWAB_RETURNCONTROLTOECU then (E_OK, s\<lparr>IoHwAb_EndStop_Locked := False\<rparr>)
      else if action = IOHWAB_RESETTODEFAULT then
        (E_OK, s\<lparr>IoHwAb_EndStop_Saved := IoHwAb_EndStop_Default, IoHwAb_EndStop_Locked := True\<rparr>)
      else if action = IOHWAB_FREEZECURRENTSTATE then
        (let s1 = s\<lparr>IoHwAb_EndStop_Locked := False\<rparr>;
             (r, v, status', s2) = IoHwAb_Digital_Read_EndStop (Some (IoHwAb_EndStop_Saved s1)) (Some 0) s1;
             s3 = (case v of None \<Rightarrow> s2 | Some w \<Rightarrow> s2\<lparr>IoHwAb_EndStop_Saved := w\<rparr>)
         in if r \<noteq> E_OK then (E_NOT_OK, s3\<lparr>IoHwAb_EndStop_Locked := tempLock\<rparr>)
            else (E_OK, s3\<lparr>IoHwAb_EndStop_Locked := True\<rparr>))
      else if action = IOHWAB_SHORTTERMADJUST then
        (if IS_VALID_DIO_LEVEL val then
           (E_OK, s\<lparr>IoHwAb_EndStop_Saved := val, IoHwAb_EndStop_Locked := True\<rparr>)
         else (E_NOT_OK, IOHWAB_DET_REPORT_ERROR IOHWAB_DIGITAL_IO_CONTROL_ID IOHWAB_E_PARAM_LEVEL s))
      else (E_NOT_OK, IOHWAB_DET_REPORT_ERROR IOHWAB_DIGITAL_IO_CONTROL_ID IOHWAB_E_PARAM_ACTION s))"

definition IoHwAb_Dcm_Read_EndStop ::
  "u8 option \<Rightarrow> 'a IoHwAb_scheme \<Rightarrow> Std_ReturnType \<times> u8 option \<times> 'a IoHwAb_scheme" where
  "IoHwAb_Dcm_Read_EndStop val s =
     (let tempLock = IoHwAb_EndStop_Locked s;
          s1 = s\<lparr>IoHwAb_EndStop_Locked := False\<rparr>;
          (ret, val', status', s2) = IoHwAb_Digital_Read_EndStop val (Some 0) s1
      in (ret, val', s2\<lparr>IoHwAb_EndStop_Locked := tempLock\<rparr>))"

definition IoHwAb_Dcm_Obstacle ::
  "u8 \<Rightarrow> u8 \<Rightarrow> 'a IoHwAb_scheme \<Rightarrow> Std_ReturnType \<times> 'a IoHwAb_scheme" where
  "IoHwAb_Dcm_Obstacle action val s =
     (let tempLock = IoHwAb_Obstacle_Locked s in
      if action = IOHWAB_RETURNCONTROLTOECU then (E_OK, s\<lparr>IoHwAb_Obstacle_Locked := False\<rparr>)
      else if action = IOHWAB_RESETTODEFAULT then
        (E_OK, s\<lparr>IoHwAb_Obstacle_Saved := IoHwAb_Obstacle_Default, IoHwAb_Obstacle_Locked := True\<rparr>)
      else if action = IOHWAB_FREEZECURRENTSTATE then
        (let s1 = s\<lparr>IoHwAb_Obstacle_Locked := False\<rparr>;
             (r, v, status', s2) = IoHwAb_Digital_Read_Obstacle (Some (IoHwAb_Obstacle_Saved s1)) (Some 0) s1;
             s3 = (case v of None \<Rightarrow> s2 | Some w \<Rightarrow> s2\<lparr>IoHwAb_Obstacle_Saved := w\<rparr>)
         in if r \<noteq> E_OK then (E_NOT_OK, s3\<lparr>IoHwAb_Obstacle_Locked := tempLock\<rparr>)
            else (E_OK, s3\<lparr>IoHwAb_Obstacle_Locked := True\<rparr>))
      else if action = IOHWAB_SHORTTERMADJUST then
        (if IS_VALID_DIO_LEVEL val then
           (E_OK, s\<lparr>IoHwAb_Obstacle_Saved := val, IoHwAb_Obstacle_Locked := True\<rparr>)
         else (E_NOT_OK, IOHWAB_DET_REPORT_ERROR IOHWAB_DIGITAL_IO_CONTROL_ID IOHWAB_E_PARAM_LEVEL s))
      else (E_NOT_OK, IOHWAB_DET_REPORT_ERROR IOHWAB_DIGITAL_IO_CONTROL_ID IOHWAB_E_PARAM_ACTION s))"

definition IoHwAb_Dcm_Read_Obstacle ::
  "u8 option \<Rightarrow> 'a IoHwAb_scheme \<Rightarrow> Std_ReturnType \<times> u8 option \<times> 'a IoHwAb_scheme" where
  "IoHwAb_Dcm_Read_Obstacle val s =
     (let tempLock = IoHwAb_Obstacle_Locked s;
          s1 = s\<lparr>IoHwAb_Obstacle_Locked := False\<rparr>;
          (ret, val', status', s2) = IoHwAb_Digital_Read_Obstacle val (Some 0) s1
      in (ret, val', s2\<lparr>IoHwAb_Obstacle_Locked := tempLock\<rparr>))"

section \<open>Frame facts\<close>

lemma dio_det_iohwab [frame, simp]:
  "IoHwAb_MOTOR_1_Locked (dio_det api err s) = IoHwAb_MOTOR_1_Locked s"
  "IoHwAb_MOTOR_1_Saved (dio_det api err s) = IoHwAb_MOTOR_1_Saved s"
  "IoHwAb_EndStop_Locked (dio_det api err s) = IoHwAb_EndStop_Locked s"
  "IoHwAb_EndStop_Saved (dio_det api err s) = IoHwAb_EndStop_Saved s"
  "IoHwAb_Obstacle_Locked (dio_det api err s) = IoHwAb_Obstacle_Locked s"
  "IoHwAb_Obstacle_Saved (dio_det api err s) = IoHwAb_Obstacle_Saved s"
  "IoHwAb_MOTOR_2_Locked (dio_det api err s) = IoHwAb_MOTOR_2_Locked s"
  "IoHwAb_MOTOR_2_Saved (dio_det api err s) = IoHwAb_MOTOR_2_Saved s"
  "IoHwAb.more (dio_det api err s) = IoHwAb.more s"
  by (simp_all add: dio_det_def Det_ReportError_def Let_def)

lemma Dio_WriteChannel_iohwab [frame, simp]:
  "IoHwAb_MOTOR_1_Locked (Dio_WriteChannel c v s) = IoHwAb_MOTOR_1_Locked s"
  "IoHwAb_MOTOR_1_Saved (Dio_WriteChannel c v s) = IoHwAb_MOTOR_1_Saved s"
  "IoHwAb_EndStop_Locked (Dio_WriteChannel c v s) = IoHwAb_EndStop_Locked s"
  "IoHwAb_EndStop_Saved (Dio_WriteChannel c v s) = IoHwAb_EndStop_Saved s"
  "IoHwAb_Obstacle_Locked (Dio_WriteChannel c v s) = IoHwAb_Obstacle_Locked s"
  "IoHwAb_Obstacle_Saved (Dio_WriteChannel c v s) = IoHwAb_Obstacle_Saved s"
  "IoHwAb_MOTOR_2_Locked (Dio_WriteChannel c v s) = IoHwAb_MOTOR_2_Locked s"
  "IoHwAb_MOTOR_2_Saved (Dio_WriteChannel c v s) = IoHwAb_MOTOR_2_Saved s"
  "IoHwAb.more (Dio_WriteChannel c v s) = IoHwAb.more s"
  by (simp_all add: Dio_WriteChannel_def Dio_WritePort_def Let_def)

lemma IOHWAB_DET_REPORT_ERROR_frame [frame, simp]:
  "IoHwAb_MOTOR_1_Locked (IOHWAB_DET_REPORT_ERROR api err s) = IoHwAb_MOTOR_1_Locked s"
  "IoHwAb_MOTOR_1_Saved (IOHWAB_DET_REPORT_ERROR api err s) = IoHwAb_MOTOR_1_Saved s"
  "IoHwAb_EndStop_Locked (IOHWAB_DET_REPORT_ERROR api err s) = IoHwAb_EndStop_Locked s"
  "IoHwAb_EndStop_Saved (IOHWAB_DET_REPORT_ERROR api err s) = IoHwAb_EndStop_Saved s"
  "IoHwAb_Obstacle_Locked (IOHWAB_DET_REPORT_ERROR api err s) = IoHwAb_Obstacle_Locked s"
  "IoHwAb_Obstacle_Saved (IOHWAB_DET_REPORT_ERROR api err s) = IoHwAb_Obstacle_Saved s"
  "IoHwAb_MOTOR_2_Locked (IOHWAB_DET_REPORT_ERROR api err s) = IoHwAb_MOTOR_2_Locked s"
  "IoHwAb_MOTOR_2_Saved (IOHWAB_DET_REPORT_ERROR api err s) = IoHwAb_MOTOR_2_Saved s"
  "IoHwAb.more (IOHWAB_DET_REPORT_ERROR api err s) = IoHwAb.more s"
  "Dio_InitRun (IOHWAB_DET_REPORT_ERROR api err s) = Dio_InitRun s"
  "Dio_Config (IOHWAB_DET_REPORT_ERROR api err s) = Dio_Config s"
  "GPIO_IDR (IOHWAB_DET_REPORT_ERROR api err s) = GPIO_IDR s"
  "GPIO_ODR (IOHWAB_DET_REPORT_ERROR api err s) = GPIO_ODR s"
  by (simp_all add: IOHWAB_DET_REPORT_ERROR_def Det_ReportError_def Let_def)

lemma dio_level_cong:
  "GPIO_ODR t = GPIO_ODR s \<Longrightarrow> dio_level t = dio_level s"
  by (simp add: dio_level_def fun_eq_iff)

lemma dio_ready_cong:
  "Dio_InitRun t = Dio_InitRun s \<Longrightarrow> Dio_Config t = Dio_Config s \<Longrightarrow> dio_ready t = dio_ready s"
  by (simp add: dio_ready_def Channel_Config_Contains_def Port_Config_Contains_def fun_eq_iff)

lemma dio_input_cong:
  "GPIO_IDR t = GPIO_IDR s \<Longrightarrow> dio_input t = dio_input s"
  by (simp add: dio_input_def fun_eq_iff)

lemma iohwab_field_updates [simp]:
  "dio_level (IoHwAb_MOTOR_1_Locked_update k s) = dio_level s"
  "dio_ready (IoHwAb_MOTOR_1_Locked_update k s) = dio_ready s"
  "dio_input (IoHwAb_MOTOR_1_Locked_update k s) = dio_input s"
  "dio_level (IoHwAb_MOTOR_1_Saved_update h s) = dio_level s"
  "dio_ready (IoHwAb_MOTOR_1_Saved_update h s) = dio_ready s"
  "dio_input (IoHwAb_MOTOR_1_Saved_update h s) = dio_input s"
  "dio_level (IoHwAb_EndStop_Locked_update k s) = dio_level s"
  "dio_ready (IoHwAb_EndStop_Locked_update k s) = dio_ready s"
  "dio_input (IoHwAb_EndStop_Locked_update k s) = dio_input s"
  "dio_level (IoHwAb_EndStop_Saved_update h s) = dio_level s"
  "dio_ready (IoHwAb_EndStop_Saved_update h s) = dio_ready s"
  "dio_input (IoHwAb_EndStop_Saved_update h s) = dio_input s"
  "dio_level (IoHwAb_Obstacle_Locked_update k s) = dio_level s"
  "dio_ready (IoHwAb_Obstacle_Locked_update k s) = dio_ready s"
  "dio_input (IoHwAb_Obstacle_Locked_update k s) = dio_input s"
  "dio_level (IoHwAb_Obstacle_Saved_update h s) = dio_level s"
  "dio_ready (IoHwAb_Obstacle_Saved_update h s) = dio_ready s"
  "dio_input (IoHwAb_Obstacle_Saved_update h s) = dio_input s"
  "dio_level (IoHwAb_MOTOR_2_Locked_update k s) = dio_level s"
  "dio_ready (IoHwAb_MOTOR_2_Locked_update k s) = dio_ready s"
  "dio_input (IoHwAb_MOTOR_2_Locked_update k s) = dio_input s"
  "dio_level (IoHwAb_MOTOR_2_Saved_update h s) = dio_level s"
  "dio_ready (IoHwAb_MOTOR_2_Saved_update h s) = dio_ready s"
  "dio_input (IoHwAb_MOTOR_2_Saved_update h s) = dio_input s"
  by (simp_all add: dio_level_def dio_ready_def dio_input_def Channel_Config_Contains_def
      Port_Config_Contains_def fun_eq_iff)

lemma iohwab_det_levels [simp]:
  "dio_level (IOHWAB_DET_REPORT_ERROR api err s) = dio_level s"
  "dio_ready (IOHWAB_DET_REPORT_ERROR api err s) = dio_ready s"
  "dio_input (IOHWAB_DET_REPORT_ERROR api err s) = dio_input s"
  by (rule dio_level_cong dio_ready_cong dio_input_cong; simp)+

lemma Dio_WriteChannel_input [simp]: "dio_input (Dio_WriteChannel c v s) = dio_input s"
  by (rule dio_input_cong) simp

section \<open>Outputs under tester control\<close>

text \<open>
  The contract of an output signal that a tester may take over: \<open>wr\<close> is the application's
  write, \<open>ctl\<close> the diagnostic control function.  While the tester holds the signal, the
  application's writes return \<open>E_OK\<close> and leave the tester's level on the pin.
\<close>

locale tester_output =
  fixes wr :: "u8 \<Rightarrow> 's \<Rightarrow> Std_ReturnType \<times> 's"
    and ctl :: "u8 \<Rightarrow> u8 \<Rightarrow> 's \<Rightarrow> Std_ReturnType \<times> 's"
    and pin :: "'s \<Rightarrow> bool"
    and lck :: "'s \<Rightarrow> bool"
    and sav :: "'s \<Rightarrow> u8"
    and rdy :: "'s \<Rightarrow> bool"
  assumes wr_valid: "rdy s \<Longrightarrow> IS_VALID_DIO_LEVEL v \<Longrightarrow>
      fst (wr v s) = E_OK \<and> sav (snd (wr v s)) = (if lck s then sav s else v)
      \<and> pin (snd (wr v s)) = ((if lck s then sav s else v) = STD_HIGH)"
    and wr_invalid: "\<not> IS_VALID_DIO_LEVEL v \<Longrightarrow>
      fst (wr v s) = E_NOT_OK \<and> sav (snd (wr v s)) = sav s \<and> pin (snd (wr v s)) = pin s"
    and wr_keeps: "lck (snd (wr v s)) = lck s \<and> rdy (snd (wr v s)) = rdy s"
    and ctl_adjust: "rdy s \<Longrightarrow> IS_VALID_DIO_LEVEL v \<Longrightarrow>
      fst (ctl IOHWAB_SHORTTERMADJUST v s) = E_OK
      \<and> lck (snd (ctl IOHWAB_SHORTTERMADJUST v s))
      \<and> sav (snd (ctl IOHWAB_SHORTTERMADJUST v s)) = v
      \<and> pin (snd (ctl IOHWAB_SHORTTERMADJUST v s)) = (v = STD_HIGH)"
    and ctl_return: "fst (ctl IOHWAB_RETURNCONTROLTOECU v s) = E_OK
      \<and> \<not> lck (snd (ctl IOHWAB_RETURNCONTROLTOECU v s))
      \<and> pin (snd (ctl IOHWAB_RETURNCONTROLTOECU v s)) = pin s"
    and ctl_rdy: "rdy (snd (ctl a v s)) = rdy s"
begin

text \<open>The application's writes, one after the other, ignoring the return codes.\<close>

definition app_writes :: "u8 list \<Rightarrow> 's \<Rightarrow> 's" where
  "app_writes ws s = fold (\<lambda>w t. snd (wr w t)) ws s"

lemma app_writes_rdy: "rdy (app_writes ws s) = rdy s"
  unfolding app_writes_def by (induction ws arbitrary: s) (simp_all add: wr_keeps)

lemma locked_writes:
  assumes "rdy s" and "lck s" and "pin s = (sav s = STD_HIGH)"
  shows "lck (app_writes ws s) \<and> sav (app_writes ws s) = sav s
    \<and> pin (app_writes ws s) = (sav s = STD_HIGH)"
  using assms unfolding app_writes_def
proof (induction ws arbitrary: s)
  case Nil
  then show ?case by simp
next
  case (Cons w ws)
  have "pin (snd (wr w s)) = (sav s = STD_HIGH) \<and> sav (snd (wr w s)) = sav s"
    using Cons.prems wr_valid [of s w] wr_invalid [of w s]
    by (cases "IS_VALID_DIO_LEVEL w") auto
  with Cons show ?case by (simp add: wr_keeps)
qed

lemma override_persists:
  assumes "rdy s" and "IS_VALID_DIO_LEVEL v"
  shows "pin (app_writes ws (snd (ctl IOHWAB_SHORTTERMADJUST v s))) = (v = STD_HIGH)"
  using locked_writes [of "snd (ctl IOHWAB_SHORTTERMADJUST v s)" ws] ctl_adjust [OF assms] assms
  by (simp add: ctl_rdy)

lemma control_returned:
  assumes "rdy s" and "IS_VALID_DIO_LEVEL w"
  shows "pin (snd (wr w (snd (ctl IOHWAB_RETURNCONTROLTOECU v s)))) = (w = STD_HIGH)"
  using wr_valid [of "snd (ctl IOHWAB_RETURNCONTROLTOECU v s)" w] ctl_return [of v s] assms
  by (simp add: ctl_rdy)

end

lemmas motor_defs = IoHwAb_Digital_Write_MOTOR_1_def IoHwAb_Digital_Write_MOTOR_2_def
  IoHwAb_Dcm_MOTOR_1_def IoHwAb_Dcm_MOTOR_2_def IS_VALID_DIO_LEVEL_def Let_def

interpretation motor_1: tester_output IoHwAb_Digital_Write_MOTOR_1 IoHwAb_Dcm_MOTOR_1
  "\<lambda>s. dio_level s CH_LED_1" IoHwAb_MOTOR_1_Locked IoHwAb_MOTOR_1_Saved
  "\<lambda>s. dio_ready s CH_LED_1"
  by unfold_locales (auto simp: motor_defs dio_out.lvl_wr)

interpretation motor_2: tester_output IoHwAb_Digital_Write_MOTOR_2 IoHwAb_Dcm_MOTOR_2
  "\<lambda>s. dio_level s CH_LED_2" IoHwAb_MOTOR_2_Locked IoHwAb_MOTOR_2_Saved
  "\<lambda>s. dio_ready s CH_LED_2"
  by unfold_locales (auto simp: motor_defs dio_out.lvl_wr)

section \<open>Inputs under tester control\<close>

text \<open>
  The contract of an input signal: \<open>rd\<close> is the return code and value of a read through
  valid pointers.  A held input shows the tester's value, or the level at the moment of the
  freeze, whatever the pin does afterwards.
\<close>

locale tester_input =
  fixes rd :: "'s \<Rightarrow> Std_ReturnType \<times> u8 option"
    and ctl :: "u8 \<Rightarrow> u8 \<Rightarrow> 's \<Rightarrow> Std_ReturnType \<times> 's"
    and pin :: "'s \<Rightarrow> bool"
    and lck :: "'s \<Rightarrow> bool"
    and sav :: "'s \<Rightarrow> u8"
    and rdy :: "'s \<Rightarrow> bool"
  assumes rd_value: "rdy s \<Longrightarrow>
      rd s = (E_OK, Some (if lck s then sav s else if pin s then STD_HIGH else STD_LOW))"
    and ctl_adjust: "IS_VALID_DIO_LEVEL v \<Longrightarrow>
      fst (ctl IOHWAB_SHORTTERMADJUST v s) = E_OK
      \<and> lck (snd (ctl IOHWAB_SHORTTERMADJUST v s)) \<and> sav (snd (ctl IOHWAB_SHORTTERMADJUST v s)) = v"
    and ctl_freeze: "rdy s \<Longrightarrow>
      fst (ctl IOHWAB_FREEZECURRENTSTATE v s) = E_OK
      \<and> lck (snd (ctl IOHWAB_FREEZECURRENTSTATE v s))
      \<and> sav (snd (ctl IOHWAB_FREEZECURRENTSTATE v s)) = (if pin s then STD_HIGH else STD_LOW)"
    and ctl_return: "fst (ctl IOHWAB_RETURNCONTROLTOECU v s) = E_OK
      \<and> \<not> lck (snd (ctl IOHWAB_RETURNCONTROLTOECU v s))
      \<and> pin (snd (ctl IOHWAB_RETURNCONTROLTOECU v s)) = pin s"
    and ctl_rdy: "rdy (snd (ctl a v s)) = rdy s"
begin

text \<open>A later state in which only the environment moved: readiness and the tester's hold are
  those of the earlier one, the pin may differ.\<close>

definition env_later :: "'s \<Rightarrow> 's \<Rightarrow> bool" where
  "env_later s t \<longleftrightarrow> rdy t = rdy s \<and> lck t = lck s \<and> sav t = sav s"

lemma adjusted_read:
  assumes "rdy s" and "IS_VALID_DIO_LEVEL v"
    and "env_later (snd (ctl IOHWAB_SHORTTERMADJUST v s)) t"
  shows "rd t = (E_OK, Some v)"
  using assms ctl_adjust [OF assms(2)] by (simp add: env_later_def rd_value ctl_rdy)

lemma frozen_read:
  assumes "rdy s" and "env_later (snd (ctl IOHWAB_FREEZECURRENTSTATE v s)) t"
  shows "rd t = (E_OK, Some (if pin s then STD_HIGH else STD_LOW))"
  using assms ctl_freeze [OF assms(1)] by (simp add: env_later_def rd_value ctl_rdy)

lemma returned_read:
  assumes "rdy s"
  shows "rd (snd (ctl IOHWAB_RETURNCONTROLTOECU v s)) =
    (E_OK, Some (if pin s then STD_HIGH else STD_LOW))"
  using assms ctl_return by (simp add: rd_value ctl_rdy)

end

definition EndStop_read :: "'a IoHwAb_scheme \<Rightarrow> Std_ReturnType \<times> u8 option" where
  "EndStop_read s = (case IoHwAb_Digital_Read_EndStop (Some 0) (Some 0) s of (r, v, _) \<Rightarrow> (r, v))"

definition Obstacle_read :: "'a IoHwAb_scheme \<Rightarrow> Std_ReturnType \<times> u8 option" where
  "Obstacle_read s = (case IoHwAb_Digital_Read_Obstacle (Some 0) (Some 0) s of (r, v, _) \<Rightarrow> (r, v))"

lemma Read_EndStop_ready:
  "dio_ready s CH_Key \<Longrightarrow>
     IoHwAb_Digital_Read_EndStop (Some v) (Some q) s =
       (E_OK, Some (if IoHwAb_EndStop_Locked s then IoHwAb_EndStop_Saved s
                    else if dio_input s CH_Key then STD_HIGH else STD_LOW), Some IOHWAB_GOOD, s)"
  by (simp add: IoHwAb_Digital_Read_EndStop_def iohwab_read_checks_def Dio_ReadChannel_ready)

lemma Read_Obstacle_ready:
  "dio_ready s CH_Tamper \<Longrightarrow>
     IoHwAb_Digital_Read_Obstacle (Some v) (Some q) s =
       (E_OK, Some (if IoHwAb_Obstacle_Locked s then IoHwAb_Obstacle_Saved s
                    else if dio_input s CH_Tamper then STD_HIGH else STD_LOW), Some IOHWAB_GOOD, s)"
  by (simp add: IoHwAb_Digital_Read_Obstacle_def iohwab_read_checks_def Dio_ReadChannel_ready)

lemma Dio_ReadChannel_ready_eq:
  "Dio_ReadChannel c s = (v, t) \<Longrightarrow> dio_ready t d = dio_ready s d"
  using dio_configured_frame(3,4) [of c s] Dio_ReadChannel_frame(1) [of c s]
  by (simp add: dio_ready_def)

lemma Read_ready_eq:
  "IoHwAb_Digital_Read_EndStop v q s = (r, v', q', t) \<Longrightarrow> dio_ready t d = dio_ready s d"
  "IoHwAb_Digital_Read_Obstacle v q s = (r, v', q', t) \<Longrightarrow> dio_ready t d = dio_ready s d"
  by (auto simp: IoHwAb_Digital_Read_EndStop_def IoHwAb_Digital_Read_Obstacle_def
      iohwab_read_checks_def split: if_splits prod.splits dest: Dio_ReadChannel_ready_eq)

lemma Dcm_input_ready:
  "dio_ready (snd (IoHwAb_Dcm_EndStop a v s)) d = dio_ready s d"
  "dio_ready (snd (IoHwAb_Dcm_Obstacle a v s)) d = dio_ready s d"
  by (auto simp: IoHwAb_Dcm_EndStop_def IoHwAb_Dcm_Obstacle_def Let_def
      split: prod.splits option.splits dest: Read_ready_eq [where d = d])

interpretation end_stop: tester_input EndStop_read IoHwAb_Dcm_EndStop
  "\<lambda>s. dio_input s CH_Key" IoHwAb_EndStop_Locked IoHwAb_EndStop_Saved "\<lambda>s. dio_ready s CH_Key"
  by unfold_locales
    (rule Dcm_input_ready | simp add: EndStop_read_def IoHwAb_Dcm_EndStop_def Read_EndStop_ready)+

interpretation obstacle: tester_input Obstacle_read IoHwAb_Dcm_Obstacle
  "\<lambda>s. dio_input s CH_Tamper" IoHwAb_Obstacle_Locked IoHwAb_Obstacle_Saved
  "\<lambda>s. dio_ready s CH_Tamper"
  by unfold_locales
    (rule Dcm_input_ready | simp add: Obstacle_read_def IoHwAb_Dcm_Obstacle_def Read_Obstacle_ready)+


section \<open>Properties\<close>

text \<open>C11: A motor output under short-term adjustment: whatever levels the application writes
  afterwards, valid or not, the motor's pin stays at the level the tester has set; and after
  control is returned a valid write reaches the pin.\<close>

theorem tester_overrides_motor_1:
  assumes "dio_ready s CH_LED_1" and "IS_VALID_DIO_LEVEL v" and "IS_VALID_DIO_LEVEL w"
  shows "dio_level (fold (\<lambda>w t. snd (IoHwAb_Digital_Write_MOTOR_1 w t)) ws
        (snd (IoHwAb_Dcm_MOTOR_1 IOHWAB_SHORTTERMADJUST v s))) CH_LED_1 = (v = STD_HIGH)
    \<and> dio_level (snd (IoHwAb_Digital_Write_MOTOR_1 w
        (snd (IoHwAb_Dcm_MOTOR_1 IOHWAB_RETURNCONTROLTOECU v s)))) CH_LED_1 = (w = STD_HIGH)"
  using motor_1.override_persists [OF assms(1,2), of ws] motor_1.control_returned [OF assms(1,3)]
  by (simp add: motor_1.app_writes_def)

text \<open>A frozen end-stop input: after the freeze the application reads the level the pin had
  at that moment, in every later state in which only the pins have moved, until control is
  returned, when it reads the pin again.\<close>

theorem frozen_end_stop:
  assumes "dio_ready s CH_Key"
  shows "EndStop_read ((snd (IoHwAb_Dcm_EndStop IOHWAB_FREEZECURRENTSTATE v s))\<lparr>GPIO_IDR := pins\<rparr>)
      = (E_OK, Some (if dio_input s CH_Key then STD_HIGH else STD_LOW))
    \<and> EndStop_read (snd (IoHwAb_Dcm_EndStop IOHWAB_RETURNCONTROLTOECU w
        ((snd (IoHwAb_Dcm_EndStop IOHWAB_FREEZECURRENTSTATE v s))\<lparr>GPIO_IDR := pins\<rparr>)))
      = (E_OK, Some (if dio_input (s\<lparr>GPIO_IDR := pins\<rparr>) CH_Key then STD_HIGH else STD_LOW))"
proof -
  let ?f = "snd (IoHwAb_Dcm_EndStop IOHWAB_FREEZECURRENTSTATE v s)"
  have rdy: "dio_ready (?f\<lparr>GPIO_IDR := pins\<rparr>) CH_Key = dio_ready ?f CH_Key"
    by (intro fun_cong [OF dio_ready_cong]) simp_all
  have ready: "dio_ready (?f\<lparr>GPIO_IDR := pins\<rparr>) CH_Key"
    using assms by (simp only: rdy Dcm_input_ready)
  have pin: "dio_input (?f\<lparr>GPIO_IDR := pins\<rparr>) CH_Key = dio_input (s\<lparr>GPIO_IDR := pins\<rparr>) CH_Key"
    by (simp add: dio_input_def)
  have "end_stop.env_later ?f (?f\<lparr>GPIO_IDR := pins\<rparr>)"
    using rdy by (simp add: end_stop.env_later_def)
  with end_stop.frozen_read [OF assms] end_stop.returned_read [OF ready, of w] pin
  show ?thesis by simp
qed

text \<open>A state with the drivers initialised and no signal held.\<close>

definition iohwab_boot :: IoHwAb where
  "iohwab_boot =
     \<lparr>detState = DET_STARTED, Det_RamlogIndex = 0, Det_RamLog = replicate 16 det_zero_entry,
      Dio_InitRun = True, Dio_Config = Some DioConfigData, GPIO_IDR = (\<lambda>_. 0), GPIO_ODR = (\<lambda>_. 0),
      IoHwAb_MOTOR_1_Locked = False, IoHwAb_MOTOR_1_Saved = IOHWAB_LOW,
      IoHwAb_EndStop_Locked = False, IoHwAb_EndStop_Saved = IOHWAB_LOW,
      IoHwAb_Obstacle_Locked = False, IoHwAb_Obstacle_Saved = IOHWAB_LOW,
      IoHwAb_MOTOR_2_Locked = False, IoHwAb_MOTOR_2_Saved = IOHWAB_LOW\<rparr>"

lemma iohwab_boot_ready: "c \<in> set board_channels \<Longrightarrow> dio_ready iohwab_boot c"
  by (rule board_channel_ready(1)) (simp_all add: iohwab_boot_def)

lemma tester_overrides_motor_1_witness:
  "dio_level (fold (\<lambda>w t. snd (IoHwAb_Digital_Write_MOTOR_1 w t)) [0, 9, 0]
     (snd (IoHwAb_Dcm_MOTOR_1 IOHWAB_SHORTTERMADJUST 1 iohwab_boot))) CH_LED_1"
  using tester_overrides_motor_1 [OF iohwab_boot_ready, of 1 0 "[0, 9, 0]"]
  by (simp add: board_channels_def IS_VALID_DIO_LEVEL_def del: fold_simps)

lemma frozen_end_stop_witness:
  "EndStop_read ((snd (IoHwAb_Dcm_EndStop IOHWAB_FREEZECURRENTSTATE 0 iohwab_boot))
     \<lparr>GPIO_IDR := (\<lambda>_. 0xFFFF)\<rparr>) = (E_OK, Some STD_LOW)"
  using frozen_end_stop [OF iohwab_boot_ready, where v = 0 and pins = "\<lambda>_. 0xFFFF"]
  by (simp add: board_channels_def) (simp add: iohwab_boot_def dio_input_def)

end
