(* ===== verification/WinController.thy ===== *)
theory WinController
  imports IoHwAb
begin

text \<open>
  The window controller chart (\<open>pwc/src/WinController.c\<close>): the state record of \<open>PWC.h\<close>, the
  step function \<open>power_window_controller\<close> and its local function
  \<open>power_window_controll_winStates\<close>, one definition per state of the chart.  The command
  output \<open>*rty_cmd\<close> is a cell that the caller provides: the step takes its content and
  returns the new one, because the code writes it on transitions only.  The writes to the
  four status LEDs go through the driver, in the order of the code.
\<close>

section \<open>Data\<close>

record DW_power_window_controller_f_T =
  is_active_c3_power_window_contr :: u8
  is_c3_power_window_controller :: u8
  is_winStates :: u8
  is_Stopped :: u8
  is_movingUp :: u8
  is_movingUpX :: u8
  is_movingDown :: u8
  temporalCounter_i1 :: u8

abbreviation power_window_IN_NO_ACTIVE_CHILD :: u8 where "power_window_IN_NO_ACTIVE_CHILD \<equiv> 0"
abbreviation power_window_c_IN_movingDownBsc :: u8 where "power_window_c_IN_movingDownBsc \<equiv> 1"
abbreviation power_window_c_IN_partiallyOpen :: u8 where "power_window_c_IN_partiallyOpen \<equiv> 3"
abbreviation power_window_con_IN_fullyClosed :: u8 where "power_window_con_IN_fullyClosed \<equiv> 1"
abbreviation power_window_con_IN_movingDownX :: u8 where "power_window_con_IN_movingDownX \<equiv> 2"
abbreviation power_window_con_IN_movingUpBsc :: u8 where "power_window_con_IN_movingUpBsc \<equiv> 1"
abbreviation power_window_cont_IN_movingDown :: u8 where "power_window_cont_IN_movingDown \<equiv> 3"
abbreviation power_window_cont_IN_retracting :: u8 where "power_window_cont_IN_retracting \<equiv> 5"
abbreviation power_window_cont_IN_unknownPos :: u8 where "power_window_cont_IN_unknownPos \<equiv> 4"
abbreviation power_window_contr_IN_fullyOpen :: u8 where "power_window_contr_IN_fullyOpen \<equiv> 2"
abbreviation power_window_contr_IN_movingUpX :: u8 where "power_window_contr_IN_movingUpX \<equiv> 2"
abbreviation power_window_contr_IN_winStates :: u8 where "power_window_contr_IN_winStates \<equiv> 1"
abbreviation power_window_contro_IN_coolDown :: u8 where "power_window_contro_IN_coolDown \<equiv> 2"
abbreviation power_window_contro_IN_movingUp :: u8 where "power_window_contro_IN_movingUp \<equiv> 4"
abbreviation power_window_control_IN_Stopped :: u8 where "power_window_control_IN_Stopped \<equiv> 1"
abbreviation power_window_control_IN_mux_ppo :: u8 where "power_window_control_IN_mux_ppo \<equiv> 2"
abbreviation power_window_controll_IN_mux_pp :: u8 where "power_window_controll_IN_mux_pp \<equiv> 1"

text \<open>The static initialiser \<open>PWC_DW = {0}\<close>.\<close>

definition PWC_DW_init :: DW_power_window_controller_f_T where
  "PWC_DW_init =
     \<lparr>is_active_c3_power_window_contr = 0, is_c3_power_window_controller = 0, is_winStates = 0,
      is_Stopped = 0, is_movingUp = 0, is_movingUpX = 0, is_movingDown = 0,
      temporalCounter_i1 = 0\<rparr>"

type_synonym 'a chart = "u8 \<times> DW_power_window_controller_f_T \<times> 'a Dio_scheme"

section \<open>The states of the chart\<close>

definition winStates_Stopped ::
  "u8 \<Rightarrow> u8 \<Rightarrow> DW_power_window_controller_f_T \<Rightarrow> 'a Dio_scheme \<Rightarrow> 'a chart" where
  "winStates_Stopped rtu_req cmd dw s0 =
    (let s1 = Dio_WriteChannel CH_LED_4 IOHWAB_LOW s0;
         s2 = Dio_WriteChannel CH_LED_3 IOHWAB_LOW s1 in
     if is_Stopped dw = power_window_con_IN_fullyClosed then
       (let s3 = Dio_WriteChannel CH_LED_1 IOHWAB_HIGH s2;
            s4 = Dio_WriteChannel CH_LED_2 IOHWAB_HIGH s3 in
        if rtu_req = 1 then
          (1, dw\<lparr>is_Stopped := power_window_IN_NO_ACTIVE_CHILD,
                 is_winStates := power_window_cont_IN_movingDown,
                 temporalCounter_i1 := 0,
                 is_movingDown := power_window_c_IN_movingDownBsc\<rparr>, s4)
        else if rtu_req = 3 then
          (1, dw\<lparr>is_Stopped := power_window_IN_NO_ACTIVE_CHILD,
                 is_winStates := power_window_cont_IN_movingDown,
                 temporalCounter_i1 := 0,
                 is_movingDown := power_window_con_IN_movingDownX\<rparr>, s4)
        else (cmd, dw, s4))
     else if is_Stopped dw = power_window_contr_IN_fullyOpen then
       (let s3 = Dio_WriteChannel CH_LED_2 IOHWAB_LOW s2;
            s4 = Dio_WriteChannel CH_LED_1 IOHWAB_LOW s3 in
        if rtu_req = 4 then
          (2, dw\<lparr>is_Stopped := power_window_IN_NO_ACTIVE_CHILD,
                 is_winStates := power_window_contro_IN_movingUp,
                 temporalCounter_i1 := 0,
                 is_movingUp := power_window_contr_IN_movingUpX,
                 is_movingUpX := power_window_control_IN_mux_ppo\<rparr>, s4)
        else if rtu_req = 2 then
          (2, dw\<lparr>is_Stopped := power_window_IN_NO_ACTIVE_CHILD,
                 is_winStates := power_window_contro_IN_movingUp,
                 temporalCounter_i1 := 0,
                 is_movingUp := power_window_con_IN_movingUpBsc\<rparr>, s4)
        else (cmd, dw, s4))
     else if is_Stopped dw = power_window_c_IN_partiallyOpen then
       (let s3 = Dio_WriteChannel CH_LED_2 IOHWAB_LOW s2;
            s4 = Dio_WriteChannel CH_LED_1 IOHWAB_HIGH s3 in
        if rtu_req = 2 then
          (2, dw\<lparr>is_Stopped := power_window_IN_NO_ACTIVE_CHILD,
                 is_winStates := power_window_contro_IN_movingUp,
                 temporalCounter_i1 := 0,
                 is_movingUp := power_window_con_IN_movingUpBsc\<rparr>, s4)
        else if rtu_req = 1 then
          (1, dw\<lparr>is_Stopped := power_window_IN_NO_ACTIVE_CHILD,
                 is_winStates := power_window_cont_IN_movingDown,
                 temporalCounter_i1 := 0,
                 is_movingDown := power_window_c_IN_movingDownBsc\<rparr>, s4)
        else if rtu_req = 3 then
          (1, dw\<lparr>is_Stopped := power_window_IN_NO_ACTIVE_CHILD,
                 is_winStates := power_window_cont_IN_movingDown,
                 temporalCounter_i1 := 0,
                 is_movingDown := power_window_con_IN_movingDownX\<rparr>, s4)
        else if rtu_req = 4 then
          (2, dw\<lparr>is_Stopped := power_window_IN_NO_ACTIVE_CHILD,
                 is_winStates := power_window_contro_IN_movingUp,
                 temporalCounter_i1 := 0,
                 is_movingUp := power_window_contr_IN_movingUpX,
                 is_movingUpX := power_window_control_IN_mux_ppo\<rparr>, s4)
        else (cmd, dw, s4))
     else (cmd, dw\<lparr>is_Stopped := power_window_c_IN_partiallyOpen\<rparr>, s2))"

definition winStates_coolDown ::
  "u8 \<Rightarrow> u8 \<Rightarrow> DW_power_window_controller_f_T \<Rightarrow> 'a Dio_scheme \<Rightarrow> 'a chart" where
  "winStates_coolDown rtu_req cmd dw s0 =
    (let s1 = Dio_WriteChannel CH_LED_3 IOHWAB_HIGH s0;
         s2 = Dio_WriteChannel CH_LED_4 IOHWAB_HIGH s1;
         s3 = Dio_WriteChannel CH_LED_2 IOHWAB_LOW s2;
         s4 = Dio_WriteChannel CH_LED_1 IOHWAB_HIGH s3 in
     if rtu_req = 0 then
       (0, dw\<lparr>is_winStates := power_window_control_IN_Stopped,
              is_Stopped := power_window_cont_IN_unknownPos\<rparr>, s4)
     else (cmd, dw, s4))"

definition winStates_movingDown ::
  "u8 \<Rightarrow> u8 \<Rightarrow> u8 \<Rightarrow> DW_power_window_controller_f_T \<Rightarrow> 'a Dio_scheme \<Rightarrow> 'a chart" where
  "winStates_movingDown rtu_req rtu_endStop cmd dw s0 =
    (let s1 = Dio_WriteChannel CH_LED_4 IOHWAB_LOW s0;
         s2 = Dio_WriteChannel CH_LED_3 IOHWAB_HIGH s1 in
     if rtu_endStop \<noteq> 0 then
       (0, dw\<lparr>is_movingDown := power_window_IN_NO_ACTIVE_CHILD,
              is_winStates := power_window_control_IN_Stopped,
              is_Stopped := power_window_contr_IN_fullyOpen\<rparr>, s2)
     else if rtu_req = 4 then
       (2, dw\<lparr>is_movingDown := power_window_IN_NO_ACTIVE_CHILD,
              is_winStates := power_window_contro_IN_movingUp,
              temporalCounter_i1 := 0,
              is_movingUp := power_window_contr_IN_movingUpX,
              is_movingUpX := power_window_control_IN_mux_ppo\<rparr>, s2)
     else if temporalCounter_i1 dw \<ge> 200 then
       (0, dw\<lparr>is_movingDown := power_window_IN_NO_ACTIVE_CHILD,
              is_winStates := power_window_contro_IN_coolDown\<rparr>, s2)
     else if rtu_req = 2 then
       (2, dw\<lparr>is_movingDown := power_window_IN_NO_ACTIVE_CHILD,
              is_winStates := power_window_contro_IN_movingUp,
              temporalCounter_i1 := 0,
              is_movingUp := power_window_con_IN_movingUpBsc\<rparr>, s2)
     else if is_movingDown dw = power_window_c_IN_movingDownBsc then
       (let s3 = Dio_WriteChannel CH_LED_1 IOHWAB_HIGH s2;
            s4 = Dio_WriteChannel CH_LED_2 IOHWAB_LOW s3 in
        if rtu_req = 3 then (cmd, dw\<lparr>is_movingDown := power_window_con_IN_movingDownX\<rparr>, s4)
        else if rtu_req = 0 then
          (0, dw\<lparr>is_movingDown := power_window_IN_NO_ACTIVE_CHILD,
                 is_winStates := power_window_control_IN_Stopped,
                 is_Stopped := power_window_c_IN_partiallyOpen\<rparr>, s4)
        else (cmd, dw, s4))
     else
       (let s3 = Dio_WriteChannel CH_LED_2 IOHWAB_HIGH s2;
            s4 = Dio_WriteChannel CH_LED_1 IOHWAB_LOW s3 in (cmd, dw, s4)))"

definition winStates_movingUp ::
  "u8 \<Rightarrow> u8 \<Rightarrow> u8 \<Rightarrow> u8 \<Rightarrow> DW_power_window_controller_f_T \<Rightarrow> 'a Dio_scheme \<Rightarrow> 'a chart" where
  "winStates_movingUp rtu_req rtu_endStop rtu_obstacle cmd dw s0 =
    (let s1 = Dio_WriteChannel CH_LED_4 IOHWAB_HIGH s0;
         s2 = Dio_WriteChannel CH_LED_3 IOHWAB_LOW s1 in
     if rtu_endStop = 1 then
       (0, dw\<lparr>is_movingUp := power_window_IN_NO_ACTIVE_CHILD,
              is_movingUpX := power_window_IN_NO_ACTIVE_CHILD,
              is_winStates := power_window_control_IN_Stopped,
              is_Stopped := power_window_con_IN_fullyClosed\<rparr>, s2)
     else if temporalCounter_i1 dw \<ge> 200 then
       (0, dw\<lparr>is_movingUp := power_window_IN_NO_ACTIVE_CHILD,
              is_movingUpX := power_window_IN_NO_ACTIVE_CHILD,
              is_winStates := power_window_contro_IN_coolDown\<rparr>, s2)
     else if rtu_req = 1 then
       (1, dw\<lparr>is_movingUp := power_window_IN_NO_ACTIVE_CHILD,
              is_movingUpX := power_window_IN_NO_ACTIVE_CHILD,
              is_winStates := power_window_cont_IN_movingDown,
              temporalCounter_i1 := 0,
              is_movingDown := power_window_c_IN_movingDownBsc\<rparr>, s2)
     else if rtu_req = 3 then
       (1, dw\<lparr>is_movingUp := power_window_IN_NO_ACTIVE_CHILD,
              is_movingUpX := power_window_IN_NO_ACTIVE_CHILD,
              is_winStates := power_window_cont_IN_movingDown,
              temporalCounter_i1 := 0,
              is_movingDown := power_window_con_IN_movingDownX\<rparr>, s2)
     else if is_movingUp dw = power_window_con_IN_movingUpBsc then
       (let s3 = Dio_WriteChannel CH_LED_1 IOHWAB_LOW s2;
            s4 = Dio_WriteChannel CH_LED_2 IOHWAB_LOW s3 in
        if rtu_req = 4 then
          (cmd, dw\<lparr>is_movingUp := power_window_contr_IN_movingUpX,
                   is_movingUpX := power_window_control_IN_mux_ppo\<rparr>, s4)
        else if rtu_req = 0 then
          (0, dw\<lparr>is_movingUp := power_window_IN_NO_ACTIVE_CHILD,
                 is_winStates := power_window_control_IN_Stopped,
                 is_Stopped := power_window_c_IN_partiallyOpen\<rparr>, s4)
        else (cmd, dw, s4))
     else if is_movingUpX dw = power_window_controll_IN_mux_pp then
       (let s3 = Dio_WriteChannel CH_LED_1 IOHWAB_HIGH s2;
            s4 = Dio_WriteChannel CH_LED_2 IOHWAB_HIGH s3 in
        if rtu_obstacle = 1 then
          (1, dw\<lparr>is_movingUpX := power_window_IN_NO_ACTIVE_CHILD,
                 is_movingUp := power_window_IN_NO_ACTIVE_CHILD,
                 is_winStates := power_window_cont_IN_retracting\<rparr>, s4)
        else (cmd, dw, s4))
     else
       (let s3 = Dio_WriteChannel CH_LED_1 IOHWAB_LOW s2;
            s4 = Dio_WriteChannel CH_LED_2 IOHWAB_HIGH s3 in
        if rtu_req \<noteq> 4 then (cmd, dw\<lparr>is_movingUpX := power_window_controll_IN_mux_pp\<rparr>, s4)
        else (cmd, dw, s4)))"

definition winStates_retracting ::
  "u8 \<Rightarrow> u8 \<Rightarrow> DW_power_window_controller_f_T \<Rightarrow> 'a Dio_scheme \<Rightarrow> 'a chart" where
  "winStates_retracting rtu_endStop cmd dw s0 =
    (let s1 = Dio_WriteChannel CH_LED_4 IOHWAB_HIGH s0;
         s2 = Dio_WriteChannel CH_LED_3 IOHWAB_HIGH s1;
         s3 = Dio_WriteChannel CH_LED_2 IOHWAB_LOW s2;
         s4 = Dio_WriteChannel CH_LED_1 IOHWAB_LOW s3 in
     if rtu_endStop \<noteq> 0 then
       (0, dw\<lparr>is_winStates := power_window_control_IN_Stopped,
              is_Stopped := power_window_contr_IN_fullyOpen\<rparr>, s4)
     else (cmd, dw, s4))"

section \<open>The step\<close>

definition power_window_controll_winStates ::
  "u8 \<Rightarrow> u8 \<Rightarrow> u8 \<Rightarrow> u8 \<Rightarrow> DW_power_window_controller_f_T \<Rightarrow> 'a Dio_scheme \<Rightarrow> 'a chart" where
  "power_window_controll_winStates rtu_req rtu_endStop rtu_obstacle cmd dw s =
    (if is_winStates dw = power_window_control_IN_Stopped
       then winStates_Stopped rtu_req cmd dw s
     else if is_winStates dw = power_window_contro_IN_coolDown
       then winStates_coolDown rtu_req cmd dw s
     else if is_winStates dw = power_window_cont_IN_movingDown
       then winStates_movingDown rtu_req rtu_endStop cmd dw s
     else if is_winStates dw = power_window_contro_IN_movingUp
       then winStates_movingUp rtu_req rtu_endStop rtu_obstacle cmd dw s
     else winStates_retracting rtu_endStop cmd dw s)"

definition power_window_controller ::
  "u8 \<Rightarrow> u8 \<Rightarrow> u8 \<Rightarrow> u8 \<Rightarrow> DW_power_window_controller_f_T \<Rightarrow> 'a Dio_scheme \<Rightarrow> 'a chart" where
  "power_window_controller rtu_req rtu_endStop rtu_obstacle cmd dw0 s =
    (let dw = (if temporalCounter_i1 dw0 < 255
               then dw0\<lparr>temporalCounter_i1 := temporalCounter_i1 dw0 + 1\<rparr> else dw0) in
     if is_active_c3_power_window_contr dw = 0 then
       (0, dw\<lparr>is_active_c3_power_window_contr := 1,
              is_c3_power_window_controller := power_window_contr_IN_winStates,
              is_winStates := power_window_control_IN_Stopped,
              is_Stopped := power_window_cont_IN_unknownPos\<rparr>, s)
     else power_window_controll_winStates rtu_req rtu_endStop rtu_obstacle cmd dw s)"

end
