(* ===== verification/WindowSpec.thy ===== *)
theory WindowSpec
  imports WinController
begin

text \<open>
  What the window controller is meant to be: an automaton over twelve named states with a
  movement timer.  \<open>dw_of\<close> gives the unique encoding of a state and a timer value in the
  block-state record, \<open>win_next\<close> the transitions, and the refinement lemma says that the
  step function, run on an encoded state, yields the encoding of the next state, writes the
  command on group changes only and keeps the timer.
\<close>

section \<open>The automaton\<close>

datatype win_state =
  Inactive | FullyClosed | FullyOpen | PartiallyOpen | UnknownPos | CoolDown
  | DownBsc | DownX | UpBsc | UpX_ppo | UpX_pp | Retracting

datatype win_group = GInactive | GStopped | GCoolDown | GDown | GUp | GRetracting

fun group_of :: "win_state \<Rightarrow> win_group" where
  "group_of Inactive = GInactive"
| "group_of FullyClosed = GStopped"
| "group_of FullyOpen = GStopped"
| "group_of PartiallyOpen = GStopped"
| "group_of UnknownPos = GStopped"
| "group_of CoolDown = GCoolDown"
| "group_of DownBsc = GDown"
| "group_of DownX = GDown"
| "group_of UpBsc = GUp"
| "group_of UpX_ppo = GUp"
| "group_of UpX_pp = GUp"
| "group_of Retracting = GRetracting"

text \<open>The command each group stands for: 0 neutral, 1 down, 2 up.\<close>

fun group_cmd :: "win_group \<Rightarrow> u8" where
  "group_cmd GInactive = 0"
| "group_cmd GStopped = 0"
| "group_cmd GCoolDown = 0"
| "group_cmd GDown = 1"
| "group_cmd GUp = 2"
| "group_cmd GRetracting = 1"

text \<open>The leaving conditions two movement directions share, in the order of the code.\<close>

definition down_exit :: "bool \<Rightarrow> u8 \<Rightarrow> u8 \<Rightarrow> win_state option" where
  "down_exit expired req es =
     (if es \<noteq> 0 then Some FullyOpen else if req = 4 then Some UpX_ppo
      else if expired then Some CoolDown else if req = 2 then Some UpBsc else None)"

definition up_exit :: "bool \<Rightarrow> u8 \<Rightarrow> u8 \<Rightarrow> win_state option" where
  "up_exit expired req es =
     (if es = 1 then Some FullyClosed else if expired then Some CoolDown
      else if req = 1 then Some DownBsc else if req = 3 then Some DownX else None)"

fun win_next :: "bool \<Rightarrow> u8 \<Rightarrow> u8 \<Rightarrow> u8 \<Rightarrow> win_state \<Rightarrow> win_state" where
  "win_next expired req es ob Inactive = UnknownPos"
| "win_next expired req es ob FullyClosed =
     (if req = 1 then DownBsc else if req = 3 then DownX else FullyClosed)"
| "win_next expired req es ob FullyOpen =
     (if req = 4 then UpX_ppo else if req = 2 then UpBsc else FullyOpen)"
| "win_next expired req es ob PartiallyOpen =
     (if req = 2 then UpBsc else if req = 1 then DownBsc else if req = 3 then DownX
      else if req = 4 then UpX_ppo else PartiallyOpen)"
| "win_next expired req es ob UnknownPos = PartiallyOpen"
| "win_next expired req es ob CoolDown = (if req = 0 then UnknownPos else CoolDown)"
| "win_next expired req es ob DownBsc =
     (case down_exit expired req es of Some t \<Rightarrow> t
      | None \<Rightarrow> if req = 3 then DownX else if req = 0 then PartiallyOpen else DownBsc)"
| "win_next expired req es ob DownX =
     (case down_exit expired req es of Some t \<Rightarrow> t | None \<Rightarrow> DownX)"
| "win_next expired req es ob UpBsc =
     (case up_exit expired req es of Some t \<Rightarrow> t
      | None \<Rightarrow> if req = 4 then UpX_ppo else if req = 0 then PartiallyOpen else UpBsc)"
| "win_next expired req es ob UpX_ppo =
     (case up_exit expired req es of Some t \<Rightarrow> t
      | None \<Rightarrow> if req \<noteq> 4 then UpX_pp else UpX_ppo)"
| "win_next expired req es ob UpX_pp =
     (case up_exit expired req es of Some t \<Rightarrow> t
      | None \<Rightarrow> if ob = 1 then Retracting else UpX_pp)"
| "win_next expired req es ob Retracting = (if es \<noteq> 0 then FullyOpen else Retracting)"

section \<open>Encoding\<close>

fun win_code :: "win_state \<Rightarrow> u8" where
  "win_code st = (case group_of st of GInactive \<Rightarrow> 0 | GStopped \<Rightarrow> 1 | GCoolDown \<Rightarrow> 2 | GDown \<Rightarrow> 3
     | GUp \<Rightarrow> 4 | GRetracting \<Rightarrow> 5)"

fun stopped_code :: "win_state \<Rightarrow> u8" where
  "stopped_code FullyClosed = 1"
| "stopped_code FullyOpen = 2"
| "stopped_code PartiallyOpen = 3"
| "stopped_code UnknownPos = 4"
| "stopped_code st = 0"

fun up_code :: "win_state \<Rightarrow> u8" where
  "up_code UpBsc = 1"
| "up_code UpX_ppo = 2"
| "up_code UpX_pp = 2"
| "up_code st = 0"

fun upx_code :: "win_state \<Rightarrow> u8" where
  "upx_code UpX_pp = 1"
| "upx_code UpX_ppo = 2"
| "upx_code st = 0"

fun down_code :: "win_state \<Rightarrow> u8" where
  "down_code DownBsc = 1"
| "down_code DownX = 2"
| "down_code st = 0"

definition dw_of :: "win_state \<Rightarrow> u8 \<Rightarrow> DW_power_window_controller_f_T" where
  "dw_of st t =
     \<lparr>is_active_c3_power_window_contr = (if st = Inactive then 0 else 1),
      is_c3_power_window_controller = (if st = Inactive then 0 else 1),
      is_winStates = win_code st, is_Stopped = stopped_code st, is_movingUp = up_code st,
      is_movingUpX = upx_code st, is_movingDown = down_code st, temporalCounter_i1 = t\<rparr>"

lemma PWC_DW_init_Inactive: "PWC_DW_init = dw_of Inactive 0"
  by (simp add: PWC_DW_init_def dw_of_def)

lemma dw_of_inject: "dw_of st t = dw_of st' t' \<longleftrightarrow> st = st' \<and> t = t'"
  by (cases st; cases st') (auto simp: dw_of_def)

section \<open>The timer\<close>

definition tick_timer :: "u8 \<Rightarrow> u8" where
  "tick_timer t = (if t < 255 then t + 1 else t)"

definition win_timer :: "win_state \<Rightarrow> win_state \<Rightarrow> u8 \<Rightarrow> u8" where
  "win_timer st st' t =
     (if group_of st' \<in> {GDown, GUp} \<and> group_of st' \<noteq> group_of st then 0 else tick_timer t)"

lemma unat_tick_timer: "unat (tick_timer t) = min 255 (unat t + 1)"
proof (cases "t < 255")
  case True
  then have "unat t < 255" by (simp add: word_less_nat_alt)
  with unat_Suc_below [OF True] True show ?thesis by (simp add: tick_timer_def)
next
  case False
  then have "255 \<le> unat t" by (simp add: word_less_nat_alt)
  moreover have "unat t < 256" using unsigned_less [of t] by simp
  ultimately have "unat t = 255" by linarith
  with False show ?thesis by (simp add: tick_timer_def)
qed

section \<open>Refinement\<close>

text \<open>The abstract step: next state, timer and command cell.\<close>

definition win_step ::
  "u8 \<Rightarrow> u8 \<Rightarrow> u8 \<Rightarrow> win_state \<times> u8 \<times> u8 \<Rightarrow> win_state \<times> u8 \<times> u8" where
  "win_step req es ob = (\<lambda>(st, t, cmd).
     (let st' = win_next (200 \<le> tick_timer t) req es ob st
      in (st', win_timer st st' t,
          if group_of st' = group_of st then cmd else group_cmd (group_of st'))))"

lemmas chart_defs = power_window_controller_def power_window_controll_winStates_def
  winStates_Stopped_def winStates_coolDown_def winStates_movingDown_def winStates_movingUp_def
  winStates_retracting_def Let_def

lemma controller_step:
  "case power_window_controller req es ob cmd (dw_of st t) s of (cmd', dw', s') \<Rightarrow>
     case win_step req es ob (st, t, cmd) of (st', t', c) \<Rightarrow>
       cmd' = c \<and> dw' = dw_of st' t'"
  by (cases st)
    (simp_all add: chart_defs win_step_def win_timer_def tick_timer_def dw_of_def
      down_exit_def up_exit_def)


section \<open>Runs\<close>

text \<open>
  One activation of the controller: the inputs and the content of the command cell it is
  called with.  \<open>controller_run\<close> iterates the step function over a list of activations;
  \<open>win_run\<close> is the automaton's run over the same inputs.
\<close>

record win_input =
  wi_req :: u8
  wi_endStop :: u8
  wi_obstacle :: u8
  wi_cell :: u8

fun controller_run ::
  "win_input list \<Rightarrow> DW_power_window_controller_f_T \<Rightarrow> 'a Dio_scheme
     \<Rightarrow> DW_power_window_controller_f_T \<times> 'a Dio_scheme" where
  "controller_run [] dw s = (dw, s)"
| "controller_run (i # ins) dw s =
     (case power_window_controller (wi_req i) (wi_endStop i) (wi_obstacle i) (wi_cell i) dw s of
        (_, dw', s') \<Rightarrow> controller_run ins dw' s')"

definition win_move :: "win_input \<Rightarrow> win_state \<times> u8 \<Rightarrow> win_state \<times> u8" where
  "win_move i = (\<lambda>(st, t).
     (let st' = win_next (200 \<le> tick_timer t) (wi_req i) (wi_endStop i) (wi_obstacle i) st
      in (st', win_timer st st' t)))"

definition win_run :: "win_input list \<Rightarrow> win_state \<times> u8 \<Rightarrow> win_state \<times> u8" where
  "win_run ins = fold win_move ins"

lemma controller_move:
  obtains s' where
    "power_window_controller (wi_req i) (wi_endStop i) (wi_obstacle i) cmd (dw_of st t) s =
       (if group_of (fst (win_move i (st, t))) = group_of st then cmd
        else group_cmd (group_of (fst (win_move i (st, t)))),
        case_prod dw_of (win_move i (st, t)), s')"
proof -
  have "\<exists>s'. power_window_controller (wi_req i) (wi_endStop i) (wi_obstacle i) cmd (dw_of st t) s =
       (if group_of (fst (win_move i (st, t))) = group_of st then cmd
        else group_cmd (group_of (fst (win_move i (st, t)))),
        case_prod dw_of (win_move i (st, t)), s')"
    using controller_step [where req = "wi_req i" and es = "wi_endStop i" and ob = "wi_obstacle i"
        and cmd = cmd and st = st and t = t and s = s]
    by (cases "power_window_controller (wi_req i) (wi_endStop i) (wi_obstacle i) cmd (dw_of st t) s")
       (simp add: win_step_def win_move_def Let_def)
  with that show thesis by blast
qed

lemma controller_run_dw_of:
  "fst (controller_run ins (dw_of st t) s) = case_prod dw_of (win_run ins (st, t))"
proof (induction ins arbitrary: st t s)
  case Nil
  then show ?case by (simp add: win_run_def)
next
  case (Cons i ins)
  obtain s' where
    "power_window_controller (wi_req i) (wi_endStop i) (wi_obstacle i) (wi_cell i) (dw_of st t) s =
       (if group_of (fst (win_move i (st, t))) = group_of st then wi_cell i
        else group_cmd (group_of (fst (win_move i (st, t)))),
        case_prod dw_of (win_move i (st, t)), s')"
    by (rule controller_move)
  then show ?case
    using Cons.IH by (cases "win_move i (st, t)") (simp add: win_run_def)
qed

section \<open>The movement timer\<close>

definition moving :: "win_state \<Rightarrow> bool" where
  "moving st \<longleftrightarrow> group_of st \<in> {GDown, GUp}"

text \<open>While the window moves, the timer is below the limit of 200 steps.\<close>

definition timer_ok :: "win_state \<times> u8 \<Rightarrow> bool" where
  "timer_ok = (\<lambda>(st, t). moving st \<longrightarrow> t < 200)"

lemma win_next_moving_timer:
  assumes "moving (win_next e req es ob st)"
  shows "group_of (win_next e req es ob st) \<noteq> group_of st \<or> \<not> e"
  using assms
  by (cases st) (auto simp: moving_def down_exit_def up_exit_def split: if_splits)

lemma timer_ok_move: "timer_ok (win_move i x)"
proof -
  obtain st t where x: "x = (st, t)" by (cases x)
  show ?thesis
    using win_next_moving_timer [of "200 \<le> tick_timer t" "wi_req i" "wi_endStop i" "wi_obstacle i" st]
    by (auto simp: x timer_ok_def win_move_def Let_def win_timer_def moving_def)
qed

lemma timer_ok_run: "timer_ok x \<Longrightarrow> timer_ok (win_run ins x)"
  unfolding win_run_def
  by (induction ins arbitrary: x) (simp_all add: timer_ok_move)

text \<open>The groups a run visits after each of its steps.\<close>

fun visits :: "win_input list \<Rightarrow> win_state \<times> u8 \<Rightarrow> win_group list" where
  "visits [] x = []"
| "visits (i # ins) x = group_of (fst (win_move i x)) # visits ins (win_move i x)"

lemma length_visits [simp]: "length (visits ins x) = length ins"
  by (induction ins arbitrary: x) simp_all

lemma stay_timer:
  assumes "moving st" and "g = group_of st" and "set (visits ins (st, t)) \<subseteq> {g}" and "t < 200"
  shows "unat (snd (win_run ins (st, t))) = unat t + length ins \<and> unat t + length ins < 200"
  using assms
proof (induction ins arbitrary: st t)
  case Nil
  then show ?case by (simp add: win_run_def word_less_nat_alt)
next
  case (Cons i ins)
  obtain st' t' where mv: "win_move i (st, t) = (st', t')" by fastforce
  have g: "group_of st' = group_of st" using Cons.prems(2,3) mv by simp
  have mv': "moving st'" using Cons.prems(1) g by (simp add: moving_def)
  have t': "t' = tick_timer t" using mv g by (auto simp: win_move_def Let_def win_timer_def)
  have lt: "t' < 200" using timer_ok_move [of i "(st, t)"] mv mv' by (simp add: timer_ok_def)
  have "unat t < 200" using Cons.prems(4) by (simp add: word_less_nat_alt)
  then have u: "unat t' = Suc (unat t)" by (simp add: t' unat_tick_timer)
  have "set (visits ins (st', t')) \<subseteq> {g}" using Cons.prems(3) mv by simp
  with Cons.IH [OF mv' _ _ lt] Cons.prems(2) g
  have "unat (snd (win_run ins (st', t'))) = unat t' + length ins \<and> unat t' + length ins < 200"
    by simp
  with u mv show ?case by (simp add: win_run_def)
qed

section \<open>Commands\<close>

text \<open>With a cell that keeps its content from one activation to the next, the command of a
  run is that of the automaton's group.\<close>

fun persistent_run ::
  "(u8 \<times> u8 \<times> u8) list \<Rightarrow> u8 \<Rightarrow> DW_power_window_controller_f_T \<Rightarrow> 'a Dio_scheme
     \<Rightarrow> u8 \<times> DW_power_window_controller_f_T \<times> 'a Dio_scheme" where
  "persistent_run [] cmd dw s = (cmd, dw, s)"
| "persistent_run ((req, es, ob) # ins) cmd dw s =
     (case power_window_controller req es ob cmd dw s of
        (cmd', dw', s') \<Rightarrow> persistent_run ins cmd' dw' s')"

lemma persistent_run_cmd:
  "\<exists>st' t'. fst (snd (persistent_run ins (group_cmd (group_of st)) (dw_of st t) s)) = dw_of st' t'
     \<and> fst (persistent_run ins (group_cmd (group_of st)) (dw_of st t) s) = group_cmd (group_of st')"
proof (induction ins arbitrary: st t s)
  case Nil
  then show ?case by auto
next
  case (Cons x ins)
  obtain req es ob where x: "x = (req, es, ob)" by (cases x)
  let ?i = "\<lparr>wi_req = req, wi_endStop = es, wi_obstacle = ob, wi_cell = 0\<rparr>"
  obtain st' t' where mv: "win_move ?i (st, t) = (st', t')" by fastforce
  obtain s' where
    "power_window_controller req es ob (group_cmd (group_of st)) (dw_of st t) s =
       (group_cmd (group_of st'), dw_of st' t', s')"
    by (rule controller_move [where i = ?i and cmd = "group_cmd (group_of st)" and st = st and t = t
        and s = s]) (auto simp: mv split: if_splits)
  with Cons.IH [of st' t' s'] show ?case by (simp add: x)
qed


section \<open>Properties\<close>

text \<open>C2: Running the generated step function from the static initialiser over any list of
  activations ends in the block state that encodes the state and timer the twelve-state
  automaton reaches over the same inputs; the content of the command cell has no influence.\<close>

theorem controller_refines_automaton:
  "fst (controller_run ins PWC_DW_init s) = case_prod dw_of (win_run ins (Inactive, 0))"
  by (simp add: PWC_DW_init_Inactive controller_run_dw_of)

lemma controller_run_reach:
  assumes "fst (controller_run ins PWC_DW_init s) = dw"
  obtains st t where "dw = dw_of st t" and "timer_ok (st, t)"
proof -
  obtain st t where r: "win_run ins (Inactive, 0) = (st, t)" by fastforce
  have "timer_ok (st, t)"
    using timer_ok_run [of "(Inactive, 0)" ins] r by (simp add: timer_ok_def moving_def)
  moreover have "dw = dw_of st t"
    using assms r by (simp add: PWC_DW_init_Inactive controller_run_dw_of)
  ultimately show thesis by (rule that [rotated])
qed

text \<open>The \<open>is_winStates\<close> codes a run shows after each of its steps.\<close>

fun winStates_trace ::
  "win_input list \<Rightarrow> DW_power_window_controller_f_T \<Rightarrow> 'a Dio_scheme \<Rightarrow> u8 list" where
  "winStates_trace [] dw s = []"
| "winStates_trace (i # ins) dw s =
     (case power_window_controller (wi_req i) (wi_endStop i) (wi_obstacle i) (wi_cell i) dw s of
        (_, dw', s') \<Rightarrow> is_winStates dw' # winStates_trace ins dw' s')"

fun group_code :: "win_group \<Rightarrow> u8" where
  "group_code GInactive = 0"
| "group_code GStopped = 1"
| "group_code GCoolDown = 2"
| "group_code GDown = 3"
| "group_code GUp = 4"
| "group_code GRetracting = 5"

lemma is_winStates_dw_of: "is_winStates (dw_of st t) = group_code (group_of st)"
  by (simp add: dw_of_def split: win_group.split)

lemma group_code_inject [simp]: "group_code g = group_code h \<longleftrightarrow> g = h"
  by (cases g; cases h) simp_all

lemma winStates_trace_visits:
  "winStates_trace ins (dw_of st t) s = map group_code (visits ins (st, t))"
proof (induction ins arbitrary: st t s)
  case Nil
  then show ?case by simp
next
  case (Cons i ins)
  obtain st' t' where mv: "win_move i (st, t) = (st', t')" by fastforce
  obtain s' where
    "power_window_controller (wi_req i) (wi_endStop i) (wi_obstacle i) (wi_cell i) (dw_of st t) s =
       (if group_of st' = group_of st then wi_cell i else group_cmd (group_of st'),
        dw_of st' t', s')"
    by (rule controller_move [where i = i and cmd = "wi_cell i" and st = st and t = t and s = s])
      (auto simp: mv)
  with Cons.IH mv show ?case by (simp add: is_winStates_dw_of)
qed

text \<open>C6: In every state the controller can reach, a movement in one direction (code 3 down,
  4 up) that goes on over all the following activations goes on for fewer than 200 of them:
  the timer sends the window into the cool-down state, whatever the requests, the end-stop
  and the obstacle inputs are.\<close>

theorem movement_time_limit:
  assumes "fst (controller_run ins PWC_DW_init s) = dw"
    and "is_winStates dw \<in> {3, 4}"
    and "set (winStates_trace js dw s') \<subseteq> {is_winStates dw}"
  shows "length js < 200"
proof -
  obtain st t where dw: "dw = dw_of st t" and ok: "timer_ok (st, t)"
    using assms(1) by (rule controller_run_reach)
  have mv: "moving st" using assms(2)
    by (cases st) (simp_all add: dw is_winStates_dw_of moving_def)
  have "set (visits js (st, t)) \<subseteq> {group_of st}"
    using assms(3) by (auto simp: dw winStates_trace_visits is_winStates_dw_of)
  then show ?thesis
    using stay_timer [OF mv refl, of js t] ok mv by (simp add: timer_ok_def)
qed

definition idle_input :: "u8 \<Rightarrow> win_input" where
  "idle_input req = \<lparr>wi_req = req, wi_endStop = 0, wi_obstacle = 0, wi_cell = 0\<rparr>"

lemmas run_eval = win_run_def win_move_def win_timer_def tick_timer_def idle_input_def
  down_exit_def up_exit_def word_le_nat_alt word_less_nat_alt Let_def

lemma idle_down_run:
  "fst (controller_run [idle_input 0, idle_input 0, idle_input 1] PWC_DW_init s) = dw_of DownBsc 0"
  by (simp add: PWC_DW_init_Inactive controller_run_dw_of run_eval del: controller_run.simps)

lemma idle_down_trace:
  "winStates_trace [idle_input 1, idle_input 1, idle_input 1] (dw_of DownBsc 0) s = [3, 3, 3]"
  by (simp add: winStates_trace_visits run_eval del: winStates_trace.simps)

lemma movement_time_limit_witness:
  "length [idle_input 1, idle_input 1, idle_input 1] < 200"
  by (rule movement_time_limit [where ins = "[idle_input 0, idle_input 0, idle_input 1]"
        and s = board_after_init and s' = board_after_init, OF idle_down_run])
    (simp_all add: idle_down_trace is_winStates_dw_of del: winStates_trace.simps)

text \<open>The timer reaches its limit only by counting: a movement is left for the cool-down state
  exactly when 200 steps are over.\<close>

lemma win_next_cooldown_iff:
  "win_next e req es ob st = CoolDown \<longleftrightarrow>
     (st = CoolDown \<and> req \<noteq> 0)
     \<or> (group_of st = GDown \<and> es = 0 \<and> req \<noteq> 4 \<and> e)
     \<or> (group_of st = GUp \<and> es \<noteq> 1 \<and> e)"
  by (cases st) (auto simp: down_exit_def up_exit_def split: if_splits)

text \<open>The cool-down state is entered from a movement only, only when 200 activations of
  that movement are over, never at an end stop; and it is left for the stopped state only, on
  the neutral request only.\<close>

theorem cooldown_entry_and_exit:
  assumes "fst (controller_run ins PWC_DW_init s) = dw"
    and "power_window_controller req es ob cell dw s' = (cmd, dw', s'')"
  shows "(is_winStates dw' = 2 \<longleftrightarrow>
      (is_winStates dw = 2 \<and> req \<noteq> 0)
      \<or> (is_winStates dw = 3 \<and> es = 0 \<and> req \<noteq> 4 \<and> 199 \<le> temporalCounter_i1 dw)
      \<or> (is_winStates dw = 4 \<and> es \<noteq> 1 \<and> 199 \<le> temporalCounter_i1 dw))
    \<and> (is_winStates dw = 2 \<and> req = 0 \<longrightarrow> is_winStates dw' = 1 \<and> cmd = 0)"
proof (rule conjI; (rule impI, elim conjE)?)
  obtain st t where dw: "dw = dw_of st t" using assms(1) by (rule controller_run_reach)
  have exp: "200 \<le> tick_timer t \<longleftrightarrow> 199 \<le> t"
    using unat_tick_timer [of t] by (auto simp: word_le_nat_alt)
  note step = controller_step [where req = req and es = es and ob = ob and cmd = cell and st = st
      and t = t and s = s', unfolded assms(2) [unfolded dw]]
  have w: "is_winStates dw' = group_code (group_of (win_next (199 \<le> t) req es ob st))"
    using step by (simp add: win_step_def exp Let_def is_winStates_dw_of)
  have c: "group_of g = GCoolDown \<longleftrightarrow> g = CoolDown" for g by (cases g) simp_all
  have codes: "(group_code g = 2) = (g = GCoolDown)" "(group_code g = 3) = (g = GDown)"
    "(group_code g = 4) = (g = GUp)" for g
    by (cases g; simp)+
  have t: "temporalCounter_i1 dw = t" by (simp add: dw dw_of_def)
  show "is_winStates dw' = 2 \<longleftrightarrow>
      (is_winStates dw = 2 \<and> req \<noteq> 0)
      \<or> (is_winStates dw = 3 \<and> es = 0 \<and> req \<noteq> 4 \<and> 199 \<le> temporalCounter_i1 dw)
      \<or> (is_winStates dw = 4 \<and> es \<noteq> 1 \<and> 199 \<le> temporalCounter_i1 dw)"
    by (simp only: w t [unfolded dw] dw is_winStates_dw_of codes c win_next_cooldown_iff)
  show "is_winStates dw' = 1 \<and> cmd = 0" if "is_winStates dw = 2" and "req = 0"
  proof -
    have "st = CoolDown" using that(1) by (simp add: dw is_winStates_dw_of codes c)
    with that(2) step show ?thesis by (simp add: win_step_def Let_def is_winStates_dw_of)
  qed
qed


lemma cooldown_entry_and_exit_witness:
  "\<exists>cmd dw' s''.
     power_window_controller 1 0 0 7 (dw_of DownBsc 0) board_after_init = (cmd, dw', s'')
       \<and> is_winStates dw' \<noteq> 2"
proof -
  obtain cmd dw' s'' where
    run: "power_window_controller 1 0 0 7 (dw_of DownBsc 0) board_after_init = (cmd, dw', s'')"
    by (rule prod_cases3)
  from cooldown_entry_and_exit [OF idle_down_run run]
  have "is_winStates dw' \<noteq> 2" by (auto simp: dw_of_def)
  with run show ?thesis by blast
qed

text \<open>The end of a released express-up movement on an obstacle.\<close>

lemma win_next_express_up:
  assumes "st = UpX_pp" and "ob = 1"
  shows "group_of (win_next e req es ob st) \<noteq> GUp"
    and "es \<noteq> 1 \<Longrightarrow> \<not> e \<Longrightarrow> req \<noteq> 1 \<Longrightarrow> req \<noteq> 3 \<Longrightarrow> win_next e req es ob st = Retracting"
  using assms by (simp_all add: up_exit_def)

text \<open>C7: An obstacle seen during a released express-up movement ends the upward movement in
  that very activation, whatever the other inputs are; and unless the end stop, the time
  limit or a down request takes precedence, the command becomes down and the window
  retracts.\<close>

theorem obstacle_reverses_express_up:
  assumes "fst (controller_run ins PWC_DW_init s) = dw"
    and "is_winStates dw = 4" and "is_movingUp dw = 2" and "is_movingUpX dw = 1"
    and "power_window_controller req es 1 cell dw s' = (cmd, dw', s'')"
  shows "is_winStates dw' \<noteq> 4 \<and> cmd \<noteq> 2
    \<and> (es \<noteq> 1 \<and> temporalCounter_i1 dw < 199 \<and> req \<noteq> 1 \<and> req \<noteq> 3
        \<longrightarrow> is_winStates dw' = 5 \<and> cmd = 1)"
proof -
  obtain st t where dw: "dw = dw_of st t" using assms(1) by (rule controller_run_reach)
  have st: "st = UpX_pp" using assms(2-4) by (cases st) (simp_all add: dw dw_of_def)
  have exp: "t < 199 \<Longrightarrow> \<not> 200 \<le> tick_timer t"
    using unat_tick_timer [of t] by (auto simp: word_le_nat_alt word_less_nat_alt)
  have cmd2: "group_cmd g = 2 \<longleftrightarrow> g = GUp" for g by (cases g) simp_all
  have code4: "group_code g = 4 \<longleftrightarrow> g = GUp" for g by (cases g) simp_all
  have t: "temporalCounter_i1 dw = t" by (simp add: dw dw_of_def)
  note next' = win_next_express_up [OF st refl]
  have "is_winStates dw' = group_code (group_of (win_next (200 \<le> tick_timer t) req es 1 st))
    \<and> cmd = group_cmd (group_of (win_next (200 \<le> tick_timer t) req es 1 st))"
    using controller_step [where req = req and es = es and ob = 1 and cmd = cell and st = st
        and t = t and s = s'] assms(5) next'(1) [of "200 \<le> tick_timer t" req es]
    by (simp add: dw win_step_def Let_def is_winStates_dw_of st)
  with next' exp show ?thesis by (auto simp: cmd2 code4 t)
qed

lemma idle_express_up_run:
  "fst (controller_run [idle_input 0, idle_input 0, idle_input 4, idle_input 0] PWC_DW_init s)
     = dw_of UpX_pp 1"
  by (simp add: PWC_DW_init_Inactive controller_run_dw_of run_eval del: controller_run.simps)

lemma obstacle_reverses_express_up_witness:
  "\<exists>cmd dw' s''.
     power_window_controller 0 0 1 0 (dw_of UpX_pp 1) board_after_init = (cmd, dw', s'')
       \<and> is_winStates dw' = 5 \<and> cmd = 1"
proof -
  obtain cmd dw' s'' where
    run: "power_window_controller 0 0 1 0 (dw_of UpX_pp 1) board_after_init = (cmd, dw', s'')"
    by (rule prod_cases3)
  from obstacle_reverses_express_up [OF idle_express_up_run _ _ _ run]
  have "is_winStates dw' = 5 \<and> cmd = 1" by (simp add: dw_of_def word_less_nat_alt)
  with run show ?thesis by blast
qed

text \<open>The obstacle input has an effect in one state only: a movement up in express mode
  whose request has been released.  In every other block state, reachable or not, and in
  particular during a held express-up or a basic up movement, two activations that differ in
  the obstacle input only return the same command, block state and outputs.\<close>

theorem obstacle_only_in_released_express_up:
  assumes "\<not> (is_winStates dw = 4 \<and> is_movingUp dw \<noteq> 1 \<and> is_movingUpX dw = 1)"
  shows "power_window_controller req es ob cell dw s = power_window_controller req es ob' cell dw s"
proof -
  consider "is_winStates dw \<noteq> 4" | "is_winStates dw = 4" "is_movingUp dw = 1"
    | "is_winStates dw = 4" "is_movingUpX dw \<noteq> 1"
    using assms by blast
  then show ?thesis
    by cases (simp_all add: power_window_controller_def power_window_controll_winStates_def
        winStates_movingUp_def Let_def)
qed

lemma obstacle_only_in_released_express_up_witness:
  "power_window_controller 4 0 0 0 (dw_of UpX_ppo 3) board_after_init
     = power_window_controller 4 0 1 0 (dw_of UpX_ppo 3) board_after_init"
  by (rule obstacle_only_in_released_express_up) (simp add: dw_of_def)

section \<open>Retraction\<close>

lemma win_move_retracting:
  "wi_endStop i = 0 \<Longrightarrow> win_move i (Retracting, t) = (Retracting, tick_timer t)"
  by (simp add: win_move_def win_timer_def)

lemma visits_retracting:
  "\<forall>i \<in> set ins. wi_endStop i = 0 \<Longrightarrow>
     visits ins (Retracting, t) = replicate (length ins) GRetracting"
  by (induction ins arbitrary: t) (simp_all add: win_move_retracting)

lemma retracting_code: "group_code g = 5 \<longleftrightarrow> g = GRetracting"
  by (cases g) simp_all

text \<open>A retraction has no time limit: as long as the end stop is not seen, any number of
  activations with any requests leaves the window retracting.  The first activation that sees
  the end stop stops it as fully open with the neutral command.\<close>

theorem retraction_until_end_stop:
  assumes "fst (controller_run ins PWC_DW_init s) = dw" and "is_winStates dw = 5"
    and "\<forall>i \<in> set js. wi_endStop i = 0"
  shows "winStates_trace js dw s' = replicate (length js) 5
    \<and> (\<forall>req es ob cell cmd dw' s2. es \<noteq> 0
         \<longrightarrow> power_window_controller req es ob cell dw s' = (cmd, dw', s2)
         \<longrightarrow> cmd = 0 \<and> is_winStates dw' = 1 \<and> is_Stopped dw' = 2)"
proof -
  obtain st t where dw: "dw = dw_of st t" using assms(1) by (rule controller_run_reach)
  have st: "st = Retracting"
    using assms(2) by (cases st) (simp_all add: dw is_winStates_dw_of)
  have "winStates_trace js dw s' = replicate (length js) 5"
    using assms(3) by (simp add: dw st winStates_trace_visits visits_retracting map_replicate)
  moreover have "cmd = 0 \<and> is_winStates dw' = 1 \<and> is_Stopped dw' = 2"
    if "es \<noteq> 0" and "power_window_controller req es ob cell dw s' = (cmd, dw', s2)"
    for req es ob cell cmd dw' s2
    using controller_step [where req = req and es = es and ob = ob and cmd = cell and st = st
        and t = t and s = s'] that
    by (simp add: dw st win_step_def dw_of_def)
  ultimately show ?thesis by blast
qed

lemma idle_retraction_run:
  "fst (controller_run [idle_input 0, idle_input 0, idle_input 4, idle_input 0,
      (idle_input 0)\<lparr>wi_obstacle := 1\<rparr>] PWC_DW_init s) = dw_of Retracting 2"
  by (simp add: PWC_DW_init_Inactive controller_run_dw_of run_eval del: controller_run.simps)

lemma retraction_until_end_stop_witness:
  "winStates_trace [idle_input 4, idle_input 2] (dw_of Retracting 2) board_after_init = [5, 5]"
  using retraction_until_end_stop [OF idle_retraction_run, of "[idle_input 4, idle_input 2]"
      board_after_init]
  by (simp add: is_winStates_dw_of idle_input_def del: winStates_trace.simps)


section \<open>Command and status LEDs\<close>

text \<open>The command that belongs to an \<open>is_winStates\<close> code.\<close>

definition winStates_cmd :: "u8 \<Rightarrow> u8" where
  "winStates_cmd w = (if w = 3 \<or> w = 5 then 1 else if w = 4 then 2 else 0)"

lemma winStates_cmd_group: "winStates_cmd (group_code g) = group_cmd g"
  by (cases g) (simp_all add: winStates_cmd_def)

text \<open>When the command cell keeps its content from one activation to the next, the command
  after any non-empty sequence of activations is the one of the block's state group (down for
  movingDown and retracting, up for movingUp, neutral otherwise), whatever the cell held
  first.\<close>

theorem persistent_command_follows_state:
  assumes "persistent_run (i # ins) cell PWC_DW_init s = (cmd, dw, s')"
  shows "cmd = winStates_cmd (is_winStates dw)"
proof -
  obtain req es ob where i: "i = (req, es, ob)" by (cases i)
  obtain s1 where first: "power_window_controller req es ob cell PWC_DW_init s
      = (0, dw_of UnknownPos 1, s1)"
    by (simp add: power_window_controller_def PWC_DW_init_def dw_of_def)
  have "\<exists>st t. dw = dw_of st t \<and> cmd = group_cmd (group_of st)"
    using persistent_run_cmd [of ins UnknownPos 1 s1] assms by (simp add: i first)
  then show ?thesis by (auto simp: is_winStates_dw_of winStates_cmd_group)
qed

lemma persistent_command_follows_state_witness:
  "\<exists>dw s'. persistent_run [(0, 0, 0)] 9 PWC_DW_init board_after_init = (0, dw, s')
     \<and> winStates_cmd (is_winStates dw) = 0"
proof -
  obtain dw s' where r: "persistent_run [(0, 0, 0)] 9 PWC_DW_init board_after_init = (0, dw, s')"
    by (simp add: power_window_controller_def PWC_DW_init_def)
  from persistent_command_follows_state [OF this] r show ?thesis by simp
qed

text \<open>The levels of the LEDs 1 to 4 in each state.\<close>

fun state_leds :: "win_state \<Rightarrow> bool \<times> bool \<times> bool \<times> bool" where
  "state_leds FullyClosed = (True, True, False, False)"
| "state_leds FullyOpen = (False, False, False, False)"
| "state_leds PartiallyOpen = (True, False, False, False)"
| "state_leds CoolDown = (True, False, True, True)"
| "state_leds DownBsc = (True, False, True, False)"
| "state_leds DownX = (False, True, True, False)"
| "state_leds UpBsc = (False, False, False, True)"
| "state_leds UpX_ppo = (False, True, False, True)"
| "state_leds UpX_pp = (True, True, False, True)"
| "state_leds Retracting = (False, False, True, True)"
| "state_leds st = (False, False, False, False)"

definition leds :: "'a Dio_scheme \<Rightarrow> bool \<times> bool \<times> bool \<times> bool" where
  "leds s = (dio_level s CH_LED_1, dio_level s CH_LED_2, dio_level s CH_LED_3, dio_level s CH_LED_4)"

definition leds_ready :: "'a Dio_scheme \<Rightarrow> bool" where
  "leds_ready s \<longleftrightarrow> (\<forall>c \<in> {CH_LED_1, CH_LED_2, CH_LED_3, CH_LED_4}. dio_ready s c)"

lemmas exit_splits = down_exit_def up_exit_def dw_of_inject

lemma settled_leds:
  assumes "power_window_controller req es ob cell (dw_of st t) s = (cmd, dw_of st t', s')"
    and "leds_ready s"
  shows "leds s' = state_leds st"
  using assms
  by (cases st)
    (auto simp: chart_defs dw_of_def leds_def leds_ready_def dio_out.lvl_wr dio_out.rdy_wr
      split: if_splits)

text \<open>The status LEDs identify the state: two activations that leave the state they started
  in unchanged and show the same levels on the LEDs 1 to 4 have the same state of the chart.\<close>

theorem leds_identify_state:
  assumes "power_window_controller req es ob cell (dw_of st t) s = (cmd, dw_of st t', s')"
    and "power_window_controller req2 es2 ob2 cell2 (dw_of st2 t2) s2 = (cmd2, dw_of st2 t2', s2')"
    and "leds_ready s" and "leds_ready s2" and "leds s' = leds s2'"
  shows "st = st2 \<and> leds s' = state_leds st"
proof -
  have settle: "st \<noteq> Inactive \<and> st \<noteq> UnknownPos"
    if "power_window_controller req es ob cell (dw_of st t) s = (cmd, dw_of st t', s')"
    for req es ob cell st t and s :: "'z Dio_scheme" and cmd t' s'
    using that by (auto simp: chart_defs dw_of_def split: if_splits)
  have "state_leds st = state_leds st2"
    using settled_leds [OF assms(1,3)] settled_leds [OF assms(2,4)] assms(5) by simp
  with settle [OF assms(1)] settle [OF assms(2)] have "st = st2"
    by (cases st; cases st2) simp_all
  with settled_leds [OF assms(1,3)] show ?thesis by simp
qed


lemma leds_ready_board: "leds_ready board_after_init"
  by (auto simp: leds_ready_def intro!: board_after_init_ready simp: board_channels_def)

lemma leds_identify_state_witness:
  "\<exists>s'. power_window_controller 0 0 0 5 (dw_of PartiallyOpen 8) board_after_init
       = (5, dw_of PartiallyOpen 9, s') \<and> leds s' = (True, False, False, False)"
proof -
  obtain s' where r: "power_window_controller 0 0 0 5 (dw_of PartiallyOpen 8) board_after_init
      = (5, dw_of PartiallyOpen 9, s')"
    by (simp add: chart_defs dw_of_def)
  from leds_identify_state [OF r r leds_ready_board leds_ready_board] r show ?thesis by simp
qed

end
