(* ===== verification/Rte.thy ===== *)
theory Rte
  imports IoHwAb
begin

text \<open>
  The run-time environment generated for the window controller
  (\<open>config/stm32_stm3210c/Rte/Config\<close>): the connector buffers of \<open>Rte_Internal.c\<close>, the
  implicit data elements \<open>ImplDE_\<close> of the component files \<open>Rte_..Type.c\<close> with the accessors
  of the contract headers, the calls to the I/O hardware abstraction and the life cycle of
  \<open>Rte_Main.c\<close>.  An explicit read or write suspends all interrupts around its one assignment:
  each is one atomic step.  The C type \<open>boolean\<close> is \<open>_Bool\<close>: a value converted to it is 0 or
  1, written out as \<open>to_boolean\<close>.  The interface \<open>sr_port\<close> is the contract of a connector;
  it is interpreted on the five connectors of the system.
\<close>

section \<open>State\<close>

type_synonym myBoolean = u8
type_synonym requestType = u8
type_synonym commandType = u8

abbreviation RTE_E_OK :: Std_ReturnType where "RTE_E_OK \<equiv> 0"

abbreviation request_neutral :: requestType where "request_neutral \<equiv> 0"
abbreviation request_basic_down :: requestType where "request_basic_down \<equiv> 1"
abbreviation request_basic_up :: requestType where "request_basic_up \<equiv> 2"
abbreviation request_express_down :: requestType where "request_express_down \<equiv> 3"
abbreviation request_express_up :: requestType where "request_express_up \<equiv> 4"

abbreviation command_neutral :: commandType where "command_neutral \<equiv> 0"
abbreviation command_down :: commandType where "command_down \<equiv> 1"
abbreviation command_up :: commandType where "command_up \<equiv> 2"

record Rte = IoHwAb +
  RteInitialized :: bool
  Rte_Buffer_MotorDriver_cmd_command :: commandType
  Rte_Buffer_WinArbitrator_req_d_request :: requestType
  Rte_Buffer_WinController_endStop_isPresent :: myBoolean
  Rte_Buffer_WinController_obstacle_isPresent :: myBoolean
  Rte_Buffer_WinController_req_request :: requestType
  EndStopDtcRunnable_endStop_isPresent :: myBoolean
  MotorDriverRunnable_cmd_command :: commandType
  ObstacleDtcRunnable_obstacle_isPresent :: myBoolean
  SwitchRunnable_req_request :: requestType
  WinArbitratorRunnable_req_a_request :: requestType
  WinArbitratorRunnable_req_d_request :: requestType
  WinArbitratorRunnable_req_p_request :: requestType
  WinControllerStepRunnable_cmd_command :: commandType
  WinControllerStepRunnable_endStop_isPresent :: myBoolean
  WinControllerStepRunnable_obstacle_isPresent :: myBoolean
  WinControllerStepRunnable_req_request :: requestType

definition to_boolean :: "u8 \<Rightarrow> myBoolean" where
  "to_boolean v = (if v \<noteq> 0 then 1 else 0)"

section \<open>Connectors\<close>

definition Rte_Write_EndStopDtcType_EndStopDtc_endStop_isPresent ::
  "u8 \<Rightarrow> 'a Rte_scheme \<Rightarrow> Std_ReturnType \<times> 'a Rte_scheme" where
  "Rte_Write_EndStopDtcType_EndStopDtc_endStop_isPresent value s =
     (RTE_E_OK, s\<lparr>Rte_Buffer_WinController_endStop_isPresent := to_boolean value\<rparr>)"

definition Rte_Write_ObstacleDtcType_ObstacleDtc_obstacle_isPresent ::
  "u8 \<Rightarrow> 'a Rte_scheme \<Rightarrow> Std_ReturnType \<times> 'a Rte_scheme" where
  "Rte_Write_ObstacleDtcType_ObstacleDtc_obstacle_isPresent value s =
     (RTE_E_OK, s\<lparr>Rte_Buffer_WinController_obstacle_isPresent := to_boolean value\<rparr>)"

definition Rte_Write_SwitchType_Switch_req_request ::
  "requestType \<Rightarrow> 'a Rte_scheme \<Rightarrow> Std_ReturnType \<times> 'a Rte_scheme" where
  "Rte_Write_SwitchType_Switch_req_request value s =
     (RTE_E_OK, s\<lparr>Rte_Buffer_WinArbitrator_req_d_request := value\<rparr>)"

definition Rte_Write_WinArbitratorType_WinArbitrator_req_a_request ::
  "requestType \<Rightarrow> 'a Rte_scheme \<Rightarrow> Std_ReturnType \<times> 'a Rte_scheme" where
  "Rte_Write_WinArbitratorType_WinArbitrator_req_a_request value s =
     (RTE_E_OK, s\<lparr>Rte_Buffer_WinController_req_request := value\<rparr>)"

definition Rte_Write_WinControllerType_WinController_cmd_command ::
  "commandType \<Rightarrow> 'a Rte_scheme \<Rightarrow> Std_ReturnType \<times> 'a Rte_scheme" where
  "Rte_Write_WinControllerType_WinController_cmd_command value s =
     (RTE_E_OK, s\<lparr>Rte_Buffer_MotorDriver_cmd_command := value\<rparr>)"

text \<open>A read returns its status and the value it leaves in the cell of its caller; the argument
  is what the cell held before.\<close>

definition Rte_Read_MotorDriverType_MotorDriver_cmd_command ::
  "commandType \<Rightarrow> 'a Rte_scheme \<Rightarrow> Std_ReturnType \<times> commandType" where
  "Rte_Read_MotorDriverType_MotorDriver_cmd_command value s =
     (RTE_E_OK, Rte_Buffer_MotorDriver_cmd_command s)"

definition Rte_Read_WinArbitratorType_WinArbitrator_req_d_request ::
  "requestType \<Rightarrow> 'a Rte_scheme \<Rightarrow> Std_ReturnType \<times> requestType" where
  "Rte_Read_WinArbitratorType_WinArbitrator_req_d_request value s =
     (RTE_E_OK, Rte_Buffer_WinArbitrator_req_d_request s)"

text \<open>The passenger port is not connected: the read leaves the cell alone.\<close>

definition Rte_Read_WinArbitratorType_WinArbitrator_req_p_request ::
  "requestType \<Rightarrow> 'a Rte_scheme \<Rightarrow> Std_ReturnType \<times> requestType" where
  "Rte_Read_WinArbitratorType_WinArbitrator_req_p_request value s = (RTE_E_OK, value)"

definition Rte_Read_WinControllerType_WinController_endStop_isPresent ::
  "myBoolean \<Rightarrow> 'a Rte_scheme \<Rightarrow> Std_ReturnType \<times> myBoolean" where
  "Rte_Read_WinControllerType_WinController_endStop_isPresent value s =
     (RTE_E_OK, Rte_Buffer_WinController_endStop_isPresent s)"

definition Rte_Read_WinControllerType_WinController_obstacle_isPresent ::
  "myBoolean \<Rightarrow> 'a Rte_scheme \<Rightarrow> Std_ReturnType \<times> myBoolean" where
  "Rte_Read_WinControllerType_WinController_obstacle_isPresent value s =
     (RTE_E_OK, Rte_Buffer_WinController_obstacle_isPresent s)"

definition Rte_Read_WinControllerType_WinController_req_request ::
  "requestType \<Rightarrow> 'a Rte_scheme \<Rightarrow> Std_ReturnType \<times> requestType" where
  "Rte_Read_WinControllerType_WinController_req_request value s =
     (RTE_E_OK, Rte_Buffer_WinController_req_request s)"

section \<open>Calls to the I/O hardware abstraction\<close>

definition Rte_ioHwAb_DigitalWrite ::
  "IoHwAb_SignalType \<Rightarrow> IoHwAb_LevelType \<Rightarrow> 'a Rte_scheme \<Rightarrow> Std_ReturnType \<times> 'a Rte_scheme" where
  "Rte_ioHwAb_DigitalWrite portDefArg1 Level s = IoHwAb_Digital_Write portDefArg1 Level s"

definition Rte_ioHwAb_DigitalRead ::
  "IoHwAb_SignalType \<Rightarrow> u8 option \<Rightarrow> u8 option \<Rightarrow> 'a Rte_scheme
     \<Rightarrow> Std_ReturnType \<times> u8 option \<times> u8 option \<times> 'a Rte_scheme" where
  "Rte_ioHwAb_DigitalRead portDefArg1 Level Quality s =
     IoHwAb_Digital_Read portDefArg1 Level Quality s"

definition Rte_Call_IoHwAb_ioHwAb_Digital_DigitalSignal_EndStop_Read ::
  "u8 option \<Rightarrow> u8 option \<Rightarrow> 'a Rte_scheme
     \<Rightarrow> Std_ReturnType \<times> u8 option \<times> u8 option \<times> 'a Rte_scheme" where
  "Rte_Call_IoHwAb_ioHwAb_Digital_DigitalSignal_EndStop_Read Level Quality s =
     Rte_ioHwAb_DigitalRead 1 Level Quality s"

definition Rte_Call_IoHwAb_ioHwAb_Digital_DigitalSignal_LED1_Write ::
  "IoHwAb_LevelType \<Rightarrow> 'a Rte_scheme \<Rightarrow> Std_ReturnType \<times> 'a Rte_scheme" where
  "Rte_Call_IoHwAb_ioHwAb_Digital_DigitalSignal_LED1_Write Level s =
     Rte_ioHwAb_DigitalWrite 0 Level s"

definition Rte_Call_IoHwAb_ioHwAb_Digital_DigitalSignal_LED2_Write ::
  "IoHwAb_LevelType \<Rightarrow> 'a Rte_scheme \<Rightarrow> Std_ReturnType \<times> 'a Rte_scheme" where
  "Rte_Call_IoHwAb_ioHwAb_Digital_DigitalSignal_LED2_Write Level s =
     Rte_ioHwAb_DigitalWrite 3 Level s"

definition Rte_Call_IoHwAb_ioHwAb_Digital_DigitalSignal_Obstacle_Read ::
  "u8 option \<Rightarrow> u8 option \<Rightarrow> 'a Rte_scheme
     \<Rightarrow> Std_ReturnType \<times> u8 option \<times> u8 option \<times> 'a Rte_scheme" where
  "Rte_Call_IoHwAb_ioHwAb_Digital_DigitalSignal_Obstacle_Read Level Quality s =
     Rte_ioHwAb_DigitalRead 2 Level Quality s"

definition Rte_Call_isEndStop_Read ::
  "u8 option \<Rightarrow> u8 option \<Rightarrow> 'a Rte_scheme
     \<Rightarrow> Std_ReturnType \<times> u8 option \<times> u8 option \<times> 'a Rte_scheme" where
  "Rte_Call_isEndStop_Read Level Quality s =
     Rte_Call_IoHwAb_ioHwAb_Digital_DigitalSignal_EndStop_Read Level Quality s"

definition Rte_Call_isObstacle_Read ::
  "u8 option \<Rightarrow> u8 option \<Rightarrow> 'a Rte_scheme
     \<Rightarrow> Std_ReturnType \<times> u8 option \<times> u8 option \<times> 'a Rte_scheme" where
  "Rte_Call_isObstacle_Read Level Quality s =
     Rte_Call_IoHwAb_ioHwAb_Digital_DigitalSignal_Obstacle_Read Level Quality s"

definition Rte_Call_RunMotor_1_Write ::
  "IoHwAb_LevelType \<Rightarrow> 'a Rte_scheme \<Rightarrow> Std_ReturnType \<times> 'a Rte_scheme" where
  "Rte_Call_RunMotor_1_Write Level s =
     Rte_Call_IoHwAb_ioHwAb_Digital_DigitalSignal_LED1_Write Level s"

definition Rte_Call_RunMotor_2_Write ::
  "IoHwAb_LevelType \<Rightarrow> 'a Rte_scheme \<Rightarrow> Std_ReturnType \<times> 'a Rte_scheme" where
  "Rte_Call_RunMotor_2_Write Level s =
     Rte_Call_IoHwAb_ioHwAb_Digital_DigitalSignal_LED2_Write Level s"

section \<open>Life cycle\<close>

text \<open>\<open>Rte_Init_Calprms\<close> and \<open>Rte_Internal_Init_Buffers\<close> have empty bodies.\<close>

definition Rte_Start :: "'a Rte_scheme \<Rightarrow> Std_ReturnType \<times> 'a Rte_scheme" where
  "Rte_Start s = (RTE_E_OK, s\<lparr>RteInitialized := True\<rparr>)"

definition Rte_Stop :: "'a Rte_scheme \<Rightarrow> Std_ReturnType \<times> 'a Rte_scheme" where
  "Rte_Stop s = (RTE_E_OK, s\<lparr>RteInitialized := False\<rparr>)"

section \<open>The connector contract\<close>

text \<open>
  A connector keeps the last value: a read after any non-empty sequence of writes returns the
  last one, as its receiving type holds it (\<open>conv\<close>), with the status \<open>RTE_E_OK\<close>.  A write to
  another buffer is invisible: \<open>other\<close> holds of every operation the connector is isolated
  from.
\<close>

locale sr_port =
  fixes wr :: "u8 \<Rightarrow> 's \<Rightarrow> Std_ReturnType \<times> 's"
    and rd :: "u8 \<Rightarrow> 's \<Rightarrow> Std_ReturnType \<times> u8"
    and conv :: "u8 \<Rightarrow> u8"
    and others :: "(u8 \<Rightarrow> 's \<Rightarrow> Std_ReturnType \<times> 's) list"
  assumes rd_wr: "rd c (snd (wr v s)) = (RTE_E_OK, conv v)"
    and wr_ok: "fst (wr v s) = RTE_E_OK"
    and rd_ok: "fst (rd c s) = RTE_E_OK"
    and rd_cell: "rd c s = rd c' s"
    and rd_other: "w \<in> set others \<Longrightarrow> rd c (snd (w v s)) = rd c s"
    and conv_conv: "conv (conv v) = conv v"
begin

lemma rd_last:
  assumes "vs \<noteq> []"
  shows "rd c (fold (\<lambda>v t. snd (wr v t)) vs s) = (RTE_E_OK, conv (last vs))"
  using assms by (induction vs arbitrary: s rule: rev_induct) (simp_all add: rd_wr)

text \<open>Writes of the others between the last write and the read do not matter.\<close>

lemma rd_isolated:
  assumes "\<forall>(w, v) \<in> set ws. w \<in> set others"
  shows "rd c (fold (\<lambda>(w, v) t. snd (w v t)) ws (snd (wr v s))) = (RTE_E_OK, conv v)"
proof -
  have "rd c (fold (\<lambda>(w, v) t. snd (w v t)) ws t) = rd c t" for t
    using assms by (induction ws arbitrary: t) (auto simp: rd_other)
  then show ?thesis by (simp add: rd_wr)
qed

end

lemmas connector_defs =
  Rte_Write_EndStopDtcType_EndStopDtc_endStop_isPresent_def
  Rte_Write_ObstacleDtcType_ObstacleDtc_obstacle_isPresent_def
  Rte_Write_SwitchType_Switch_req_request_def
  Rte_Write_WinArbitratorType_WinArbitrator_req_a_request_def
  Rte_Write_WinControllerType_WinController_cmd_command_def
  Rte_Read_MotorDriverType_MotorDriver_cmd_command_def
  Rte_Read_WinArbitratorType_WinArbitrator_req_d_request_def
  Rte_Read_WinArbitratorType_WinArbitrator_req_p_request_def
  Rte_Read_WinControllerType_WinController_endStop_isPresent_def
  Rte_Read_WinControllerType_WinController_obstacle_isPresent_def
  Rte_Read_WinControllerType_WinController_req_request_def
  to_boolean_def

interpretation port_endStop: sr_port
  Rte_Write_EndStopDtcType_EndStopDtc_endStop_isPresent
  Rte_Read_WinControllerType_WinController_endStop_isPresent to_boolean
  "[Rte_Write_ObstacleDtcType_ObstacleDtc_obstacle_isPresent,
    Rte_Write_SwitchType_Switch_req_request, Rte_Write_WinArbitratorType_WinArbitrator_req_a_request,
    Rte_Write_WinControllerType_WinController_cmd_command]"
  by unfold_locales (auto simp: connector_defs)

interpretation port_obstacle: sr_port
  Rte_Write_ObstacleDtcType_ObstacleDtc_obstacle_isPresent
  Rte_Read_WinControllerType_WinController_obstacle_isPresent to_boolean
  "[Rte_Write_EndStopDtcType_EndStopDtc_endStop_isPresent,
    Rte_Write_SwitchType_Switch_req_request, Rte_Write_WinArbitratorType_WinArbitrator_req_a_request,
    Rte_Write_WinControllerType_WinController_cmd_command]"
  by unfold_locales (auto simp: connector_defs)

interpretation port_req_d: sr_port
  Rte_Write_SwitchType_Switch_req_request
  Rte_Read_WinArbitratorType_WinArbitrator_req_d_request "\<lambda>v. v"
  "[Rte_Write_EndStopDtcType_EndStopDtc_endStop_isPresent,
    Rte_Write_ObstacleDtcType_ObstacleDtc_obstacle_isPresent,
    Rte_Write_WinArbitratorType_WinArbitrator_req_a_request,
    Rte_Write_WinControllerType_WinController_cmd_command]"
  by unfold_locales (auto simp: connector_defs)

interpretation port_req: sr_port
  Rte_Write_WinArbitratorType_WinArbitrator_req_a_request
  Rte_Read_WinControllerType_WinController_req_request "\<lambda>v. v"
  "[Rte_Write_EndStopDtcType_EndStopDtc_endStop_isPresent,
    Rte_Write_ObstacleDtcType_ObstacleDtc_obstacle_isPresent,
    Rte_Write_SwitchType_Switch_req_request,
    Rte_Write_WinControllerType_WinController_cmd_command]"
  by unfold_locales (auto simp: connector_defs)

interpretation port_cmd: sr_port
  Rte_Write_WinControllerType_WinController_cmd_command
  Rte_Read_MotorDriverType_MotorDriver_cmd_command "\<lambda>v. v"
  "[Rte_Write_EndStopDtcType_EndStopDtc_endStop_isPresent,
    Rte_Write_ObstacleDtcType_ObstacleDtc_obstacle_isPresent,
    Rte_Write_SwitchType_Switch_req_request,
    Rte_Write_WinArbitratorType_WinArbitrator_req_a_request]"
  by unfold_locales (auto simp: connector_defs)

end
