(* ===== verification/Ioe.thy ===== *)
theory Ioe
  imports Rte
begin

text \<open>
  The read side of the IO-expander driver (\<open>pwc/src/stm3210c_eval_ioe.c\<close>): the polled I2C
  register read with its time-outs, the identification of the two expanders and the joystick.
  The bus and the chips are hardware: \<open>I2C_polls d r\<close> says for each of the six wait loops of a
  read of register \<open>r\<close> of device \<open>d\<close> how often its flag is polled in vain, \<open>IOE_regs d r\<close> is
  the register's content.  \<open>IOE_TimeoutUserCallback\<close> is the macro of the header, the constant
  \<open>IOE_TIMEOUT\<close>.
\<close>

section \<open>State and constants\<close>

record Ioe = Rte +
  IOE_TimeOut :: u32
  I2C_polls :: "u8 \<Rightarrow> u8 \<Rightarrow> nat list"
  IOE_regs :: "u8 \<Rightarrow> u8 \<Rightarrow> u8"

abbreviation TIMEOUT_MAX :: u32 where "TIMEOUT_MAX \<equiv> 0x1000"

abbreviation IOE_OK :: u8 where "IOE_OK \<equiv> 0"
abbreviation IOE_FAILURE :: u8 where "IOE_FAILURE \<equiv> 1"
abbreviation IOE_TIMEOUT :: u8 where "IOE_TIMEOUT \<equiv> 2"
abbreviation IOE1_NOT_OPERATIONAL :: u8 where "IOE1_NOT_OPERATIONAL \<equiv> 4"
abbreviation IOE2_NOT_OPERATIONAL :: u8 where "IOE2_NOT_OPERATIONAL \<equiv> 5"

abbreviation IOE_1_ADDR :: u8 where "IOE_1_ADDR \<equiv> 0x82"
abbreviation IOE_2_ADDR :: u8 where "IOE_2_ADDR \<equiv> 0x88"
abbreviation STMPE811_ID :: u16 where "STMPE811_ID \<equiv> 0x0811"
abbreviation IOE_REG_GPIO_MP_STA :: u8 where "IOE_REG_GPIO_MP_STA \<equiv> 0x12"

abbreviation JOY_IO_SEL :: u8 where "JOY_IO_SEL \<equiv> 0x80"
abbreviation JOY_IO_DOWN :: u8 where "JOY_IO_DOWN \<equiv> 0x40"
abbreviation JOY_IO_LEFT :: u8 where "JOY_IO_LEFT \<equiv> 0x20"
abbreviation JOY_IO_RIGHT :: u8 where "JOY_IO_RIGHT \<equiv> 0x10"
abbreviation JOY_IO_UP :: u8 where "JOY_IO_UP \<equiv> 0x08"
abbreviation JOY_IO_NONE :: u8 where "JOY_IO_NONE \<equiv> 0xF8"

datatype JOYState_TypeDef = JOY_NONE | JOY_SEL | JOY_DOWN | JOY_LEFT | JOY_RIGHT | JOY_UP

section \<open>The register read\<close>

text \<open>One wait loop, \<open>while (!flag) { if (IOE_TimeOut-- == 0) return ...; }\<close>, whose flag is
  polled in vain \<open>n\<close> times: whether the flag was seen, and the counter the loop leaves.\<close>

fun ioe_wait :: "nat \<Rightarrow> u32 \<Rightarrow> bool \<times> u32" where
  "ioe_wait 0 t = (True, t)"
| "ioe_wait (Suc n) t = (if t = 0 then (False, t - 1) else ioe_wait n (t - 1))"

text \<open>A sequence of loops, each with its counter reloaded; the first time-out ends it.\<close>

fun ioe_waits :: "(u32 \<times> nat) list \<Rightarrow> u32 \<Rightarrow> bool \<times> u32" where
  "ioe_waits [] t = (True, t)"
| "ioe_waits ((budget, n) # ws) t =
     (case ioe_wait n budget of (ok, t') \<Rightarrow> if ok then ioe_waits ws t' else (False, t'))"

definition read_budgets :: "u32 list" where
  "read_budgets =
     [TIMEOUT_MAX, TIMEOUT_MAX, TIMEOUT_MAX, TIMEOUT_MAX, TIMEOUT_MAX, 2 * TIMEOUT_MAX]"

definition I2C_ReadDeviceRegister :: "u8 \<Rightarrow> u8 \<Rightarrow> 'a Ioe_scheme \<Rightarrow> u8 \<times> 'a Ioe_scheme" where
  "I2C_ReadDeviceRegister DeviceAddr RegisterAddr s =
     (case ioe_waits (zip read_budgets (I2C_polls s DeviceAddr RegisterAddr)) (IOE_TimeOut s) of
        (ok, t) \<Rightarrow> (if ok then IOE_regs s DeviceAddr RegisterAddr else IOE_TIMEOUT,
                    s\<lparr>IOE_TimeOut := t\<rparr>))"

section \<open>Identification\<close>

definition IOE_ReadID :: "u8 \<Rightarrow> 'a Ioe_scheme \<Rightarrow> u16 \<times> 'a Ioe_scheme" where
  "IOE_ReadID DeviceAddr s =
     (case I2C_ReadDeviceRegister DeviceAddr 0 s of
        (hi, s1) \<Rightarrow> (case I2C_ReadDeviceRegister DeviceAddr 1 s1 of
           (lo, s2) \<Rightarrow> ((push_bit 8 (ucast hi)) OR ucast lo, s2)))"

definition IOE_IsOperational :: "u8 \<Rightarrow> 'a Ioe_scheme \<Rightarrow> u8 \<times> 'a Ioe_scheme" where
  "IOE_IsOperational DeviceAddr s =
     (case IOE_ReadID DeviceAddr s of
        (ident, s1) \<Rightarrow>
          if ident \<noteq> STMPE811_ID then
            (if IOE_TimeOut s1 = 0 then (IOE_TIMEOUT, s1) else (IOE_FAILURE, s1))
          else (IOE_OK, s1))"

text \<open>The identification at the start of \<open>IOE_Config\<close>, which decides its status: the set-up of the
  pins and of the chips' registers around it is hardware and cannot fail.\<close>

definition IOE_Config_status :: "'a Ioe_scheme \<Rightarrow> u8 \<times> 'a Ioe_scheme" where
  "IOE_Config_status s =
     (case IOE_IsOperational IOE_1_ADDR s of
        (r1, s1) \<Rightarrow> if r1 \<noteq> 0 then (IOE1_NOT_OPERATIONAL, s1)
          else (case IOE_IsOperational IOE_2_ADDR s1 of
             (r2, s2) \<Rightarrow> if r2 \<noteq> 0 then (IOE2_NOT_OPERATIONAL, s2) else (IOE_OK, s2)))"

section \<open>The joystick\<close>

definition joy_decode :: "u8 \<Rightarrow> JOYState_TypeDef" where
  "joy_decode tmp =
     (if tmp AND JOY_IO_NONE = JOY_IO_NONE then JOY_NONE
      else if tmp AND JOY_IO_SEL = 0 then JOY_SEL
      else if tmp AND JOY_IO_DOWN = 0 then JOY_DOWN
      else if tmp AND JOY_IO_LEFT = 0 then JOY_LEFT
      else if tmp AND JOY_IO_RIGHT = 0 then JOY_RIGHT
      else if tmp AND JOY_IO_UP = 0 then JOY_UP
      else JOY_NONE)"

definition IOE_JoyStickGetState :: "'a Ioe_scheme \<Rightarrow> JOYState_TypeDef \<times> 'a Ioe_scheme" where
  "IOE_JoyStickGetState s =
     (case I2C_ReadDeviceRegister IOE_2_ADDR IOE_REG_GPIO_MP_STA s of
        (tmp, s1) \<Rightarrow> (joy_decode tmp, s1))"

section \<open>Facts\<close>

lemma ioe_wait_iff: "fst (ioe_wait n t) \<longleftrightarrow> n \<le> unat t"
proof (induction n arbitrary: t)
  case 0
  then show ?case by simp
next
  case (Suc n)
  show ?case
  proof (cases "t = 0")
    case False
    then have "unat (t - 1) = unat t - 1" "0 < unat t"
      by (simp_all add: unat_minus_one unat_gt_0)
    with Suc False show ?thesis by (auto simp: Suc_le_eq)
  qed simp
qed

lemma ioe_wait_timeout: "\<not> fst (ioe_wait n t) \<Longrightarrow> snd (ioe_wait n t) = - 1"
  by (induction n t rule: ioe_wait.induct) (auto split: if_splits)

text \<open>A sequence of loops that times out leaves the counter wrapped around, never zero.\<close>

lemma ioe_waits_timeout: "\<not> fst (ioe_waits ws t) \<Longrightarrow> snd (ioe_waits ws t) = - 1"
proof (induction ws t rule: ioe_waits.induct)
  case (2 budget n ws t)
  obtain ok t' where w: "ioe_wait n budget = (ok, t')" by fastforce
  show ?case
    using 2 ioe_wait_timeout [of n budget] w by (cases ok) auto
qed simp

text \<open>A device answers when each of its wait loops ends within the loop's budget.\<close>

definition i2c_answers :: "'a Ioe_scheme \<Rightarrow> u8 \<Rightarrow> u8 \<Rightarrow> bool" where
  "i2c_answers s d r \<longleftrightarrow> (\<forall>(budget, n) \<in> set (zip read_budgets (I2C_polls s d r)). n \<le> unat budget)"

lemma ioe_waits_iff: "fst (ioe_waits ws t) \<longleftrightarrow> (\<forall>(budget, n) \<in> set ws. n \<le> unat budget)"
proof (induction ws t rule: ioe_waits.induct)
  case (2 budget n ws t)
  obtain ok t' where w: "ioe_wait n budget = (ok, t')" by fastforce
  show ?case
    using 2 ioe_wait_iff [of n budget] w by (cases ok) auto
qed simp

lemma I2C_ReadDeviceRegister_value:
  "fst (I2C_ReadDeviceRegister d r s) = (if i2c_answers s d r then IOE_regs s d r else IOE_TIMEOUT)"
  unfolding i2c_answers_def ioe_waits_iff [of _ "IOE_TimeOut s", symmetric]
  by (simp add: I2C_ReadDeviceRegister_def case_prod_unfold)

lemma I2C_ReadDeviceRegister_state:
  "\<exists>t. snd (I2C_ReadDeviceRegister d r s) = s\<lparr>IOE_TimeOut := t\<rparr>"
  by (auto simp: I2C_ReadDeviceRegister_def case_prod_unfold)

lemma I2C_ReadDeviceRegister_timeout:
  "\<not> i2c_answers s d r \<Longrightarrow> IOE_TimeOut (snd (I2C_ReadDeviceRegister d r s)) = - 1"
  unfolding i2c_answers_def ioe_waits_iff [of _ "IOE_TimeOut s", symmetric]
  by (simp add: I2C_ReadDeviceRegister_def case_prod_unfold ioe_waits_timeout)

lemma JoyStick_state: "\<exists>t. snd (IOE_JoyStickGetState s) = s\<lparr>IOE_TimeOut := t\<rparr>"
  by (simp add: IOE_JoyStickGetState_def case_prod_unfold I2C_ReadDeviceRegister_state)

lemma IOE_Config_state: "\<exists>t. snd (IOE_Config_status s) = s\<lparr>IOE_TimeOut := t\<rparr>"
proof -
  have dev: "\<exists>t. snd (IOE_IsOperational d x) = x\<lparr>IOE_TimeOut := t\<rparr>" for d and x :: "'a Ioe_scheme"
  proof -
    obtain t where "snd (I2C_ReadDeviceRegister d 0 x) = x\<lparr>IOE_TimeOut := t\<rparr>"
      using I2C_ReadDeviceRegister_state by blast
    moreover obtain u where "snd (I2C_ReadDeviceRegister d 1 (x\<lparr>IOE_TimeOut := t\<rparr>)) = x\<lparr>IOE_TimeOut := u\<rparr>"
      using I2C_ReadDeviceRegister_state [of d 1 "x\<lparr>IOE_TimeOut := t\<rparr>"] by auto
    ultimately show ?thesis by (auto simp: IOE_IsOperational_def IOE_ReadID_def case_prod_unfold)
  qed
  obtain t where t: "snd (IOE_IsOperational IOE_1_ADDR s) = s\<lparr>IOE_TimeOut := t\<rparr>" using dev by blast
  then obtain u where "snd (IOE_IsOperational IOE_2_ADDR (s\<lparr>IOE_TimeOut := t\<rparr>)) = s\<lparr>IOE_TimeOut := u\<rparr>"
    using dev [of IOE_2_ADDR "s\<lparr>IOE_TimeOut := t\<rparr>"] by auto
  with t show ?thesis by (auto simp: IOE_Config_status_def case_prod_unfold)
qed

text \<open>When the bus fails the joystick reads as SEL, since \<open>IOE_TIMEOUT\<close> has its bit clear.\<close>

lemma joy_decode_timeout: "joy_decode IOE_TIMEOUT = JOY_SEL"
  by (simp add: joy_decode_def)

lemma JoyStick_value:
  "fst (IOE_JoyStickGetState s) =
     (if i2c_answers s IOE_2_ADDR IOE_REG_GPIO_MP_STA
      then joy_decode (IOE_regs s IOE_2_ADDR IOE_REG_GPIO_MP_STA) else JOY_SEL)"
  by (simp add: IOE_JoyStickGetState_def case_prod_unfold I2C_ReadDeviceRegister_value
      joy_decode_timeout)

text \<open>When the read of the second byte of an expander's identifier times out, the
  operational check reports \<open>IOE_FAILURE\<close>, never \<open>IOE_TIMEOUT\<close>: the wait loop's last decrement has
  wrapped the counter around, so that its test for zero cannot see the time-out.\<close>

theorem IsOperational_timeout_is_failure:
  assumes "\<not> i2c_answers s d 1"
  shows "fst (IOE_IsOperational d s) = IOE_FAILURE"
proof -
  obtain t where s1: "snd (I2C_ReadDeviceRegister d 0 s) = s\<lparr>IOE_TimeOut := t\<rparr>"
    using I2C_ReadDeviceRegister_state by blast
  have no: "\<not> i2c_answers (s\<lparr>IOE_TimeOut := t\<rparr>) d 1"
    using assms by (simp add: i2c_answers_def)
  have "push_bit 8 (ucast (hi :: u8)) OR ucast (2 :: u8) \<noteq> STMPE811_ID" for hi
  proof
    assume "push_bit 8 (ucast hi) OR ucast (2 :: u8) = STMPE811_ID"
    then have "bit (push_bit 8 (ucast hi) OR ucast (2 :: u8) :: u16) 0 = bit STMPE811_ID 0" by simp
    then show False by (simp add: bit_simps)
  qed
  then show ?thesis
    using no by (simp add: IOE_IsOperational_def IOE_ReadID_def case_prod_unfold s1
        I2C_ReadDeviceRegister_value I2C_ReadDeviceRegister_timeout)
qed


section \<open>A concrete state\<close>

text \<open>The ECU after the drivers' initialisation, with the given bus behaviour.\<close>

definition ioe_boot :: "(u8 \<Rightarrow> u8 \<Rightarrow> nat list) \<Rightarrow> (u8 \<Rightarrow> u8 \<Rightarrow> u8) \<Rightarrow> 'a \<Rightarrow> 'a Ioe_scheme" where
  "ioe_boot polls regs m =
     \<lparr>detState = DET_STARTED, Det_RamlogIndex = 0, Det_RamLog = replicate 16 det_zero_entry,
      Dio_InitRun = True, Dio_Config = Some DioConfigData, GPIO_IDR = (\<lambda>_. 0), GPIO_ODR = (\<lambda>_. 0),
      IoHwAb_MOTOR_1_Locked = False, IoHwAb_MOTOR_1_Saved = 0,
      IoHwAb_EndStop_Locked = False, IoHwAb_EndStop_Saved = 0,
      IoHwAb_Obstacle_Locked = False, IoHwAb_Obstacle_Saved = 0,
      IoHwAb_MOTOR_2_Locked = False, IoHwAb_MOTOR_2_Saved = 0,
      RteInitialized = True, Rte_Buffer_MotorDriver_cmd_command = 0,
      Rte_Buffer_WinArbitrator_req_d_request = 0, Rte_Buffer_WinController_endStop_isPresent = 0,
      Rte_Buffer_WinController_obstacle_isPresent = 0, Rte_Buffer_WinController_req_request = 0,
      EndStopDtcRunnable_endStop_isPresent = 0, MotorDriverRunnable_cmd_command = 0,
      ObstacleDtcRunnable_obstacle_isPresent = 0, SwitchRunnable_req_request = 0,
      WinArbitratorRunnable_req_a_request = 0, WinArbitratorRunnable_req_d_request = 0,
      WinArbitratorRunnable_req_p_request = 0, WinControllerStepRunnable_cmd_command = 0,
      WinControllerStepRunnable_endStop_isPresent = 0,
      WinControllerStepRunnable_obstacle_isPresent = 0, WinControllerStepRunnable_req_request = 0,
      IOE_TimeOut = TIMEOUT_MAX, I2C_polls = polls, IOE_regs = regs, \<dots> = m\<rparr>"

lemma ioe_boot_ready: "c \<in> set board_channels \<Longrightarrow> dio_ready (ioe_boot polls regs m) c"
  by (rule board_channel_ready(1)) (simp_all add: ioe_boot_def)

lemma IsOperational_timeout_is_failure_witness:
  "fst (IOE_IsOperational IOE_1_ADDR (ioe_boot (\<lambda>_ _. [0, 5000]) (\<lambda>_ _. 0) ())) = IOE_FAILURE"
  by (rule IsOperational_timeout_is_failure)
    (simp add: i2c_answers_def ioe_boot_def read_budgets_def)

end
