(* ===== verification/Pwc.thy ===== *)
theory Pwc
  imports WindowSpec Ioe
begin

text \<open>
  The application of the window controller (\<open>pwc/src\<close>): the six runnables, the wrappers the
  RTE generates around them (\<open>Rte_..Type.c\<close>), the bodies of the two periodic tasks
  (\<open>Rte.c\<close>) and the main task (\<open>Tasks.c\<close>).  \<open>WinControllerRunnable\<close> hands an uninitialised
  local to the chart: its content is the argument \<open>junk\<close> of the definitions.
\<close>

section \<open>State\<close>

record Pwc = Ioe +
  PWC_DW :: DW_power_window_controller_f_T
  PWC_B_y :: u8
  JoyState :: JOYState_TypeDef

section \<open>Runnables\<close>

definition joy_request :: "JOYState_TypeDef \<Rightarrow> requestType" where
  "joy_request j =
     (case j of JOY_NONE \<Rightarrow> request_neutral | JOY_UP \<Rightarrow> request_basic_up
      | JOY_DOWN \<Rightarrow> request_basic_down | JOY_LEFT \<Rightarrow> request_express_down
      | JOY_RIGHT \<Rightarrow> request_express_up | JOY_SEL \<Rightarrow> 0)"

definition SwitchRunnable :: "'a Pwc_scheme \<Rightarrow> 'a Pwc_scheme" where
  "SwitchRunnable s =
     (case IOE_JoyStickGetState s of
        (j, s1) \<Rightarrow>
          (let s2 = s1\<lparr>JoyState := j\<rparr>;
               myRequest = joy_request (JoyState s2)
           in s2\<lparr>SwitchRunnable_req_request := myRequest\<rparr>))"

definition PWC_WinArbitrator :: "u8 \<Rightarrow> u8 \<Rightarrow> u8 \<Rightarrow> u8" where
  "PWC_WinArbitrator rtu_u rtu_v y =
     (let b = (rtu_u = 0 \<and> rtu_v = 0);
          c = (rtu_u = 0 \<and> rtu_v = 1);
          d = (rtu_u = 1 \<and> rtu_v = 0);
          e = (rtu_u = 1 \<and> rtu_v = 1)
      in if b \<and> \<not> c \<and> d \<and> e then rtu_u
         else if \<not> b \<and> c \<and> \<not> d \<and> \<not> e then rtu_v
         else rtu_u)"

definition WinArbitratorRunnable :: "'a Pwc_scheme \<Rightarrow> 'a Pwc_scheme" where
  "WinArbitratorRunnable s =
     (let driver = WinArbitratorRunnable_req_d_request s;
          passenger = request_neutral;
          s1 = s\<lparr>PWC_B_y := PWC_WinArbitrator driver passenger (PWC_B_y s)\<rparr>
      in s1\<lparr>WinArbitratorRunnable_req_a_request := PWC_B_y s1\<rparr>)"

text \<open>The locals \<open>value\<close> and \<open>status\<close> are uninitialised too: \<open>v0\<close> and \<open>q0\<close>.\<close>

definition EndStopDtcRunnable :: "u8 \<Rightarrow> u8 \<Rightarrow> 'a Pwc_scheme \<Rightarrow> 'a Pwc_scheme" where
  "EndStopDtcRunnable v0 q0 s =
     (case Rte_Call_isEndStop_Read (Some v0) (Some q0) s of
        (_, value, _, s1) \<Rightarrow>
          if value \<noteq> Some 0
          then s1\<lparr>EndStopDtcRunnable_endStop_isPresent := to_boolean IOHWAB_LOW\<rparr>
          else s1\<lparr>EndStopDtcRunnable_endStop_isPresent := to_boolean IOHWAB_HIGH\<rparr>)"

definition ObstacleDtcRunnable :: "u8 \<Rightarrow> u8 \<Rightarrow> 'a Pwc_scheme \<Rightarrow> 'a Pwc_scheme" where
  "ObstacleDtcRunnable v0 q0 s =
     (case Rte_Call_isObstacle_Read (Some v0) (Some q0) s of
        (_, value, _, s1) \<Rightarrow>
          if value \<noteq> Some 0
          then s1\<lparr>ObstacleDtcRunnable_obstacle_isPresent := to_boolean IOHWAB_LOW\<rparr>
          else s1\<lparr>ObstacleDtcRunnable_obstacle_isPresent := to_boolean IOHWAB_HIGH\<rparr>)"

definition WinControllerRunnable :: "u8 \<Rightarrow> 'a Pwc_scheme \<Rightarrow> 'a Pwc_scheme" where
  "WinControllerRunnable junk s =
     (let request = WinControllerStepRunnable_req_request s;
          obstacle_tmp = WinControllerStepRunnable_obstacle_isPresent s;
          endstop_tmp = WinControllerStepRunnable_endStop_isPresent s
      in case power_window_controller request endstop_tmp obstacle_tmp junk (PWC_DW s) s of
           (command, dw, s1) \<Rightarrow>
             s1\<lparr>PWC_DW := dw, WinControllerStepRunnable_cmd_command := command\<rparr>)"

definition MotorDriverRunnable :: "'a Pwc_scheme \<Rightarrow> 'a Pwc_scheme" where
  "MotorDriverRunnable s =
     (let command = MotorDriverRunnable_cmd_command s in
      if command = command_neutral then
        snd (Rte_Call_RunMotor_2_Write IOHWAB_LOW (snd (Rte_Call_RunMotor_1_Write IOHWAB_LOW s)))
      else if command = command_down then
        snd (Rte_Call_RunMotor_2_Write IOHWAB_LOW (snd (Rte_Call_RunMotor_1_Write IOHWAB_HIGH s)))
      else if command = command_up then
        snd (Rte_Call_RunMotor_2_Write IOHWAB_HIGH (snd (Rte_Call_RunMotor_1_Write IOHWAB_LOW s)))
      else s)"

section \<open>The generated wrappers\<close>

definition Rte_Switch_SwitchRunnable :: "'a Pwc_scheme \<Rightarrow> 'a Pwc_scheme" where
  "Rte_Switch_SwitchRunnable s =
     (let s1 = SwitchRunnable s
      in snd (Rte_Write_SwitchType_Switch_req_request (SwitchRunnable_req_request s1) s1))"

definition Rte_WinArbitrator_WinArbitratorRunnable :: "'a Pwc_scheme \<Rightarrow> 'a Pwc_scheme" where
  "Rte_WinArbitrator_WinArbitratorRunnable s =
     (let s1 = s\<lparr>WinArbitratorRunnable_req_d_request :=
            snd (Rte_Read_WinArbitratorType_WinArbitrator_req_d_request
                   (WinArbitratorRunnable_req_d_request s) s)\<rparr>;
          s2 = s1\<lparr>WinArbitratorRunnable_req_p_request :=
            snd (Rte_Read_WinArbitratorType_WinArbitrator_req_p_request
                   (WinArbitratorRunnable_req_p_request s1) s1)\<rparr>;
          s3 = WinArbitratorRunnable s2
      in snd (Rte_Write_WinArbitratorType_WinArbitrator_req_a_request
                (WinArbitratorRunnable_req_a_request s3) s3))"

definition Rte_EndStopDtc_EndStopDtcRunnable :: "u8 \<Rightarrow> u8 \<Rightarrow> 'a Pwc_scheme \<Rightarrow> 'a Pwc_scheme" where
  "Rte_EndStopDtc_EndStopDtcRunnable v0 q0 s =
     (let s1 = EndStopDtcRunnable v0 q0 s
      in snd (Rte_Write_EndStopDtcType_EndStopDtc_endStop_isPresent
                (EndStopDtcRunnable_endStop_isPresent s1) s1))"

definition Rte_ObstacleDtc_ObstacleDtcRunnable :: "u8 \<Rightarrow> u8 \<Rightarrow> 'a Pwc_scheme \<Rightarrow> 'a Pwc_scheme" where
  "Rte_ObstacleDtc_ObstacleDtcRunnable v0 q0 s =
     (let s1 = ObstacleDtcRunnable v0 q0 s
      in snd (Rte_Write_ObstacleDtcType_ObstacleDtc_obstacle_isPresent
                (ObstacleDtcRunnable_obstacle_isPresent s1) s1))"

definition Rte_WinController_WinControllerStepRunnable :: "u8 \<Rightarrow> 'a Pwc_scheme \<Rightarrow> 'a Pwc_scheme" where
  "Rte_WinController_WinControllerStepRunnable junk s =
     (let s1 = s\<lparr>WinControllerStepRunnable_req_request :=
            snd (Rte_Read_WinControllerType_WinController_req_request
                   (WinControllerStepRunnable_req_request s) s)\<rparr>;
          s2 = s1\<lparr>WinControllerStepRunnable_obstacle_isPresent :=
            snd (Rte_Read_WinControllerType_WinController_obstacle_isPresent
                   (WinControllerStepRunnable_obstacle_isPresent s1) s1)\<rparr>;
          s3 = s2\<lparr>WinControllerStepRunnable_endStop_isPresent :=
            snd (Rte_Read_WinControllerType_WinController_endStop_isPresent
                   (WinControllerStepRunnable_endStop_isPresent s2) s2)\<rparr>;
          s4 = WinControllerRunnable junk s3
      in snd (Rte_Write_WinControllerType_WinController_cmd_command
                (WinControllerStepRunnable_cmd_command s4) s4))"

definition Rte_MotorDriver_MotorDriverRunnable :: "'a Pwc_scheme \<Rightarrow> 'a Pwc_scheme" where
  "Rte_MotorDriver_MotorDriverRunnable s =
     (let s1 = s\<lparr>MotorDriverRunnable_cmd_command :=
            snd (Rte_Read_MotorDriverType_MotorDriver_cmd_command
                   (MotorDriverRunnable_cmd_command s) s)\<rparr>
      in MotorDriverRunnable s1)"

section \<open>Task bodies\<close>

text \<open>One turn of the loop of each task, after its event has been received.  The event word
  is read once: the second and third test see the same value.  Waiting for the event and
  clearing it are services of the kernel, whose state is another one.  The uninitialised
  locals of the three runnables are independent: \<open>jo\<close> and \<open>je\<close> hold the value and the
  status of the two monitors, \<open>junk\<close> the controller's command.\<close>

definition CriticalTask_body :: "u8 \<times> u8 \<Rightarrow> u8 \<times> u8 \<Rightarrow> u8 \<Rightarrow> 'a Pwc_scheme \<Rightarrow> 'a Pwc_scheme" where
  "CriticalTask_body jo je junk s =
     Rte_WinController_WinControllerStepRunnable junk
       (Rte_EndStopDtc_EndStopDtcRunnable (fst je) (snd je)
         (Rte_ObstacleDtc_ObstacleDtcRunnable (fst jo) (snd jo) s))"

definition StepTask_body :: "'a Pwc_scheme \<Rightarrow> 'a Pwc_scheme" where
  "StepTask_body s =
     Rte_MotorDriver_MotorDriverRunnable
       (Rte_WinArbitrator_WinArbitratorRunnable (Rte_Switch_SwitchRunnable s))"

text \<open>The main task: it drives the two LEDs that are also the motor lines, when the expanders
  answer.\<close>

definition OsTask_Main :: "'a Pwc_scheme \<Rightarrow> 'a Pwc_scheme" where
  "OsTask_Main s =
     (case IOE_Config_status s of
        (status, s1) \<Rightarrow>
          if status = IOE_OK then
            snd (IoHwAb_Digital_Write_MOTOR_2 IOHWAB_HIGH
              (snd (IoHwAb_Digital_Write_MOTOR_1 IOHWAB_HIGH s1)))
          else s1)"


section \<open>Frame facts\<close>

text \<open>On ready channels the driver's only effect is on the output registers.\<close>

definition only_odr :: "'a Dio_scheme \<Rightarrow> 'a Dio_scheme \<Rightarrow> bool" where
  "only_odr s t \<longleftrightarrow> (\<exists>r. t = s\<lparr>GPIO_ODR := r\<rparr>)"

lemma only_odr_refl [simp]: "only_odr s s"
  by (auto simp: only_odr_def intro!: exI [of _ "GPIO_ODR s"])

lemma dio_ready_odr [simp]: "dio_ready (GPIO_ODR_update f s) c = dio_ready s c"
  by (simp add: dio_ready_def Channel_Config_Contains_def Port_Config_Contains_def)

lemma only_odr_write:
  assumes "only_odr s t" and "dio_ready s c"
  shows "only_odr s (Dio_WriteChannel c v t)"
proof -
  obtain r where t: "t = s\<lparr>GPIO_ODR := r\<rparr>" using assms(1) by (auto simp: only_odr_def)
  have "dio_ready t c" using assms(2) by (simp add: t)
  then show ?thesis
    by (auto simp: t dio_ready_def Dio_WriteChannel_def Dio_WritePort_def only_odr_def Let_def)
qed

lemma controller_only_odr:
  assumes "leds_ready s" and "power_window_controller req es ob cell dw s = (cmd, dw', s')"
  shows "only_odr s s'"
proof -
  have ready: "dio_ready s CH_LED_1" "dio_ready s CH_LED_2" "dio_ready s CH_LED_3"
    "dio_ready s CH_LED_4"
    using assms(1) by (simp_all add: leds_ready_def)
  have "only_odr s (snd (snd (power_window_controller req es ob cell dw s)))"
    by (simp add: chart_defs only_odr_write ready)
  then show ?thesis by (simp add: assms(2))
qed

lemma Dio_WriteChannel_ready:
  "dio_ready s c \<Longrightarrow> \<exists>r. Dio_WriteChannel c v s = s\<lparr>GPIO_ODR := r\<rparr>"
  using only_odr_write [of s s c v] by (simp add: only_odr_def)

lemma motor_write_only_odr:
  assumes "IS_VALID_DIO_LEVEL v"
  shows "dio_ready s CH_LED_1 \<Longrightarrow>
      \<exists>r w. snd (IoHwAb_Digital_Write_MOTOR_1 v s) = s\<lparr>GPIO_ODR := r, IoHwAb_MOTOR_1_Saved := w\<rparr>"
    and "dio_ready s CH_LED_2 \<Longrightarrow>
      \<exists>r w. snd (IoHwAb_Digital_Write_MOTOR_2 v s) = s\<lparr>GPIO_ODR := r, IoHwAb_MOTOR_2_Saved := w\<rparr>"
proof -
  assume "dio_ready s CH_LED_1"
  let ?w = "if IoHwAb_MOTOR_1_Locked s then IoHwAb_MOTOR_1_Saved s else v"
  have "dio_ready (s\<lparr>IoHwAb_MOTOR_1_Saved := ?w\<rparr>) CH_LED_1"
    using \<open>dio_ready s CH_LED_1\<close> by (simp only: iohwab_field_updates)
  then obtain r where "Dio_WriteChannel CH_LED_1 ?w (s\<lparr>IoHwAb_MOTOR_1_Saved := ?w\<rparr>)
      = s\<lparr>IoHwAb_MOTOR_1_Saved := ?w\<rparr>\<lparr>GPIO_ODR := r\<rparr>"
    using Dio_WriteChannel_ready by blast
  then have "snd (IoHwAb_Digital_Write_MOTOR_1 v s) = s\<lparr>GPIO_ODR := r, IoHwAb_MOTOR_1_Saved := ?w\<rparr>"
    using assms by (simp only: IoHwAb_Digital_Write_MOTOR_1_def Let_def if_False not_not simp_thms snd_conv) simp
  then show "\<exists>r w. snd (IoHwAb_Digital_Write_MOTOR_1 v s) = s\<lparr>GPIO_ODR := r, IoHwAb_MOTOR_1_Saved := w\<rparr>"
    by blast
next
  assume "dio_ready s CH_LED_2"
  let ?w = "if IoHwAb_MOTOR_2_Locked s then IoHwAb_MOTOR_2_Saved s else v"
  have "dio_ready (s\<lparr>IoHwAb_MOTOR_2_Saved := ?w\<rparr>) CH_LED_2"
    using \<open>dio_ready s CH_LED_2\<close> by (simp only: iohwab_field_updates)
  then obtain r where "Dio_WriteChannel CH_LED_2 ?w (s\<lparr>IoHwAb_MOTOR_2_Saved := ?w\<rparr>)
      = s\<lparr>IoHwAb_MOTOR_2_Saved := ?w\<rparr>\<lparr>GPIO_ODR := r\<rparr>"
    using Dio_WriteChannel_ready by blast
  then have "snd (IoHwAb_Digital_Write_MOTOR_2 v s) = s\<lparr>GPIO_ODR := r, IoHwAb_MOTOR_2_Saved := ?w\<rparr>"
    using assms by (simp only: IoHwAb_Digital_Write_MOTOR_2_def Let_def if_False not_not simp_thms snd_conv) simp
  then show "\<exists>r w. snd (IoHwAb_Digital_Write_MOTOR_2 v s) = s\<lparr>GPIO_ODR := r, IoHwAb_MOTOR_2_Saved := w\<rparr>"
    by blast
qed

section \<open>The ECU after initialisation\<close>

text \<open>Every channel the application uses is ready.\<close>

definition ecu_ready :: "'a Dio_scheme \<Rightarrow> bool" where
  "ecu_ready s \<longleftrightarrow> leds_ready s \<and> dio_ready s CH_Key \<and> dio_ready s CH_Tamper"

text \<open>What the two monitors report: both keys are active low, and a tester may hold them.\<close>

definition endStop_seen :: "'a IoHwAb_scheme \<Rightarrow> u8" where
  "endStop_seen s =
     (if IoHwAb_EndStop_Locked s then if IoHwAb_EndStop_Saved s \<noteq> 0 then 0 else 1
      else if dio_input s CH_Key then 0 else 1)"

definition obstacle_seen :: "'a IoHwAb_scheme \<Rightarrow> u8" where
  "obstacle_seen s =
     (if IoHwAb_Obstacle_Locked s then if IoHwAb_Obstacle_Saved s \<noteq> 0 then 0 else 1
      else if dio_input s CH_Tamper then 0 else 1)"

lemmas rte_io_defs = Rte_Call_isEndStop_Read_def Rte_Call_isObstacle_Read_def
  Rte_Call_IoHwAb_ioHwAb_Digital_DigitalSignal_EndStop_Read_def
  Rte_Call_IoHwAb_ioHwAb_Digital_DigitalSignal_Obstacle_Read_def
  Rte_Call_RunMotor_1_Write_def Rte_Call_RunMotor_2_Write_def
  Rte_Call_IoHwAb_ioHwAb_Digital_DigitalSignal_LED1_Write_def
  Rte_Call_IoHwAb_ioHwAb_Digital_DigitalSignal_LED2_Write_def
  Rte_ioHwAb_DigitalRead_def Rte_ioHwAb_DigitalWrite_def
  IoHwAb_Digital_Read_def IoHwAb_Digital_Write_def

lemma EndStop_runnable:
  assumes "dio_ready s CH_Key"
  shows "Rte_EndStopDtc_EndStopDtcRunnable v0 q0 s =
    s\<lparr>EndStopDtcRunnable_endStop_isPresent := endStop_seen s,
      Rte_Buffer_WinController_endStop_isPresent := endStop_seen s\<rparr>"
  using Read_EndStop_ready [OF assms, of v0 q0]
  by (simp add: Rte_EndStopDtc_EndStopDtcRunnable_def EndStopDtcRunnable_def rte_io_defs
      endStop_seen_def connector_defs)

lemma Obstacle_runnable:
  assumes "dio_ready s CH_Tamper"
  shows "Rte_ObstacleDtc_ObstacleDtcRunnable v0 q0 s =
    s\<lparr>ObstacleDtcRunnable_obstacle_isPresent := obstacle_seen s,
      Rte_Buffer_WinController_obstacle_isPresent := obstacle_seen s\<rparr>"
  using Read_Obstacle_ready [OF assms, of v0 q0]
  by (simp add: Rte_ObstacleDtc_ObstacleDtcRunnable_def ObstacleDtcRunnable_def rte_io_defs
      obstacle_seen_def connector_defs)


section \<open>The critical task\<close>

lemma rte_field_updates [simp]:
  "dio_ready (Rte_Buffer_WinController_endStop_isPresent_update h s) = dio_ready s"
  "dio_ready (Rte_Buffer_WinController_obstacle_isPresent_update h s) = dio_ready s"
  "dio_ready (EndStopDtcRunnable_endStop_isPresent_update h s) = dio_ready s"
  "dio_ready (ObstacleDtcRunnable_obstacle_isPresent_update h s) = dio_ready s"
  "dio_ready (WinControllerStepRunnable_req_request_update h s) = dio_ready s"
  "dio_ready (WinControllerStepRunnable_obstacle_isPresent_update h s) = dio_ready s"
  "dio_ready (WinControllerStepRunnable_endStop_isPresent_update h s) = dio_ready s"
  "dio_ready (WinControllerStepRunnable_cmd_command_update h s) = dio_ready s"
  "dio_ready (MotorDriverRunnable_cmd_command_update h s) = dio_ready s"
  "dio_ready (Rte_Buffer_MotorDriver_cmd_command_update h s) = dio_ready s"
  "dio_ready (Rte_Buffer_WinArbitrator_req_d_request_update h s) = dio_ready s"
  "dio_ready (Rte_Buffer_WinController_req_request_update h s) = dio_ready s"
  "dio_ready (SwitchRunnable_req_request_update h s) = dio_ready s"
  "dio_ready (WinArbitratorRunnable_req_a_request_update h s) = dio_ready s"
  "dio_ready (WinArbitratorRunnable_req_d_request_update h s) = dio_ready s"
  "dio_ready (WinArbitratorRunnable_req_p_request_update h s) = dio_ready s"
  "dio_ready (IOE_TimeOut_update g s) = dio_ready s"
  "dio_ready (PWC_DW_update d s) = dio_ready s"
  "dio_ready (PWC_B_y_update h s) = dio_ready s"
  "dio_ready (JoyState_update e s) = dio_ready s"
  "dio_ready (GPIO_IDR_update f s) = dio_ready s"
  by (rule dio_ready_cong; simp)+

lemma rte_level_updates [simp]:
  "dio_level (WinControllerStepRunnable_cmd_command_update h s) = dio_level s"
  "dio_level (MotorDriverRunnable_cmd_command_update h s) = dio_level s"
  "dio_level (Rte_Buffer_MotorDriver_cmd_command_update h s) = dio_level s"
  "dio_level (PWC_DW_update d s) = dio_level s"
  "dio_level (Rte_Buffer_WinArbitrator_req_d_request_update h s) = dio_level s"
  "dio_level (Rte_Buffer_WinController_req_request_update h s) = dio_level s"
  "dio_level (SwitchRunnable_req_request_update h s) = dio_level s"
  "dio_level (WinArbitratorRunnable_req_a_request_update h s) = dio_level s"
  "dio_level (WinArbitratorRunnable_req_d_request_update h s) = dio_level s"
  "dio_level (WinArbitratorRunnable_req_p_request_update h s) = dio_level s"
  "dio_level (IOE_TimeOut_update g s) = dio_level s"
  "dio_level (PWC_B_y_update h s) = dio_level s"
  "dio_level (JoyState_update e s) = dio_level s"
  by (rule dio_level_cong; simp)+

lemma ecu_ready_cong: "dio_ready t = dio_ready s \<Longrightarrow> ecu_ready t = ecu_ready s"
  by (simp add: ecu_ready_def leds_ready_def)

lemma leds_cong: "dio_level t = dio_level s \<Longrightarrow> leds t = leds s"
  by (simp add: leds_def)

lemma seen_updates [simp]:
  "endStop_seen (s\<lparr>ObstacleDtcRunnable_obstacle_isPresent := v,
      Rte_Buffer_WinController_obstacle_isPresent := w\<rparr>) = endStop_seen s"
  by (simp add: endStop_seen_def dio_input_def)

text \<open>The state the chart works on: the three monitors' results are in their buffers and in the
  implicit data elements.\<close>

definition critical_inputs :: "'a Pwc_scheme \<Rightarrow> 'a Pwc_scheme" where
  "critical_inputs s =
     s\<lparr>ObstacleDtcRunnable_obstacle_isPresent := obstacle_seen s,
       Rte_Buffer_WinController_obstacle_isPresent := obstacle_seen s,
       EndStopDtcRunnable_endStop_isPresent := endStop_seen s,
       Rte_Buffer_WinController_endStop_isPresent := endStop_seen s,
       WinControllerStepRunnable_req_request := Rte_Buffer_WinController_req_request s,
       WinControllerStepRunnable_obstacle_isPresent := obstacle_seen s,
       WinControllerStepRunnable_endStop_isPresent := endStop_seen s\<rparr>"

lemma CriticalTask_body_eq:
  assumes "ecu_ready s"
  shows "CriticalTask_body jo je junk s =
    (case power_window_controller (Rte_Buffer_WinController_req_request s) (endStop_seen s)
        (obstacle_seen s) junk (PWC_DW s) (critical_inputs s) of
      (command, dw, s1) \<Rightarrow> s1\<lparr>PWC_DW := dw, WinControllerStepRunnable_cmd_command := command,
         Rte_Buffer_MotorDriver_cmd_command := command\<rparr>)"
  using assms
  by (simp add: CriticalTask_body_def ecu_ready_def Obstacle_runnable EndStop_runnable
      Rte_WinController_WinControllerStepRunnable_def WinControllerRunnable_def Let_def
      connector_defs critical_inputs_def case_prod_unfold)

text \<open>All a critical activation does: the chart's step on the inputs seen now, the command into
  the connector, the status LEDs.\<close>

lemma critical_step:
  assumes "ecu_ready s" and "PWC_DW s = dw_of st t"
    and "win_step (Rte_Buffer_WinController_req_request s) (endStop_seen s) (obstacle_seen s)
      (st, t, junk) = (st', t', command)"
  shows "\<exists>r. CriticalTask_body jo je junk s = (critical_inputs s)\<lparr>GPIO_ODR := r, PWC_DW := dw_of st' t',
      WinControllerStepRunnable_cmd_command := command,
      Rte_Buffer_MotorDriver_cmd_command := command\<rparr>"
    and "st' = st \<Longrightarrow> leds (CriticalTask_body jo je junk s) = state_leds st"
proof -
  have ready: "leds_ready (critical_inputs s)"
    using assms(1) by (simp add: ecu_ready_def leds_ready_def critical_inputs_def)
  obtain s1 where pw: "power_window_controller (Rte_Buffer_WinController_req_request s)
      (endStop_seen s) (obstacle_seen s) junk (dw_of st t) (critical_inputs s)
      = (command, dw_of st' t', s1)"
    using controller_step [where req = "Rte_Buffer_WinController_req_request s"
        and es = "endStop_seen s" and ob = "obstacle_seen s" and cmd = junk and st = st and t = t
        and s = "critical_inputs s"] assms(3)
    by (auto split: prod.splits)
  obtain r where s1: "s1 = (critical_inputs s)\<lparr>GPIO_ODR := r\<rparr>"
    using controller_only_odr [OF ready pw] by (auto simp: only_odr_def)
  have body: "CriticalTask_body jo je junk s = s1\<lparr>PWC_DW := dw_of st' t',
      WinControllerStepRunnable_cmd_command := command,
      Rte_Buffer_MotorDriver_cmd_command := command\<rparr>"
    using assms(1) by (simp add: CriticalTask_body_eq assms(2) pw)
  then show "\<exists>r. CriticalTask_body jo je junk s = (critical_inputs s)\<lparr>GPIO_ODR := r, PWC_DW := dw_of st' t',
      WinControllerStepRunnable_cmd_command := command,
      Rte_Buffer_MotorDriver_cmd_command := command\<rparr>"
    by (auto simp: s1)
  show "leds (CriticalTask_body jo je junk s) = state_leds st" if "st' = st"
    using settled_leds [OF _ ready] pw that by (simp add: body leds_def)
qed

section \<open>The step task\<close>

text \<open>The request the joystick stands for; a failed bus is the neutral request.\<close>

definition joystick_request :: "'a Ioe_scheme \<Rightarrow> requestType" where
  "joystick_request s = joy_request (fst (IOE_JoyStickGetState s))"

lemma joystick_request_bus_failure:
  "\<not> i2c_answers s IOE_2_ADDR IOE_REG_GPIO_MP_STA \<Longrightarrow> joystick_request s = request_neutral"
  by (simp add: joystick_request_def JoyStick_value joy_request_def)

lemma joystick_request_range: "joystick_request s \<in> {0, 1, 2, 3, 4}"
  by (simp add: joystick_request_def joy_request_def split: JOYState_TypeDef.split)

lemma Switch_runnable:
  "\<exists>t j. Rte_Switch_SwitchRunnable s = s\<lparr>IOE_TimeOut := t, JoyState := j,
      SwitchRunnable_req_request := joystick_request s,
      Rte_Buffer_WinArbitrator_req_d_request := joystick_request s\<rparr>"
proof -
  obtain t where "snd (IOE_JoyStickGetState s) = s\<lparr>IOE_TimeOut := t\<rparr>" using JoyStick_state by blast
  then show ?thesis
    by (auto simp: Rte_Switch_SwitchRunnable_def SwitchRunnable_def joystick_request_def Let_def
        connector_defs case_prod_unfold)
qed

text \<open>The truth table as it stands, and with the neutral passenger: the driver's request.\<close>

lemma PWC_WinArbitrator_eq:
  "PWC_WinArbitrator u v y = (if u = 0 \<and> v = 1 then v else u)"
  by (auto simp: PWC_WinArbitrator_def Let_def)

lemma Arbitrator_runnable:
  "Rte_WinArbitrator_WinArbitratorRunnable s =
     (let u = Rte_Buffer_WinArbitrator_req_d_request s
      in s\<lparr>WinArbitratorRunnable_req_d_request := u, PWC_B_y := u,
           WinArbitratorRunnable_req_a_request := u, Rte_Buffer_WinController_req_request := u\<rparr>)"
  by (simp add: Rte_WinArbitrator_WinArbitratorRunnable_def WinArbitratorRunnable_def
      PWC_WinArbitrator_eq connector_defs Let_def)


section \<open>The motor driver\<close>

text \<open>The levels of the two motor lines for a command, and what a tester's hold makes of them.\<close>

fun motor_levels :: "commandType \<Rightarrow> bool \<times> bool" where
  "motor_levels c = (c = command_down, c = command_up)"

definition held_levels :: "'a IoHwAb_scheme \<Rightarrow> bool \<times> bool \<Rightarrow> bool \<times> bool" where
  "held_levels s = (\<lambda>(a, b).
     (if IoHwAb_MOTOR_1_Locked s then IoHwAb_MOTOR_1_Saved s = STD_HIGH else a,
      if IoHwAb_MOTOR_2_Locked s then IoHwAb_MOTOR_2_Saved s = STD_HIGH else b))"

definition motor_pins :: "'a Dio_scheme \<Rightarrow> bool \<times> bool" where
  "motor_pins s = (dio_level s CH_LED_1, dio_level s CH_LED_2)"

lemma motor_writes:
  assumes "leds_ready s" and "IS_VALID_DIO_LEVEL v" and "IS_VALID_DIO_LEVEL w"
  shows "\<exists>r a b. snd (IoHwAb_Digital_Write_MOTOR_2 w (snd (IoHwAb_Digital_Write_MOTOR_1 v s)))
      = s\<lparr>GPIO_ODR := r, IoHwAb_MOTOR_1_Saved := a, IoHwAb_MOTOR_2_Saved := b\<rparr>"
    and "motor_pins (snd (IoHwAb_Digital_Write_MOTOR_2 w (snd (IoHwAb_Digital_Write_MOTOR_1 v s))))
      = held_levels s (v = STD_HIGH, w = STD_HIGH)"
proof -
  have r1: "dio_ready s CH_LED_1" and r2: "dio_ready s CH_LED_2"
    using assms(1) by (simp_all add: leds_ready_def)
  obtain r a where s1: "snd (IoHwAb_Digital_Write_MOTOR_1 v s) = s\<lparr>GPIO_ODR := r, IoHwAb_MOTOR_1_Saved := a\<rparr>"
    using motor_write_only_odr(1) [OF assms(2) r1] by blast
  have r2': "dio_ready (snd (IoHwAb_Digital_Write_MOTOR_1 v s)) CH_LED_2"
    using r2 by (simp add: s1)
  obtain r' b where "snd (IoHwAb_Digital_Write_MOTOR_2 w (snd (IoHwAb_Digital_Write_MOTOR_1 v s)))
      = s\<lparr>GPIO_ODR := r, IoHwAb_MOTOR_1_Saved := a\<rparr>\<lparr>GPIO_ODR := r', IoHwAb_MOTOR_2_Saved := b\<rparr>"
    using motor_write_only_odr(2) [OF assms(3) r2'] s1 by fastforce
  also have "\<dots> = s\<lparr>GPIO_ODR := r', IoHwAb_MOTOR_1_Saved := a, IoHwAb_MOTOR_2_Saved := b\<rparr>"
    by simp
  finally show "\<exists>r a b. snd (IoHwAb_Digital_Write_MOTOR_2 w (snd (IoHwAb_Digital_Write_MOTOR_1 v s)))
      = s\<lparr>GPIO_ODR := r, IoHwAb_MOTOR_1_Saved := a, IoHwAb_MOTOR_2_Saved := b\<rparr>"
    by blast
  have "IoHwAb_MOTOR_2_Locked (snd (IoHwAb_Digital_Write_MOTOR_1 v s)) = IoHwAb_MOTOR_2_Locked s"
    and "IoHwAb_MOTOR_2_Saved (snd (IoHwAb_Digital_Write_MOTOR_1 v s)) = IoHwAb_MOTOR_2_Saved s"
    by (simp_all add: s1)
  moreover have "dio_level (snd (IoHwAb_Digital_Write_MOTOR_2 w (snd (IoHwAb_Digital_Write_MOTOR_1 v s)))) CH_LED_1
      = dio_level (snd (IoHwAb_Digital_Write_MOTOR_1 v s)) CH_LED_1"
    by (simp add: IoHwAb_Digital_Write_MOTOR_2_def Let_def dio_out.lvl_other)
  ultimately show "motor_pins (snd (IoHwAb_Digital_Write_MOTOR_2 w (snd (IoHwAb_Digital_Write_MOTOR_1 v s))))
      = held_levels s (v = STD_HIGH, w = STD_HIGH)"
    using motor_1.wr_valid [OF r1 assms(2)] motor_2.wr_valid [OF r2' assms(3)]
    by (simp add: motor_pins_def held_levels_def)
qed

lemma valid_levels [simp]: "IS_VALID_DIO_LEVEL 0" "IS_VALID_DIO_LEVEL 1"
  by (simp_all add: IS_VALID_DIO_LEVEL_def)

lemma Motor_runnable:
  assumes "leds_ready s"
  shows "\<exists>r a b. Rte_MotorDriver_MotorDriverRunnable s =
      s\<lparr>MotorDriverRunnable_cmd_command := Rte_Buffer_MotorDriver_cmd_command s,
        GPIO_ODR := r, IoHwAb_MOTOR_1_Saved := a, IoHwAb_MOTOR_2_Saved := b\<rparr>"
    and "motor_pins (Rte_MotorDriver_MotorDriverRunnable s) =
      (if Rte_Buffer_MotorDriver_cmd_command s \<in> {0, 1, 2}
       then held_levels s (motor_levels (Rte_Buffer_MotorDriver_cmd_command s))
       else motor_pins s)"
proof -
  let ?c = "Rte_Buffer_MotorDriver_cmd_command s"
  let ?s = "s\<lparr>MotorDriverRunnable_cmd_command := ?c\<rparr>"
  have ready: "leds_ready ?s" using assms by (simp add: leds_ready_def)
  have held: "held_levels (s\<lparr>MotorDriverRunnable_cmd_command := c\<rparr>) = held_levels s" for c
    by (simp add: held_levels_def fun_eq_iff)
  have pins: "motor_pins ?s = motor_pins s" by (simp add: motor_pins_def)
  have run: "Rte_MotorDriver_MotorDriverRunnable s = MotorDriverRunnable ?s"
    by (simp add: Rte_MotorDriver_MotorDriverRunnable_def connector_defs)
  note w = motor_writes [OF ready valid_levels(1) valid_levels(1)]
    motor_writes [OF ready valid_levels(2) valid_levels(1)]
    motor_writes [OF ready valid_levels(1) valid_levels(2)]
  show "\<exists>r a b. Rte_MotorDriver_MotorDriverRunnable s =
      s\<lparr>MotorDriverRunnable_cmd_command := ?c,
        GPIO_ODR := r, IoHwAb_MOTOR_1_Saved := a, IoHwAb_MOTOR_2_Saved := b\<rparr>"
  proof (cases "?c = 0 \<or> ?c = 1 \<or> ?c = 2")
    case True
    with w(1,3,5) show ?thesis
      by (elim disjE) (simp_all add: run MotorDriverRunnable_def rte_io_defs)
  next
    case False
    then have "MotorDriverRunnable ?s = ?s" by (simp add: MotorDriverRunnable_def)
    then show ?thesis
      by (intro exI [of _ "GPIO_ODR s"] exI [of _ "IoHwAb_MOTOR_1_Saved s"]
          exI [of _ "IoHwAb_MOTOR_2_Saved s"]) (simp add: run)
  qed
  show "motor_pins (Rte_MotorDriver_MotorDriverRunnable s) =
      (if ?c \<in> {0, 1, 2} then held_levels s (motor_levels ?c) else motor_pins s)"
  proof (cases "?c = 0 \<or> ?c = 1 \<or> ?c = 2")
    case True
    with w(2,4,6) show ?thesis
      by (elim disjE) (simp_all add: run MotorDriverRunnable_def rte_io_defs held)
  next
    case False
    then have "MotorDriverRunnable ?s = ?s" by (simp add: MotorDriverRunnable_def)
    with False pins show ?thesis by (simp add: run)
  qed
qed

lemma step_task:
  assumes "leds_ready s"
  shows "\<exists>t j r a b. StepTask_body s =
      s\<lparr>IOE_TimeOut := t, JoyState := j, SwitchRunnable_req_request := joystick_request s,
        Rte_Buffer_WinArbitrator_req_d_request := joystick_request s,
        WinArbitratorRunnable_req_d_request := joystick_request s, PWC_B_y := joystick_request s,
        WinArbitratorRunnable_req_a_request := joystick_request s,
        Rte_Buffer_WinController_req_request := joystick_request s,
        MotorDriverRunnable_cmd_command := Rte_Buffer_MotorDriver_cmd_command s,
        GPIO_ODR := r, IoHwAb_MOTOR_1_Saved := a, IoHwAb_MOTOR_2_Saved := b\<rparr>"
    and "motor_pins (StepTask_body s) =
      (if Rte_Buffer_MotorDriver_cmd_command s \<in> {0, 1, 2}
       then held_levels s (motor_levels (Rte_Buffer_MotorDriver_cmd_command s))
       else motor_pins s)"
proof -
  obtain t j where sw: "Rte_Switch_SwitchRunnable s = s\<lparr>IOE_TimeOut := t, JoyState := j,
      SwitchRunnable_req_request := joystick_request s,
      Rte_Buffer_WinArbitrator_req_d_request := joystick_request s\<rparr>"
    using Switch_runnable by blast
  let ?s = "Rte_WinArbitrator_WinArbitratorRunnable (Rte_Switch_SwitchRunnable s)"
  have eq: "?s = s\<lparr>IOE_TimeOut := t, JoyState := j,
      SwitchRunnable_req_request := joystick_request s,
      Rte_Buffer_WinArbitrator_req_d_request := joystick_request s,
      WinArbitratorRunnable_req_d_request := joystick_request s, PWC_B_y := joystick_request s,
      WinArbitratorRunnable_req_a_request := joystick_request s,
      Rte_Buffer_WinController_req_request := joystick_request s\<rparr>"
    by (simp add: sw Arbitrator_runnable Let_def)
  have ready: "leds_ready ?s" using assms by (simp add: eq leds_ready_def)
  have cmd: "Rte_Buffer_MotorDriver_cmd_command ?s = Rte_Buffer_MotorDriver_cmd_command s"
    by (simp add: eq)
  obtain r a b where run: "Rte_MotorDriver_MotorDriverRunnable ?s =
      ?s\<lparr>MotorDriverRunnable_cmd_command := Rte_Buffer_MotorDriver_cmd_command ?s,
        GPIO_ODR := r, IoHwAb_MOTOR_1_Saved := a, IoHwAb_MOTOR_2_Saved := b\<rparr>"
    using Motor_runnable(1) [OF ready] by blast
  then show "\<exists>t j r a b. StepTask_body s =
      s\<lparr>IOE_TimeOut := t, JoyState := j, SwitchRunnable_req_request := joystick_request s,
        Rte_Buffer_WinArbitrator_req_d_request := joystick_request s,
        WinArbitratorRunnable_req_d_request := joystick_request s, PWC_B_y := joystick_request s,
        WinArbitratorRunnable_req_a_request := joystick_request s,
        Rte_Buffer_WinController_req_request := joystick_request s,
        MotorDriverRunnable_cmd_command := Rte_Buffer_MotorDriver_cmd_command s,
        GPIO_ODR := r, IoHwAb_MOTOR_1_Saved := a, IoHwAb_MOTOR_2_Saved := b\<rparr>"
    unfolding StepTask_body_def run cmd unfolding eq by blast
  have "held_levels ?s = held_levels s" "motor_pins ?s = motor_pins s"
    by (simp_all add: eq held_levels_def motor_pins_def fun_eq_iff)
  with Motor_runnable(2) [OF ready]
  show "motor_pins (StepTask_body s) =
      (if Rte_Buffer_MotorDriver_cmd_command s \<in> {0, 1, 2}
       then held_levels s (motor_levels (Rte_Buffer_MotorDriver_cmd_command s))
       else motor_pins s)"
    by (simp only: StepTask_body_def cmd)
qed

end
