(* ===== verification/PwcSystem.thy ===== *)
theory PwcSystem
  imports Pwc
begin

text \<open>
  The running system: the step task goes through its three runnables in turn, the critical
  task, which has the higher priority, may run between any two of them, the main task, which
  the kernel starts once, at any moment, the environment moves
  the pins and the joystick, a tester takes signals over and hands them back.  Preemption is
  at the granularity of runnables and of the main task's body.  The invariant holds in every reachable state; the
  properties below it are about what reaches the motor lines.
\<close>

section \<open>Steps\<close>

datatype step_pc = SwitchNext | ArbitratorNext | MotorNext

inductive sys_step :: "step_pc \<times> Pwc \<Rightarrow> step_pc \<times> Pwc \<Rightarrow> bool" where
  critical: "sys_step (pc, s) (pc, CriticalTask_body jo je junk s)"
| main: "sys_step (pc, s) (pc, OsTask_Main s)"
| switch: "sys_step (SwitchNext, s) (ArbitratorNext, Rte_Switch_SwitchRunnable s)"
| arbitrate: "sys_step (ArbitratorNext, s) (MotorNext, Rte_WinArbitrator_WinArbitratorRunnable s)"
| motor: "sys_step (MotorNext, s) (SwitchNext, Rte_MotorDriver_MotorDriverRunnable s)"
| world: "sys_step (pc, s) (pc, s\<lparr>GPIO_IDR := pins, I2C_polls := polls, IOE_regs := regs\<rparr>)"
| test_motor_1: "sys_step (pc, s) (pc, snd (IoHwAb_Dcm_MOTOR_1 action v s))"
| test_motor_2: "sys_step (pc, s) (pc, snd (IoHwAb_Dcm_MOTOR_2 action v s))"
| test_endStop: "sys_step (pc, s) (pc, snd (IoHwAb_Dcm_EndStop action v s))"
| test_obstacle: "sys_step (pc, s) (pc, snd (IoHwAb_Dcm_Obstacle action v s))"

inductive_simps sys_step_simps: "sys_step (pc, s) (pc', s')"

text \<open>The state the tasks start from: drivers initialised, statics zero.\<close>

definition boot_state :: "Pwc \<Rightarrow> bool" where
  "boot_state s \<longleftrightarrow> ecu_ready s \<and> PWC_DW s = PWC_DW_init
     \<and> Rte_Buffer_WinArbitrator_req_d_request s = 0 \<and> Rte_Buffer_WinController_req_request s = 0
     \<and> Rte_Buffer_WinController_endStop_isPresent s = 0
     \<and> Rte_Buffer_WinController_obstacle_isPresent s = 0"

inductive reachable :: "Pwc \<Rightarrow> step_pc \<times> Pwc \<Rightarrow> bool" for s0 :: Pwc where
  start: "boot_state s0 \<Longrightarrow> reachable s0 (SwitchNext, s0)"
| step: "reachable s0 c \<Longrightarrow> sys_step c c' \<Longrightarrow> reachable s0 c'"

section \<open>Frame of the diagnostic functions\<close>

lemma rte_fields_more:
  assumes "IoHwAb.more (t :: 'a Pwc_scheme) = IoHwAb.more s"
  shows "PWC_DW t = PWC_DW s"
    and "Rte_Buffer_WinArbitrator_req_d_request t = Rte_Buffer_WinArbitrator_req_d_request s"
    and "Rte_Buffer_WinController_req_request t = Rte_Buffer_WinController_req_request s"
    and "Rte_Buffer_WinController_endStop_isPresent t = Rte_Buffer_WinController_endStop_isPresent s"
    and "Rte_Buffer_WinController_obstacle_isPresent t = Rte_Buffer_WinController_obstacle_isPresent s"
  using assms by (cases s; cases t; simp)+

lemma motor_write_more:
  "IoHwAb.more (snd (IoHwAb_Digital_Write_MOTOR_1 v s)) = IoHwAb.more s"
  "IoHwAb.more (snd (IoHwAb_Digital_Write_MOTOR_2 v s)) = IoHwAb.more s"
  "dio_ready (snd (IoHwAb_Digital_Write_MOTOR_1 v s)) = dio_ready s"
  "dio_ready (snd (IoHwAb_Digital_Write_MOTOR_2 v s)) = dio_ready s"
  by (simp_all add: IoHwAb_Digital_Write_MOTOR_1_def IoHwAb_Digital_Write_MOTOR_2_def Let_def
      fun_eq_iff)

lemma Dcm_motor_frame:
  "IoHwAb.more (snd (IoHwAb_Dcm_MOTOR_1 a v s)) = IoHwAb.more s"
  "IoHwAb.more (snd (IoHwAb_Dcm_MOTOR_2 a v s)) = IoHwAb.more s"
  "dio_ready (snd (IoHwAb_Dcm_MOTOR_1 a v s)) = dio_ready s"
  "dio_ready (snd (IoHwAb_Dcm_MOTOR_2 a v s)) = dio_ready s"
  by (simp_all add: IoHwAb_Dcm_MOTOR_1_def IoHwAb_Dcm_MOTOR_2_def Let_def case_prod_unfold
      motor_write_more fun_eq_iff)

lemma ReadChannel_iohwab_more: "IoHwAb.more (snd (Dio_ReadChannel c s)) = IoHwAb.more s"
  by (simp add: Dio_ReadChannel_def Dio_ReadPort_def Let_def)

lemma Dcm_input_more:
  "IoHwAb.more (snd (IoHwAb_Dcm_EndStop a v s)) = IoHwAb.more s"
  "IoHwAb.more (snd (IoHwAb_Dcm_Obstacle a v s)) = IoHwAb.more s"
  by (simp_all add: IoHwAb_Dcm_EndStop_def IoHwAb_Dcm_Obstacle_def Let_def case_prod_unfold
      IoHwAb_Digital_Read_EndStop_def IoHwAb_Digital_Read_Obstacle_def iohwab_read_checks_def
      ReadChannel_iohwab_more split: option.split)

section \<open>The invariant\<close>

definition sys_inv :: "Pwc \<Rightarrow> bool" where
  "sys_inv s \<longleftrightarrow> ecu_ready s
     \<and> (\<exists>st t. PWC_DW s = dw_of st t \<and> timer_ok (st, t))
     \<and> Rte_Buffer_WinArbitrator_req_d_request s \<in> {0, 1, 2, 3, 4}
     \<and> Rte_Buffer_WinController_req_request s \<in> {0, 1, 2, 3, 4}
     \<and> Rte_Buffer_WinController_endStop_isPresent s \<in> {0, 1}
     \<and> Rte_Buffer_WinController_obstacle_isPresent s \<in> {0, 1}"

lemma sys_inv_more:
  assumes "IoHwAb.more t = IoHwAb.more s" and "dio_ready t = dio_ready s" and "sys_inv s"
  shows "sys_inv t"
  using assms(3) rte_fields_more [OF assms(1)] ecu_ready_cong [OF assms(2)]
  by (simp add: sys_inv_def)

lemma win_step_timer_ok:
  assumes "win_step req es ob (st, t, c) = (st', t', c')"
  shows "timer_ok (st', t')"
  using timer_ok_move [of "\<lparr>wi_req = req, wi_endStop = es, wi_obstacle = ob, wi_cell = 0\<rparr>" "(st, t)"]
    assms by (auto simp: win_step_def win_move_def Let_def)

lemma seen_range: "endStop_seen s \<in> {0, 1}" "obstacle_seen s \<in> {0, 1}"
  by (simp_all add: endStop_seen_def obstacle_seen_def)

lemma ecu_ready_critical_inputs [simp]:
  "dio_ready (critical_inputs s) = dio_ready s"
  by (simp add: critical_inputs_def)

lemma sys_inv_critical:
  assumes "sys_inv s"
  shows "sys_inv (CriticalTask_body jo je junk s)"
proof -
  obtain st t where dw: "PWC_DW s = dw_of st t" using assms by (auto simp: sys_inv_def)
  obtain st' t' c where ws: "win_step (Rte_Buffer_WinController_req_request s) (endStop_seen s)
      (obstacle_seen s) (st, t, junk) = (st', t', c)"
    by (metis prod_cases3)
  have "ecu_ready s" using assms by (simp add: sys_inv_def)
  from critical_step(1) [OF this dw ws]
  obtain r where eq: "CriticalTask_body jo je junk s = (critical_inputs s)\<lparr>GPIO_ODR := r,
      PWC_DW := dw_of st' t', WinControllerStepRunnable_cmd_command := c,
      Rte_Buffer_MotorDriver_cmd_command := c\<rparr>"
    by blast
  have "ecu_ready (CriticalTask_body jo je junk s) = ecu_ready s"
    by (rule ecu_ready_cong) (simp add: eq fun_eq_iff)
  with assms win_step_timer_ok [OF ws] seen_range [of s] show ?thesis
    by (auto simp: sys_inv_def eq critical_inputs_def)
qed

lemma sys_inv_switch:
  assumes "sys_inv s"
  shows "sys_inv (Rte_Switch_SwitchRunnable s)"
proof -
  obtain t j where eq: "Rte_Switch_SwitchRunnable s = s\<lparr>IOE_TimeOut := t, JoyState := j,
      SwitchRunnable_req_request := joystick_request s,
      Rte_Buffer_WinArbitrator_req_d_request := joystick_request s\<rparr>"
    using Switch_runnable by blast
  have "ecu_ready (Rte_Switch_SwitchRunnable s) = ecu_ready s"
    by (rule ecu_ready_cong) (simp add: eq)
  with assms joystick_request_range [of s] show ?thesis by (simp add: sys_inv_def eq)
qed

lemma sys_inv_arbitrate:
  assumes "sys_inv s"
  shows "sys_inv (Rte_WinArbitrator_WinArbitratorRunnable s)"
proof -
  have "ecu_ready (Rte_WinArbitrator_WinArbitratorRunnable s) = ecu_ready s"
    by (rule ecu_ready_cong) (simp add: Arbitrator_runnable Let_def)
  with assms show ?thesis by (simp add: sys_inv_def Arbitrator_runnable Let_def)
qed

lemma sys_inv_motor:
  assumes "sys_inv s"
  shows "sys_inv (Rte_MotorDriver_MotorDriverRunnable s)"
proof -
  have "leds_ready s" using assms by (simp add: sys_inv_def ecu_ready_def)
  then obtain r a b where eq: "Rte_MotorDriver_MotorDriverRunnable s =
      s\<lparr>MotorDriverRunnable_cmd_command := Rte_Buffer_MotorDriver_cmd_command s,
        GPIO_ODR := r, IoHwAb_MOTOR_1_Saved := a, IoHwAb_MOTOR_2_Saved := b\<rparr>"
    using Motor_runnable(1) by blast
  have "ecu_ready (Rte_MotorDriver_MotorDriverRunnable s) = ecu_ready s"
    by (rule ecu_ready_cong) (simp add: eq fun_eq_iff)
  with assms show ?thesis by (simp add: sys_inv_def eq)
qed

text \<open>The main task changes the expander driver's counter and the two motor outputs only.\<close>

lemma ioe_timeout_ready [simp]: "leds_ready ((s :: 'a Pwc_scheme)\<lparr>IOE_TimeOut := t\<rparr>) = leds_ready s"
  by (simp add: leds_ready_def)

lemma Main_state:
  assumes "leds_ready (s :: 'a Pwc_scheme)"
  shows "\<exists>t r a b. OsTask_Main s = s\<lparr>IOE_TimeOut := t, GPIO_ODR := r,
      IoHwAb_MOTOR_1_Saved := a, IoHwAb_MOTOR_2_Saved := b\<rparr>"
    and "fst (IOE_Config_status s) = IOE_OK \<Longrightarrow>
      motor_pins (OsTask_Main s) = held_levels s (True, True)"
proof -
  obtain t where t: "snd (IOE_Config_status s) = s\<lparr>IOE_TimeOut := t\<rparr>"
    using IOE_Config_state by blast
  let ?s = "s\<lparr>IOE_TimeOut := t\<rparr>"
  have ready: "leds_ready ?s" using assms by simp
  note w = motor_writes [OF ready valid_levels(2) valid_levels(2)]
  have held: "held_levels ?s = held_levels s" by (simp add: held_levels_def fun_eq_iff)
  show "\<exists>t r a b. OsTask_Main s = s\<lparr>IOE_TimeOut := t, GPIO_ODR := r,
      IoHwAb_MOTOR_1_Saved := a, IoHwAb_MOTOR_2_Saved := b\<rparr>"
  proof (cases "fst (IOE_Config_status s) = IOE_OK")
    case True
    with w(1) t show ?thesis by (auto simp: OsTask_Main_def case_prod_unfold)
  next
    case False
    with t show ?thesis
      by (intro exI [of _ t] exI [of _ "GPIO_ODR s"] exI [of _ "IoHwAb_MOTOR_1_Saved s"]
          exI [of _ "IoHwAb_MOTOR_2_Saved s"]) (simp add: OsTask_Main_def case_prod_unfold)
  qed
  show "motor_pins (OsTask_Main s) = held_levels s (True, True)"
    if "fst (IOE_Config_status s) = IOE_OK"
    using w(2) that t held by (simp add: OsTask_Main_def case_prod_unfold)
qed

lemma sys_inv_main:
  assumes "sys_inv s"
  shows "sys_inv (OsTask_Main s)"
proof -
  have "leds_ready s" using assms by (simp add: sys_inv_def ecu_ready_def)
  then obtain t r a b where eq: "OsTask_Main s = s\<lparr>IOE_TimeOut := t, GPIO_ODR := r,
      IoHwAb_MOTOR_1_Saved := a, IoHwAb_MOTOR_2_Saved := b\<rparr>"
    using Main_state(1) by blast
  have "ecu_ready (OsTask_Main s) = ecu_ready s"
    by (rule ecu_ready_cong) (simp add: eq fun_eq_iff)
  with assms show ?thesis by (simp add: sys_inv_def eq)
qed

lemma ioe_env_ready [simp]:
  "dio_ready (I2C_polls_update f s) = dio_ready s"
  "dio_ready (IOE_regs_update g s) = dio_ready s"
  by (rule dio_ready_cong; simp)+

lemma sys_inv_world:
  assumes "sys_inv s"
  shows "sys_inv (s\<lparr>GPIO_IDR := pins, I2C_polls := polls, IOE_regs := regs\<rparr>)"
proof -
  have "ecu_ready (s\<lparr>GPIO_IDR := pins, I2C_polls := polls, IOE_regs := regs\<rparr>) = ecu_ready s"
    by (rule ecu_ready_cong) simp
  with assms show ?thesis by (simp add: sys_inv_def)
qed

lemma sys_inv_tester:
  assumes "sys_inv s"
  shows "sys_inv (snd (IoHwAb_Dcm_MOTOR_1 a v s))" and "sys_inv (snd (IoHwAb_Dcm_MOTOR_2 a v s))"
    and "sys_inv (snd (IoHwAb_Dcm_EndStop a v s))" and "sys_inv (snd (IoHwAb_Dcm_Obstacle a v s))"
  by (rule sys_inv_more [OF _ _ assms];
      simp add: Dcm_motor_frame Dcm_input_more Dcm_input_ready fun_eq_iff)+

lemma sys_inv_step: "sys_step (pc, s) (pc', s') \<Longrightarrow> sys_inv s \<Longrightarrow> sys_inv s'"
  by (auto simp: sys_step_simps intro: sys_inv_critical sys_inv_switch sys_inv_arbitrate
      sys_inv_motor sys_inv_main sys_inv_world sys_inv_tester)

lemma sys_inv_boot: "boot_state s \<Longrightarrow> sys_inv s"
  by (auto simp: boot_state_def sys_inv_def PWC_DW_init_Inactive timer_ok_def moving_def
      intro!: exI [of _ Inactive] exI [of _ "0 :: u8"])

lemma reachable_sys_inv: "reachable s0 (pc, s) \<Longrightarrow> sys_inv s"
proof (induction "(pc, s)" arbitrary: pc s rule: reachable.induct)
  case start
  then show ?case by (rule sys_inv_boot)
next
  case (step c)
  then show ?case by (cases c) (auto intro: sys_inv_step)
qed

text \<open>C1: In every state the system reaches, whatever the interleaving of the three tasks, the pins,
  the joystick, the bus failures, the tester and the uninitialised locals are: the drivers
  stay ready, the chart's block state is the encoding of one of the twelve states with the
  movement timer in its range, the request connectors hold one of the five requests and the
  two monitors' connectors hold a boolean.\<close>

theorem system_invariant:
  assumes "reachable s0 (pc, s)"
  shows "sys_inv s"
  using assms by (rule reachable_sys_inv)

section \<open>A concrete system\<close>

definition pwc_boot :: Pwc where
  "pwc_boot = ioe_boot (\<lambda>_ _. []) (\<lambda>_ _. 0xF8)
     \<lparr>PWC_DW = PWC_DW_init, PWC_B_y = 0, JoyState = JOY_NONE\<rparr>"

lemma pwc_boot_ready: "ecu_ready pwc_boot"
  by (auto simp: pwc_boot_def ecu_ready_def leds_ready_def board_channels_def
      intro!: ioe_boot_ready)

lemma pwc_boot_start: "reachable pwc_boot (SwitchNext, pwc_boot)"
  by (rule reachable.start) (simp add: boot_state_def pwc_boot_ready, simp add: pwc_boot_def ioe_boot_def)

lemma system_invariant_witness:
  "sys_inv (Rte_Switch_SwitchRunnable (CriticalTask_body (7, 7) (7, 7) 7 pwc_boot))"
proof -
  have "reachable pwc_boot (SwitchNext, CriticalTask_body (7, 7) (7, 7) 7 pwc_boot)"
    by (rule reachable.step [OF pwc_boot_start sys_step.critical])
  then have "reachable pwc_boot (ArbitratorNext, Rte_Switch_SwitchRunnable (CriticalTask_body (7, 7) (7, 7) 7 pwc_boot))"
    by (rule reachable.step [OF _ sys_step.switch])
  then show ?thesis by (rule system_invariant)
qed


section \<open>Properties of the tasks\<close>

lemma seen_cong:
  "IoHwAb_EndStop_Locked t = IoHwAb_EndStop_Locked s \<Longrightarrow>
     IoHwAb_EndStop_Saved t = IoHwAb_EndStop_Saved s \<Longrightarrow> GPIO_IDR t = GPIO_IDR s \<Longrightarrow>
     endStop_seen t = endStop_seen s"
  "IoHwAb_Obstacle_Locked t = IoHwAb_Obstacle_Locked s \<Longrightarrow>
     IoHwAb_Obstacle_Saved t = IoHwAb_Obstacle_Saved s \<Longrightarrow> GPIO_IDR t = GPIO_IDR s \<Longrightarrow>
     obstacle_seen t = obstacle_seen s"
  by (simp_all add: endStop_seen_def obstacle_seen_def dio_input_def)

text \<open>What a tester holds: the locks and the saved levels of the four signals.\<close>

definition tester_holds :: "Pwc \<Rightarrow> (bool \<times> u8) list" where
  "tester_holds s =
     [(IoHwAb_EndStop_Locked s, IoHwAb_EndStop_Saved s),
      (IoHwAb_Obstacle_Locked s, IoHwAb_Obstacle_Saved s),
      (IoHwAb_MOTOR_1_Locked s, IoHwAb_MOTOR_1_Saved s),
      (IoHwAb_MOTOR_2_Locked s, IoHwAb_MOTOR_2_Saved s)]"

text \<open>C5: One activation of the critical task refines one step of the automaton: with the
  drivers ready, the chart's new block state and the command left in the motor driver's
  connector are those of the abstract step on the request in the controller's connector and on
  what the two monitors see on their pins (or what a tester holds) in this very activation;
  the request in the connector, the input pins, and the lock and the saved level of each of
  the four signals a tester can hold are left alone.\<close>

theorem critical_task_refines_chart:
  assumes "ecu_ready s" and "PWC_DW s = dw_of st t"
    and "win_step (Rte_Buffer_WinController_req_request s) (endStop_seen s) (obstacle_seen s)
      (st, t, junk) = (st', t', command)"
  shows "PWC_DW (CriticalTask_body jo je junk s) = dw_of st' t'
    \<and> Rte_Buffer_MotorDriver_cmd_command (CriticalTask_body jo je junk s) = command
    \<and> Rte_Buffer_WinController_req_request (CriticalTask_body jo je junk s)
        = Rte_Buffer_WinController_req_request s
    \<and> tester_holds (CriticalTask_body jo je junk s) = tester_holds s
    \<and> GPIO_IDR (CriticalTask_body jo je junk s) = GPIO_IDR s
    \<and> endStop_seen (CriticalTask_body jo je junk s) = endStop_seen s
    \<and> obstacle_seen (CriticalTask_body jo je junk s) = obstacle_seen s"
proof -
  obtain r where eq: "CriticalTask_body jo je junk s = (critical_inputs s)\<lparr>GPIO_ODR := r,
      PWC_DW := dw_of st' t', WinControllerStepRunnable_cmd_command := command,
      Rte_Buffer_MotorDriver_cmd_command := command\<rparr>"
    using critical_step(1) [OF assms] by blast
  have "endStop_seen (CriticalTask_body jo je junk s) = endStop_seen s"
    and "obstacle_seen (CriticalTask_body jo je junk s) = obstacle_seen s"
    by (rule seen_cong; simp add: eq critical_inputs_def)+
  then show ?thesis by (simp add: eq critical_inputs_def tester_holds_def)
qed

lemma pwc_boot_dw: "PWC_DW pwc_boot = dw_of Inactive 0"
  by (simp add: pwc_boot_def ioe_boot_def PWC_DW_init_Inactive)

lemma critical_task_refines_chart_witness:
  "PWC_DW (CriticalTask_body (7, 7) (7, 7) 7 pwc_boot) = dw_of UnknownPos 1
    \<and> Rte_Buffer_MotorDriver_cmd_command (CriticalTask_body (7, 7) (7, 7) 7 pwc_boot) = 0"
  using critical_task_refines_chart [OF pwc_boot_ready pwc_boot_dw, where junk = 7]
  by (simp add: win_step_def win_timer_def tick_timer_def Let_def)

text \<open>C12: One pass of the step task: the joystick's request arrives in the controller's connector
  (the passenger's port being unconnected), a failed bus arrives as the neutral request, and
  for a command of the enumeration the two motor lines take that command's levels, or the
  levels a tester holds; with no tester the two lines are never high together.\<close>

theorem step_task_end_to_end:
  assumes "ecu_ready s"
  shows "Rte_Buffer_WinController_req_request (StepTask_body s) = joystick_request s
    \<and> (\<not> i2c_answers s IOE_2_ADDR IOE_REG_GPIO_MP_STA
        \<longrightarrow> Rte_Buffer_WinController_req_request (StepTask_body s) = request_neutral)
    \<and> (Rte_Buffer_MotorDriver_cmd_command s \<in> {0, 1, 2} \<longrightarrow>
        motor_pins (StepTask_body s)
          = held_levels s (motor_levels (Rte_Buffer_MotorDriver_cmd_command s))
        \<and> (\<not> IoHwAb_MOTOR_1_Locked s \<and> \<not> IoHwAb_MOTOR_2_Locked s
            \<longrightarrow> motor_pins (StepTask_body s) \<noteq> (True, True)))"
proof -
  have leds: "leds_ready s" using assms by (simp add: ecu_ready_def)
  have "Rte_Buffer_WinController_req_request (StepTask_body s) = joystick_request s"
    using step_task(1) [OF leds] by auto
  with step_task(2) [OF leds] show ?thesis
    by (auto simp: joystick_request_bus_failure held_levels_def)
qed

lemma step_task_end_to_end_witness:
  "motor_pins (StepTask_body pwc_boot) = (False, False)"
  using step_task_end_to_end [OF pwc_boot_ready]
  by (simp add: pwc_boot_def ioe_boot_def held_levels_def)

text \<open>C8: The end stop reaches the motors: whenever the chart of a reachable state is moving or
  retracting and the end stop is seen, one activation of the critical task followed by the
  motor driver switches both motor lines off (or to what a tester holds), whatever the request,
  the obstacle input and the uninitialised locals are.\<close>

theorem end_stop_switches_motors_off:
  assumes "reachable s0 (pc, s)" and "is_winStates (PWC_DW s) \<in> {3, 4, 5}"
    and "endStop_seen s = 1"
  shows "motor_pins (Rte_MotorDriver_MotorDriverRunnable (CriticalTask_body jo je junk s))
      = held_levels s (False, False)
    \<and> is_winStates (PWC_DW (CriticalTask_body jo je junk s)) = 1"
proof -
  have inv: "sys_inv s" "sys_inv (CriticalTask_body jo je junk s)"
    using reachable.step [OF assms(1) sys_step.critical [of pc s jo je junk]] assms(1)
    by (auto elim: reachable_sys_inv)
  obtain st t where dw: "PWC_DW s = dw_of st t" using inv(1) by (auto simp: sys_inv_def)
  have ready: "ecu_ready s" "leds_ready (CriticalTask_body jo je junk s)"
    using inv by (auto simp: sys_inv_def ecu_ready_def)
  have mv: "group_of st \<in> {GDown, GUp, GRetracting}"
    using assms(2) by (cases st) (simp_all add: dw is_winStates_dw_of)
  obtain st' t' c where ws: "win_step (Rte_Buffer_WinController_req_request s) (endStop_seen s)
      (obstacle_seen s) (st, t, junk) = (st', t', c)"
    by (metis prod_cases3)
  have st': "group_of st' = GStopped \<and> c = 0"
    using ws mv assms(3) by (cases st) (auto simp: win_step_def down_exit_def up_exit_def)
  obtain r where eq: "CriticalTask_body jo je junk s = (critical_inputs s)\<lparr>GPIO_ODR := r,
      PWC_DW := dw_of st' t', WinControllerStepRunnable_cmd_command := c,
      Rte_Buffer_MotorDriver_cmd_command := c\<rparr>"
    using critical_step(1) [OF ready(1) dw ws] by blast
  have "held_levels (CriticalTask_body jo je junk s) = held_levels s"
    by (simp add: eq held_levels_def critical_inputs_def fun_eq_iff)
  with Motor_runnable(2) [OF ready(2)] st' show ?thesis
    by (simp add: eq is_winStates_dw_of)
qed

section \<open>What the code does not keep\<close>

text \<open>C15: As long as an activation does not change the chart's state group, the command that
  reaches the motor lines is the content of the uninitialised local of
  \<open>WinControllerRunnable\<close>: every command of the enumeration can come out of it, against the
  state of the chart.\<close>

theorem settled_command_is_indeterminate:
  assumes "ecu_ready s" and "PWC_DW s = dw_of st t"
    and "PWC_DW (CriticalTask_body jo je junk s) = dw_of st' t'" and "group_of st' = group_of st"
    and "junk \<in> {0, 1, 2}"
  shows "motor_pins (Rte_MotorDriver_MotorDriverRunnable (CriticalTask_body jo je junk s))
    = held_levels s (motor_levels junk)"
proof -
  obtain st2 t2 c where ws: "win_step (Rte_Buffer_WinController_req_request s) (endStop_seen s)
      (obstacle_seen s) (st, t, junk) = (st2, t2, c)"
    by (metis prod_cases3)
  obtain r where eq: "CriticalTask_body jo je junk s = (critical_inputs s)\<lparr>GPIO_ODR := r,
      PWC_DW := dw_of st2 t2, WinControllerStepRunnable_cmd_command := c,
      Rte_Buffer_MotorDriver_cmd_command := c\<rparr>"
    using critical_step(1) [OF assms(1,2) ws] by blast
  have "st2 = st'" using assms(3) by (simp add: eq dw_of_inject)
  with ws assms(4) have c: "c = junk" by (auto simp: win_step_def Let_def)
  have "held_levels (CriticalTask_body jo je junk s) = held_levels s"
    by (simp add: eq held_levels_def critical_inputs_def fun_eq_iff)
  moreover have "leds_ready (CriticalTask_body jo je junk s)"
    using assms(1) by (simp add: eq ecu_ready_def leds_ready_def)
  ultimately show ?thesis
    using Motor_runnable(2) [of "CriticalTask_body jo je junk s"] assms(5) by (simp add: eq c)
qed

text \<open>The status LEDs 1 and 2 are the motor lines: an activation that stays in the fully
  closed state leaves both motor lines high, and an activation that stays in any state
  overwrites the levels a tester holds on them.\<close>

theorem status_leds_drive_motors:
  assumes "ecu_ready s" and "PWC_DW s = dw_of st t" and "PWC_DW (CriticalTask_body jo je junk s) = dw_of st t'"
  shows "motor_pins (CriticalTask_body jo je junk s) = (fst (state_leds st), fst (snd (state_leds st)))
    \<and> (st = FullyClosed \<longrightarrow> motor_pins (CriticalTask_body jo je junk s) = (True, True))"
proof -
  obtain st2 t2 c where ws: "win_step (Rte_Buffer_WinController_req_request s) (endStop_seen s)
      (obstacle_seen s) (st, t, junk) = (st2, t2, c)"
    by (metis prod_cases3)
  have "st2 = st"
    using critical_step(1) [OF assms(1,2) ws, where jo = jo and je = je] assms(3)
    by (auto simp: dw_of_inject)
  from critical_step(2) [OF assms(1,2) ws this] show ?thesis
    by (cases st) (simp_all add: leds_def motor_pins_def)
qed


text \<open>C0: The main task drives both motor lines high at once: when the two expanders identify
  themselves, whatever the chart's state, the request and the inputs are, both lines are high
  after it (or at what a tester holds), although the chart's block state and its command have
  not changed.\<close>

theorem main_task_raises_both_motor_lines:
  assumes "ecu_ready s" and "fst (IOE_Config_status s) = IOE_OK"
  shows "motor_pins (OsTask_Main s) = held_levels s (True, True)
    \<and> PWC_DW (OsTask_Main s) = PWC_DW s
    \<and> Rte_Buffer_MotorDriver_cmd_command (OsTask_Main s) = Rte_Buffer_MotorDriver_cmd_command s"
proof -
  have leds: "leds_ready s" using assms(1) by (simp add: ecu_ready_def)
  obtain t r a b where "OsTask_Main s = s\<lparr>IOE_TimeOut := t, GPIO_ODR := r,
      IoHwAb_MOTOR_1_Saved := a, IoHwAb_MOTOR_2_Saved := b\<rparr>"
    using Main_state(1) [OF leds] by blast
  with Main_state(2) [OF leds assms(2)] show ?thesis by simp
qed

section \<open>Instances\<close>

text \<open>A run of the system to a basic downward movement: two activations of the critical task,
  the joystick pushed down, the step task up to the arbiter, one more activation.\<close>

lemma critical_fields:
  assumes "ecu_ready s" and "PWC_DW s = dw_of st t"
    and "win_step (Rte_Buffer_WinController_req_request s) (endStop_seen s) (obstacle_seen s)
      (st, t, junk) = (st', t', command)"
  shows "PWC_DW (CriticalTask_body jo je junk s) = dw_of st' t'"
    and "IoHwAb_EndStop_Locked (CriticalTask_body jo je junk s) = IoHwAb_EndStop_Locked s"
    and "IoHwAb_MOTOR_1_Locked (CriticalTask_body jo je junk s) = IoHwAb_MOTOR_1_Locked s"
    and "IoHwAb_MOTOR_2_Locked (CriticalTask_body jo je junk s) = IoHwAb_MOTOR_2_Locked s"
    and "GPIO_IDR (CriticalTask_body jo je junk s) = GPIO_IDR s"
    and "ecu_ready (CriticalTask_body jo je junk s) = ecu_ready s"
    and "I2C_polls (CriticalTask_body jo je junk s) = I2C_polls s"
proof -
  obtain r where eq: "CriticalTask_body jo je junk s = (critical_inputs s)\<lparr>GPIO_ODR := r,
      PWC_DW := dw_of st' t', WinControllerStepRunnable_cmd_command := command,
      Rte_Buffer_MotorDriver_cmd_command := command\<rparr>"
    using critical_step(1) [OF assms] by blast
  show "ecu_ready (CriticalTask_body jo je junk s) = ecu_ready s"
    by (rule ecu_ready_cong) (simp add: eq fun_eq_iff)
qed (use critical_step(1) [OF assms, where jo = jo and je = je] in \<open>auto simp: critical_inputs_def\<close>)

lemma run_to_movement:
  obtains pc s where "reachable pwc_boot (pc, s)" and "PWC_DW s = dw_of DownBsc 0"
    and "endStop_seen s = 1" and "\<not> IoHwAb_MOTOR_1_Locked s" and "\<not> IoHwAb_MOTOR_2_Locked s"
    and "ecu_ready s"
proof -
  let ?s1 = "CriticalTask_body (7, 7) (7, 7) 0 pwc_boot"
  let ?s2 = "CriticalTask_body (7, 7) (7, 7) 0 ?s1"
  let ?s3 = "?s2\<lparr>GPIO_IDR := (\<lambda>_. 0), I2C_polls := (\<lambda>_ _. []), IOE_regs := (\<lambda>_ _. 0xB8)\<rparr>"
  let ?s4 = "Rte_WinArbitrator_WinArbitratorRunnable (Rte_Switch_SwitchRunnable ?s3)"
  let ?s5 = "CriticalTask_body (7, 7) (7, 7) 0 ?s4"
  note ev = win_step_def win_timer_def tick_timer_def Let_def
  have unlocked: "\<not> IoHwAb_EndStop_Locked pwc_boot" "\<not> IoHwAb_MOTOR_1_Locked pwc_boot"
    "\<not> IoHwAb_MOTOR_2_Locked pwc_boot" by (simp_all add: pwc_boot_def ioe_boot_def)
  have w1: "win_step req es ob (Inactive, 0, 0) = (UnknownPos, 1, 0)" for req es ob
    by (simp add: ev)
  note f1 = critical_fields [OF pwc_boot_ready pwc_boot_dw w1]
  have w2: "win_step req es ob (UnknownPos, 1, 0) = (PartiallyOpen, 2, 0)" for req es ob
    by (simp add: ev)
  have ready1: "ecu_ready ?s1" using f1 pwc_boot_ready by simp
  note f2 = critical_fields [OF ready1 f1(1) w2]
  have joy: "joystick_request ?s3 = 1"
    by (simp add: joystick_request_def JoyStick_value i2c_answers_def read_budgets_def
        joy_decode_def joy_request_def)
  obtain t j where sw: "Rte_Switch_SwitchRunnable ?s3 = ?s3\<lparr>IOE_TimeOut := t, JoyState := j,
      SwitchRunnable_req_request := joystick_request ?s3,
      Rte_Buffer_WinArbitrator_req_d_request := joystick_request ?s3\<rparr>"
    using Switch_runnable by blast
  have s4: "PWC_DW ?s4 = dw_of PartiallyOpen 2" "Rte_Buffer_WinController_req_request ?s4 = 1"
    "\<not> IoHwAb_EndStop_Locked ?s4" "GPIO_IDR ?s4 = (\<lambda>_. 0)"
    "\<not> IoHwAb_MOTOR_1_Locked ?s4" "\<not> IoHwAb_MOTOR_2_Locked ?s4"
    using f1 f2 unlocked by (simp_all add: Arbitrator_runnable Let_def sw joy)
  have reach: "reachable pwc_boot (MotorNext, ?s4)"
    by (rule reachable.step [OF _ sys_step.arbitrate], rule reachable.step [OF _ sys_step.switch],
        rule reachable.step [OF _ sys_step.world], rule reachable.step [OF _ sys_step.critical],
        rule reachable.step [OF _ sys_step.critical], rule pwc_boot_start)
  then have ready4: "ecu_ready ?s4" using reachable_sys_inv by (auto simp: sys_inv_def)
  have w5: "win_step (Rte_Buffer_WinController_req_request ?s4) (endStop_seen ?s4)
      (obstacle_seen ?s4) (PartiallyOpen, 2, 0) = (DownBsc, 0, 1)"
    by (simp add: s4(2) ev)
  note f5 = critical_fields [OF ready4 s4(1) w5]
  have reach5: "reachable pwc_boot (MotorNext, ?s5)"
    by (rule reachable.step [OF reach sys_step.critical])
  show thesis
    by (rule that [OF reach5 f5(1)])
      (use f5 s4 ready4 in \<open>simp_all add: endStop_seen_def dio_input_def\<close>)
qed

lemma end_stop_switches_motors_off_witness:
  "\<exists>pc s. reachable pwc_boot (pc, s) \<and> PWC_DW s = dw_of DownBsc 0
     \<and> motor_pins (Rte_MotorDriver_MotorDriverRunnable (CriticalTask_body (7, 7) (7, 7) 2 s)) = (False, False)"
proof -
  obtain pc s where r: "reachable pwc_boot (pc, s)" and dw: "PWC_DW s = dw_of DownBsc 0"
    and es: "endStop_seen s = 1" and free: "\<not> IoHwAb_MOTOR_1_Locked s" "\<not> IoHwAb_MOTOR_2_Locked s"
    by (rule run_to_movement)
  from end_stop_switches_motors_off [OF r _ es, where junk = 2 and jo = "(7, 7)" and je = "(7, 7)"] dw free
  have "motor_pins (Rte_MotorDriver_MotorDriverRunnable (CriticalTask_body (7, 7) (7, 7) 2 s)) = (False, False)"
    by (simp add: dw_of_def held_levels_def)
  with r dw show ?thesis by blast
qed

text \<open>The boot state with the chart in a given state.\<close>

definition pwc_in :: "win_state \<Rightarrow> u8 \<Rightarrow> Pwc" where
  "pwc_in st t = pwc_boot\<lparr>PWC_DW := dw_of st t\<rparr>"

lemma pwc_in_ready: "ecu_ready (pwc_in st t)" and pwc_in_dw: "PWC_DW (pwc_in st t) = dw_of st t"
  using pwc_boot_ready ecu_ready_cong [of "pwc_in st t" pwc_boot] by (simp_all add: pwc_in_def)

lemma pwc_in_settled:
  "PWC_DW (CriticalTask_body (7, 7) (7, 7) c (pwc_in FullyClosed 5)) = dw_of FullyClosed 6"
  by (rule critical_fields(1) [OF pwc_in_ready pwc_in_dw])
    (simp add: pwc_in_def pwc_boot_def ioe_boot_def win_step_def win_timer_def tick_timer_def Let_def)

lemma settled_command_is_indeterminate_witness:
  "motor_pins (Rte_MotorDriver_MotorDriverRunnable (CriticalTask_body (7, 7) (7, 7) 2 (pwc_in FullyClosed 5)))
     = (False, True)"
  using settled_command_is_indeterminate [OF pwc_in_ready pwc_in_dw pwc_in_settled, of 2]
  by (simp add: pwc_in_def pwc_boot_def ioe_boot_def held_levels_def)

text \<open>Expanders that identify themselves, in a system that has just started.\<close>

definition pwc_expanders :: Pwc where
  "pwc_expanders = pwc_boot\<lparr>IOE_regs := (\<lambda>d r. if r = 0 then 0x08 else if r = 1 then 0x11 else 0xF8)\<rparr>"

lemma main_task_raises_both_motor_lines_witness:
  "motor_pins (OsTask_Main pwc_expanders) = (True, True) \<and> PWC_DW (OsTask_Main pwc_expanders) = dw_of Inactive 0"
proof -
  have ready: "ecu_ready pwc_expanders"
    using pwc_boot_ready ecu_ready_cong [of pwc_expanders pwc_boot] by (simp add: pwc_expanders_def)
  have "fst (IOE_Config_status pwc_expanders) = IOE_OK"
    by (simp add: IOE_Config_status_def IOE_IsOperational_def IOE_ReadID_def I2C_ReadDeviceRegister_def
        pwc_expanders_def pwc_boot_def ioe_boot_def)
  from main_task_raises_both_motor_lines [OF ready this] show ?thesis
    by (simp add: pwc_expanders_def pwc_boot_dw held_levels_def)
      (simp add: pwc_boot_def ioe_boot_def)
qed

lemma status_leds_drive_motors_witness:
  "motor_pins (CriticalTask_body (7, 7) (7, 7) 0 (pwc_in FullyClosed 5)) = (True, True)"
  using status_leds_drive_motors [OF pwc_in_ready pwc_in_dw pwc_in_settled] by blast

end
