(* ===== verification/OsCounter.thy ===== *)
theory OsCounter
  imports Pwc_Prelude
begin

text \<open>
  The tick arithmetic of the kernel's counters (\<open>core/system/Os/include/os_counter_i.h\<close>): a
  counter runs from 0 to its greatest allowed value and starts again at 0, on 32-bit words.
  The interface \<open>tick_ring\<close> states the arithmetic as that of a ring of \<open>max + 1\<close> ticks; its
  lemmas are what alarms rest on.  It is interpreted on the two functions of the code for
  every greatest value of the word type, \<open>0xFFFFFFFF\<close> included.
\<close>

type_synonym TickType = u32

definition Os_CounterDiff :: "TickType \<Rightarrow> TickType \<Rightarrow> TickType \<Rightarrow> TickType" where
  "Os_CounterDiff cur old mx = (if cur \<ge> old then cur - old else cur + (mx - old) + 1)"

definition Os_CounterAdd :: "TickType \<Rightarrow> TickType \<Rightarrow> TickType \<Rightarrow> TickType" where
  "Os_CounterAdd cur mx add =
     (let diff = mx - cur in
      if add \<le> diff then cur + add else add - (mx - cur) - 1)"

section \<open>The ring of ticks\<close>

locale tick_ring =
  fixes add :: "u32 \<Rightarrow> u32 \<Rightarrow> u32"
    and diff :: "u32 \<Rightarrow> u32 \<Rightarrow> u32"
    and mx :: u32
  assumes add_nat: "c \<le> mx \<Longrightarrow> a \<le> mx \<Longrightarrow> unat (add c a) = (unat c + unat a) mod (unat mx + 1)"
    and diff_nat: "c \<le> mx \<Longrightarrow> b \<le> mx \<Longrightarrow>
      unat (diff c b) = (unat c + (unat mx + 1) - unat b) mod (unat mx + 1)"
begin

lemma below: "c \<le> mx \<longleftrightarrow> unat c < unat mx + 1"
  by (auto simp: word_le_nat_alt)

lemma add_le: "c \<le> mx \<Longrightarrow> a \<le> mx \<Longrightarrow> add c a \<le> mx"
  by (simp add: below add_nat)

lemma diff_le: "c \<le> mx \<Longrightarrow> b \<le> mx \<Longrightarrow> diff c b \<le> mx"
  by (simp add: below diff_nat)

lemma diff_add:
  assumes "c \<le> mx" and "a \<le> mx"
  shows "diff (add c a) c = a"
  using ring_diff_add [OF iffD1 [OF below assms(2)] iffD1 [OF below assms(1)]] assms
  unfolding word_unat_eq_iff by (simp only: diff_nat add_nat add_le)

lemma add_diff:
  assumes "c \<le> mx" and "b \<le> mx"
  shows "add b (diff c b) = c"
  using ring_add_diff [OF iffD1 [OF below assms(2)] iffD1 [OF below assms(1)]] assms
  unfolding word_unat_eq_iff by (simp only: diff_nat add_nat diff_le)

text \<open>A counter that is incremented tick by tick.\<close>

lemma ticks:
  assumes "c \<le> mx" and "1 \<le> mx"
  shows "unat (((\<lambda>v. add v 1) ^^ n) c) = (unat c + n) mod (unat mx + 1)"
proof -
  have "((\<lambda>v. add v 1) ^^ n) c \<le> mx
    \<and> unat (((\<lambda>v. add v 1) ^^ n) c) = (unat c + n) mod (unat mx + 1)"
  proof (induction n)
    case 0
    with assms show ?case by (simp add: below)
  next
    case (Suc n)
    then show ?case using assms by (simp add: add_le add_nat mod_simps)
  qed
  then show ?thesis by blast
qed

end

lemma unat_Os_CounterAdd:
  assumes "c \<le> mx" and "a \<le> mx"
  shows "unat (Os_CounterAdd c mx a) = (unat c + unat a) mod (unat mx + 1)"
proof -
  have c: "unat c \<le> unat mx" and a: "unat a \<le> unat mx"
    using assms by (simp_all add: word_le_nat_alt)
  have d: "unat (mx - c) = unat mx - unat c" using assms(1) by (rule unat_sub)
  have m: "unat mx < 2 ^ 32" using unsigned_less [of mx] by simp
  show ?thesis
  proof (cases "a \<le> mx - c")
    case True
    then have le: "unat c + unat a \<le> unat mx" using c d by (simp add: word_le_nat_alt)
    with m have "unat (c + a) = unat c + unat a" by (simp add: unat_word_ariths)
    with True le show ?thesis by (simp add: Os_CounterAdd_def Let_def)
  next
    case False
    then have gt: "unat mx < unat c + unat a" using c d by (simp add: word_le_nat_alt)
    have "unat (a - (mx - c)) = unat a - (unat mx - unat c)"
      using False d by (subst unat_sub) simp_all
    moreover have "1 \<le> a - (mx - c)"
      using calculation c gt by (simp add: word_le_nat_alt)
    ultimately have "unat (a - (mx - c) - 1) = unat a - (unat mx - unat c) - 1"
      by (subst unat_sub) simp_all
    moreover have "(unat c + unat a) mod (unat mx + 1) = unat c + unat a - (unat mx + 1)"
      using gt c a by (simp add: le_mod_geq)
    ultimately show ?thesis using False c gt by (simp add: Os_CounterAdd_def Let_def)
  qed
qed

lemma unat_Os_CounterDiff:
  assumes "c \<le> mx" and "b \<le> mx"
  shows "unat (Os_CounterDiff c b mx) = (unat c + (unat mx + 1) - unat b) mod (unat mx + 1)"
proof (cases "b \<le> c")
  case True
  then have "unat (c - b) = unat c - unat b" by (rule unat_sub)
  moreover have "unat c + (unat mx + 1) - unat b = (unat c - unat b) + (unat mx + 1)"
    using True by (simp add: word_le_nat_alt)
  moreover have "unat c - unat b < unat mx + 1" using assms(1) by (simp add: word_le_nat_alt)
  ultimately show ?thesis using True by (simp only: Os_CounterDiff_def if_True mod_add_self2 mod_less)
next
  case False
  have c: "unat c < unat b" and b: "unat b \<le> unat mx"
    using False assms by (simp_all add: word_le_nat_alt)
  have m: "unat mx < 2 ^ 32" using unsigned_less [of mx] by simp
  have s: "unat (mx - b) = unat mx - unat b" using assms(2) by (rule unat_sub)
  have le: "unat c + (unat mx - unat b) + 1 \<le> unat mx" using c b by linarith
  then have "unat (c + (mx - b) + 1) = unat c + (unat mx - unat b) + 1"
    using m s by (simp add: unat_word_ariths)
  moreover have "unat c + (unat mx + 1) - unat b = unat c + (unat mx - unat b) + 1"
    using b by simp
  moreover have "unat c + (unat mx - unat b) + 1 < unat mx + 1" using le by linarith
  ultimately show ?thesis using False by (simp only: Os_CounterDiff_def if_False mod_less)
qed

interpretation counter: tick_ring "\<lambda>c a. Os_CounterAdd c mx a" "\<lambda>c b. Os_CounterDiff c b mx" mx
  for mx
  by unfold_locales (simp_all add: unat_Os_CounterAdd unat_Os_CounterDiff)

section \<open>Property\<close>

text \<open>C14: The tick arithmetic is exact for every greatest value a counter may have: adding is
  addition modulo \<open>max + 1\<close>, the difference of a sum is the summand and the sum of a
  difference is the first argument, without any overflow of the 32-bit words; and \<open>n\<close> single
  ticks are an addition of \<open>n\<close> modulo \<open>max + 1\<close>.  The difference of two equal readings is 0, so
  that for the values of the comment at the function (current 0, greatest 9, old 0), which
  expects 1, the code returns 0; the 1 it expects is the difference of 0 from the greatest
  value.\<close>

theorem tick_arithmetic_exact:
  assumes "c \<le> mx" and "a \<le> mx" and "1 \<le> mx"
  shows "unat (Os_CounterAdd c mx a) = (unat c + unat a) mod (unat mx + 1)
    \<and> Os_CounterDiff (Os_CounterAdd c mx a) c mx = a
    \<and> Os_CounterAdd a mx (Os_CounterDiff c a mx) = c
    \<and> unat (((\<lambda>v. Os_CounterAdd v mx 1) ^^ n) c) = (unat c + n) mod (unat mx + 1)
    \<and> Os_CounterDiff c c mx = 0 \<and> Os_CounterDiff 0 0 9 = 0 \<and> Os_CounterDiff 0 mx mx = 1"
proof -
  have "Os_CounterDiff c c mx = 0" "Os_CounterDiff 0 0 9 = 0" "Os_CounterDiff 0 mx mx = 1"
    using assms(3) by (auto simp: Os_CounterDiff_def)
  then show ?thesis
    using counter.add_nat counter.diff_add counter.add_diff counter.ticks assms by blast
qed

lemma tick_arithmetic_exact_witness:
  "Os_CounterDiff (Os_CounterAdd 0xFFF0 0xFFFF 0x20) 0xFFF0 0xFFFF = 0x20"
  using tick_arithmetic_exact [where c = "0xFFF0" and mx = "0xFFFF" and a = "0x20"] by (simp add: word_le_nat_alt)

end
