(* ===== verification/OsKernel.thy ===== *)
theory OsKernel
  imports OsCounter "HOL-Library.Monad_Syntax"
begin

text \<open>
  The kernel's tasks, events and resources (\<open>core/system/Os\<close>: \<open>os_task.c\<close>, \<open>os_event.c\<close>,
  \<open>os_resource.c\<close> and their headers, \<open>os_isr.c\<close> for the scheduling at interrupt exit) in the
  project's configuration: scalability class 1, one core, extended status, no kernel extras.
  A task is its index in the task table, a pointer to a task that index.  A service returns
  its status and the new state; \<open>None\<close> is a failed assertion or an access outside a table or
  through NULL, after which the C program has no defined continuation.  A context switch is
  the change of the current task: the state a service returns in is the one the task it has
  switched to finds.  Interrupt masking makes each service atomic.  Stacks and contexts are
  not modelled.  \<open>os_errors\<close> is the error log of the configured error hook
  (\<open>pwc/src/Tasks.c\<close>), which never returns once the log is full: \<open>None\<close> again.
\<close>

section \<open>Data\<close>

type_synonym StatusType = u8
type_synonym TaskType = u16
type_synonym EventMaskType = u32
type_synonym OsPriorityType = u32
type_synonym ResourceType = u8

abbreviation E_OS_ACCESS :: StatusType where "E_OS_ACCESS \<equiv> 1"
abbreviation E_OS_CALLEVEL :: StatusType where "E_OS_CALLEVEL \<equiv> 2"
abbreviation E_OS_ID :: StatusType where "E_OS_ID \<equiv> 3"
abbreviation E_OS_LIMIT :: StatusType where "E_OS_LIMIT \<equiv> 4"
abbreviation E_OS_NOFUNC :: StatusType where "E_OS_NOFUNC \<equiv> 5"
abbreviation E_OS_RESOURCE :: StatusType where "E_OS_RESOURCE \<equiv> 6"
abbreviation E_OS_STATE :: StatusType where "E_OS_STATE \<equiv> 7"
abbreviation E_OS_VALUE :: StatusType where "E_OS_VALUE \<equiv> 8"
abbreviation E_OS_DISABLEDINT :: StatusType where "E_OS_DISABLEDINT \<equiv> 13"

abbreviation ST_READY :: u16 where "ST_READY \<equiv> 1"
abbreviation ST_WAITING :: u16 where "ST_WAITING \<equiv> 2"
abbreviation ST_SUSPENDED :: u16 where "ST_SUSPENDED \<equiv> 4"
abbreviation ST_RUNNING :: u16 where "ST_RUNNING \<equiv> 8"
abbreviation ST_SLEEPING :: u16 where "ST_SLEEPING \<equiv> 32"

abbreviation NO_TASK_OWNER :: TaskType where "NO_TASK_OWNER \<equiv> 0xFFFF"
abbreviation INVALID_TASK :: TaskType where "INVALID_TASK \<equiv> 0xdead"
abbreviation OS_RES_SCHEDULER_PRIO :: OsPriorityType where "OS_RES_SCHEDULER_PRIO \<equiv> 0xFFFFFFFF"

datatype OsTaskSchedule = FULL | NON
datatype proc_type = PROC_BASIC | PROC_EXTENDED
datatype OpType = OP_SET_EVENT | OP_WAIT_EVENT | OP_ACTIVATE_TASK | OP_TERMINATE_TASK
  | OP_SCHEDULE | OP_CHAIN_TASK | OP_RELEASE_RESOURCE
datatype OsResourceProperty = RESOURCE_TYPE_STANDARD | RESOURCE_TYPE_LINKED | RESOURCE_TYPE_INTERNAL

text \<open>A pointer to a resource: the scheduler's or an entry of the table.\<close>

datatype OsResourceRef = ResScheduler | ResEntry nat

record OsTaskVar =
  pcb_state :: u16
  ev_wait :: EventMaskType
  ev_set :: EventMaskType
  pcb_flags :: u32
  activePriority :: OsPriorityType
  activations :: "8 word"
  resourceHead :: "OsResourceRef list"

record OsTaskConst =
  prio :: OsPriorityType
  proc_kind :: proc_type
  autostart :: bool
  scheduling :: OsTaskSchedule
  resourceAccess :: u32
  resourceIntPtr :: "nat option"
  activationLimit :: u8

record OsResource =
  ceiling_priority :: u32
  old_task_prio :: u32
  res_owner :: TaskType
  res_type :: OsResourceProperty

datatype alarm_action =
    ALARM_ACTION_ACTIVATETASK TaskType
  | ALARM_ACTION_SETEVENT TaskType EventMaskType
  | ALARM_ACTION_ALARMCALLBACK
  | ALARM_ACTION_INCREMENTCOUNTER nat

datatype autostart_type = ALARM_AUTOSTART_ABSOLUTE | ALARM_AUTOSTART_RELATIVE

record OsAlarmAutostart =
  alarmTime :: u32
  autostartType :: autostart_type
  cycleTime :: u32
  appModeRef :: u32

record OsAlarm =
  alarm_counter :: nat
  cycletime :: u32
  expire_val :: u32
  alarm_active :: bool
  alarm_act :: alarm_action
  autostartPtr :: "OsAlarmAutostart option"

datatype counter_type = COUNTER_TYPE_HARD | COUNTER_TYPE_SOFT

record OsCounter =
  counter_kind :: counter_type
  counter_val :: TickType
  maxallowedvalue :: TickType
  mincycle :: TickType
  driver_null :: bool
  alarm_head :: "nat list"

record Os =
  Os_TaskConstList :: "OsTaskConst list"
  Os_TaskVarList :: "OsTaskVar list"
  resource_list :: "OsResource list"
  resScheduler :: OsResource
  counter_list :: "OsCounter list"
  alarm_list :: "OsAlarm list"
  currTaskPtr :: nat
  chainedPcbPtr :: "nat option"
  intNestCnt :: u32
  os_tick :: TickType
  appMode :: u32
  ready_head :: "nat list"
  Os_IntDisableAllCnt :: "8 word"
  Os_IntSuspendAllCnt :: "8 word"
  Os_IntSuspendOsCnt :: "8 word"
  os_errors :: "StatusType list"

type_synonym os_result = "(StatusType \<times> Os) option"

section \<open>Tables\<close>

definition OS_TASK_CNT :: "Os \<Rightarrow> nat" where
  "OS_TASK_CNT s = length (Os_TaskVarList s)"

definition pcb :: "Os \<Rightarrow> nat \<Rightarrow> OsTaskVar" where
  "pcb s i = Os_TaskVarList s ! i"

definition tconst :: "Os \<Rightarrow> nat \<Rightarrow> OsTaskConst" where
  "tconst s i = Os_TaskConstList s ! i"

definition upd_pcb :: "nat \<Rightarrow> (OsTaskVar \<Rightarrow> OsTaskVar) \<Rightarrow> Os \<Rightarrow> Os" where
  "upd_pcb i f s = s\<lparr>Os_TaskVarList := (Os_TaskVarList s)[i := f (Os_TaskVarList s ! i)]\<rparr>"

definition Os_TaskGet :: "TaskType \<Rightarrow> Os \<Rightarrow> nat option" where
  "Os_TaskGet pid s = (if unat pid < OS_TASK_CNT s then Some (unat pid) else None)"

text \<open>\<open>TASK_CHECK_ID\<close> as it is written: an identifier equal to the number of tasks passes.\<close>

definition TASK_CHECK_ID :: "TaskType \<Rightarrow> Os \<Rightarrow> bool" where
  "TASK_CHECK_ID x s \<longleftrightarrow> \<not> OS_TASK_CNT s < unat x"

definition os_assert :: "bool \<Rightarrow> Os \<Rightarrow> Os option" where
  "os_assert b s = (if b then Some s else None)"

text \<open>\<open>ErrorHook\<close> logs the status and stalls when the log is full: \<open>None\<close>.  The log's other
  columns (the service and its parameters) are not modelled.\<close>

abbreviation ERROR_LOG_SIZE :: nat where "ERROR_LOG_SIZE \<equiv> 20"

definition ErrorHook :: "StatusType \<Rightarrow> Os \<Rightarrow> Os option" where
  "ErrorHook Error s =
     (let s1 = s\<lparr>os_errors := os_errors s @ [Error]\<rparr>
      in if length (os_errors s1) \<ge> ERROR_LOG_SIZE then None else Some s1)"

definition os_err :: "StatusType \<Rightarrow> Os \<Rightarrow> os_result" where
  "os_err rv s = do { s1 \<leftarrow> ErrorHook rv s; Some (rv, s1) }"

definition Os_SysIntAnyDisabled :: "Os \<Rightarrow> bool" where
  "Os_SysIntAnyDisabled s \<longleftrightarrow>
     (Os_IntDisableAllCnt s OR Os_IntSuspendAllCnt s OR Os_IntSuspendOsCnt s) \<noteq> 0"

section \<open>Task states\<close>

definition Os_TaskRunningToReady :: "nat \<Rightarrow> Os \<Rightarrow> Os option" where
  "Os_TaskRunningToReady i s =
     (if pcb_state (pcb s i) = ST_RUNNING then Some (upd_pcb i (pcb_state_update (\<lambda>_. ST_READY)) s)
      else None)"

definition Os_TaskMakeReady :: "nat \<Rightarrow> Os \<Rightarrow> Os" where
  "Os_TaskMakeReady i s =
     (if pcb_state (pcb s i) AND (ST_READY OR ST_RUNNING) = 0 then
        (upd_pcb i (pcb_state_update (\<lambda>_. ST_READY)) s)\<lparr>ready_head := ready_head s @ [i]\<rparr>
      else s)"

definition Os_TaskMakeWaiting :: "nat \<Rightarrow> Os \<Rightarrow> Os option" where
  "Os_TaskMakeWaiting i s =
     (if pcb_state (pcb s i) AND (ST_READY OR ST_RUNNING) \<noteq> 0 then
        Some ((upd_pcb i (pcb_state_update (\<lambda>_. ST_WAITING)) s)
                \<lparr>ready_head := remove1 i (ready_head s)\<rparr>)
      else None)"

definition Os_TaskMakeSuspended :: "nat \<Rightarrow> Os \<Rightarrow> Os option" where
  "Os_TaskMakeSuspended i s =
     (if pcb_state (pcb s i) AND (ST_READY OR ST_RUNNING) \<noteq> 0 then
        Some ((upd_pcb i (pcb_state_update (\<lambda>_. ST_SUSPENDED)) s)
                \<lparr>ready_head := remove1 i (ready_head s)\<rparr>)
      else None)"

definition Os_TaskMakeRunning :: "nat \<Rightarrow> Os \<Rightarrow> Os" where
  "Os_TaskMakeRunning i s = upd_pcb i (pcb_state_update (\<lambda>_. ST_RUNNING)) s"

section \<open>Resources of a task\<close>

definition res_get :: "OsResourceRef \<Rightarrow> Os \<Rightarrow> OsResource" where
  "res_get r s = (case r of ResScheduler \<Rightarrow> resScheduler s | ResEntry n \<Rightarrow> resource_list s ! n)"

definition upd_res :: "OsResourceRef \<Rightarrow> (OsResource \<Rightarrow> OsResource) \<Rightarrow> Os \<Rightarrow> Os" where
  "upd_res r f s =
     (case r of ResScheduler \<Rightarrow> s\<lparr>resScheduler := f (resScheduler s)\<rparr>
      | ResEntry n \<Rightarrow> s\<lparr>resource_list := (resource_list s)[n := f (resource_list s ! n)]\<rparr>)"

definition Os_SchedulerResourceIsFree :: "Os \<Rightarrow> bool" where
  "Os_SchedulerResourceIsFree s \<longleftrightarrow> res_owner (resScheduler s) = NO_TASK_OWNER"

definition Os_TaskOccupiesResources :: "nat \<Rightarrow> Os \<Rightarrow> bool" where
  "Os_TaskOccupiesResources i s \<longleftrightarrow> resourceHead (pcb s i) \<noteq> []"

definition Os_TaskResourceAdd :: "OsResourceRef \<Rightarrow> nat \<Rightarrow> Os \<Rightarrow> Os" where
  "Os_TaskResourceAdd r i s =
     (let s1 = upd_res r (\<lambda>x. x\<lparr>res_owner := of_nat i, old_task_prio := activePriority (pcb s i)\<rparr>) s;
          s2 = upd_pcb i (activePriority_update (\<lambda>_. ceiling_priority (res_get r s))) s1
      in if res_type (res_get r s) \<noteq> RESOURCE_TYPE_INTERNAL
         then upd_pcb i (resourceHead_update (\<lambda>h. h @ [r])) s2 else s2)"

definition Os_TaskResourceRemove :: "OsResourceRef \<Rightarrow> nat \<Rightarrow> Os \<Rightarrow> Os option" where
  "Os_TaskResourceRemove r i s =
     (if res_owner (res_get r s) \<noteq> of_nat i then None
      else
        (let s1 = upd_res r (res_owner_update (\<lambda>_. NO_TASK_OWNER)) s;
             s2 = upd_pcb i (activePriority_update (\<lambda>_. old_task_prio (res_get r s))) s1
         in if res_type (res_get r s) \<noteq> RESOURCE_TYPE_INTERNAL then
              (if resourceHead (pcb s2 i) = [] then None
               else if last (resourceHead (pcb s2 i)) \<noteq> r then None
               else Some (upd_pcb i (resourceHead_update (remove1 r)) s2))
            else Some s2))"

definition Os_ResourceGetInternal :: "Os \<Rightarrow> Os" where
  "Os_ResourceGetInternal s =
     (case resourceIntPtr (tconst s (currTaskPtr s)) of None \<Rightarrow> s
      | Some n \<Rightarrow> Os_TaskResourceAdd (ResEntry n) (currTaskPtr s) s)"

definition Os_ResourceReleaseInternal :: "Os \<Rightarrow> Os option" where
  "Os_ResourceReleaseInternal s =
     (case resourceIntPtr (tconst s (currTaskPtr s)) of None \<Rightarrow> Some s
      | Some n \<Rightarrow> Os_TaskResourceRemove (ResEntry n) (currTaskPtr s) s)"

section \<open>Dispatching\<close>

definition POSTTASKHOOK :: "Os \<Rightarrow> Os option" where
  "POSTTASKHOOK s =
     (if pcb_state (pcb s (currTaskPtr s)) AND ST_RUNNING \<noteq> 0 \<and> pcb_flags (pcb s (currTaskPtr s)) = 1
      then Some (upd_pcb (currTaskPtr s) (pcb_flags_update (\<lambda>_. 0)) s) else None)"

definition PRETASKHOOK :: "Os \<Rightarrow> Os option" where
  "PRETASKHOOK s =
     (if pcb_state (pcb s (currTaskPtr s)) AND ST_RUNNING \<noteq> 0 \<and> pcb_flags (pcb s (currTaskPtr s)) = 0
      then Some (upd_pcb (currTaskPtr s) (pcb_flags_update (\<lambda>_. 1)) s) else None)"

text \<open>The scan of the ready queue: the first task of greatest priority; \<open>None\<close> outside is a
  failed assertion.\<close>

fun top_scan :: "Os \<Rightarrow> nat list \<Rightarrow> nat option \<Rightarrow> nat option option" where
  "top_scan s [] best = Some best"
| "top_scan s (i # q) best =
     (if pcb_state (pcb s i) AND (ST_READY OR ST_RUNNING) \<noteq> 0 then
        top_scan s q (case best of None \<Rightarrow> Some i
          | Some t \<Rightarrow> if activePriority (pcb s i) > activePriority (pcb s t) then Some i else Some t)
      else None)"

definition Os_TaskGetTop :: "Os \<Rightarrow> nat option" where
  "Os_TaskGetTop s = (case top_scan s (ready_head s) None of None \<Rightarrow> None | Some best \<Rightarrow> best)"

definition Os_TaskSwapContext :: "nat \<Rightarrow> Os \<Rightarrow> Os option" where
  "Os_TaskSwapContext new_pcb s =
     PRETASKHOOK (Os_TaskMakeRunning new_pcb (Os_ResourceGetInternal (s\<lparr>currTaskPtr := new_pcb\<rparr>)))"

definition dispatch_terminate :: "nat \<Rightarrow> Os \<Rightarrow> Os option" where
  "dispatch_terminate cur s =
     (let s1 = upd_pcb cur (activations_update (\<lambda>n. n - 1)) s in
      if sint (activations (pcb s1 cur)) \<le> 0
      then Os_TaskMakeSuspended cur (upd_pcb cur (activations_update (\<lambda>_. 0)) s1)
      else Some s1)"

definition dispatch_chain :: "nat \<Rightarrow> Os \<Rightarrow> Os option" where
  "dispatch_chain cur s =
     (case chainedPcbPtr s of None \<Rightarrow> None
      | Some ch \<Rightarrow> do {
          s' \<leftarrow> (if cur \<noteq> ch then
                  (let s1 = upd_pcb cur (activations_update (\<lambda>n. n - 1)) s in
                   if sint (activations (pcb s1 cur)) \<le> 0
                   then Os_TaskMakeSuspended cur (upd_pcb cur (activations_update (\<lambda>_. 0)) s1)
                   else Os_TaskRunningToReady cur s1)
                else Some s);
          Some (s'\<lparr>chainedPcbPtr := None\<rparr>)
        })"

definition Os_Dispatch :: "OpType \<Rightarrow> Os \<Rightarrow> Os option" where
  "Os_Dispatch op s =
     (let cur = currTaskPtr s in
      if intNestCnt s \<noteq> 0 \<or> \<not> Os_SchedulerResourceIsFree s
         \<or> pcb_state (pcb s cur) AND ST_RUNNING = 0 then None
      else do {
        s1 \<leftarrow> POSTTASKHOOK s;
        s2 \<leftarrow> (case op of
            OP_SET_EVENT \<Rightarrow> Os_TaskRunningToReady cur s1
          | OP_SCHEDULE \<Rightarrow> Os_TaskRunningToReady cur s1
          | OP_RELEASE_RESOURCE \<Rightarrow> Os_TaskRunningToReady cur s1
          | OP_WAIT_EVENT \<Rightarrow> Os_TaskMakeWaiting cur s1
          | OP_ACTIVATE_TASK \<Rightarrow> Some (Os_TaskMakeReady cur s1)
          | OP_CHAIN_TASK \<Rightarrow> dispatch_chain cur s1
          | OP_TERMINATE_TASK \<Rightarrow> dispatch_terminate cur s1);
        top \<leftarrow> Os_TaskGetTop s2;
        (if top \<noteq> cur then do {
           s3 \<leftarrow> (if op = OP_CHAIN_TASK \<and> chainedPcbPtr s2 = Some cur
                 then Os_TaskRunningToReady cur s2 else Some s2);
           s4 \<leftarrow> Os_ResourceReleaseInternal s3;
           Os_TaskSwapContext top s4
         }
         else PRETASKHOOK (Os_TaskMakeRunning top s2))
      })"

text \<open>Scheduling at the exit of an interrupt on the Cortex-M3.\<close>

definition TailChaining :: "Os \<Rightarrow> Os option" where
  "TailChaining s = do {
     s1 \<leftarrow> POSTTASKHOOK s;
     (let s2 = upd_pcb (currTaskPtr s1) (pcb_state_update (\<lambda>_. ST_READY)) s1 in do {
        new_pcb \<leftarrow> Os_TaskGetTop s2;
        (if new_pcb = currTaskPtr s2 \<or> scheduling (tconst s2 (currTaskPtr s2)) = NON
            \<or> \<not> Os_SchedulerResourceIsFree s2
         then Os_TaskSwapContext (currTaskPtr s2) s2
         else Os_TaskSwapContext new_pcb s2)
     })
   }"

end
