(* ===== verification/OsService.thy ===== *)
theory OsService
  imports OsKernel
begin

text \<open>
  The system services on tasks, events and resources: \<open>os_task.c\<close>, \<open>os_event.c\<close> and
  \<open>os_resource.c\<close>, each with its checks in the order of the code.
\<close>

section \<open>Events\<close>

definition WaitEvent :: "EventMaskType \<Rightarrow> Os \<Rightarrow> os_result" where
  "WaitEvent Mask s =
     (let cur = currTaskPtr s in
      if intNestCnt s \<noteq> 0 then os_err E_OS_CALLEVEL s
      else if proc_kind (tconst s cur) \<noteq> PROC_EXTENDED then os_err E_OS_ACCESS s
      else if Os_TaskOccupiesResources cur s then os_err E_OS_RESOURCE s
      else if ev_set (pcb s cur) AND Mask = 0 then
        (let s1 = upd_pcb cur (ev_wait_update (\<lambda>_. Mask)) s in
         if Os_SchedulerResourceIsFree s1 then do { s2 \<leftarrow> Os_Dispatch OP_WAIT_EVENT s1; Some (E_OK, s2) }
         else do { s2 \<leftarrow> Os_TaskMakeWaiting cur s1; Some (E_OK, s2) })
      else Some (E_OK, s))"

text \<open>The condition under which a service preempts its caller in favour of \<open>dest\<close>.\<close>

definition preempts :: "nat \<Rightarrow> Os \<Rightarrow> bool" where
  "preempts dest s \<longleftrightarrow> intNestCnt s = 0 \<and> scheduling (tconst s (currTaskPtr s)) = FULL
     \<and> activePriority (pcb s dest) > activePriority (pcb s (currTaskPtr s))
     \<and> Os_SchedulerResourceIsFree s"

definition SetEvent :: "TaskType \<Rightarrow> EventMaskType \<Rightarrow> Os \<Rightarrow> os_result" where
  "SetEvent TaskID Mask s =
     (if \<not> TASK_CHECK_ID TaskID s then os_err E_OS_ID s
      else do {
        dest \<leftarrow> Os_TaskGet TaskID s;
        (if proc_kind (tconst s dest) \<noteq> PROC_EXTENDED then os_err E_OS_ACCESS s
         else if pcb_state (pcb s dest) AND ST_SUSPENDED \<noteq> 0 then os_err E_OS_STATE s
         else
           (let s1 = upd_pcb dest (ev_set_update (\<lambda>m. m OR Mask)) s in
            if Mask AND ev_wait (pcb s1 dest) \<noteq> 0 then
              (if pcb_state (pcb s1 dest) AND ST_WAITING \<noteq> 0 then
                 (let s2 = Os_TaskMakeReady dest s1 in
                  if preempts dest s2 then do { s3 \<leftarrow> Os_Dispatch OP_SET_EVENT s2; Some (E_OK, s3) }
                  else Some (E_OK, s2))
               else if pcb_state (pcb s1 dest) AND (ST_READY OR ST_RUNNING OR ST_SLEEPING) \<noteq> 0
               then Some (E_OK, s1)
               else None)
            else Some (E_OK, s1)))
      })"

text \<open>\<open>*Mask\<close> is returned as an optional value: \<open>None\<close> where the code does not write it.\<close>

definition GetEvent :: "TaskType \<Rightarrow> Os \<Rightarrow> (StatusType \<times> EventMaskType option \<times> Os) option" where
  "GetEvent TaskId s =
     (if \<not> TASK_CHECK_ID TaskId s then do { (rv, s') \<leftarrow> os_err E_OS_ID s; Some (rv, None, s') }
      else do {
        dest \<leftarrow> Os_TaskGet TaskId s;
        (if proc_kind (tconst s dest) \<noteq> PROC_EXTENDED
         then do { (rv, s') \<leftarrow> os_err E_OS_ACCESS s; Some (rv, None, s') }
         else if pcb_state (pcb s dest) AND ST_SUSPENDED \<noteq> 0
         then do { (rv, s') \<leftarrow> os_err E_OS_STATE s; Some (rv, None, s') }
         else Some (E_OK, Some (ev_set (pcb s dest)), s))
      })"

definition ClearEvent :: "EventMaskType \<Rightarrow> Os \<Rightarrow> os_result" where
  "ClearEvent Mask s =
     (let cur = currTaskPtr s in
      if intNestCnt s \<noteq> 0 then os_err E_OS_CALLEVEL s
      else if proc_kind (tconst s cur) \<noteq> PROC_EXTENDED then os_err E_OS_ACCESS s
      else Some (E_OK, upd_pcb cur (ev_set_update (\<lambda>m. m AND NOT Mask)) s))"

section \<open>Tasks\<close>

text \<open>The stack and the context of the task are set up again too; they are not modelled.\<close>

definition Os_Arc_SetCleanContext :: "nat \<Rightarrow> Os \<Rightarrow> Os" where
  "Os_Arc_SetCleanContext i s =
     (if proc_kind (tconst s i) = PROC_EXTENDED
      then upd_pcb i (\<lambda>p. p\<lparr>ev_set := 0, ev_wait := 0\<rparr>) s else s)"

definition activate_preempt :: "nat \<Rightarrow> Os \<Rightarrow> os_result" where
  "activate_preempt dest s =
     (if preempts dest s then do { s' \<leftarrow> Os_Dispatch OP_ACTIVATE_TASK s; Some (E_OK, s') }
      else Some (E_OK, s))"

definition ActivateTask :: "TaskType \<Rightarrow> Os \<Rightarrow> os_result" where
  "ActivateTask TaskID s =
     (if \<not> TASK_CHECK_ID TaskID s then os_err E_OS_ID s
      else do {
        dest \<leftarrow> Os_TaskGet TaskID s;
        (if Os_SysIntAnyDisabled s then os_err E_OS_DISABLEDINT s
         else
           (let s1 = upd_pcb dest (activations_update (\<lambda>n. n + 1)) s in
            if pcb_state (pcb s1 dest) \<noteq> ST_SUSPENDED then
              (if sint (activations (pcb s1 dest)) \<ge> uint (activationLimit (tconst s1 dest)) + 1
               then os_err E_OS_LIMIT (upd_pcb dest (activations_update (\<lambda>n. n - 1)) s1)
               else activate_preempt dest s1)
            else if activations (pcb s1 dest) \<noteq> 1 then None
            else activate_preempt dest (Os_TaskMakeReady dest (Os_Arc_SetCleanContext dest s1))))
      })"

text \<open>A successful termination does not return to its caller: the state is that of the task
  that runs next.\<close>

definition TerminateTask :: "Os \<Rightarrow> os_result" where
  "TerminateTask s =
     (if intNestCnt s \<noteq> 0 then os_err E_OS_CALLEVEL s
      else if Os_TaskOccupiesResources (currTaskPtr s) s then os_err E_OS_RESOURCE s
      else do { s' \<leftarrow> Os_Dispatch OP_TERMINATE_TASK s; Some (E_OK, s') })"

definition ChainTask :: "TaskType \<Rightarrow> Os \<Rightarrow> os_result" where
  "ChainTask TaskId s =
     (if \<not> TASK_CHECK_ID TaskId s then os_err E_OS_ID s
      else do {
        dest \<leftarrow> Os_TaskGet TaskId s;
        (if intNestCnt s \<noteq> 0 then os_err E_OS_CALLEVEL s
         else if Os_TaskOccupiesResources (currTaskPtr s) s then os_err E_OS_RESOURCE s
         else if currTaskPtr s \<noteq> dest then
           (if sint (activations (pcb s dest)) + 1 > uint (activationLimit (tconst s dest))
            then os_err E_OS_LIMIT s
            else if pcb_state (pcb s dest) = ST_SUSPENDED \<and> activations (pcb s dest) \<noteq> 0 then None
            else
              (let s1 = (if pcb_state (pcb s dest) = ST_SUSPENDED
                         then Os_TaskMakeReady dest (Os_Arc_SetCleanContext dest s) else s);
                   s2 = upd_pcb dest (activations_update (\<lambda>n. n + 1)) s1;
                   s3 = s2\<lparr>chainedPcbPtr := Some dest\<rparr>
               in do { s' \<leftarrow> Os_Dispatch OP_CHAIN_TASK s3; Some (E_OK, s') }))
         else do { s' \<leftarrow> Os_Dispatch OP_CHAIN_TASK (s\<lparr>chainedPcbPtr := Some dest\<rparr>);
                   Some (E_OK, s') })
      })"

definition Schedule :: "Os \<Rightarrow> os_result" where
  "Schedule s =
     (if intNestCnt s \<noteq> 0 then os_err E_OS_CALLEVEL s
      else if Os_TaskOccupiesResources (currTaskPtr s) s then os_err E_OS_RESOURCE s
      else if pcb_state (pcb s (currTaskPtr s)) AND ST_RUNNING = 0 then None
      else if scheduling (tconst s (currTaskPtr s)) \<noteq> NON then Some (E_OK, s)
      else do {
        top \<leftarrow> Os_TaskGetTop s;
        (if activePriority (pcb s top) > activePriority (pcb s (currTaskPtr s))
         then do { s' \<leftarrow> Os_Dispatch OP_SCHEDULE s; Some (E_OK, s') }
         else Some (E_OK, s))
      })"

definition GetTaskID :: "Os \<Rightarrow> StatusType \<times> TaskType" where
  "GetTaskID s =
     (E_OK, if intNestCnt s = 0 \<and> pcb_state (pcb s (currTaskPtr s)) AND ST_RUNNING \<noteq> 0
            then of_nat (currTaskPtr s) else INVALID_TASK)"

datatype TaskStateType = TASK_STATE_SUSPENDED | TASK_STATE_READY | TASK_STATE_WAITING
  | TASK_STATE_RUNNING

text \<open>\<open>*State\<close> is \<open>None\<close> where the switch has no case for the state.\<close>

definition GetTaskState ::
  "TaskType \<Rightarrow> Os \<Rightarrow> (StatusType \<times> TaskStateType option \<times> Os) option" where
  "GetTaskState TaskId s =
     (if \<not> TASK_CHECK_ID TaskId s then do { (rv, s') \<leftarrow> os_err E_OS_ID s; Some (rv, None, s') }
      else do {
        i \<leftarrow> Os_TaskGet TaskId s;
        Some (E_OK,
          (if pcb_state (pcb s i) = ST_RUNNING then Some TASK_STATE_RUNNING
           else if pcb_state (pcb s i) = ST_WAITING then Some TASK_STATE_WAITING
           else if pcb_state (pcb s i) = ST_SUSPENDED then Some TASK_STATE_SUSPENDED
           else if pcb_state (pcb s i) = ST_READY then Some TASK_STATE_READY
           else None), s)
      })"

section \<open>Resources\<close>

text \<open>\<open>RES_SCHEDULER\<close> is the number of resources; the table is \<open>NULL\<close> when it is empty.  The
  interrupt mask is not part of the state: \<open>ReleaseResource\<close> leaves the interrupts disabled when
  it returns \<open>E_OS_ID\<close>, which the model does not show.\<close>

definition OS_RESOURCE_CNT :: "Os \<Rightarrow> nat" where
  "OS_RESOURCE_CNT s = length (resource_list s)"

definition Os_ResourceGet :: "ResourceType \<Rightarrow> Os \<Rightarrow> OsResourceRef option" where
  "Os_ResourceGet r s = (if unat r < OS_RESOURCE_CNT s then Some (ResEntry (unat r)) else None)"

text \<open>\<open>1 << ResID\<close> of a 32-bit integer: a shift by 32 or more has no defined value.\<close>

definition res_mask :: "ResourceType \<Rightarrow> u32 option" where
  "res_mask r = (if unat r < 32 then Some (push_bit (unat r) 1) else None)"

text \<open>The services at task level; at interrupt level \<open>GetResource\<close> works on the interrupt's own
  record, which is not modelled: that case is outside the domain, as \<open>None\<close>.\<close>

definition GetResource :: "ResourceType \<Rightarrow> Os \<Rightarrow> os_result" where
  "GetResource ResID s =
     (if unat ResID > OS_RESOURCE_CNT s then os_err E_OS_ID s
      else if intNestCnt s \<noteq> 0 then None
      else
        (let cur = currTaskPtr s in
         if unat ResID = OS_RESOURCE_CNT s then Some (E_OK, Os_TaskResourceAdd ResScheduler cur s)
         else do {
           r \<leftarrow> Os_ResourceGet ResID s;
           m \<leftarrow> res_mask ResID;
           (if resourceAccess (tconst s cur) AND m = 0
               \<or> res_owner (res_get r s) \<noteq> NO_TASK_OWNER
               \<or> activePriority (pcb s cur) > ceiling_priority (res_get r s)
            then os_err E_OS_ACCESS s
            else Some (E_OK, Os_TaskResourceAdd r cur s))
         }))"

definition ReleaseResource :: "ResourceType \<Rightarrow> Os \<Rightarrow> os_result" where
  "ReleaseResource ResID s =
     (let cur = currTaskPtr s in do {
        acc \<leftarrow> (if unat ResID = OS_RESOURCE_CNT s then Some (Some ResScheduler)
               else do {
                 m \<leftarrow> res_mask ResID;
                 (if resourceAccess (tconst s cur) AND m = 0 then Some None
                  else do { r \<leftarrow> Os_ResourceGet ResID s; Some (Some r) })
               });
        (case acc of
           None \<Rightarrow> os_err E_OS_ID s
         | Some r \<Rightarrow>
             (if res_owner (res_get r s) = NO_TASK_OWNER then os_err E_OS_NOFUNC s
              else if activePriority (pcb s cur) < ceiling_priority (res_get r s)
              then os_err E_OS_ACCESS s
              else do {
                s1 \<leftarrow> Os_TaskResourceRemove r cur s;
                (if scheduling (tconst s1 cur) = FULL \<and> intNestCnt s1 = 0
                    \<and> Os_SchedulerResourceIsFree s1 then do {
                   top \<leftarrow> Os_TaskGetTop s1;
                   (if activePriority (pcb s1 top) > activePriority (pcb s1 cur)
                    then do { s2 \<leftarrow> Os_Dispatch OP_RELEASE_RESOURCE s1; Some (E_OK, s2) }
                    else Some (E_OK, s1))
                 } else Some (E_OK, s1))
              }))
      })"

text \<open>Ceiling priorities at start-up: the greatest priority of the tasks with access.\<close>

definition res_ceiling :: "Os \<Rightarrow> nat \<Rightarrow> u32" where
  "res_ceiling s i =
     fold (\<lambda>t top. if resourceAccess (tconst s t) AND push_bit i 1 \<noteq> 0
            then max top (prio (tconst s t)) else top)
       [0..<OS_TASK_CNT s] 0"

definition Os_ResourceInit :: "Os \<Rightarrow> Os" where
  "Os_ResourceInit s =
     s\<lparr>resScheduler := (resScheduler s)\<lparr>ceiling_priority := OS_RES_SCHEDULER_PRIO,
         res_owner := NO_TASK_OWNER\<rparr>,
       resource_list := map (\<lambda>i. (resource_list s ! i)\<lparr>ceiling_priority := res_ceiling s i\<rparr>)
         [0..<OS_RESOURCE_CNT s]\<rparr>"

section \<open>A task that returns\<close>

text \<open>\<open>Os_TaskResourceFreeAll\<close> walks the list from its head, but removes in LIFO order only.\<close>

fun free_all :: "nat \<Rightarrow> OsResourceRef list \<Rightarrow> Os \<Rightarrow> Os option" where
  "free_all i [] s = Some s"
| "free_all i (r # rs) s = do { s' \<leftarrow> Os_TaskResourceRemove r i s; free_all i rs s' }"

definition Os_TaskResourceFreeAll :: "nat \<Rightarrow> Os \<Rightarrow> Os option" where
  "Os_TaskResourceFreeAll i s = free_all i (resourceHead (pcb s i)) s"

text \<open>What \<open>Os_TaskStartExtended\<close> and \<open>Os_TaskStartBasic\<close> do when the task's function returns
  without terminating the task.\<close>

definition task_returned :: "Os \<Rightarrow> os_result" where
  "task_returned s =
     (let s1 = (if Os_SysIntAnyDisabled s
                then s\<lparr>Os_IntDisableAllCnt := 0, Os_IntSuspendAllCnt := 0, Os_IntSuspendOsCnt := 0\<rparr>
                else s) in do {
        s2 \<leftarrow> (if Os_TaskOccupiesResources (currTaskPtr s1) s1
              then Os_TaskResourceFreeAll (currTaskPtr s1) s1 else Some s1);
        s3 \<leftarrow> ErrorHook 12 s2;
        TerminateTask s3
      })"

end
