(* ===== verification/OsInv.thy ===== *)
theory OsInv
  imports OsService
begin

text \<open>
  The invariant of the kernel's task management and its preservation: the ready queue holds,
  once each, exactly the tasks whose state is READY or RUNNING (\<open>queue_ok\<close>), and at task level
  the current task is RUNNING and is the only one the pre-task hook has been called for
  (\<open>task_level\<close>).  The dispatcher returns whenever a task remains to be run, keeps the
  invariant and leaves a task of greatest priority running.
\<close>

section \<open>Reading and writing task control blocks\<close>

lemma OS_TASK_CNT_upd [simp]: "OS_TASK_CNT (upd_pcb i f s) = OS_TASK_CNT s"
  by (simp add: OS_TASK_CNT_def upd_pcb_def)

lemma upd_pcb_frame [frame, simp]:
  "Os_TaskConstList (upd_pcb i f s) = Os_TaskConstList s"
  "resource_list (upd_pcb i f s) = resource_list s"
  "resScheduler (upd_pcb i f s) = resScheduler s"
  "counter_list (upd_pcb i f s) = counter_list s"
  "alarm_list (upd_pcb i f s) = alarm_list s"
  "currTaskPtr (upd_pcb i f s) = currTaskPtr s"
  "chainedPcbPtr (upd_pcb i f s) = chainedPcbPtr s"
  "intNestCnt (upd_pcb i f s) = intNestCnt s"
  "os_tick (upd_pcb i f s) = os_tick s"
  "appMode (upd_pcb i f s) = appMode s"
  "ready_head (upd_pcb i f s) = ready_head s"
  "os_errors (upd_pcb i f s) = os_errors s"
  "Os_IntDisableAllCnt (upd_pcb i f s) = Os_IntDisableAllCnt s"
  "Os_IntSuspendAllCnt (upd_pcb i f s) = Os_IntSuspendAllCnt s"
  "Os_IntSuspendOsCnt (upd_pcb i f s) = Os_IntSuspendOsCnt s"
  "tconst (upd_pcb i f s) = tconst s"
  "Os_SchedulerResourceIsFree (upd_pcb i f s) = Os_SchedulerResourceIsFree s"
  by (simp_all add: upd_pcb_def tconst_def Os_SchedulerResourceIsFree_def fun_eq_iff)

lemma pcb_upd_pcb:
  "i < OS_TASK_CNT s \<Longrightarrow> pcb (upd_pcb i f s) j = (if j = i then f (pcb s i) else pcb s j)"
  by (auto simp: pcb_def upd_pcb_def OS_TASK_CNT_def nth_list_update)

lemma pcb_other_fields [simp]:
  "pcb (s\<lparr>ready_head := q\<rparr>) = pcb s"
  "pcb (s\<lparr>currTaskPtr := c\<rparr>) = pcb s"
  "pcb (s\<lparr>chainedPcbPtr := ch\<rparr>) = pcb s"
  "pcb (s\<lparr>os_errors := es\<rparr>) = pcb s"
  "pcb (s\<lparr>intNestCnt := n\<rparr>) = pcb s"
  "OS_TASK_CNT (s\<lparr>ready_head := q\<rparr>) = OS_TASK_CNT s"
  "OS_TASK_CNT (s\<lparr>currTaskPtr := c\<rparr>) = OS_TASK_CNT s"
  "OS_TASK_CNT (s\<lparr>chainedPcbPtr := ch\<rparr>) = OS_TASK_CNT s"
  "OS_TASK_CNT (s\<lparr>os_errors := es\<rparr>) = OS_TASK_CNT s"
  "OS_TASK_CNT (s\<lparr>intNestCnt := n\<rparr>) = OS_TASK_CNT s"
  "tconst (s\<lparr>ready_head := q\<rparr>) = tconst s"
  "tconst (s\<lparr>currTaskPtr := c\<rparr>) = tconst s"
  "tconst (s\<lparr>chainedPcbPtr := ch\<rparr>) = tconst s"
  "tconst (s\<lparr>os_errors := es\<rparr>) = tconst s"
  by (simp_all add: pcb_def OS_TASK_CNT_def tconst_def fun_eq_iff)

section \<open>The invariant\<close>

definition in_queue :: "Os \<Rightarrow> nat \<Rightarrow> bool" where
  "in_queue s i \<longleftrightarrow> pcb_state (pcb s i) = ST_READY \<or> pcb_state (pcb s i) = ST_RUNNING"

definition queue_ok :: "Os \<Rightarrow> bool" where
  "queue_ok s \<longleftrightarrow> distinct (ready_head s) \<and> set (ready_head s) \<subseteq> {..<OS_TASK_CNT s}
     \<and> currTaskPtr s < OS_TASK_CNT s
     \<and> (\<forall>i < OS_TASK_CNT s. pcb_state (pcb s i) \<in> {ST_READY, ST_WAITING, ST_SUSPENDED, ST_RUNNING}
          \<and> (i \<in> set (ready_head s) \<longleftrightarrow> in_queue s i))"

definition hooks_clear :: "Os \<Rightarrow> bool" where
  "hooks_clear s \<longleftrightarrow> (\<forall>i < OS_TASK_CNT s. pcb_flags (pcb s i) = 0)"

definition task_level :: "Os \<Rightarrow> bool" where
  "task_level s \<longleftrightarrow> intNestCnt s = 0 \<and> pcb_state (pcb s (currTaskPtr s)) = ST_RUNNING
     \<and> (\<forall>i < OS_TASK_CNT s. pcb_flags (pcb s i) = (if i = currTaskPtr s then 1 else 0))"

definition no_internal :: "Os \<Rightarrow> bool" where
  "no_internal s \<longleftrightarrow> (\<forall>i < OS_TASK_CNT s. resourceIntPtr (tconst s i) = None)"

text \<open>What no dispatch changes.\<close>

definition same_frame :: "Os \<Rightarrow> Os \<Rightarrow> bool" where
  "same_frame s t \<longleftrightarrow> Os_TaskConstList t = Os_TaskConstList s \<and> OS_TASK_CNT t = OS_TASK_CNT s
     \<and> resource_list t = resource_list s \<and> resScheduler t = resScheduler s
     \<and> counter_list t = counter_list s \<and> alarm_list t = alarm_list s
     \<and> intNestCnt t = intNestCnt s \<and> os_tick t = os_tick s \<and> os_errors t = os_errors s
     \<and> Os_IntDisableAllCnt t = Os_IntDisableAllCnt s
     \<and> Os_IntSuspendAllCnt t = Os_IntSuspendAllCnt s \<and> Os_IntSuspendOsCnt t = Os_IntSuspendOsCnt s
     \<and> (\<forall>i < OS_TASK_CNT s. ev_set (pcb t i) = ev_set (pcb s i)
          \<and> ev_wait (pcb t i) = ev_wait (pcb s i)
          \<and> activePriority (pcb t i) = activePriority (pcb s i)
          \<and> resourceHead (pcb t i) = resourceHead (pcb s i))"

lemma same_frame_refl [simp]: "same_frame s s"
  by (simp add: same_frame_def)

lemma same_frame_trans: "same_frame s t \<Longrightarrow> same_frame t u \<Longrightarrow> same_frame s u"
  unfolding same_frame_def by metis

lemma same_frame_upd:
  assumes "i < OS_TASK_CNT s"
    and "\<And>p. ev_set (f p) = ev_set p \<and> ev_wait (f p) = ev_wait p
      \<and> activePriority (f p) = activePriority p \<and> resourceHead (f p) = resourceHead p"
  shows "same_frame s (upd_pcb i f s)"
  using assms by (simp add: same_frame_def pcb_upd_pcb)

lemma same_frame_fields [simp]:
  "same_frame s (t\<lparr>ready_head := q\<rparr>) = same_frame s t"
  "same_frame s (t\<lparr>currTaskPtr := c\<rparr>) = same_frame s t"
  "same_frame s (t\<lparr>chainedPcbPtr := ch\<rparr>) = same_frame s t"
  by (simp_all add: same_frame_def)

lemma no_internal_frame: "same_frame s t \<Longrightarrow> no_internal t = no_internal s"
  by (simp add: no_internal_def same_frame_def tconst_def)

lemma queue_okD:
  assumes "queue_ok s"
  shows "distinct (ready_head s)" and "i \<in> set (ready_head s) \<Longrightarrow> i < OS_TASK_CNT s"
    and "currTaskPtr s < OS_TASK_CNT s"
    and "i < OS_TASK_CNT s \<Longrightarrow> i \<in> set (ready_head s) \<longleftrightarrow> in_queue s i"
    and "i < OS_TASK_CNT s \<Longrightarrow> pcb_state (pcb s i) \<in> {1, 2, 4, 8}"
  using assms by (auto simp: queue_ok_def)

text \<open>The bit tests of the code on the four states.\<close>

lemma state_bits:
  assumes "x \<in> {1, 2, 4, 8 :: u16}"
  shows "x AND (ST_READY OR ST_RUNNING) = 0 \<longleftrightarrow> x = 2 \<or> x = 4"
    and "x AND ST_RUNNING = 0 \<longleftrightarrow> x \<noteq> 8"
    and "x AND ST_WAITING = 0 \<longleftrightarrow> x \<noteq> 2"
    and "x AND ST_SUSPENDED = 0 \<longleftrightarrow> x \<noteq> 4"
    and "x AND (ST_READY OR ST_RUNNING OR ST_SLEEPING) = 0 \<longleftrightarrow> x = 2 \<or> x = 4"
  using assms by auto

section \<open>Preservation by the state changes\<close>

lemma queue_ok_upd_same:
  assumes "queue_ok s" and "i < OS_TASK_CNT s" and "\<And>p. pcb_state (f p) = pcb_state p"
  shows "queue_ok (upd_pcb i f s)"
  using assms by (auto simp: queue_ok_def in_queue_def pcb_upd_pcb)

lemma queue_ok_upd_queued:
  assumes "queue_ok s" and "i < OS_TASK_CNT s" and "in_queue s i"
    and "\<And>p. pcb_state (f p) = 1 \<or> pcb_state (f p) = 8"
  shows "queue_ok (upd_pcb i f s)"
  using assms by (auto simp: queue_ok_def in_queue_def pcb_upd_pcb)

lemma queue_ok_insert:
  assumes "queue_ok s" and "i < OS_TASK_CNT s" and "\<not> in_queue s i"
  shows "queue_ok ((upd_pcb i (pcb_state_update (\<lambda>_. ST_READY)) s)\<lparr>ready_head := ready_head s @ [i]\<rparr>)"
  using assms by (auto simp: queue_ok_def in_queue_def pcb_upd_pcb)

lemma queue_ok_remove:
  assumes "queue_ok s" and "i < OS_TASK_CNT s" and "x = 2 \<or> x = 4"
  shows "queue_ok ((upd_pcb i (pcb_state_update (\<lambda>_. x)) s)\<lparr>ready_head := remove1 i (ready_head s)\<rparr>)"
  using assms by (auto simp: queue_ok_def in_queue_def pcb_upd_pcb set_remove1_eq
      dest: in_set_remove1 notin_set_remove1)

lemma MakeReady_ok:
  assumes "queue_ok s" and "i < OS_TASK_CNT s"
  shows "queue_ok (Os_TaskMakeReady i s) \<and> same_frame s (Os_TaskMakeReady i s)
    \<and> in_queue (Os_TaskMakeReady i s) i \<and> set (ready_head (Os_TaskMakeReady i s)) = insert i (set (ready_head s))
    \<and> currTaskPtr (Os_TaskMakeReady i s) = currTaskPtr s
    \<and> (\<forall>j. pcb_flags (pcb (Os_TaskMakeReady i s) j) = pcb_flags (pcb s j)
         \<and> activations (pcb (Os_TaskMakeReady i s) j) = activations (pcb s j)
         \<and> (j \<noteq> i \<longrightarrow> pcb (Os_TaskMakeReady i s) j = pcb s j))"
proof (cases "in_queue s i")
  case True
  then have "Os_TaskMakeReady i s = s"
    using state_bits(1) [OF queue_okD(5) [OF assms]]
    by (auto simp: Os_TaskMakeReady_def in_queue_def)
  with True assms queue_okD(4) [OF assms] show ?thesis by auto
next
  case False
  then have "Os_TaskMakeReady i s =
      (upd_pcb i (pcb_state_update (\<lambda>_. ST_READY)) s)\<lparr>ready_head := ready_head s @ [i]\<rparr>"
    using state_bits(1) [OF queue_okD(5) [OF assms]] queue_okD(5) [OF assms]
    by (auto simp: Os_TaskMakeReady_def in_queue_def)
  with queue_ok_insert [OF assms False] assms(2) show ?thesis
    by (simp add: same_frame_upd in_queue_def pcb_upd_pcb)
qed

text \<open>After the hook of the leaving task: the queue is in order and no hook is pending.\<close>

definition between :: "Os \<Rightarrow> Os \<Rightarrow> bool" where
  "between s t \<longleftrightarrow> queue_ok t \<and> hooks_clear t \<and> same_frame s t \<and> currTaskPtr t = currTaskPtr s"

lemma POSTTASKHOOK_ok:
  assumes "queue_ok s" and "task_level s"
  obtains t where "POSTTASKHOOK s = Some t" and "between s t" and "ready_head t = ready_head s"
    and "chainedPcbPtr t = chainedPcbPtr s" and "\<forall>j. pcb_state (pcb t j) = pcb_state (pcb s j)"
proof -
  let ?c = "currTaskPtr s"
  have c: "?c < OS_TASK_CNT s" using assms(1) by (rule queue_okD)
  let ?t = "upd_pcb ?c (pcb_flags_update (\<lambda>_. 0)) s"
  have "POSTTASKHOOK s = Some ?t"
    using assms(2) c by (simp add: POSTTASKHOOK_def task_level_def)
  moreover have "between s ?t"
    using assms c by (auto simp: between_def hooks_clear_def task_level_def pcb_upd_pcb
        intro!: queue_ok_upd_same same_frame_upd)
  ultimately show thesis using that [of ?t] c by (simp add: pcb_upd_pcb)
qed

section \<open>The scan of the ready queue\<close>

lemma top_scan_some:
  assumes "\<forall>i \<in> set q. pcb_state (pcb s i) AND (ST_READY OR ST_RUNNING) \<noteq> 0"
  shows "\<exists>t. top_scan s q (Some b) = Some (Some t) \<and> t \<in> insert b (set q)
    \<and> (\<forall>i \<in> insert b (set q). activePriority (pcb s i) \<le> activePriority (pcb s t))"
  using assms
proof (induction q arbitrary: b)
  case Nil
  then show ?case by simp
next
  case (Cons i q)
  let ?b = "if activePriority (pcb s i) > activePriority (pcb s b) then i else b"
  from Cons obtain t where "top_scan s q (Some ?b) = Some (Some t)" and "t \<in> insert ?b (set q)"
    and mx: "\<forall>j \<in> insert ?b (set q). activePriority (pcb s j) \<le> activePriority (pcb s t)"
    by (metis list.set_intros(2))
  moreover have "activePriority (pcb s i) \<le> activePriority (pcb s ?b)"
    and "activePriority (pcb s b) \<le> activePriority (pcb s ?b)" by (auto simp: not_less)
  ultimately show ?case using Cons.prems by (auto intro: order_trans split: if_splits)
qed

lemma TaskGetTop_ok:
  assumes "queue_ok s" and "ready_head s \<noteq> []"
  obtains t where "Os_TaskGetTop s = Some t" and "t \<in> set (ready_head s)"
    and "\<forall>i \<in> set (ready_head s). activePriority (pcb s i) \<le> activePriority (pcb s t)"
proof -
  obtain i q where r: "ready_head s = i # q" using assms(2) by (cases "ready_head s") auto
  have st: "\<forall>j \<in> set (ready_head s). pcb_state (pcb s j) AND (ST_READY OR ST_RUNNING) \<noteq> 0"
    using assms(1) by (auto simp: queue_ok_def in_queue_def)
  with r top_scan_some [of q s i] obtain t where "top_scan s (ready_head s) None = Some (Some t)"
    and "t \<in> set (ready_head s)"
    and "\<forall>i \<in> set (ready_head s). activePriority (pcb s i) \<le> activePriority (pcb s t)"
    by auto
  then show thesis using that by (simp add: Os_TaskGetTop_def)
qed

section \<open>Running a task\<close>

text \<open>The current task has the greatest priority of the ready queue.\<close>

definition top_running :: "Os \<Rightarrow> bool" where
  "top_running s \<longleftrightarrow> (\<forall>i \<in> set (ready_head s).
     activePriority (pcb s i) \<le> activePriority (pcb s (currTaskPtr s)))"

lemma run_ok:
  assumes "between s t" and "i \<in> set (ready_head t)" and "intNestCnt s = 0"
  obtains u where "PRETASKHOOK (Os_TaskMakeRunning i (t\<lparr>currTaskPtr := i\<rparr>)) = Some u"
    and "queue_ok u" and "task_level u" and "same_frame s u" and "currTaskPtr u = i"
    and "ready_head u = ready_head t"
    and "\<forall>j. activePriority (pcb u j) = activePriority (pcb t j)"
    and "\<forall>j. j \<noteq> i \<longrightarrow> pcb_state (pcb u j) = pcb_state (pcb t j)"
    and "chainedPcbPtr u = chainedPcbPtr t"
proof -
  have q: "queue_ok t" and h: "hooks_clear t" and f: "same_frame s t"
    using assms(1) by (simp_all add: between_def)
  have i: "i < OS_TASK_CNT t" using q assms(2) by (rule queue_okD(2))
  have inq: "in_queue t i" using queue_okD(4) [OF q i] assms(2) by simp
  let ?t = "t\<lparr>currTaskPtr := i\<rparr>"
  have qt: "queue_ok ?t" using q i by (simp add: queue_ok_def in_queue_def)
  let ?v = "Os_TaskMakeRunning i ?t"
  have v: "queue_ok ?v" unfolding Os_TaskMakeRunning_def
    by (rule queue_ok_upd_queued [OF qt]) (use i inq in \<open>simp_all add: in_queue_def\<close>)
  let ?u = "upd_pcb i (pcb_flags_update (\<lambda>_. 1)) ?v"
  have "PRETASKHOOK ?v = Some ?u"
    using i h by (simp add: PRETASKHOOK_def Os_TaskMakeRunning_def pcb_upd_pcb hooks_clear_def)
  moreover have "queue_ok ?u"
    by (rule queue_ok_upd_same [OF v]) (use i in \<open>simp_all add: Os_TaskMakeRunning_def\<close>)
  moreover have "task_level ?u"
    using i h f assms(3)
    by (auto simp: task_level_def Os_TaskMakeRunning_def pcb_upd_pcb hooks_clear_def same_frame_def)
  moreover have "same_frame s ?u"
    using f i by (simp add: same_frame_def Os_TaskMakeRunning_def pcb_upd_pcb)
  ultimately show thesis
    using that [of ?u] i by (simp add: Os_TaskMakeRunning_def pcb_upd_pcb)
qed


section \<open>The dispatcher\<close>

definition another_ready :: "Os \<Rightarrow> bool" where
  "another_ready s \<longleftrightarrow> (\<exists>j \<in> set (ready_head s). j \<noteq> currTaskPtr s)"

text \<open>What an operation needs: the operations that may take the current task out of the queue
  need another one there.\<close>

definition op_ok :: "OpType \<Rightarrow> Os \<Rightarrow> bool" where
  "op_ok op s \<longleftrightarrow>
     (op \<in> {OP_WAIT_EVENT, OP_TERMINATE_TASK, OP_CHAIN_TASK} \<longrightarrow> another_ready s)
     \<and> (op = OP_CHAIN_TASK \<longrightarrow> chainedPcbPtr s \<noteq> None)"

definition leave :: "OpType \<Rightarrow> nat \<Rightarrow> Os \<Rightarrow> Os option" where
  "leave op cur s1 = (case op of
      OP_SET_EVENT \<Rightarrow> Os_TaskRunningToReady cur s1
    | OP_SCHEDULE \<Rightarrow> Os_TaskRunningToReady cur s1
    | OP_RELEASE_RESOURCE \<Rightarrow> Os_TaskRunningToReady cur s1
    | OP_WAIT_EVENT \<Rightarrow> Os_TaskMakeWaiting cur s1
    | OP_ACTIVATE_TASK \<Rightarrow> Some (Os_TaskMakeReady cur s1)
    | OP_CHAIN_TASK \<Rightarrow> dispatch_chain cur s1
    | OP_TERMINATE_TASK \<Rightarrow> dispatch_terminate cur s1)"

lemma between_upd_same:
  assumes "between s t" and "i < OS_TASK_CNT t"
    and "\<And>p. pcb_state (f p) = pcb_state p \<and> pcb_flags (f p) = pcb_flags p \<and> ev_set (f p) = ev_set p
      \<and> ev_wait (f p) = ev_wait p \<and> activePriority (f p) = activePriority p
      \<and> resourceHead (f p) = resourceHead p"
  shows "between s (upd_pcb i f t)"
  using assms
  by (auto simp: between_def hooks_clear_def pcb_upd_pcb same_frame_def intro!: queue_ok_upd_same)

lemma RunningToReady_between:
  assumes "between s t" and "pcb_state (pcb t (currTaskPtr s)) = ST_RUNNING"
  shows "\<exists>u. Os_TaskRunningToReady (currTaskPtr s) t = Some u \<and> between s u
    \<and> ready_head u = ready_head t \<and> chainedPcbPtr u = chainedPcbPtr t"
proof -
  have q: "queue_ok t" and c: "currTaskPtr t = currTaskPtr s"
    using assms(1) by (simp_all add: between_def)
  have i: "currTaskPtr s < OS_TASK_CNT t" using queue_okD(3) [OF q] c by simp
  have "queue_ok (upd_pcb (currTaskPtr s) (pcb_state_update (\<lambda>_. ST_READY)) t)"
    by (rule queue_ok_upd_queued [OF q i]) (simp_all add: in_queue_def assms(2))
  with assms i show ?thesis
    by (simp add: Os_TaskRunningToReady_def between_def hooks_clear_def pcb_upd_pcb same_frame_def)
qed

lemma remove_between:
  assumes "between s t" and "pcb_state (pcb t (currTaskPtr s)) = ST_RUNNING"
    and "another_ready t" and "x = 2 \<or> x = 4"
  shows "between s ((upd_pcb (currTaskPtr s) (pcb_state_update (\<lambda>_. x)) t)
      \<lparr>ready_head := remove1 (currTaskPtr s) (ready_head t)\<rparr>)
    \<and> remove1 (currTaskPtr s) (ready_head t) \<noteq> []"
proof -
  have q: "queue_ok t" and c: "currTaskPtr t = currTaskPtr s"
    using assms(1) by (simp_all add: between_def)
  have i: "currTaskPtr s < OS_TASK_CNT t" using queue_okD(3) [OF q] c by simp
  obtain j where "j \<in> set (ready_head t)" "j \<noteq> currTaskPtr s"
    using assms(3) c by (auto simp: another_ready_def)
  then have "j \<in> set (remove1 (currTaskPtr s) (ready_head t))" by (simp add: in_set_remove1)
  then have "remove1 (currTaskPtr s) (ready_head t) \<noteq> []" by auto
  with assms i queue_ok_remove [OF q i assms(4)] show ?thesis
    by (simp add: between_def hooks_clear_def pcb_upd_pcb same_frame_def)
qed

lemma terminate_between:
  assumes "between s t" and "pcb_state (pcb t (currTaskPtr s)) = ST_RUNNING" and "another_ready t"
  shows "\<exists>u. dispatch_terminate (currTaskPtr s) t = Some u \<and> between s u \<and> ready_head u \<noteq> []
    \<and> chainedPcbPtr u = chainedPcbPtr t"
proof -
  let ?c = "currTaskPtr s"
  let ?t1 = "upd_pcb ?c (activations_update (\<lambda>n. n - 1)) t"
  let ?t2 = "upd_pcb ?c (activations_update (\<lambda>_. 0)) ?t1"
  have i: "?c < OS_TASK_CNT t"
    using assms(1) queue_okD(3) [of t] by (simp add: between_def)
  have b1: "between s ?t1" and b2: "between s ?t2"
    using assms(1) i by (auto intro!: between_upd_same)
  have st: "pcb_state (pcb ?t2 ?c) = ST_RUNNING" using assms(2) i by (simp add: pcb_upd_pcb)
  have an: "another_ready ?t2" using assms(3) by (simp add: another_ready_def)
  have ne: "ready_head t \<noteq> []" using assms(3) by (auto simp: another_ready_def)
  show ?thesis
    using remove_between [OF b2 st an, of 4] b1 st ne
    by (auto simp: dispatch_terminate_def Let_def Os_TaskMakeSuspended_def)
qed

lemma chain_between:
  assumes "between s t" and "pcb_state (pcb t (currTaskPtr s)) = ST_RUNNING" and "another_ready t"
    and "chainedPcbPtr t = Some ch"
  shows "\<exists>u. dispatch_chain (currTaskPtr s) t = Some u \<and> between s u \<and> ready_head u \<noteq> []
    \<and> chainedPcbPtr u = None"
proof -
  let ?c = "currTaskPtr s"
  let ?t1 = "upd_pcb ?c (activations_update (\<lambda>n. n - 1)) t"
  let ?t2 = "upd_pcb ?c (activations_update (\<lambda>_. 0)) ?t1"
  have i: "?c < OS_TASK_CNT t"
    using assms(1) queue_okD(3) [of t] by (simp add: between_def)
  have b1: "between s ?t1" and b2: "between s ?t2"
    using assms(1) i by (auto intro!: between_upd_same)
  have st: "pcb_state (pcb ?t2 ?c) = ST_RUNNING" "pcb_state (pcb ?t1 ?c) = ST_RUNNING"
    using assms(2) i by (simp_all add: pcb_upd_pcb)
  have an: "another_ready ?t2" using assms(3) by (simp add: another_ready_def)
  have ne: "ready_head t \<noteq> []" using assms(3) by (auto simp: another_ready_def)
  have clear: "between s u \<Longrightarrow> between s (u\<lparr>chainedPcbPtr := None\<rparr>)" for u
    by (simp add: between_def hooks_clear_def queue_ok_def in_queue_def)
  obtain u1 where u1: "Os_TaskRunningToReady ?c ?t1 = Some u1" "between s u1" "ready_head u1 = ready_head t"
    using RunningToReady_between [OF b1 st(2)] by auto
  show ?thesis
    using remove_between [OF b2 st(1) an, of 4] u1 st(1) ne clear [of u1] clear assms(1,4)
    by (auto simp: dispatch_chain_def Let_def Os_TaskMakeSuspended_def)
qed

lemma leave_between:
  assumes "between s t" and "pcb_state (pcb t (currTaskPtr s)) = ST_RUNNING"
    and "op_ok op t" and "ready_head t \<noteq> []"
  shows "\<exists>u. leave op (currTaskPtr s) t = Some u \<and> between s u \<and> ready_head u \<noteq> []
    \<and> (op = OP_CHAIN_TASK \<longrightarrow> chainedPcbPtr u = None)"
proof (cases op)
  case OP_WAIT_EVENT
  with assms remove_between [OF assms(1,2), of 2] show ?thesis
    by (auto simp: leave_def Os_TaskMakeWaiting_def op_ok_def)
next
  case OP_ACTIVATE_TASK
  with assms show ?thesis by (simp add: leave_def Os_TaskMakeReady_def)
next
  case OP_TERMINATE_TASK
  with assms terminate_between [OF assms(1,2)] show ?thesis by (auto simp: leave_def op_ok_def)
next
  case OP_CHAIN_TASK
  with assms chain_between [OF assms(1,2)] show ?thesis by (auto simp: leave_def op_ok_def)
qed (use assms RunningToReady_between [OF assms(1,2)] in \<open>auto simp: leave_def\<close>)

lemma Dispatch_steps:
  assumes "queue_ok s" and "task_level s" and "Os_SchedulerResourceIsFree s" and "no_internal s"
    and "op_ok op s"
  obtains t u top v where "POSTTASKHOOK s = Some t" and "leave op (currTaskPtr s) t = Some u"
    and "PRETASKHOOK (Os_TaskMakeRunning top (u\<lparr>currTaskPtr := top\<rparr>)) = Some v"
    and "Os_Dispatch op s = Some v" and "queue_ok v" and "task_level v"
    and "same_frame s v" and "top_running v" and "ready_head t = ready_head s"
    and "pcb_state (pcb t (currTaskPtr s)) = ST_RUNNING" and "ready_head v = ready_head u"
    and "currTaskPtr v = top" and "\<forall>j. j \<noteq> top \<longrightarrow> pcb_state (pcb v j) = pcb_state (pcb u j)"
    and "OS_TASK_CNT t = OS_TASK_CNT s" and "OS_TASK_CNT u = OS_TASK_CNT s"
proof -
  let ?c = "currTaskPtr s"
  obtain t where post: "POSTTASKHOOK s = Some t" and b: "between s t"
    and rt: "ready_head t = ready_head s" and ct: "chainedPcbPtr t = chainedPcbPtr s"
    and st: "\<forall>j. pcb_state (pcb t j) = pcb_state (pcb s j)"
    using POSTTASKHOOK_ok [OF assms(1,2)] by blast
  have run: "pcb_state (pcb s ?c) = ST_RUNNING" and nest: "intNestCnt s = 0"
    using assms(2) by (simp_all add: task_level_def)
  have c: "?c < OS_TASK_CNT s" using assms(1) by (rule queue_okD)
  have "?c \<in> set (ready_head s)"
    using queue_okD(4) [OF assms(1) c] run by (simp add: in_queue_def)
  then have ne: "ready_head t \<noteq> []" by (auto simp: rt)
  have ok: "op_ok op t" using assms(5) b by (simp add: op_ok_def another_ready_def rt ct between_def)
  have runt: "pcb_state (pcb t ?c) = ST_RUNNING" using run st by simp
  obtain u where lv: "leave op ?c t = Some u" and bu: "between s u" and nu: "ready_head u \<noteq> []"
    and ch: "op = OP_CHAIN_TASK \<longrightarrow> chainedPcbPtr u = None"
    using leave_between [OF b runt ok ne] by auto
  have qu: "queue_ok u" and cu: "currTaskPtr u = ?c" and fu: "same_frame s u"
    using bu by (simp_all add: between_def)
  obtain top where gt: "Os_TaskGetTop u = Some top" and tin: "top \<in> set (ready_head u)"
    and mx: "\<forall>i \<in> set (ready_head u). activePriority (pcb u i) \<le> activePriority (pcb u top)"
    using TaskGetTop_ok [OF qu nu] by blast
  obtain v where pre: "PRETASKHOOK (Os_TaskMakeRunning top (u\<lparr>currTaskPtr := top\<rparr>)) = Some v"
    and v: "queue_ok v" "task_level v" "same_frame s v" "currTaskPtr v = top"
      "ready_head v = ready_head u" "\<forall>j. activePriority (pcb v j) = activePriority (pcb u j)"
      "\<forall>j. j \<noteq> top \<longrightarrow> pcb_state (pcb v j) = pcb_state (pcb u j)"
    using run_ok [OF bu tin nest] by metis
  have ni: "resourceIntPtr (tconst u i) = None" if "i < OS_TASK_CNT s" for i
    using no_internal_frame [OF fu] assms(4) fu that by (simp add: no_internal_def same_frame_def)
  have tl: "top < OS_TASK_CNT s" using queue_okD(2) [OF qu tin] fu by (simp add: same_frame_def)
  have swap: "Os_TaskSwapContext top u = Some v"
    using pre ni [OF tl] by (simp add: Os_TaskSwapContext_def Os_ResourceGetInternal_def)
  have rel: "Os_ResourceReleaseInternal u = Some u"
    using ni [OF c] by (simp add: Os_ResourceReleaseInternal_def cu)
  have self: "u\<lparr>currTaskPtr := ?c\<rparr> = u" by (cases u) (use cu in simp)
  have cond: "\<not> (op = OP_CHAIN_TASK \<and> chainedPcbPtr u = Some ?c)" using ch by auto
  have "Os_Dispatch op s = Some v"
  proof (cases "top = ?c")
    case True
    with pre self show ?thesis
      using lv gt by (simp add: Os_Dispatch_def Let_def nest assms(3) run post
          leave_def [symmetric])
  next
    case False
    with swap rel cond show ?thesis
      using lv gt by (auto simp: Os_Dispatch_def Let_def nest assms(3) run post
          leave_def [symmetric])
  qed
  moreover have "top_running v" using mx v by (simp add: top_running_def)
  ultimately show thesis
    using that [OF post lv pre] v rt runt b bu by (simp add: between_def same_frame_def)
qed

end
