(* ===== verification/OsServiceInv.thy ===== *)
theory OsServiceInv
  imports OsInv
begin

text \<open>
  The services keep the kernel's invariant and return.  \<open>kernel_ok\<close> adds to the queue and
  task-level invariants of \<open>OsInv\<close> that a suspended task has no activation, that the idle task
  (the first of the table, a basic task) is in the ready queue, and that the scheduler resource
  is free or held by the current task.  \<open>run_call\<close> is the service a task calls, \<open>call_ok\<close> the
  rules for its arguments that the code does not check itself.
\<close>

section \<open>The invariant of the kernel at task level\<close>

definition act_ok :: "Os \<Rightarrow> bool" where
  "act_ok s \<longleftrightarrow> (\<forall>i < OS_TASK_CNT s.
     pcb_state (pcb s i) = ST_SUSPENDED \<longrightarrow> activations (pcb s i) = 0)"

definition idle_ok :: "Os \<Rightarrow> bool" where
  "idle_ok s \<longleftrightarrow> 0 \<in> set (ready_head s) \<and> proc_kind (tconst s 0) = PROC_BASIC"

definition sched_ok :: "Os \<Rightarrow> bool" where
  "sched_ok s \<longleftrightarrow> Os_SchedulerResourceIsFree s
     \<or> ResScheduler \<in> set (resourceHead (pcb s (currTaskPtr s)))"

definition kernel_base :: "Os \<Rightarrow> bool" where
  "kernel_base s \<longleftrightarrow> queue_ok s \<and> task_level s \<and> idle_ok s \<and> sched_ok s \<and> no_internal s
     \<and> res_type (resScheduler s) = RESOURCE_TYPE_STANDARD"

definition kernel_ok :: "Os \<Rightarrow> bool" where
  "kernel_ok s \<longleftrightarrow> kernel_base s \<and> act_ok s"

section \<open>Activations through the dispatcher\<close>

lemma act_ok_fields [simp]:
  "act_ok (s\<lparr>ready_head := q\<rparr>) = act_ok s"
  "act_ok (s\<lparr>currTaskPtr := c\<rparr>) = act_ok s"
  "act_ok (s\<lparr>chainedPcbPtr := ch\<rparr>) = act_ok s"
  "act_ok (s\<lparr>os_errors := es\<rparr>) = act_ok s"
  by (simp_all add: act_ok_def)

lemma act_ok_upd:
  assumes "act_ok s"
    and "pcb_state (f (pcb s i)) = ST_SUSPENDED \<Longrightarrow> activations (f (pcb s i)) = 0"
  shows "act_ok (upd_pcb i f s)"
proof (cases "i < OS_TASK_CNT s")
  case True
  with assms show ?thesis by (auto simp: act_ok_def pcb_upd_pcb)
next
  case False
  then have "upd_pcb i f s = s" by (simp add: upd_pcb_def OS_TASK_CNT_def list_update_beyond)
  with assms show ?thesis by simp
qed

lemma upd_pcb_beyond: "\<not> i < OS_TASK_CNT s \<Longrightarrow> upd_pcb i f s = s"
  by (simp add: upd_pcb_def OS_TASK_CNT_def list_update_beyond)

lemma act_ok_flags: "act_ok s \<Longrightarrow> act_ok (upd_pcb i (pcb_flags_update f) s)"
  by (cases "i < OS_TASK_CNT s") (simp_all add: upd_pcb_beyond, simp add: act_ok_def pcb_upd_pcb)

lemma act_ok_RunningToReady: "Os_TaskRunningToReady i s = Some t \<Longrightarrow> act_ok s \<Longrightarrow> act_ok t"
  by (auto simp: Os_TaskRunningToReady_def intro!: act_ok_upd split: if_splits)

lemma act_ok_MakeReady: "act_ok s \<Longrightarrow> act_ok (Os_TaskMakeReady i s)"
  by (auto simp: Os_TaskMakeReady_def intro!: act_ok_upd)

lemma act_ok_MakeWaiting: "Os_TaskMakeWaiting i s = Some t \<Longrightarrow> act_ok s \<Longrightarrow> act_ok t"
  by (auto simp: Os_TaskMakeWaiting_def intro!: act_ok_upd split: if_splits)

lemma act_ok_finish:
  assumes "act_ok s" and "i < OS_TASK_CNT s" and "pcb_state (pcb s i) \<noteq> ST_SUSPENDED"
  shows "act_ok (upd_pcb i (activations_update (\<lambda>n. n - 1)) s)"
    and "Os_TaskMakeSuspended i (upd_pcb i (activations_update (\<lambda>_. 0))
      (upd_pcb i (activations_update (\<lambda>n. n - 1)) s)) = Some t \<Longrightarrow> act_ok t"
proof -
  show "act_ok (upd_pcb i (activations_update (\<lambda>n. n - 1)) s)"
    using assms by (intro act_ok_upd) simp_all
  then have "act_ok (upd_pcb i (activations_update (\<lambda>_. 0))
      (upd_pcb i (activations_update (\<lambda>n. n - 1)) s))" by (rule act_ok_upd) simp
  moreover assume "Os_TaskMakeSuspended i (upd_pcb i (activations_update (\<lambda>_. 0))
      (upd_pcb i (activations_update (\<lambda>n. n - 1)) s)) = Some t"
  ultimately show "act_ok t" using assms(2)
    by (auto simp: Os_TaskMakeSuspended_def pcb_upd_pcb intro!: act_ok_upd split: if_splits)
qed

lemma act_ok_leave:
  assumes "leave op i s = Some t" and "act_ok s" and "i < OS_TASK_CNT s"
    and "pcb_state (pcb s i) = ST_RUNNING"
  shows "act_ok t"
proof -
  have ns: "pcb_state (pcb s i) \<noteq> ST_SUSPENDED" using assms(4) by simp
  note fin = act_ok_finish [OF assms(2,3) ns]
  show ?thesis
    using assms(1,2) fin
    by (cases op)
      (auto simp: leave_def dispatch_terminate_def dispatch_chain_def Let_def
        dest: act_ok_RunningToReady act_ok_MakeWaiting intro: act_ok_MakeReady
        split: option.splits if_splits Option.bind_splits)
qed

lemma act_ok_PRETASKHOOK: "PRETASKHOOK s = Some t \<Longrightarrow> act_ok s \<Longrightarrow> act_ok t"
  by (auto simp: PRETASKHOOK_def act_ok_flags split: if_splits)

lemma act_ok_POSTTASKHOOK: "POSTTASKHOOK s = Some t \<Longrightarrow> act_ok s \<Longrightarrow> act_ok t"
  by (auto simp: POSTTASKHOOK_def act_ok_flags split: if_splits)

lemma act_ok_Run: "act_ok s \<Longrightarrow> act_ok (Os_TaskMakeRunning i s)"
  by (auto simp: Os_TaskMakeRunning_def intro!: act_ok_upd)

section \<open>The dispatcher keeps the invariant\<close>

lemma leave_queue:
  assumes "leave op i s = Some t" and "pcb_state (pcb s i) = ST_RUNNING"
  shows "ready_head t = ready_head s \<or> ready_head t = remove1 i (ready_head s)"
    and "op \<in> {OP_SET_EVENT, OP_SCHEDULE, OP_RELEASE_RESOURCE, OP_ACTIVATE_TASK} \<Longrightarrow>
      ready_head t = ready_head s"
    and "op = OP_WAIT_EVENT \<Longrightarrow> i < OS_TASK_CNT s \<Longrightarrow> ready_head t = remove1 i (ready_head s)
      \<and> pcb_state (pcb t i) = ST_WAITING"
  using assms
  by (cases op; auto simp: leave_def dispatch_terminate_def dispatch_chain_def Let_def
      Os_TaskMakeSuspended_def Os_TaskMakeWaiting_def Os_TaskMakeReady_def
      Os_TaskRunningToReady_def pcb_upd_pcb split: option.splits if_splits Option.bind_splits)+

lemma Dispatch_ok:
  assumes "kernel_ok s" and "Os_SchedulerResourceIsFree s" and "op_ok op s"
    and "op \<in> {OP_WAIT_EVENT, OP_TERMINATE_TASK, OP_CHAIN_TASK} \<Longrightarrow> currTaskPtr s \<noteq> 0"
  obtains v where "Os_Dispatch op s = Some v" and "kernel_ok v" and "top_running v"
    and "same_frame s v"
    and "op \<in> {OP_SET_EVENT, OP_SCHEDULE, OP_RELEASE_RESOURCE, OP_ACTIVATE_TASK} \<Longrightarrow>
      ready_head v = ready_head s"
    and "op = OP_WAIT_EVENT \<Longrightarrow> ready_head v = remove1 (currTaskPtr s) (ready_head s)
      \<and> pcb_state (pcb v (currTaskPtr s)) = ST_WAITING"
proof -
  let ?c = "currTaskPtr s"
  have q: "queue_ok s" and l: "task_level s" and a: "act_ok s" and id: "idle_ok s"
    and n: "no_internal s" and rt: "res_type (resScheduler s) = RESOURCE_TYPE_STANDARD"
    using assms(1) by (simp_all add: kernel_ok_def kernel_base_def)
  have c: "?c < OS_TASK_CNT s" using q by (rule queue_okD)
  obtain t u top v where st: "POSTTASKHOOK s = Some t" "leave op ?c t = Some u"
    "PRETASKHOOK (Os_TaskMakeRunning top (u\<lparr>currTaskPtr := top\<rparr>)) = Some v"
    and v: "Os_Dispatch op s = Some v" "queue_ok v" "task_level v" "same_frame s v" "top_running v"
    and rh: "ready_head t = ready_head s" and run: "pcb_state (pcb t ?c) = ST_RUNNING"
    and rv: "ready_head v = ready_head u" and top: "currTaskPtr v = top"
    and keep: "\<forall>j. j \<noteq> top \<longrightarrow> pcb_state (pcb v j) = pcb_state (pcb u j)"
    and cnt: "OS_TASK_CNT t = OS_TASK_CNT s" "OS_TASK_CNT u = OS_TASK_CNT s"
    using Dispatch_steps [OF q l assms(2) n assms(3)] by metis
  have act: "act_ok v"
    using act_ok_PRETASKHOOK [OF st(3)] act_ok_leave [OF st(2) act_ok_POSTTASKHOOK [OF st(1) a] _ run]
      c cnt by (simp add: act_ok_Run)
  have sub: "j \<in> set (ready_head v)" if "j \<in> set (ready_head s)" "j \<noteq> ?c" for j
    using leave_queue(1) [OF st(2) run] that by (auto simp: rv rh)
  have same: "ready_head v = ready_head s"
    if "op \<in> {OP_SET_EVENT, OP_SCHEDULE, OP_RELEASE_RESOURCE, OP_ACTIVATE_TASK}"
    using leave_queue(2) [OF st(2) run that] by (simp add: rv rh)
  have "0 \<in> set (ready_head v)"
    using id sub [of 0] same assms(4) by (cases op) (auto simp: idle_ok_def)
  then have id': "idle_ok v" using id v(4) by (simp add: idle_ok_def same_frame_def tconst_def)
  have fr: "Os_SchedulerResourceIsFree v" using v(4) assms(2)
    by (simp add: same_frame_def Os_SchedulerResourceIsFree_def)
  have wait: "ready_head v = remove1 ?c (ready_head s) \<and> pcb_state (pcb v ?c) = ST_WAITING"
    if "op = OP_WAIT_EVENT"
  proof -
    have w: "ready_head v = remove1 ?c (ready_head s)" and "pcb_state (pcb u ?c) = ST_WAITING"
      using leave_queue(3) [OF st(2) run that] c cnt by (simp_all add: rv rh)
    moreover have "top \<in> set (ready_head v)"
      using queue_okD(3,4) [OF v(2)] v(3) by (auto simp: task_level_def in_queue_def top)
    then have "top \<noteq> ?c" using w queue_okD(1) [OF q] by auto
    ultimately show ?thesis using keep by auto
  qed
  have "kernel_ok v"
    using v act id' fr n no_internal_frame [OF v(4)] rt
    by (simp add: kernel_ok_def kernel_base_def sched_ok_def same_frame_def)
  with that v same wait show thesis by blast
qed

lemma op_ok_idle:
  assumes "kernel_ok s" and "op \<noteq> OP_CHAIN_TASK"
    and "op \<in> {OP_WAIT_EVENT, OP_TERMINATE_TASK} \<Longrightarrow> currTaskPtr s \<noteq> 0"
  shows "op_ok op s"
  using assms by (auto simp: op_ok_def another_ready_def kernel_ok_def kernel_base_def idle_ok_def
      intro!: bexI [of _ 0])

section \<open>The changes the services make themselves\<close>

lemma kernel_ok_errors: "kernel_ok s \<Longrightarrow> kernel_ok (s\<lparr>os_errors := es\<rparr>)"
  by (simp add: kernel_ok_def kernel_base_def queue_ok_def in_queue_def task_level_def idle_ok_def sched_ok_def
      no_internal_def Os_SchedulerResourceIsFree_def)

text \<open>Room for \<open>n\<close> more reports in the error log.\<close>

definition hook_room :: "nat \<Rightarrow> Os \<Rightarrow> bool" where
  "hook_room n s \<longleftrightarrow> length (os_errors s) + n < ERROR_LOG_SIZE"

lemma ErrorHook_room: "ErrorHook e s =
    (if hook_room 1 s then Some (s\<lparr>os_errors := os_errors s @ [e]\<rparr>) else None)"
  by (auto simp: ErrorHook_def hook_room_def)

lemma os_err_room: "os_err rv s =
    (if hook_room 1 s then Some (rv, s\<lparr>os_errors := os_errors s @ [rv]\<rparr>) else None)"
  by (simp add: os_err_def ErrorHook_room)

lemma hook_room_upd [simp]: "hook_room n (upd_pcb i f s) = hook_room n s"
  by (simp add: hook_room_def)

lemma kernel_base_upd:
  assumes "kernel_base s" and "i < OS_TASK_CNT s"
    and "\<And>p. pcb_state (f p) = pcb_state p \<and> pcb_flags (f p) = pcb_flags p
      \<and> resourceHead (f p) = resourceHead p"
  shows "kernel_base (upd_pcb i f s)"
  using assms queue_ok_upd_same [of s i f]
  by (auto simp: kernel_base_def task_level_def idle_ok_def sched_ok_def no_internal_def pcb_upd_pcb)

lemma kernel_ok_upd:
  assumes "kernel_ok s" and "i < OS_TASK_CNT s"
    and "\<And>p. pcb_state (f p) = pcb_state p \<and> pcb_flags (f p) = pcb_flags p
      \<and> resourceHead (f p) = resourceHead p"
    and "pcb_state (pcb s i) = ST_SUSPENDED \<Longrightarrow> activations (f (pcb s i)) = 0"
  shows "kernel_ok (upd_pcb i f s)"
  using assms kernel_base_upd [of s i f] by (auto simp: kernel_ok_def intro!: act_ok_upd)

lemma kernel_base_MakeReady:
  assumes "kernel_base s" and "i < OS_TASK_CNT s"
  shows "kernel_base (Os_TaskMakeReady i s)"
proof (cases "in_queue s i")
  case True
  then have "Os_TaskMakeReady i s = s" by (auto simp: Os_TaskMakeReady_def in_queue_def)
  with assms show ?thesis by simp
next
  case False
  have q: "queue_ok s" and run: "in_queue s (currTaskPtr s)"
    using assms(1) by (simp_all add: kernel_base_def task_level_def in_queue_def)
  then have "i \<noteq> currTaskPtr s" using False by auto
  with MakeReady_ok [OF q assms(2)] assms(1) show ?thesis
    by (simp add: kernel_base_def task_level_def idle_ok_def sched_ok_def same_frame_def no_internal_def
        tconst_def Os_SchedulerResourceIsFree_def)
qed

lemma kernel_ok_MakeReady:
  "kernel_ok s \<Longrightarrow> i < OS_TASK_CNT s \<Longrightarrow> kernel_ok (Os_TaskMakeReady i s)"
  by (simp add: kernel_ok_def kernel_base_MakeReady act_ok_MakeReady)

lemma CleanContext_frame [simp]:
  "OS_TASK_CNT (Os_Arc_SetCleanContext i s) = OS_TASK_CNT s"
  "currTaskPtr (Os_Arc_SetCleanContext i s) = currTaskPtr s"
  by (simp_all add: Os_Arc_SetCleanContext_def)

lemma kernel_base_CleanContext:
  "kernel_base s \<Longrightarrow> i < OS_TASK_CNT s \<Longrightarrow> kernel_base (Os_Arc_SetCleanContext i s)"
  by (simp add: Os_Arc_SetCleanContext_def kernel_base_upd)

lemma MakeReady_suspended:
  assumes "i < OS_TASK_CNT s" and "pcb_state (pcb s i) = ST_SUSPENDED"
    and "\<forall>j < OS_TASK_CNT s. j \<noteq> i \<longrightarrow> pcb_state (pcb s j) = ST_SUSPENDED \<longrightarrow> activations (pcb s j) = 0"
  shows "act_ok (Os_TaskMakeReady i (Os_Arc_SetCleanContext i s))"
  using assms by (auto simp: Os_TaskMakeReady_def Os_Arc_SetCleanContext_def act_ok_def pcb_upd_pcb)

text \<open>The activation of a suspended task.\<close>

lemma kernel_ok_activate:
  assumes "kernel_ok s" and "i < OS_TASK_CNT s" and "pcb_state (pcb s i) = ST_SUSPENDED"
  shows "kernel_ok (Os_TaskMakeReady i (Os_Arc_SetCleanContext i
      (upd_pcb i (activations_update f) s)))"
    and "kernel_ok (upd_pcb i (activations_update f)
      (Os_TaskMakeReady i (Os_Arc_SetCleanContext i s)))"
proof -
  have b: "kernel_base s" and a: "act_ok s" using assms(1) by (simp_all add: kernel_ok_def)
  let ?s = "upd_pcb i (activations_update f) s"
  have "kernel_base ?s" using b assms(2) by (rule kernel_base_upd) simp
  then have 1: "kernel_base (Os_TaskMakeReady i (Os_Arc_SetCleanContext i ?s))"
    using assms(2) by (simp add: kernel_base_CleanContext kernel_base_MakeReady)
  have "act_ok (Os_TaskMakeReady i (Os_Arc_SetCleanContext i ?s))"
    by (rule MakeReady_suspended) (use a assms(2,3) in \<open>simp_all add: act_ok_def pcb_upd_pcb\<close>)
  with 1 show "kernel_ok (Os_TaskMakeReady i (Os_Arc_SetCleanContext i ?s))" by (simp add: kernel_ok_def)
  let ?t = "Os_TaskMakeReady i (Os_Arc_SetCleanContext i s)"
  have "kernel_base ?t" using b assms(2) by (simp add: kernel_base_CleanContext kernel_base_MakeReady)
  moreover have "act_ok ?t" by (rule MakeReady_suspended) (use a assms(2,3) in \<open>simp_all add: act_ok_def\<close>)
  moreover have "pcb_state (pcb ?t i) \<noteq> ST_SUSPENDED" "OS_TASK_CNT ?t = OS_TASK_CNT s"
    using assms(2,3) by (auto simp: Os_TaskMakeReady_def Os_Arc_SetCleanContext_def pcb_upd_pcb)
  ultimately show "kernel_ok (upd_pcb i (activations_update f) ?t)"
    using assms(2) by (intro kernel_ok_upd) (simp_all add: kernel_ok_def)
qed

section \<open>Each service\<close>

text \<open>What no service but those on resources changes: configuration, resources, priorities,
  counters and alarms.\<close>

definition calm :: "Os \<Rightarrow> Os \<Rightarrow> bool" where
  "calm s t \<longleftrightarrow> Os_TaskConstList t = Os_TaskConstList s \<and> OS_TASK_CNT t = OS_TASK_CNT s
     \<and> resource_list t = resource_list s \<and> resScheduler t = resScheduler s
     \<and> counter_list t = counter_list s \<and> alarm_list t = alarm_list s
     \<and> intNestCnt t = intNestCnt s \<and> os_tick t = os_tick s
     \<and> Os_IntDisableAllCnt t = Os_IntDisableAllCnt s
     \<and> Os_IntSuspendAllCnt t = Os_IntSuspendAllCnt s \<and> Os_IntSuspendOsCnt t = Os_IntSuspendOsCnt s
     \<and> (\<forall>i < OS_TASK_CNT s. activePriority (pcb t i) = activePriority (pcb s i)
          \<and> resourceHead (pcb t i) = resourceHead (pcb s i))"

lemma calm_fields [simp]:
  "calm s s"
  "calm s (t\<lparr>os_errors := es\<rparr>) = calm s t"
  "calm s (t\<lparr>ready_head := q\<rparr>) = calm s t"
  "calm s (t\<lparr>currTaskPtr := c\<rparr>) = calm s t"
  "calm s (t\<lparr>chainedPcbPtr := ch\<rparr>) = calm s t"
  by (simp_all add: calm_def)

lemma calm_trans: "calm s t \<Longrightarrow> calm t u \<Longrightarrow> calm s u"
  by (simp add: calm_def)

lemma calm_upd:
  assumes "calm s t"
    and "\<And>p. activePriority (f p) = activePriority p \<and> resourceHead (f p) = resourceHead p"
  shows "calm s (upd_pcb i f t)"
  using assms by (cases "i < OS_TASK_CNT t") (auto simp: calm_def pcb_upd_pcb upd_pcb_beyond)

lemma calm_pcb_fields [simp]:
  assumes "calm s t"
  shows "calm s (upd_pcb i (pcb_state_update f) t)" "calm s (upd_pcb i (ev_set_update g) t)"
    "calm s (upd_pcb i (ev_wait_update g) t)" "calm s (upd_pcb i (activations_update h) t)"
  using assms by (simp_all add: calm_upd)

lemma calm_MakeReady [simp]: "calm s t \<Longrightarrow> calm s (Os_TaskMakeReady i t)"
  by (simp add: Os_TaskMakeReady_def)

lemma calm_CleanContext [simp]: "calm s t \<Longrightarrow> calm s (Os_Arc_SetCleanContext i t)"
  by (simp add: Os_Arc_SetCleanContext_def calm_upd)

lemma calm_same_frame: "same_frame t v \<Longrightarrow> calm s t \<Longrightarrow> calm s v"
  by (simp add: calm_def same_frame_def)

text \<open>A service called in \<open>s\<close> returns, unless the error log has no room left, in a state that
  satisfies the invariant and \<open>P\<close>.\<close>

definition returns_ok :: "Os \<Rightarrow> (Os \<Rightarrow> bool) \<Rightarrow> os_result \<Rightarrow> bool" where
  "returns_ok s P r \<longleftrightarrow>
     (case r of None \<Rightarrow> \<not> hook_room 1 s | Some (rv, t) \<Rightarrow> kernel_ok t \<and> P t)"

lemma returns_okI: "kernel_ok t \<Longrightarrow> P t \<Longrightarrow> returns_ok s P (Some (rv, t))"
  by (simp add: returns_ok_def)

lemma returns_ok_err:
  "kernel_ok t \<Longrightarrow> hook_room 1 t = hook_room 1 s \<Longrightarrow> P (t\<lparr>os_errors := os_errors t @ [rv]\<rparr>) \<Longrightarrow>
     returns_ok s P (os_err rv t)"
  by (simp add: returns_ok_def os_err_room kernel_ok_errors)

lemma kernel_okD:
  assumes "kernel_ok s"
  shows "queue_ok s" and "currTaskPtr s < OS_TASK_CNT s" and "intNestCnt s = 0"
    and "pcb_state (pcb s (currTaskPtr s)) = ST_RUNNING" and "idle_ok s"
  using assms queue_okD(3) [of s] by (simp_all add: kernel_ok_def kernel_base_def task_level_def)

lemma returns_ok_Dispatch:
  assumes "kernel_ok s" and "Os_SchedulerResourceIsFree s"
    and "op = OP_CHAIN_TASK \<Longrightarrow> chainedPcbPtr s \<noteq> None"
    and "op \<in> {OP_WAIT_EVENT, OP_TERMINATE_TASK, OP_CHAIN_TASK} \<Longrightarrow> currTaskPtr s \<noteq> 0"
    and "\<And>v. same_frame s v \<Longrightarrow> P v"
  shows "returns_ok s0 P (do { s' \<leftarrow> Os_Dispatch op s; Some (rv, s') })"
proof -
  have "op_ok op s"
    using assms by (auto simp: op_ok_def another_ready_def kernel_ok_def kernel_base_def idle_ok_def
        intro!: bexI [of _ 0])
  then obtain v where "Os_Dispatch op s = Some v" "kernel_ok v" "same_frame s v"
    using Dispatch_ok [OF assms(1,2) _ assms(4)] by metis
  then show ?thesis using assms(5) by (simp add: returns_ok_def)
qed

lemma sched_free: "kernel_ok s \<Longrightarrow> \<not> Os_TaskOccupiesResources (currTaskPtr s) s
    \<Longrightarrow> Os_SchedulerResourceIsFree s"
  by (auto simp: kernel_ok_def kernel_base_def sched_ok_def Os_TaskOccupiesResources_def)

lemma extended_not_idle:
  "kernel_ok s \<Longrightarrow> proc_kind (tconst s (currTaskPtr s)) = PROC_EXTENDED \<Longrightarrow> currTaskPtr s \<noteq> 0"
  by (auto simp: kernel_ok_def kernel_base_def idle_ok_def intro!: gr0I)

lemma WaitEvent_ok: "kernel_ok s \<Longrightarrow> returns_ok s (calm s) (WaitEvent Mask s)"
proof -
  assume k: "kernel_ok s"
  let ?c = "currTaskPtr s"
  let ?s = "upd_pcb ?c (ev_wait_update (\<lambda>_. Mask)) s"
  have k': "kernel_ok ?s" using k kernel_okD(2,4) [OF k] by (intro kernel_ok_upd) simp_all
  have "returns_ok s (calm s) (do { s' \<leftarrow> Os_Dispatch OP_WAIT_EVENT ?s; Some (E_OK, s') })"
    if "proc_kind (tconst s ?c) = PROC_EXTENDED" "\<not> Os_TaskOccupiesResources ?c s"
    using returns_ok_Dispatch [OF k', where op = OP_WAIT_EVENT and P = "calm s" and rv = E_OK and ?s0.0 = s]
      calm_same_frame [of ?s _ s] sched_free [OF k that(2)]
      extended_not_idle [OF k that(1)] by simp
  then show ?thesis
    using k sched_free [OF k]
    by (cases "proc_kind (tconst s ?c)")
      (auto simp: WaitEvent_def Let_def returns_ok_err intro: returns_okI)
qed

lemma task_valid: "TASK_CHECK_ID t s \<Longrightarrow> unat t \<noteq> OS_TASK_CNT s \<Longrightarrow>
    Os_TaskGet t s = Some (unat t) \<and> unat t < OS_TASK_CNT s"
  by (simp add: TASK_CHECK_ID_def Os_TaskGet_def)

lemma returns_ok_preempt:
  assumes "preempts dest s" and "kernel_ok s" and "op = OP_SET_EVENT \<or> op = OP_ACTIVATE_TASK"
    and "\<And>v. same_frame s v \<Longrightarrow> P v"
  shows "returns_ok s0 P (do { s' \<leftarrow> Os_Dispatch op s; Some (rv, s') })"
  using assms by (intro returns_ok_Dispatch) (auto simp: preempts_def)

text \<open>The branches of a service, one by one.\<close>

lemma returns_ok_if:
  "(b \<Longrightarrow> returns_ok s P x) \<Longrightarrow> (\<not> b \<Longrightarrow> returns_ok s P y) \<Longrightarrow> returns_ok s P (if b then x else y)"
  by simp

lemmas service_intros = returns_ok_if returns_ok_err returns_okI

lemma SetEvent_ok:
  assumes k: "kernel_ok s" and "unat TaskID \<noteq> OS_TASK_CNT s"
  shows "returns_ok s (calm s) (SetEvent TaskID Mask s)"
proof (cases "TASK_CHECK_ID TaskID s")
  case False
  with k show ?thesis by (simp add: SetEvent_def returns_ok_err)
next
  case True
  let ?d = "unat TaskID"
  have d: "Os_TaskGet TaskID s = Some ?d" "?d < OS_TASK_CNT s"
    using task_valid [OF True assms(2)] by simp_all
  let ?s = "upd_pcb ?d (ev_set_update (\<lambda>m. m OR Mask)) s"
  have k': "kernel_ok ?s"
    using k d(2) by (intro kernel_ok_upd) (auto simp: kernel_ok_def act_ok_def)
  have k2: "kernel_ok (Os_TaskMakeReady ?d ?s)" using k' d(2) by (simp add: kernel_ok_MakeReady)
  have st: "pcb_state (pcb ?s ?d) \<in> {1, 2, 4, 8}" "pcb_state (pcb ?s ?d) = pcb_state (pcb s ?d)"
    using queue_okD(5) [OF kernel_okD(1) [OF k'], of ?d] d(2) by (simp_all add: pcb_upd_pcb)
  show ?thesis
    unfolding SetEvent_def Let_def using True d k k' k2 st
    by (simp split del: if_split, intro service_intros returns_ok_preempt) (auto elim!: calm_same_frame)
qed

lemma GetEvent_ok:
  assumes "kernel_ok s" and "unat TaskID \<noteq> OS_TASK_CNT s"
  shows "returns_ok s (calm s) (do { (rv, _, s') \<leftarrow> GetEvent TaskID s; Some (rv, s') })"
proof (cases "TASK_CHECK_ID TaskID s")
  case True
  then show ?thesis
    using task_valid [OF True assms(2)] assms(1) by (simp add: GetEvent_def returns_ok_def os_err_room kernel_ok_errors)
qed (use assms in \<open>simp add: GetEvent_def returns_ok_def os_err_room kernel_ok_errors\<close>)

lemma GetTaskState_ok:
  assumes "kernel_ok s" and "unat TaskID \<noteq> OS_TASK_CNT s"
  shows "returns_ok s (calm s) (do { (rv, _, s') \<leftarrow> GetTaskState TaskID s; Some (rv, s') })"
proof (cases "TASK_CHECK_ID TaskID s")
  case True
  then show ?thesis
    using task_valid [OF True assms(2)] assms(1) by (simp add: GetTaskState_def returns_ok_def)
qed (use assms in \<open>simp add: GetTaskState_def returns_ok_def os_err_room kernel_ok_errors\<close>)

lemma ClearEvent_ok: "kernel_ok s \<Longrightarrow> returns_ok s (calm s) (ClearEvent Mask s)"
  unfolding ClearEvent_def Let_def
  using kernel_okD(2,4) [of s] by (intro service_intros kernel_ok_upd) simp_all

lemma ActivateTask_ok:
  assumes k: "kernel_ok s" and "unat TaskID \<noteq> OS_TASK_CNT s"
  shows "returns_ok s (calm s) (ActivateTask TaskID s)"
proof (cases "TASK_CHECK_ID TaskID s")
  case False
  with k show ?thesis by (simp add: ActivateTask_def returns_ok_err)
next
  case True
  let ?d = "unat TaskID"
  have d: "Os_TaskGet TaskID s = Some ?d" "?d < OS_TASK_CNT s"
    using task_valid [OF True assms(2)] by simp_all
  let ?s = "upd_pcb ?d (activations_update (\<lambda>n. n + 1)) s"
  have st: "pcb_state (pcb ?s ?d) = pcb_state (pcb s ?d)" using d(2) by (simp add: pcb_upd_pcb)
  have one: "activations (pcb ?s ?d) = 1" if "pcb_state (pcb s ?d) = ST_SUSPENDED"
    using k that d(2) by (simp add: kernel_ok_def act_ok_def pcb_upd_pcb)
  have k1: "kernel_ok ?s" "kernel_ok (upd_pcb ?d (activations_update (\<lambda>n. n - 1)) ?s)"
    if "pcb_state (pcb s ?d) \<noteq> ST_SUSPENDED"
  proof -
    show "kernel_ok ?s" using k d(2) that by (intro kernel_ok_upd) simp_all
    then show "kernel_ok (upd_pcb ?d (activations_update (\<lambda>n. n - 1)) ?s)"
      by (rule kernel_ok_upd) (use d(2) that in \<open>simp_all add: pcb_upd_pcb\<close>)
  qed
  have k2: "kernel_ok (Os_TaskMakeReady ?d (Os_Arc_SetCleanContext ?d ?s))"
    if "pcb_state (pcb s ?d) = ST_SUSPENDED"
    using kernel_ok_activate(1) [OF k d(2) that] .
  show ?thesis
    unfolding ActivateTask_def activate_preempt_def Let_def using True d k k1 k2 st one
    by (simp split del: if_split, intro service_intros returns_ok_preempt) (auto elim!: calm_same_frame)
qed

lemma TerminateTask_ok: "kernel_ok s \<Longrightarrow> currTaskPtr s \<noteq> 0 \<Longrightarrow> returns_ok s (calm s) (TerminateTask s)"
  unfolding TerminateTask_def
  by (intro service_intros returns_ok_Dispatch) (auto simp: sched_free elim!: calm_same_frame)

lemma kernel_ok_chained: "kernel_ok s \<Longrightarrow> kernel_ok (s\<lparr>chainedPcbPtr := ch\<rparr>)"
  by (simp add: kernel_ok_def kernel_base_def queue_ok_def in_queue_def task_level_def idle_ok_def
      sched_ok_def no_internal_def Os_SchedulerResourceIsFree_def)

lemma ChainTask_ok:
  assumes k: "kernel_ok s" and "unat TaskID \<noteq> OS_TASK_CNT s" and "currTaskPtr s \<noteq> 0"
  shows "returns_ok s (calm s) (ChainTask TaskID s)"
proof (cases "TASK_CHECK_ID TaskID s")
  case False
  with k show ?thesis by (simp add: ChainTask_def returns_ok_err)
next
  case True
  let ?d = "unat TaskID"
  have d: "Os_TaskGet TaskID s = Some ?d" "?d < OS_TASK_CNT s"
    using task_valid [OF True assms(2)] by simp_all
  let ?t = "if pcb_state (pcb s ?d) = ST_SUSPENDED
      then Os_TaskMakeReady ?d (Os_Arc_SetCleanContext ?d s) else s"
  let ?u = "upd_pcb ?d (activations_update (\<lambda>n. n + 1)) ?t"
  have cnt: "OS_TASK_CNT ?t = OS_TASK_CNT s" "currTaskPtr ?t = currTaskPtr s"
    by (simp_all add: Os_TaskMakeReady_def Os_Arc_SetCleanContext_def)
  have k2: "kernel_ok (?u\<lparr>chainedPcbPtr := Some ?d\<rparr>)"
    using kernel_ok_activate(2) [OF k d(2)] k d(2) kernel_ok_upd [OF k d(2)]
    by (cases "pcb_state (pcb s ?d) = ST_SUSPENDED") (simp_all add: kernel_ok_chained)
  have free: "Os_SchedulerResourceIsFree (x\<lparr>chainedPcbPtr := Some ?d\<rparr>)"
    if "x = s \<or> x = ?u" "\<not> Os_TaskOccupiesResources (currTaskPtr s) s" for x
    using sched_free [OF k that(2)] that(1)
    by (auto simp: Os_SchedulerResourceIsFree_def Os_TaskMakeReady_def Os_Arc_SetCleanContext_def)
  have zero: "activations (pcb s ?d) = 0" if "pcb_state (pcb s ?d) = ST_SUSPENDED"
    using k that d(2) by (simp add: kernel_ok_def act_ok_def)
  have go: "returns_ok s (calm s) (do { s' \<leftarrow> Os_Dispatch OP_CHAIN_TASK (x\<lparr>chainedPcbPtr := Some ?d\<rparr>); Some (E_OK, s') })"
    if "x = s \<or> x = ?u" "\<not> Os_TaskOccupiesResources (currTaskPtr s) s" for x
    using k2 kernel_ok_chained [OF k] free [OF that] that(1) cnt assms(3)
    by (intro returns_ok_Dispatch) (auto elim!: calm_same_frame)
  show ?thesis
    unfolding ChainTask_def Let_def using True d(1) k zero go [of s] go [of ?u]
    by (simp split del: if_split, intro service_intros) auto
qed

lemma Schedule_ok: "kernel_ok s \<Longrightarrow> returns_ok s (calm s) (Schedule s)"
proof -
  assume k: "kernel_ok s"
  have "ready_head s \<noteq> []" using kernel_okD(5) [OF k] by (auto simp: idle_ok_def)
  then obtain top where top: "Os_TaskGetTop s = Some top" using TaskGetTop_ok [OF kernel_okD(1) [OF k]] by metis
  show ?thesis
    unfolding Schedule_def top Option.bind.simps(2) using k kernel_okD(4) [OF k]
    by (intro service_intros returns_ok_Dispatch) (auto simp: sched_free elim!: calm_same_frame)
qed

section \<open>Resources\<close>

lemma upd_res_frame [simp]:
  "OS_TASK_CNT (upd_res r f s) = OS_TASK_CNT s" "pcb (upd_res r f s) = pcb s"
  "tconst (upd_res r f s) = tconst s" "currTaskPtr (upd_res r f s) = currTaskPtr s"
  "ready_head (upd_res r f s) = ready_head s" "intNestCnt (upd_res r f s) = intNestCnt s"
  "Os_TaskConstList (upd_res r f s) = Os_TaskConstList s"
  by (simp_all add: upd_res_def OS_TASK_CNT_def pcb_def tconst_def fun_eq_iff split: OsResourceRef.split)

lemma upd_res_upd_pcb: "upd_pcb i g (upd_res r f s) = upd_res r f (upd_pcb i g s)"
  by (simp add: upd_res_def upd_pcb_def split: OsResourceRef.split)

lemma res_get_upd_pcb [simp]: "res_get r (upd_pcb i g s) = res_get r s"
  by (simp add: res_get_def split: OsResourceRef.split)

lemma kernel_ok_upd_res:
  assumes "kernel_ok s"
    and "r = ResScheduler \<Longrightarrow> ResScheduler \<in> set (resourceHead (pcb s (currTaskPtr s)))
      \<or> res_owner (f (resScheduler s)) = NO_TASK_OWNER"
    and "\<And>x. res_type (f x) = res_type x"
  shows "kernel_ok (upd_res r f s)"
  using assms
  by (cases r) (auto simp: kernel_ok_def kernel_base_def queue_ok_def in_queue_def task_level_def
      idle_ok_def sched_ok_def no_internal_def act_ok_def Os_SchedulerResourceIsFree_def,
      simp_all add: upd_res_def)

lemma kernel_ok_upd_head:
  assumes "kernel_ok s" and "i < OS_TASK_CNT s"
    and "\<And>p. pcb_state (f p) = pcb_state p \<and> pcb_flags (f p) = pcb_flags p
      \<and> activations (f p) = activations p"
    and "Os_SchedulerResourceIsFree s
      \<or> (\<forall>p. ResScheduler \<in> set (resourceHead p) \<longrightarrow> ResScheduler \<in> set (resourceHead (f p)))"
  shows "kernel_ok (upd_pcb i f s)"
  using assms queue_ok_upd_same [of s i f]
  by (auto simp: kernel_ok_def act_ok_def kernel_base_def task_level_def idle_ok_def sched_ok_def
      no_internal_def pcb_upd_pcb)

lemma ResourceAdd_ok:
  assumes "kernel_ok s" and "i = currTaskPtr s"
  shows "kernel_ok (Os_TaskResourceAdd r i s)"
proof -
  have i: "i < OS_TASK_CNT s" using kernel_okD(2) [OF assms(1)] assms(2) by simp
  let ?p = "upd_pcb i (activePriority_update (\<lambda>_. ceiling_priority (res_get r s))) s"
  let ?h = "upd_pcb i (resourceHead_update (\<lambda>h. h @ [r])) ?p"
  have p: "kernel_ok ?p" by (rule kernel_ok_upd_head [OF assms(1) i]) auto
  have h: "kernel_ok ?h" by (rule kernel_ok_upd_head [OF p]) (use i in auto)
  have std: "r = ResScheduler \<Longrightarrow> res_type (res_get r s) \<noteq> RESOURCE_TYPE_INTERNAL"
    using assms(1) by (simp add: kernel_ok_def kernel_base_def res_get_def)
  show ?thesis
    using kernel_ok_upd_res [OF p, of r] kernel_ok_upd_res [OF h, of r] std i assms(2)
    by (cases "r = ResScheduler") (simp_all add: Os_TaskResourceAdd_def Let_def upd_res_upd_pcb pcb_upd_pcb)
qed

lemma ResourceRemove_ok:
  assumes "kernel_ok s" and "i = currTaskPtr s" and "res_owner (res_get r s) = of_nat i"
    and "resourceHead (pcb s i) \<noteq> []" and "last (resourceHead (pcb s i)) = r"
  shows "\<exists>t. Os_TaskResourceRemove r i s = Some t \<and> kernel_ok t"
proof -
  have i: "i < OS_TASK_CNT s" using kernel_okD(2) [OF assms(1)] assms(2) by simp
  let ?r = "upd_res r (res_owner_update (\<lambda>_. NO_TASK_OWNER)) s"
  let ?p = "upd_pcb i (activePriority_update (\<lambda>_. old_task_prio (res_get r s))) ?r"
  let ?h = "upd_pcb i (resourceHead_update (remove1 r)) ?p"
  have "kernel_ok ?r" using assms(1) by (rule kernel_ok_upd_res) simp_all
  then have p: "kernel_ok ?p" using i by (intro kernel_ok_upd_head) auto
  have "Os_SchedulerResourceIsFree ?p" if "r = ResScheduler"
    using that by (simp add: Os_SchedulerResourceIsFree_def upd_res_def)
  then have h: "kernel_ok ?h"
    by (intro kernel_ok_upd_head [OF p], use i in simp, simp)
      (cases "r = ResScheduler", auto simp: in_set_remove1)
  have "resourceHead (pcb ?p i) = resourceHead (pcb s i)" using i by (simp add: pcb_upd_pcb)
  with p h assms(3-5) show ?thesis
    by (cases "res_type (res_get r s) = RESOURCE_TYPE_INTERNAL")
      (simp_all add: Os_TaskResourceRemove_def Let_def)
qed

text \<open>The resource a number names, and the discipline of releasing.\<close>

definition res_ref :: "ResourceType \<Rightarrow> Os \<Rightarrow> OsResourceRef option" where
  "res_ref r s = (if unat r = OS_RESOURCE_CNT s then Some ResScheduler else Os_ResourceGet r s)"

definition release_lifo :: "ResourceType \<Rightarrow> Os \<Rightarrow> bool" where
  "release_lifo r s \<longleftrightarrow> (case res_ref r s of None \<Rightarrow> False
     | Some ref \<Rightarrow> res_owner (res_get ref s) \<noteq> NO_TASK_OWNER \<longrightarrow>
         res_owner (res_get ref s) = of_nat (currTaskPtr s)
         \<and> resourceHead (pcb s (currTaskPtr s)) \<noteq> []
         \<and> last (resourceHead (pcb s (currTaskPtr s))) = ref)"

lemma GetResource_ok:
  assumes "kernel_ok s" and "unat ResID < OS_RESOURCE_CNT s \<Longrightarrow> unat ResID < 32"
  shows "returns_ok s (\<lambda>_. True) (GetResource ResID s)"
proof (cases "unat ResID < OS_RESOURCE_CNT s")
  case True
  then have "Os_ResourceGet ResID s = Some (ResEntry (unat ResID))"
    and "res_mask ResID = Some (push_bit (unat ResID) 1)"
    using assms(2) by (simp_all add: Os_ResourceGet_def res_mask_def)
  with True show ?thesis
    unfolding GetResource_def Let_def using kernel_okD(3) [OF assms(1)] assms(1)
    by (simp split del: if_split, intro service_intros ResourceAdd_ok) auto
next
  case False
  then show ?thesis
    unfolding GetResource_def Let_def using kernel_okD(3) [OF assms(1)] assms(1)
    by (auto intro!: service_intros ResourceAdd_ok)
qed

lemma ReleaseResource_ok:
  assumes k: "kernel_ok s" and lifo: "release_lifo ResID s"
    and small: "unat ResID < 32 \<or> unat ResID = OS_RESOURCE_CNT s"
  shows "returns_ok s (\<lambda>_. True) (ReleaseResource ResID s)"
proof -
  let ?c = "currTaskPtr s"
  obtain ref where ref: "res_ref ResID s = Some ref"
    and own: "res_owner (res_get ref s) \<noteq> NO_TASK_OWNER \<longrightarrow>
         res_owner (res_get ref s) = of_nat ?c \<and> resourceHead (pcb s ?c) \<noteq> []
         \<and> last (resourceHead (pcb s ?c)) = ref"
    using lifo by (auto simp: release_lifo_def split: option.splits)
  have rel: "returns_ok s (\<lambda>_. True) (do { s1 \<leftarrow> Os_TaskResourceRemove ref ?c s;
      (if scheduling (tconst s1 ?c) = FULL \<and> intNestCnt s1 = 0 \<and> Os_SchedulerResourceIsFree s1
       then do { top \<leftarrow> Os_TaskGetTop s1;
          (if activePriority (pcb s1 top) > activePriority (pcb s1 ?c)
           then do { s2 \<leftarrow> Os_Dispatch OP_RELEASE_RESOURCE s1; Some (E_OK, s2) }
           else Some (E_OK, s1)) }
       else Some (E_OK, s1)) })"
    if held: "res_owner (res_get ref s) \<noteq> NO_TASK_OWNER"
  proof -
    obtain t where t: "Os_TaskResourceRemove ref ?c s = Some t" "kernel_ok t"
      using ResourceRemove_ok [OF k refl, of ref] own held by auto
    have "ready_head t \<noteq> []" using kernel_okD(5) [OF t(2)] by (auto simp: idle_ok_def)
    then obtain top where top: "Os_TaskGetTop t = Some top"
      using TaskGetTop_ok [OF kernel_okD(1) [OF t(2)]] by metis
    show ?thesis
      unfolding t(1) Option.bind.simps(2) top using t(2)
      by (intro service_intros returns_ok_Dispatch) auto
  qed
  show ?thesis
  proof (cases "unat ResID = OS_RESOURCE_CNT s")
    case True
    with ref have "ref = ResScheduler" by (simp add: res_ref_def)
    with True rel k show ?thesis
      unfolding ReleaseResource_def Let_def
      by (simp split del: if_split, intro service_intros) auto
  next
    case False
    with ref have "Os_ResourceGet ResID s = Some ref" by (simp add: res_ref_def)
    moreover have "res_mask ResID = Some (push_bit (unat ResID) 1)"
      using small False by (simp add: res_mask_def)
    ultimately show ?thesis
      using False rel k returns_ok_err [OF k, of s "\<lambda>_. True" E_OS_ID] unfolding ReleaseResource_def Let_def
      by (cases "resourceAccess (tconst s ?c) AND push_bit (unat ResID) 1 = 0")
        (simp_all split del: if_split, intro service_intros, auto)
  qed
qed

section \<open>A task's system calls\<close>

datatype os_call =
    CallWaitEvent EventMaskType
  | CallSetEvent TaskType EventMaskType
  | CallGetEvent TaskType
  | CallClearEvent EventMaskType
  | CallActivateTask TaskType
  | CallTerminateTask
  | CallChainTask TaskType
  | CallSchedule
  | CallGetTaskState TaskType
  | CallGetResource ResourceType
  | CallReleaseResource ResourceType

definition run_call :: "os_call \<Rightarrow> Os \<Rightarrow> os_result" where
  "run_call c s = (case c of
      CallWaitEvent m \<Rightarrow> WaitEvent m s
    | CallSetEvent t m \<Rightarrow> SetEvent t m s
    | CallGetEvent t \<Rightarrow> do { (rv, _, s') \<leftarrow> GetEvent t s; Some (rv, s') }
    | CallClearEvent m \<Rightarrow> ClearEvent m s
    | CallActivateTask t \<Rightarrow> ActivateTask t s
    | CallTerminateTask \<Rightarrow> TerminateTask s
    | CallChainTask t \<Rightarrow> ChainTask t s
    | CallSchedule \<Rightarrow> Schedule s
    | CallGetTaskState t \<Rightarrow> do { (rv, _, s') \<leftarrow> GetTaskState t s; Some (rv, s') }
    | CallGetResource r \<Rightarrow> GetResource r s
    | CallReleaseResource r \<Rightarrow> ReleaseResource r s)"

text \<open>What a caller must respect: no task identifier equal to the number of tasks (the checks
  of the code let it through), the idle task does not end, resources are released in reverse
  order and their numbers fit the access mask.\<close>

fun call_ok :: "os_call \<Rightarrow> Os \<Rightarrow> bool" where
  "call_ok (CallSetEvent t _) s = (unat t \<noteq> OS_TASK_CNT s)"
| "call_ok (CallGetEvent t) s = (unat t \<noteq> OS_TASK_CNT s)"
| "call_ok (CallActivateTask t) s = (unat t \<noteq> OS_TASK_CNT s)"
| "call_ok (CallGetTaskState t) s = (unat t \<noteq> OS_TASK_CNT s)"
| "call_ok CallTerminateTask s = (currTaskPtr s \<noteq> 0)"
| "call_ok (CallChainTask t) s = (unat t \<noteq> OS_TASK_CNT s \<and> currTaskPtr s \<noteq> 0)"
| "call_ok (CallGetResource r) s = (unat r < OS_RESOURCE_CNT s \<longrightarrow> unat r < 32)"
| "call_ok (CallReleaseResource r) s =
     (release_lifo r s \<and> (unat r < 32 \<or> unat r = OS_RESOURCE_CNT s))"
| "call_ok _ s = True"

fun resource_call :: "os_call \<Rightarrow> bool" where
  "resource_call (CallGetResource r) = True"
| "resource_call (CallReleaseResource r) = True"
| "resource_call _ = False"

lemma returns_ok_mono: "returns_ok s P r \<Longrightarrow> (\<And>t. P t \<Longrightarrow> Q t) \<Longrightarrow> returns_ok s Q r"
  by (auto simp: returns_ok_def split: option.splits)

lemma run_call_ok:
  assumes "kernel_ok s" and "call_ok c s"
  shows "returns_ok s (\<lambda>t. \<not> resource_call c \<longrightarrow> calm s t) (run_call c s)"
proof (cases c)
  case (CallGetEvent t)
  then show ?thesis using GetEvent_ok [OF assms(1), of t] assms(2)
    by (auto simp: run_call_def elim: returns_ok_mono)
next
  case (CallGetTaskState t)
  then show ?thesis using GetTaskState_ok [OF assms(1), of t] assms(2)
    by (auto simp: run_call_def elim: returns_ok_mono)
next
  case (CallGetResource r)
  then show ?thesis using GetResource_ok [OF assms(1), of r] assms(2)
    by (auto simp: run_call_def elim: returns_ok_mono)
next
  case (CallReleaseResource r)
  then show ?thesis using ReleaseResource_ok [OF assms(1), of r] assms(2)
    by (auto simp: run_call_def elim: returns_ok_mono)
qed (use assms in \<open>simp_all add: run_call_def WaitEvent_ok SetEvent_ok ClearEvent_ok ActivateTask_ok
      TerminateTask_ok ChainTask_ok Schedule_ok\<close>)

text \<open>A run of the kernel: calls that respect the rules, one after the other.\<close>

inductive kernel_run :: "Os \<Rightarrow> Os \<Rightarrow> bool" where
  start: "kernel_run s s"
| call: "kernel_run s t \<Longrightarrow> call_ok c t \<Longrightarrow> run_call c t = Some (rv, u) \<Longrightarrow> kernel_run s u"

lemma kernel_run_ok: "kernel_run s t \<Longrightarrow> kernel_ok s \<Longrightarrow> kernel_ok t"
proof (induction rule: kernel_run.induct)
  case (call s t c rv u)
  then show ?case using run_call_ok [of t c] by (simp add: returns_ok_def)
qed

end
