(* ===== verification/OsAlarm.thy ===== *)
theory OsAlarm
  imports OsService
begin

text \<open>
  Alarms and counters (\<open>os_alarm.c\<close>, \<open>os_counter.c\<close>) and the start of the kernel
  (\<open>os_init.c\<close>).  Each counter carries the list of its alarms.  Alarms are checked when a
  counter is advanced; an alarm may advance another counter, so the check is written with
  fuel for the depth of that nesting, and \<open>None\<close> also stands for a nesting deeper than the
  fuel.  The check is modelled at interrupt level, where the kernel calls it for its hardware
  counter and where no service switches tasks.
\<close>

type_synonym AlarmType = u16
type_synonym CounterType = u16

section \<open>Tables\<close>

definition OS_ALARM_CNT :: "Os \<Rightarrow> nat" where "OS_ALARM_CNT s = length (alarm_list s)"
definition OS_COUNTER_CNT :: "Os \<Rightarrow> nat" where "OS_COUNTER_CNT s = length (counter_list s)"

definition alarm :: "Os \<Rightarrow> nat \<Rightarrow> OsAlarm" where "alarm s a = alarm_list s ! a"
definition counter_of :: "Os \<Rightarrow> nat \<Rightarrow> OsCounter" where "counter_of s c = counter_list s ! c"

definition upd_alarm :: "nat \<Rightarrow> (OsAlarm \<Rightarrow> OsAlarm) \<Rightarrow> Os \<Rightarrow> Os" where
  "upd_alarm a f s = s\<lparr>alarm_list := (alarm_list s)[a := f (alarm_list s ! a)]\<rparr>"

definition upd_counter :: "nat \<Rightarrow> (OsCounter \<Rightarrow> OsCounter) \<Rightarrow> Os \<Rightarrow> Os" where
  "upd_counter c f s = s\<lparr>counter_list := (counter_list s)[c := f (counter_list s ! c)]\<rparr>"

text \<open>\<open>ALARM_CHECK_ID\<close> lets an identifier equal to the number of alarms through, for which
  \<open>Os_AlarmGet\<close> returns NULL.\<close>

definition ALARM_CHECK_ID :: "AlarmType \<Rightarrow> Os \<Rightarrow> bool" where
  "ALARM_CHECK_ID x s \<longleftrightarrow> \<not> OS_ALARM_CNT s < unat x"

definition Os_AlarmGet :: "AlarmType \<Rightarrow> Os \<Rightarrow> nat option" where
  "Os_AlarmGet a s = (if unat a < OS_ALARM_CNT s then Some (unat a) else None)"

definition COUNTER_MAX :: "nat \<Rightarrow> Os \<Rightarrow> TickType" where
  "COUNTER_MAX a s = maxallowedvalue (counter_of s (alarm_counter (alarm s a)))"

definition COUNTER_MIN_CYCLE :: "nat \<Rightarrow> Os \<Rightarrow> TickType" where
  "COUNTER_MIN_CYCLE a s = mincycle (counter_of s (alarm_counter (alarm s a)))"

section \<open>Services\<close>

text \<open>\<open>GetAlarmBase\<close> checks the identifier twice, the second time exactly.\<close>

definition GetAlarmBase :: "AlarmType \<Rightarrow> Os \<Rightarrow> (StatusType \<times> (TickType \<times> TickType) option \<times> Os) option" where
  "GetAlarmBase AlarmId s =
     (if \<not> ALARM_CHECK_ID AlarmId s then do { (rv, s') \<leftarrow> os_err E_OS_ID s; Some (rv, None, s') }
      else if unat AlarmId \<ge> OS_ALARM_CNT s then do { (rv, s') \<leftarrow> os_err E_OS_ID s; Some (rv, None, s') }
      else Some (E_OK, Some (COUNTER_MAX (unat AlarmId) s, COUNTER_MIN_CYCLE (unat AlarmId) s), s))"

definition GetAlarm :: "AlarmType \<Rightarrow> Os \<Rightarrow> (StatusType \<times> TickType option \<times> Os) option" where
  "GetAlarm AlarmId s =
     (if \<not> ALARM_CHECK_ID AlarmId s then do { (rv, s') \<leftarrow> os_err E_OS_ID s; Some (rv, None, s') }
      else do {
        a \<leftarrow> Os_AlarmGet AlarmId s;
        (if \<not> alarm_active (alarm s a)
         then do { (rv, s') \<leftarrow> os_err E_OS_NOFUNC s; Some (rv, None, s') }
         else Some (E_OK, Some (Os_CounterDiff (expire_val (alarm s a))
                (counter_val (counter_of s (alarm_counter (alarm s a)))) (COUNTER_MAX a s)), s))
      })"

definition SetRelAlarm :: "AlarmType \<Rightarrow> TickType \<Rightarrow> TickType \<Rightarrow> Os \<Rightarrow> os_result" where
  "SetRelAlarm AlarmId Increment Cycle s =
     (if \<not> ALARM_CHECK_ID AlarmId s then os_err E_OS_ID s
      else do {
        a \<leftarrow> Os_AlarmGet AlarmId s;
        (if Increment = 0 \<or> Increment > COUNTER_MAX a s then os_err E_OS_VALUE s
         else if Cycle \<noteq> 0 \<and> (Cycle < COUNTER_MIN_CYCLE a s \<or> Cycle > COUNTER_MAX a s)
         then os_err E_OS_VALUE s
         else if alarm_active (alarm s a) then os_err E_OS_STATE s
         else Some (E_OK, upd_alarm a (\<lambda>x. x\<lparr>alarm_active := True,
                expire_val := Os_CounterAdd (counter_val (counter_of s (alarm_counter x)))
                  (COUNTER_MAX a s) Increment,
                cycletime := Cycle\<rparr>) s))
      })"

definition SetAbsAlarm :: "AlarmType \<Rightarrow> TickType \<Rightarrow> TickType \<Rightarrow> Os \<Rightarrow> os_result" where
  "SetAbsAlarm AlarmId Start Cycle s =
     (if \<not> ALARM_CHECK_ID AlarmId s then os_err E_OS_ID s
      else do {
        a \<leftarrow> Os_AlarmGet AlarmId s;
        (if Start > COUNTER_MAX a s then os_err E_OS_VALUE s
         else if Cycle \<noteq> 0 \<and> (Cycle < COUNTER_MIN_CYCLE a s \<or> Cycle > COUNTER_MAX a s)
         then os_err E_OS_VALUE s
         else if alarm_active (alarm s a) then os_err E_OS_STATE s
         else Some (E_OK, upd_alarm a (\<lambda>x. x\<lparr>alarm_active := True, expire_val := Start,
                cycletime := Cycle\<rparr>) s))
      })"

definition CancelAlarm :: "AlarmType \<Rightarrow> Os \<Rightarrow> os_result" where
  "CancelAlarm AlarmId s =
     (if \<not> ALARM_CHECK_ID AlarmId s then os_err E_OS_ID s
      else do {
        a \<leftarrow> Os_AlarmGet AlarmId s;
        (if \<not> alarm_active (alarm s a) then os_err E_OS_NOFUNC s
         else Some (E_OK, upd_alarm a (alarm_active_update (\<lambda>_. False)) s))
      })"

section \<open>Expiry\<close>

definition AlarmProcess :: "nat \<Rightarrow> Os \<Rightarrow> Os" where
  "AlarmProcess a s =
     (if cycletime (alarm s a) = 0 then upd_alarm a (alarm_active_update (\<lambda>_. False)) s
      else upd_alarm a (expire_val_update (\<lambda>_.
             Os_CounterAdd (counter_val (counter_of s (alarm_counter (alarm s a))))
               (COUNTER_MAX a s) (cycletime (alarm s a)))) s)"

definition counter_advance :: "nat \<Rightarrow> Os \<Rightarrow> Os" where
  "counter_advance c s =
     upd_counter c (\<lambda>x. x\<lparr>counter_val := Os_CounterAdd (counter_val x) (maxallowedvalue x) 1\<rparr>) s"

text \<open>The loop of \<open>Os_AlarmCheck\<close> over the alarms of counter \<open>c\<close>, and the part of
  \<open>IncrementCounter\<close> behind its checks that an alarm's action reaches.\<close>

fun alarm_loop :: "nat \<Rightarrow> nat \<Rightarrow> nat list \<Rightarrow> Os \<Rightarrow> Os option" where
  "alarm_loop fuel c [] s = Some s"
| "alarm_loop fuel c (a # as) s =
     (if alarm_active (alarm s a) \<and> counter_val (counter_of s c) = expire_val (alarm s a) then
        (case alarm_act (alarm s a) of
           ALARM_ACTION_ACTIVATETASK t \<Rightarrow> do {
             (rv, s1) \<leftarrow> ActivateTask t s;
             alarm_loop fuel c as (AlarmProcess a s1)
           }
         | ALARM_ACTION_SETEVENT t m \<Rightarrow> do {
             (rv, s1) \<leftarrow> SetEvent t m s;
             s2 \<leftarrow> (if rv \<noteq> E_OK then ErrorHook rv s1 else Some s1);
             alarm_loop fuel c as (AlarmProcess a s2)
           }
         | ALARM_ACTION_ALARMCALLBACK \<Rightarrow> alarm_loop fuel c as s
         | ALARM_ACTION_INCREMENTCOUNTER d \<Rightarrow>
             (case fuel of 0 \<Rightarrow> None
              | Suc f \<Rightarrow> do {
                  s1 \<leftarrow> (if counter_kind (counter_of s d) \<noteq> COUNTER_TYPE_SOFT
                        then ErrorHook E_OS_ID s
                        else alarm_loop f d (alarm_head (counter_of s d)) (counter_advance d s));
                  alarm_loop fuel c as (AlarmProcess a s1)
                }))
      else alarm_loop fuel c as s)"

definition Os_AlarmCheck :: "nat \<Rightarrow> nat \<Rightarrow> Os \<Rightarrow> Os option" where
  "Os_AlarmCheck fuel c s = alarm_loop fuel c (alarm_head (counter_of s c)) s"

definition IsCounterValid :: "CounterType \<Rightarrow> Os \<Rightarrow> bool" where
  "IsCounterValid c s \<longleftrightarrow> unat c \<le> OS_COUNTER_CNT s"

definition IncrementCounter :: "nat \<Rightarrow> CounterType \<Rightarrow> Os \<Rightarrow> os_result" where
  "IncrementCounter fuel counter_id s =
     (if \<not> IsCounterValid counter_id s then os_err E_OS_ID s
      else if unat counter_id = OS_COUNTER_CNT s then None
      else if counter_kind (counter_of s (unat counter_id)) \<noteq> COUNTER_TYPE_SOFT then os_err E_OS_ID s
      else do { s' \<leftarrow> Os_AlarmCheck fuel (unat counter_id) (counter_advance (unat counter_id) s);
                Some (E_OK, s') })"

text \<open>A hardware counter without a driver is read from the kernel's tick count; with a driver
  the code leaves \<open>*tick_ref\<close> alone (\<open>None\<close>).\<close>

definition GetCounterValue :: "CounterType \<Rightarrow> Os \<Rightarrow> (StatusType \<times> TickType option \<times> Os) option" where
  "GetCounterValue counter_id s =
     (if \<not> IsCounterValid counter_id s then do { (rv, s') \<leftarrow> os_err E_OS_ID s; Some (rv, None, s') }
      else if unat counter_id = OS_COUNTER_CNT s then None
      else Some (E_OK,
        (if counter_kind (counter_of s (unat counter_id)) = COUNTER_TYPE_HARD
         then (if driver_null (counter_of s (unat counter_id)) then Some (os_tick s) else None)
         else Some (counter_val (counter_of s (unat counter_id)))), s))"

text \<open>Result: status, the new content of \<open>*val\<close>, the content of \<open>*elapsed_val\<close>.\<close>

definition GetElapsedValue ::
  "CounterType \<Rightarrow> TickType \<Rightarrow> Os \<Rightarrow> (StatusType \<times> TickType \<times> TickType option \<times> Os) option" where
  "GetElapsedValue counter_id val s =
     (if \<not> IsCounterValid counter_id s then do { (rv, s') \<leftarrow> os_err E_OS_ID s; Some (rv, val, None, s') }
      else if unat counter_id = OS_COUNTER_CNT s then None
      else
        (let mx = maxallowedvalue (counter_of s (unat counter_id)) in
         if val > mx then do { (rv, s') \<leftarrow> os_err E_OS_VALUE s; Some (rv, val, None, s') }
         else do {
           (rv, tick, s1) \<leftarrow> GetCounterValue counter_id s;
           (let currTick = (case tick of Some t \<Rightarrow> t | None \<Rightarrow> 0)
            in Some (E_OK, currTick, Some (Os_CounterDiff currTick val mx), s1))
         }))"

text \<open>The tick interrupt, for the counter \<open>c\<close> the configuration drives by it.\<close>

definition OsTick :: "nat \<Rightarrow> nat \<Rightarrow> Os \<Rightarrow> Os option" where
  "OsTick fuel c s =
     Os_AlarmCheck fuel c (counter_advance c (s\<lparr>os_tick := os_tick s + 1\<rparr>))"

text \<open>\<open>Os_Isr_cm3\<close> with the tick as its handler, followed by the scheduling at its exit.\<close>

definition tick_interrupt :: "nat \<Rightarrow> nat \<Rightarrow> Os \<Rightarrow> Os option" where
  "tick_interrupt fuel c s = do {
     s1 \<leftarrow> OsTick fuel c (s\<lparr>intNestCnt := intNestCnt s + 1\<rparr>);
     s2 \<leftarrow> (if Os_SysIntAnyDisabled s1
           then ErrorHook E_OS_DISABLEDINT
                  (s1\<lparr>Os_IntDisableAllCnt := 0, Os_IntSuspendAllCnt := 0, Os_IntSuspendOsCnt := 0\<rparr>)
           else Some s1);
     TailChaining (s2\<lparr>intNestCnt := intNestCnt s2 - 1\<rparr>)
   }"

section \<open>Start-up\<close>

definition Os_CounterInit :: "Os \<Rightarrow> Os" where
  "Os_CounterInit s =
     fold (\<lambda>a t. upd_counter (alarm_counter (alarm t a)) (alarm_head_update (\<lambda>h. a # h)) t)
       [0..<OS_ALARM_CNT s] s"

definition autostart_alarm :: "nat \<Rightarrow> Os \<Rightarrow> Os option" where
  "autostart_alarm j s =
     (case autostartPtr (alarm s j) of None \<Rightarrow> Some s
      | Some p \<Rightarrow>
          if appMode s AND appModeRef p \<noteq> 0 then
            (case autostartType p of
               ALARM_AUTOSTART_ABSOLUTE \<Rightarrow> map_option snd (SetAbsAlarm (of_nat j) (alarmTime p) (cycleTime p) s)
             | ALARM_AUTOSTART_RELATIVE \<Rightarrow> map_option snd (SetRelAlarm (of_nat j) (alarmTime p) (cycleTime p) s))
          else Some s)"

fun autostart_from :: "nat list \<Rightarrow> Os \<Rightarrow> Os option" where
  "autostart_from [] s = Some s"
| "autostart_from (j # js) s = do { s' \<leftarrow> autostart_alarm j s; autostart_from js s' }"

definition Os_AlarmAutostart :: "Os \<Rightarrow> Os option" where
  "Os_AlarmAutostart s = autostart_from [0..<OS_ALARM_CNT s] s"

text \<open>\<open>memset\<close> of the system structure, then the counters, the tasks and the resources.  The
  task, alarm and counter tables are statically initialised and not cleared.\<close>

definition Os_TaskContextInit :: "nat \<Rightarrow> Os \<Rightarrow> Os" where
  "Os_TaskContextInit i s =
     (if autostart (tconst s i) then Os_TaskMakeReady i s
      else upd_pcb i (pcb_state_update (\<lambda>_. ST_SUSPENDED)) s)"

definition init_task :: "nat \<Rightarrow> Os \<Rightarrow> Os" where
  "init_task i s =
     upd_pcb i (resourceHead_update (\<lambda>_. []))
       (Os_TaskContextInit i (upd_pcb i (activePriority_update (\<lambda>_. prio (tconst s i))) s))"

definition InitOS :: "Os \<Rightarrow> Os" where
  "InitOS s =
     (let s0 = s\<lparr>chainedPcbPtr := None, intNestCnt := 0, os_tick := 0, appMode := 0, ready_head := []\<rparr>;
          s1 = Os_CounterInit s0;
          s2 = fold init_task [0..<OS_TASK_CNT s1] s1
      in Os_ResourceInit s2)"

text \<open>The choice of the first task: the first autostarted one of greatest priority above 0.\<close>

definition first_task :: "Os \<Rightarrow> nat option" where
  "first_task s =
     fst (fold (\<lambda>i (best, top). if autostart (tconst s i) \<and> activePriority (pcb s i) > top
            then (Some i, activePriority (pcb s i)) else (best, top)) [0..<OS_TASK_CNT s] (None, 0))"

definition StartOS :: "u32 \<Rightarrow> Os \<Rightarrow> Os option" where
  "StartOS mode s = do {
     s1 \<leftarrow> Os_AlarmAutostart (s\<lparr>appMode := mode\<rparr>);
     t \<leftarrow> first_task s1;
     (if sint (activations (pcb s1 t)) < uint (activationLimit (tconst s1 t))
      then Os_TaskSwapContext t (upd_pcb t (activations_update (\<lambda>n. n + 1)) (s1\<lparr>currTaskPtr := t\<rparr>))
      else None)
   }"

end
