(* ===== verification/OsTime.thy ===== *)
theory OsTime
  imports OsConfig
begin

text \<open>
  The tick interrupt on the configured kernel.  At interrupt level \<open>SetEvent\<close> only records the
  event and makes a waiting task ready; the switch of tasks is that of the interrupt's exit.
  \<open>os_time n s\<close> holds for the states the kernel reaches with \<open>n\<close> ticks from its start, with
  event, activation, termination, chain, schedule and query services called by the tasks in
  between; resources and alarms are left alone.
\<close>

section \<open>Interrupt level\<close>

definition irq_ok :: "Os \<Rightarrow> bool" where
  "irq_ok s \<longleftrightarrow> intNestCnt s = 1 \<and> kernel_ok (s\<lparr>intNestCnt := 0\<rparr>)"

lemma nest_upd_pcb: "(upd_pcb i f s)\<lparr>intNestCnt := n\<rparr> = upd_pcb i f (s\<lparr>intNestCnt := n\<rparr>)"
  by (simp add: upd_pcb_def)

lemma nest_MakeReady:
  "(Os_TaskMakeReady i s)\<lparr>intNestCnt := n\<rparr> = Os_TaskMakeReady i (s\<lparr>intNestCnt := n\<rparr>)"
  by (simp add: Os_TaskMakeReady_def upd_pcb_def)

lemma kernel_ok_fields [simp]:
  "kernel_ok (s\<lparr>alarm_list := al\<rparr>) = kernel_ok s"
  "kernel_ok (s\<lparr>counter_list := cl\<rparr>) = kernel_ok s"
  "kernel_ok (s\<lparr>os_tick := k\<rparr>) = kernel_ok s"
  "kernel_ok (s\<lparr>os_errors := es\<rparr>) = kernel_ok s"
  "kernel_ok (s\<lparr>Os_IntDisableAllCnt := b\<rparr>) = kernel_ok s"
  "kernel_ok (s\<lparr>Os_IntSuspendAllCnt := b\<rparr>) = kernel_ok s"
  "kernel_ok (s\<lparr>Os_IntSuspendOsCnt := b\<rparr>) = kernel_ok s"
  by (simp_all add: kernel_ok_def kernel_base_def queue_ok_def in_queue_def task_level_def idle_ok_def
      sched_ok_def no_internal_def Os_SchedulerResourceIsFree_def act_ok_def pcb_def OS_TASK_CNT_def
      tconst_def)

lemma nest_frame [simp]:
  "intNestCnt (Os_TaskMakeReady i s) = intNestCnt s"
  "ready_head (s\<lparr>intNestCnt := n\<rparr>) = ready_head s"
  "tconst (s\<lparr>intNestCnt := n\<rparr>) = tconst s"
  by (simp_all add: tconst_def fun_eq_iff Os_TaskMakeReady_def)

text \<open>What \<open>SetEvent\<close> does to a task at interrupt level.\<close>

definition raise_event :: "nat \<Rightarrow> EventMaskType \<Rightarrow> Os \<Rightarrow> Os" where
  "raise_event d m s =
     (let s1 = upd_pcb d (ev_set_update (\<lambda>x. x OR m)) s in
      if m AND ev_wait (pcb s d) \<noteq> 0 then Os_TaskMakeReady d s1 else s1)"

lemma irq_state:
  assumes "irq_ok s" and "i < OS_TASK_CNT s"
  shows "pcb_state (pcb s i) \<in> {1, 2, 4, 8}"
  using assms queue_okD(5) [OF kernel_okD(1), of "s\<lparr>intNestCnt := 0\<rparr>" i] by (simp add: irq_ok_def)

lemma SetEvent_irq:
  assumes "irq_ok s" and "unat t < OS_TASK_CNT s" and "proc_kind (tconst s (unat t)) = PROC_EXTENDED"
  shows "SetEvent t m s =
    (if pcb_state (pcb s (unat t)) = ST_SUSPENDED then os_err E_OS_STATE s
     else Some (E_OK, raise_event (unat t) m s))"
proof -
  have n: "intNestCnt s \<noteq> 0" using assms(1) by (simp add: irq_ok_def)
  then have np: "intNestCnt x = intNestCnt s \<Longrightarrow> \<not> preempts d x" for d x by (simp add: preempts_def)
  have c: "TASK_CHECK_ID t s" "Os_TaskGet t s = Some (unat t)"
    using assms(2) by (simp_all add: TASK_CHECK_ID_def Os_TaskGet_def)
  show ?thesis
    using irq_state [OF assms(1,2)] assms(2,3) c np
    by (auto simp: SetEvent_def Let_def raise_event_def pcb_upd_pcb Os_TaskMakeReady_def)
qed

lemma raise_event_ok:
  assumes "irq_ok s" and "d < OS_TASK_CNT s"
  shows "irq_ok (raise_event d m s)"
proof -
  let ?s = "s\<lparr>intNestCnt := 0\<rparr>"
  have k: "kernel_ok ?s" using assms(1) by (simp add: irq_ok_def)
  have "kernel_ok (upd_pcb d (ev_set_update (\<lambda>x. x OR m)) ?s)"
    using assms(2) k by (intro kernel_ok_upd) (auto simp: kernel_ok_def act_ok_def)
  then show ?thesis
    using assms by (simp add: irq_ok_def raise_event_def Let_def nest_upd_pcb nest_MakeReady
        kernel_ok_MakeReady)
qed

lemma raise_event_pcb:
  assumes "irq_ok s" and "d < OS_TASK_CNT s"
  shows "pcb (raise_event d m s) j =
    (if j \<noteq> d then pcb s j
     else if m AND ev_wait (pcb s d) \<noteq> 0 \<and> (pcb_state (pcb s d) = ST_WAITING \<or> pcb_state (pcb s d) = ST_SUSPENDED)
     then (pcb s d)\<lparr>ev_set := ev_set (pcb s d) OR m, pcb_state := ST_READY\<rparr>
     else (pcb s d)\<lparr>ev_set := ev_set (pcb s d) OR m\<rparr>)"
  using irq_state [OF assms] assms(2)
  by (auto simp: raise_event_def Let_def Os_TaskMakeReady_def pcb_upd_pcb)

lemma raise_event_frame [simp]:
  "calm s (raise_event d m s)" "currTaskPtr (raise_event d m s) = currTaskPtr s"
  "counter_list (raise_event d m s) = counter_list s"
  "alarm_list (raise_event d m s) = alarm_list s"
  "OS_TASK_CNT (raise_event d m s) = OS_TASK_CNT s"
  "tconst (raise_event d m s) = tconst s" "os_tick (raise_event d m s) = os_tick s"
  by (simp_all add: raise_event_def Let_def Os_TaskMakeReady_def)

section \<open>The alarms at a tick\<close>

definition due :: "nat \<Rightarrow> nat \<Rightarrow> Os \<Rightarrow> bool" where
  "due c a s \<longleftrightarrow> alarm_active (alarm s a) \<and> counter_val (counter_of s c) = expire_val (alarm s a)"

definition fired :: "TaskType \<Rightarrow> EventMaskType \<Rightarrow> Os \<Rightarrow> Os" where
  "fired t m s =
     (if pcb_state (pcb s (unat t)) = ST_SUSPENDED
      then s\<lparr>os_errors := os_errors s @ [E_OS_STATE, E_OS_STATE]\<rparr>
      else raise_event (unat t) m s)"

lemma alarm_loop_set:
  assumes "irq_ok s" and "alarm_act (alarm s a) = ALARM_ACTION_SETEVENT t m"
    and "unat t < OS_TASK_CNT s" and "proc_kind (tconst s (unat t)) = PROC_EXTENDED"
    and "hook_room 2 s"
  shows "alarm_loop fuel c (a # as) s =
    alarm_loop fuel c as (if due c a s then AlarmProcess a (fired t m s) else s)"
  using SetEvent_irq [OF assms(1,3,4), of m] assms(2,5)
  by (simp add: due_def fired_def os_err_room ErrorHook_room) (simp add: hook_room_def)

lemma fired_frame [simp]:
  "calm s (fired t m s)" "currTaskPtr (fired t m s) = currTaskPtr s"
  "counter_list (fired t m s) = counter_list s" "alarm_list (fired t m s) = alarm_list s"
  "OS_TASK_CNT (fired t m s) = OS_TASK_CNT s" "tconst (fired t m s) = tconst s"
  "os_tick (fired t m s) = os_tick s"
  by (simp_all add: fired_def)

lemma os_errors_raise [simp]: "os_errors (raise_event d m s) = os_errors s"
  by (simp add: raise_event_def Let_def Os_TaskMakeReady_def)

lemma os_errors_fired:
  "hook_room (n + 2) s \<Longrightarrow> hook_room n (fired t m s)"
  "pcb_state (pcb s (unat t)) \<noteq> ST_SUSPENDED \<Longrightarrow> os_errors (fired t m s) = os_errors s"
  by (simp_all add: fired_def hook_room_def)

lemma nest_errors:
  "kernel_ok (s\<lparr>os_errors := es, intNestCnt := n\<rparr>) = kernel_ok (s\<lparr>intNestCnt := n\<rparr>)"
proof -
  have eq: "s\<lparr>os_errors := es, intNestCnt := n\<rparr> = (s\<lparr>intNestCnt := n\<rparr>)\<lparr>os_errors := es\<rparr>"
    by (cases s) simp
  show ?thesis unfolding eq by (rule kernel_ok_fields)
qed

lemma fired_ok:
  assumes "irq_ok s" and "unat t < OS_TASK_CNT s"
  shows "irq_ok (fired t m s)"
proof (cases "pcb_state (pcb s (unat t)) = ST_SUSPENDED")
  case True
  with assms show ?thesis by (simp add: irq_ok_def fired_def nest_errors)
next
  case False
  with raise_event_ok [OF assms] show ?thesis by (simp add: fired_def)
qed

lemma fired_pcb:
  assumes "irq_ok s" and "unat t < OS_TASK_CNT s"
  shows "pcb (fired t m s) j =
    (if j \<noteq> unat t \<or> pcb_state (pcb s (unat t)) = ST_SUSPENDED then pcb s j
     else if m AND ev_wait (pcb s j) \<noteq> 0 \<and> pcb_state (pcb s j) = ST_WAITING
     then (pcb s j)\<lparr>ev_set := ev_set (pcb s j) OR m, pcb_state := ST_READY\<rparr>
     else (pcb s j)\<lparr>ev_set := ev_set (pcb s j) OR m\<rparr>)"
  using raise_event_pcb [OF assms, of m j] by (auto simp: fired_def)

section \<open>Time modulo the counter\<close>

definition ring :: "nat \<Rightarrow> u32" where "ring n = of_nat (n mod 65536)"

definition next_multiple :: "nat \<Rightarrow> nat \<Rightarrow> nat" where "next_multiple k n = k * (n div k + 1)"

lemma unat_ring: "unat (ring n) = n mod 65536"
  by (simp add: ring_def unat_of_nat)

lemma ring_eq: "ring m = ring n \<longleftrightarrow> m mod 65536 = n mod 65536"
  using unat_ring by (metis ring_def)

lemma ring_add: "k < 65536 \<Longrightarrow> Os_CounterAdd (ring n) 65535 (of_nat k) = ring (n + k)"
proof -
  assume k: "k < 65536"
  then have u: "unat (of_nat k :: u32) = k" by (simp add: unat_of_nat)
  have "unat (Os_CounterAdd (ring n) 65535 (of_nat k)) = (n mod 65536 + k) mod 65536"
    using unat_Os_CounterAdd [of "ring n" 65535 "of_nat k"] k u
    by (simp add: word_le_nat_alt unat_ring less_Suc_eq_le [symmetric])
  then have "unat (Os_CounterAdd (ring n) 65535 (of_nat k)) = unat (ring (n + k))"
    by (simp add: unat_ring mod_add_left_eq)
  then show ?thesis by (rule word_unat_eq_iff [THEN iffD2])
qed

lemma next_multiple_hit:
  assumes "0 < k" and "k dvd n + 1"
  shows "next_multiple k n = n + 1" and "next_multiple k (n + 1) = n + 1 + k"
proof -
  have d: "(n + 1) div k = n div k + 1" using assms by (simp add: div_Suc)
  have m: "k * ((n + 1) div k) = n + 1" using assms(2) by (rule dvd_mult_div_cancel)
  show "next_multiple k n = n + 1" unfolding next_multiple_def using m d by simp
  show "next_multiple k (n + 1) = n + 1 + k"
    unfolding next_multiple_def using m by (simp only: distrib_left mult_1_right)
qed

lemma next_multiple_miss:
  assumes "0 < k" and "\<not> k dvd n + 1"
  shows "next_multiple k (n + 1) = next_multiple k n" and "n + 1 < next_multiple k n"
    and "next_multiple k n \<le> n + k"
proof -
  show "next_multiple k (n + 1) = next_multiple k n"
    using assms by (simp add: next_multiple_def div_Suc dvd_eq_mod_eq_0)
  have "n < next_multiple k n" "n + 1 \<noteq> next_multiple k n"
    using assms dividend_less_div_times [of k n] by (auto simp: next_multiple_def mult.commute)
  then show "n + 1 < next_multiple k n" by simp
  show "next_multiple k n \<le> n + k"
    using div_times_less_eq_dividend [of n k] by (simp add: next_multiple_def mult.commute)
qed

lemma ring_hit:
  assumes "0 < k" and "k < 65536"
  shows "ring (n + 1) = ring (next_multiple k n) \<longleftrightarrow> k dvd n + 1"
proof (cases "k dvd n + 1")
  case True
  with assms next_multiple_hit show ?thesis by simp
next
  case False
  note miss = next_multiple_miss [OF assms(1) False]
  have "\<not> 65536 dvd next_multiple k n - (n + 1)"
    using miss assms(2) by (intro nat_dvd_not_less) auto
  then have "(n + 1) mod 65536 \<noteq> next_multiple k n mod 65536"
    using mod_eq_dvd_iff_nat [of "n + 1" "next_multiple k n" 65536] miss(2) by simp
  with False show ?thesis by (simp add: ring_eq)
qed

section \<open>The configured alarms\<close>

definition alarms_at :: "nat \<Rightarrow> OsAlarm list" where
  "alarms_at n =
     [(armed (alarm_table ! 0) 10 0)\<lparr>alarm_active := n < 10\<rparr>,
      armed (alarm_table ! 1) (ring (next_multiple 100 n)) 100,
      armed (alarm_table ! 2) (ring (next_multiple 50 n)) 50]"

definition counters_at :: "nat \<Rightarrow> OsCounter list" where
  "counters_at n = [(counter_table ! 0)\<lparr>counter_val := ring n, alarm_head := [2, 1, 0]\<rparr>]"

lemma kind_alarm_table:
  "alarm_act (alarm_table ! 0) = ALARM_ACTION_SETEVENT 2 1"
  "alarm_act (alarm_table ! 1) = ALARM_ACTION_SETEVENT 3 2"
  "alarm_act (alarm_table ! 2) = ALARM_ACTION_SETEVENT 1 4"
  "alarm_counter (alarm_table ! 0) = 0" "alarm_counter (alarm_table ! 1) = 0"
  "alarm_counter (alarm_table ! 2) = 0"
  "alarm_act (alarm_table ! Suc 0) = ALARM_ACTION_SETEVENT 3 2"
  "alarm_counter (alarm_table ! Suc 0) = 0"
  by (simp_all add: alarm_table_def gen_alarm_def)

lemmas alarm_simps = alarm_def counter_of_def COUNTER_MAX_def armed_def counters_at_def
  counter_table_def kind_alarm_table

text \<open>A periodic alarm at tick \<open>n + 1\<close>: it is due exactly at the multiples of its period, and
  is armed for the next one.\<close>

lemma periodic_step:
  assumes "counter_list s = counters_at (n + 1)" and "a < length (alarm_list s)"
    and "alarm_list s ! a = armed A (ring (next_multiple k n)) (of_nat k)"
    and "alarm_counter A = 0" and "0 < k" and "k < 65536"
    and "alarm_list t = alarm_list s" and "counter_list t = counter_list s"
  shows "due 0 a s \<longleftrightarrow> k dvd n + 1"
    and "alarm_list (if due 0 a s then AlarmProcess a t else s) =
      (alarm_list s)[a := armed A (ring (next_multiple k (n + 1))) (of_nat k)]"
proof -
  show d: "due 0 a s \<longleftrightarrow> k dvd n + 1"
    using assms(1,3) ring_hit [OF assms(5,6), of n] by (simp add: due_def alarm_simps)
  have nz: "(of_nat k :: u32) \<noteq> 0"
    using assms(5,6) by (simp add: word_unat_eq_iff unat_of_nat)
  show "alarm_list (if due 0 a s then AlarmProcess a t else s) =
      (alarm_list s)[a := armed A (ring (next_multiple k (n + 1))) (of_nat k)]"
  proof (cases "k dvd n + 1")
    case True
    then show ?thesis
      using d assms nz ring_add [OF assms(6), of "n + 1"] next_multiple_hit [OF assms(5) True]
      by (simp add: AlarmProcess_def upd_alarm_def alarm_simps)
  next
    case False
    have "(alarm_list s)[a := armed A (ring (next_multiple k (n + 1))) (of_nat k)] = alarm_list s"
      using assms(3) next_multiple_miss(1) [OF assms(5) False] by (metis list_update_id)
    with False d show ?thesis by simp
  qed
qed

text \<open>The one-shot alarm.\<close>

lemma single_step:
  assumes "counter_list s = counters_at (n + 1)" and "0 < length (alarm_list s)"
    and "alarm_list s ! 0 = (armed (alarm_table ! 0) 10 0)\<lparr>alarm_active := n < 10\<rparr>"
    and "alarm_list t = alarm_list s" and "counter_list t = counter_list s"
  shows "due 0 0 s \<longleftrightarrow> n + 1 = 10"
    and "alarm_list (if due 0 0 s then AlarmProcess 0 t else s) =
      (alarm_list s)[0 := (armed (alarm_table ! 0) 10 0)\<lparr>alarm_active := n + 1 < 10\<rparr>]"
proof -
  have "ring (n + 1) = 10 \<longleftrightarrow> n + 1 = 10" if "n < 10"
    using that by (simp add: word_unat_eq_iff unat_ring)
  then show d: "due 0 0 s \<longleftrightarrow> n + 1 = 10"
    using assms(1,3) by (auto simp: due_def alarm_simps)
  show "alarm_list (if due 0 0 s then AlarmProcess 0 t else s) =
      (alarm_list s)[0 := (armed (alarm_table ! 0) 10 0)\<lparr>alarm_active := n + 1 < 10\<rparr>]"
  proof (cases "n + 1 = 10")
    case True
    with d assms show ?thesis by (simp add: AlarmProcess_def upd_alarm_def alarm_simps)
  next
    case False
    then have "(n + 1 < 10) = (n < 10)" by auto
    with False d assms(3) show ?thesis by (simp del: add_Suc) (metis list_update_id)
  qed
qed

section \<open>Scheduling at the exit of the interrupt\<close>

lemma TailChaining_ok:
  assumes k: "kernel_ok s" and free: "Os_SchedulerResourceIsFree s"
    and full: "\<forall>i < OS_TASK_CNT s. scheduling (tconst s i) = FULL"
  obtains v where "TailChaining s = Some v" and "kernel_ok v" and "same_frame s v"
    and "top_running v" and "ready_head v = ready_head s"
    and "\<forall>j < OS_TASK_CNT s. \<not> in_queue s j \<longrightarrow> pcb_state (pcb v j) = pcb_state (pcb s j)"
proof -
  let ?c = "currTaskPtr s"
  have q: "queue_ok s" and l: "task_level s" and a: "act_ok s" and n: "no_internal s"
    and nest: "intNestCnt s = 0" and c: "?c < OS_TASK_CNT s"
    using k kernel_okD(2,3) [OF k] by (simp_all add: kernel_ok_def kernel_base_def)
  obtain t where post: "POSTTASKHOOK s = Some t" and b: "between s t"
    and rt: "ready_head t = ready_head s" and st: "\<forall>j. pcb_state (pcb t j) = pcb_state (pcb s j)"
    using POSTTASKHOOK_ok [OF q l] by blast
  have ct: "currTaskPtr t = ?c" and qt: "queue_ok t" and cnt: "OS_TASK_CNT t = OS_TASK_CNT s"
    using b by (simp_all add: between_def same_frame_def)
  let ?u = "upd_pcb ?c (pcb_state_update (\<lambda>_. ST_READY)) t"
  have "queue_ok ?u"
    by (rule queue_ok_upd_queued [OF qt]) (use c cnt st kernel_okD(4) [OF k] in \<open>simp_all add: in_queue_def\<close>)
  then have bu: "between s ?u"
    using b c cnt by (simp add: between_def hooks_clear_def pcb_upd_pcb same_frame_def)
  have au: "act_ok ?u" using act_ok_POSTTASKHOOK [OF post a] by (rule act_ok_upd) simp
  have fu: "same_frame s ?u" and qu: "queue_ok ?u" using bu by (simp_all add: between_def)
  have "?c \<in> set (ready_head s)"
    using queue_okD(4) [OF q c] kernel_okD(4) [OF k] by (simp add: in_queue_def)
  then obtain top where top: "Os_TaskGetTop ?u = Some top" "top \<in> set (ready_head ?u)"
    and mx: "\<forall>i \<in> set (ready_head ?u). activePriority (pcb ?u i) \<le> activePriority (pcb ?u top)"
    using TaskGetTop_ok [OF qu] rt by (metis empty_iff list.set(1) upd_pcb_frame(11))
  obtain v where pre: "PRETASKHOOK (Os_TaskMakeRunning top (?u\<lparr>currTaskPtr := top\<rparr>)) = Some v"
    and v: "queue_ok v" "task_level v" "same_frame s v" "currTaskPtr v = top"
      "ready_head v = ready_head ?u" "\<forall>j. activePriority (pcb v j) = activePriority (pcb ?u j)"
      "\<forall>j. j \<noteq> top \<longrightarrow> pcb_state (pcb v j) = pcb_state (pcb ?u j)"
    using run_ok [OF bu top(2) nest] by metis
  have tl: "top < OS_TASK_CNT s" using queue_okD(2) [OF qu top(2)] cnt by simp
  have ni: "resourceIntPtr (tconst ?u top) = None"
    using no_internal_frame [OF fu] n tl cnt by (simp add: no_internal_def)
  have swap: "Os_TaskSwapContext top ?u = Some v"
    using pre ni by (simp add: Os_TaskSwapContext_def Os_ResourceGetInternal_def)
  have fr: "Os_SchedulerResourceIsFree t"
    using free b by (simp add: between_def same_frame_def Os_SchedulerResourceIsFree_def)
  have sc: "scheduling (tconst t ?c) \<noteq> NON"
    using full c b by (simp add: between_def same_frame_def tconst_def)
  have "TailChaining s = Some v"
    using swap top(1) fr sc ct by (auto simp: TailChaining_def post Let_def)
  moreover have "act_ok v" using act_ok_PRETASKHOOK [OF pre] au by (simp add: act_ok_Run)
  moreover have "top_running v" using mx v by (simp add: top_running_def)
  moreover have "kernel_base v"
    using k v n no_internal_frame [OF v(3)] free rt
    by (simp add: kernel_ok_def kernel_base_def idle_ok_def sched_ok_def same_frame_def tconst_def
        Os_SchedulerResourceIsFree_def)
  moreover have "pcb_state (pcb v j) = pcb_state (pcb s j)" if "j < OS_TASK_CNT s" "\<not> in_queue s j" for j
  proof -
    have "j \<noteq> top" using queue_okD(4) [OF q that(1)] that(2) top(2) rt by auto
    moreover have "j \<noteq> ?c" using that(2) kernel_okD(4) [OF k] by (auto simp: in_queue_def)
    ultimately show ?thesis using v(7) st c cnt by (simp add: pcb_upd_pcb)
  qed
  ultimately show thesis using that v rt by (simp add: kernel_ok_def)
qed

section \<open>The tick interrupt\<close>

definition config_ok :: "Os \<Rightarrow> bool" where
  "config_ok s \<longleftrightarrow> Os_TaskConstList s = task_table \<and> OS_TASK_CNT s = 4
     \<and> Os_SchedulerResourceIsFree s \<and> \<not> Os_SysIntAnyDisabled s
     \<and> (\<forall>i < 4. activePriority (pcb s i) = prio (task_table ! i))"

lemma config_ok_calm: "calm s t \<Longrightarrow> config_ok s \<Longrightarrow> config_ok t"
  by (simp add: config_ok_def calm_def Os_SchedulerResourceIsFree_def Os_SysIntAnyDisabled_def)

lemma config_ok_tconst: "config_ok s \<Longrightarrow> tconst s i = task_table ! i"
  by (simp add: config_ok_def tconst_def)

text \<open>What an expiring alarm does to its task.\<close>

definition signal :: "EventMaskType \<Rightarrow> OsTaskVar \<Rightarrow> OsTaskVar" where
  "signal m p = (if pcb_state p = ST_SUSPENDED then p
     else if m AND ev_wait p \<noteq> 0 \<and> pcb_state p = ST_WAITING
     then p\<lparr>ev_set := ev_set p OR m, pcb_state := ST_READY\<rparr>
     else p\<lparr>ev_set := ev_set p OR m\<rparr>)"

lemma fired_signal:
  assumes "irq_ok s" and "unat t < OS_TASK_CNT s"
  shows "pcb (fired t m s) j = (if j = unat t then signal m (pcb s j) else pcb s j)"
  using fired_pcb [OF assms, of m j] by (auto simp: signal_def)

lemma irq_ok_alarms: "irq_ok (s\<lparr>alarm_list := al\<rparr>) = irq_ok s"
proof -
  have eq: "s\<lparr>alarm_list := al, intNestCnt := 0\<rparr> = (s\<lparr>intNestCnt := 0\<rparr>)\<lparr>alarm_list := al\<rparr>"
    by (cases s) simp
  show ?thesis unfolding irq_ok_def eq kernel_ok_fields by simp
qed

lemma AlarmProcess_frame [simp]:
  "irq_ok (AlarmProcess a s) = irq_ok s" "counter_list (AlarmProcess a s) = counter_list s"
  "currTaskPtr (AlarmProcess a s) = currTaskPtr s" "pcb (AlarmProcess a s) = pcb s"
  "config_ok (AlarmProcess a s) = config_ok s" "os_tick (AlarmProcess a s) = os_tick s"
  "os_errors (AlarmProcess a s) = os_errors s"
  by (simp_all add: AlarmProcess_def upd_alarm_def irq_ok_alarms config_ok_def pcb_def
      OS_TASK_CNT_def Os_SchedulerResourceIsFree_def Os_SysIntAnyDisabled_def fun_eq_iff)

definition alarm_step :: "nat \<Rightarrow> TaskType \<Rightarrow> EventMaskType \<Rightarrow> Os \<Rightarrow> Os" where
  "alarm_step a t m s = (if due 0 a s then AlarmProcess a (fired t m s) else s)"

lemma alarm_step_frame:
  assumes "irq_ok s" and "config_ok s" and "unat t < 4"
  shows "irq_ok (alarm_step a t m s)" and "config_ok (alarm_step a t m s)"
    and "counter_list (alarm_step a t m s) = counter_list s"
    and "currTaskPtr (alarm_step a t m s) = currTaskPtr s" and "os_tick (alarm_step a t m s) = os_tick s"
    and "pcb (alarm_step a t m s) j =
      (if j = unat t \<and> due 0 a s then signal m (pcb s j) else pcb s j)"
proof -
  have t: "unat t < OS_TASK_CNT s" using assms(2,3) by (simp add: config_ok_def)
  show "irq_ok (alarm_step a t m s)" "config_ok (alarm_step a t m s)"
    "counter_list (alarm_step a t m s) = counter_list s"
    "currTaskPtr (alarm_step a t m s) = currTaskPtr s" "os_tick (alarm_step a t m s) = os_tick s"
    using fired_ok [OF assms(1) t] assms(1,2) config_ok_calm [OF fired_frame(1)]
    by (simp_all add: alarm_step_def)
  show "pcb (alarm_step a t m s) j =
      (if j = unat t \<and> due 0 a s then signal m (pcb s j) else pcb s j)"
    using fired_signal [OF assms(1) t] by (simp add: alarm_step_def)
qed

text \<open>A tick's three alarms report at most two errors each, and none when no task is suspended.\<close>

definition awake :: "Os \<Rightarrow> bool" where
  "awake s \<longleftrightarrow> (\<forall>i < 4. pcb_state (pcb s i) \<noteq> ST_SUSPENDED)"

lemma alarm_step_errors:
  "hook_room (n + 2) s \<Longrightarrow> hook_room n (alarm_step a t m s)"
  "unat t < 4 \<Longrightarrow> awake s \<Longrightarrow> os_errors (alarm_step a t m s) = os_errors s"
  using os_errors_fired(1) [of n s t m] os_errors_fired(2) [of s t m]
  by (auto simp: alarm_step_def awake_def hook_room_def)

lemma awake_signal: "pcb_state p \<noteq> ST_SUSPENDED \<Longrightarrow> pcb_state (signal m p) \<noteq> ST_SUSPENDED"
  by (simp add: signal_def)

lemma alarm_step_awake:
  assumes "irq_ok s" and "config_ok s" and "unat t < 4" and "awake s"
  shows "awake (alarm_step a t m s)"
  using assms(4) awake_signal by (simp add: awake_def alarm_step_frame(6) [OF assms(1-3)])

lemma alarm_loop_step:
  assumes "irq_ok s" and "config_ok s" and "alarm_act (alarm s a) = ALARM_ACTION_SETEVENT t m"
    and "t = 1 \<or> t = 2 \<or> t = 3" and "hook_room 2 s"
  shows "alarm_loop fuel 0 (a # as) s = alarm_loop fuel 0 as (alarm_step a t m s)"
proof -
  have "unat t < OS_TASK_CNT s" and "proc_kind (tconst s (unat t)) = PROC_EXTENDED"
    using assms(2,4) config_ok_tconst [OF assms(2), of "unat t"]
    by (auto simp: config_ok_def task_table_def gen_task_def)
  then show ?thesis
    using alarm_loop_set [OF assms(1,3) _ _ assms(5)] by (simp only: alarm_step_def)
qed

definition timing_ok :: "nat \<Rightarrow> Os \<Rightarrow> bool" where
  "timing_ok n s \<longleftrightarrow> counter_list s = counters_at n \<and> alarm_list s = alarms_at n
     \<and> os_tick s = of_nat n"

lemma alarm_step_periodic:
  assumes "counter_list s = counters_at (n + 1)" and "alarm_list s ! a = armed A (ring (next_multiple k n)) (of_nat k)"
    and "a < length (alarm_list s)" and "alarm_counter A = 0" and "0 < k" and "k < 65536"
  shows "due 0 a s \<longleftrightarrow> k dvd n + 1"
    and "alarm_list (alarm_step a t m s) =
      (alarm_list s)[a := armed A (ring (next_multiple k (n + 1))) (of_nat k)]"
  using periodic_step [OF assms(1,3,2,4-6), of "fired t m s"] by (simp_all add: alarm_step_def)

lemma alarm_step_single:
  assumes "counter_list s = counters_at (n + 1)" and "0 < length (alarm_list s)"
    and "alarm_list s ! 0 = (armed (alarm_table ! 0) 10 0)\<lparr>alarm_active := n < 10\<rparr>"
  shows "due 0 0 s \<longleftrightarrow> n + 1 = 10"
    and "alarm_list (alarm_step 0 t m s) =
      (alarm_list s)[0 := (armed (alarm_table ! 0) 10 0)\<lparr>alarm_active := n + 1 < 10\<rparr>]"
  using single_step [OF assms, of "fired t m s"] by (simp_all add: alarm_step_def)

lemma kind_armed [simp]: "alarm_act (armed a e c) = alarm_act a"
  by (simp add: armed_def)

text \<open>The whole check of the alarms at tick \<open>n + 1\<close>.\<close>

lemma alarms_checked:
  assumes irq: "irq_ok s" and cfg: "config_ok s" and cnt: "counter_list s = counters_at (n + 1)"
    and al: "alarm_list s = alarms_at n" and tk: "os_tick s = of_nat (n + 1)"
    and room: "hook_room 6 s"
  obtains u where "Os_AlarmCheck fuel 0 s = Some u" and "irq_ok u" and "config_ok u"
    and "timing_ok (n + 1) u" and "currTaskPtr u = currTaskPtr s"
    and "pcb u 0 = pcb s 0"
    and "pcb u 1 = (if 50 dvd n + 1 then signal 4 (pcb s 1) else pcb s 1)"
    and "pcb u 2 = (if n + 1 = 10 then signal 1 (pcb s 2) else pcb s 2)"
    and "pcb u 3 = (if 100 dvd n + 1 then signal 2 (pcb s 3) else pcb s 3)"
    and "awake s \<longrightarrow> os_errors u = os_errors s"
proof -
  let ?u = "alarm_step 2 1 4 s"
  let ?v = "alarm_step 1 3 2 ?u"
  let ?w = "alarm_step 0 2 1 ?v"
  note u = alarm_step_frame [OF irq cfg, where t = 1 and a = 2 and m = 4]
  note v = alarm_step_frame [where s = ?u and t = 3 and a = 1 and m = 2]
  note w = alarm_step_frame [where s = ?v and t = 2 and a = 0 and m = 1]
  have u': "irq_ok ?u" "config_ok ?u" "counter_list ?u = counters_at (n + 1)" "currTaskPtr ?u = currTaskPtr s"
    "os_tick ?u = of_nat (n + 1)"
    using u cnt tk by simp_all
  have v': "irq_ok ?v" "config_ok ?v" "counter_list ?v = counters_at (n + 1)" "currTaskPtr ?v = currTaskPtr s"
    "os_tick ?v = of_nat (n + 1)"
    using v u' by simp_all
  have w': "irq_ok ?w" "config_ok ?w" "counter_list ?w = counters_at (n + 1)" "currTaskPtr ?w = currTaskPtr s"
    "os_tick ?w = of_nat (n + 1)"
    using w v' by simp_all
  have au: "due 0 2 s \<longleftrightarrow> 50 dvd n + 1"
    "alarm_list ?u = (alarms_at n)[2 := armed (alarm_table ! 2) (ring (next_multiple 50 (n + 1))) 50]"
    using alarm_step_periodic(1) [OF cnt, where a = 2 and A = "alarm_table ! 2" and k = 50]
      alarm_step_periodic(2) [OF cnt, where a = 2 and A = "alarm_table ! 2" and k = 50 and t = 1 and m = 4] al
    by (simp_all add: alarms_at_def kind_alarm_table)
  have av: "due 0 1 ?u \<longleftrightarrow> 100 dvd n + 1"
    "alarm_list ?v = (alarm_list ?u)[1 := armed (alarm_table ! 1) (ring (next_multiple 100 (n + 1))) 100]"
    using alarm_step_periodic(1) [OF u'(3), where a = 1 and A = "alarm_table ! 1" and k = 100]
      alarm_step_periodic(2) [OF u'(3), where a = 1 and A = "alarm_table ! 1" and k = 100 and t = 3 and m = 2] au(2)
    by (simp_all add: alarms_at_def kind_alarm_table)
  have aw: "due 0 0 ?v \<longleftrightarrow> n + 1 = 10" "alarm_list ?w = alarms_at (n + 1)"
    using alarm_step_single(1) [OF v'(3)] alarm_step_single(2) [OF v'(3), where t = 2 and m = 1]
      av(2) au(2) by (simp_all add: alarms_at_def)
  have acts: "alarm_act (alarm s 2) = ALARM_ACTION_SETEVENT 1 4"
    "alarm_act (alarm ?u 1) = ALARM_ACTION_SETEVENT 3 2"
    "alarm_act (alarm ?v 0) = ALARM_ACTION_SETEVENT 2 1"
    using al au(2) av(2) by (simp_all add: alarm_def alarms_at_def kind_alarm_table)
  have hd: "alarm_head (counter_of s 0) = [2, 1, 0]" using cnt by (simp add: counter_of_def counters_at_def)
  have rm: "hook_room 2 s" "hook_room 4 ?u" "hook_room 2 ?u" "hook_room 2 ?v"
  proof -
    show "hook_room 2 s" using room by (simp add: hook_room_def)
    show u4: "hook_room 4 ?u" using alarm_step_errors(1) [of 4 s] room by simp
    then show "hook_room 2 ?u" by (simp add: hook_room_def)
    show "hook_room 2 ?v" using alarm_step_errors(1) [of 2 ?u] u4 by simp
  qed
  have quiet: "os_errors ?w = os_errors s" if "awake s"
  proof -
    have "awake ?u" by (rule alarm_step_awake [OF irq cfg _ that]) simp
    moreover from this have "awake ?v" by (rule alarm_step_awake [OF u'(1,2), rotated]) simp
    ultimately show ?thesis using that by (simp add: alarm_step_errors(2))
  qed
  have run: "Os_AlarmCheck fuel 0 s = Some ?w"
    unfolding Os_AlarmCheck_def hd
    by (simp only: alarm_loop_step [OF irq cfg acts(1) _ rm(1)]
        alarm_loop_step [OF u'(1,2) acts(2) _ rm(3)] alarm_loop_step [OF v'(1,2) acts(3) _ rm(4)] alarm_loop.simps(1) simp_thms)
  show thesis
  proof (rule that [OF run w'(1,2)])
    show "timing_ok (n + 1) ?w" using w'(3,5) aw(2) by (simp add: timing_ok_def)
    show "currTaskPtr ?w = currTaskPtr s" by (rule w'(4))
  qed (use u(6) v(6) [OF u'(1,2)] w(6) [OF v'(1,2)] au(1) av(1) aw(1) quiet in simp_all)
qed

section \<open>The interrupt as a whole\<close>

lemma irq_enter:
  assumes "kernel_ok s" and "config_ok s" and "timing_ok n s"
  defines "s1 \<equiv> counter_advance 0 ((s\<lparr>intNestCnt := intNestCnt s + 1\<rparr>)
      \<lparr>os_tick := os_tick (s\<lparr>intNestCnt := intNestCnt s + 1\<rparr>) + 1\<rparr>)"
  shows "irq_ok s1" and "config_ok s1" and "counter_list s1 = counters_at (n + 1)"
    and "alarm_list s1 = alarms_at n" and "pcb s1 = pcb s" and "currTaskPtr s1 = currTaskPtr s"
    and "os_tick s1 = of_nat (n + 1)" and "os_errors s1 = os_errors s"
proof -
  have nest: "intNestCnt s = 0" by (rule kernel_okD(3) [OF assms(1)])
  have cl: "counter_list s = counters_at n" and al: "alarm_list s = alarms_at n"
    using assms(3) by (simp_all add: timing_ok_def)
  have s1: "s1 = s\<lparr>counter_list := counters_at (n + 1), intNestCnt := 1, os_tick := os_tick s + 1\<rparr>"
    unfolding s1_def counter_advance_def upd_counter_def
    using nest cl ring_add [of 1 n] by (simp add: counters_at_def counter_table_def)
  have eq: "s\<lparr>counter_list := cs, os_tick := k, intNestCnt := 0\<rparr> =
      (s\<lparr>intNestCnt := 0\<rparr>)\<lparr>counter_list := cs, os_tick := k\<rparr>" for cs k by (cases s) simp
  have "s\<lparr>intNestCnt := 0\<rparr> = s" using nest by (cases s) simp
  then show "irq_ok s1" using assms(1) by (simp add: irq_ok_def s1 eq)
  show "config_ok s1" using assms(2)
    by (simp add: s1 config_ok_def OS_TASK_CNT_def pcb_def Os_SchedulerResourceIsFree_def
        Os_SysIntAnyDisabled_def)
  show "counter_list s1 = counters_at (n + 1)" "alarm_list s1 = alarms_at n" "pcb s1 = pcb s"
    "currTaskPtr s1 = currTaskPtr s" "os_tick s1 = of_nat (n + 1)" "os_errors s1 = os_errors s"
    using al assms(3) by (simp_all add: s1 timing_ok_def pcb_def fun_eq_iff)
qed

text \<open>The scheduling at the exit finds the kernel at task level again.\<close>

definition irq_leave :: "Os \<Rightarrow> Os" where
  "irq_leave s = s\<lparr>intNestCnt := intNestCnt s - 1\<rparr>"

lemma irq_leave_ok:
  assumes "irq_ok s"
  shows "kernel_ok (irq_leave s)" and "pcb (irq_leave s) = pcb s"
    and "OS_TASK_CNT (irq_leave s) = OS_TASK_CNT s" and "tconst (irq_leave s) = tconst s"
    and "config_ok (irq_leave s) = config_ok s" and "timing_ok n (irq_leave s) = timing_ok n s"
    and "os_tick (irq_leave s) = os_tick s" and "ready_head (irq_leave s) = ready_head s"
    and "os_errors (irq_leave s) = os_errors s"
proof -
  have n: "intNestCnt s = 1" and k: "kernel_ok (s\<lparr>intNestCnt := 0\<rparr>)" using assms by (simp_all add: irq_ok_def)
  then show "kernel_ok (irq_leave s)" by (simp add: irq_leave_def)
qed (simp_all add: irq_leave_def pcb_def OS_TASK_CNT_def tconst_def config_ok_def
      timing_ok_def Os_SchedulerResourceIsFree_def Os_SysIntAnyDisabled_def fun_eq_iff)

lemma config_full: "config_ok s \<Longrightarrow> \<forall>i < OS_TASK_CNT s. scheduling (tconst s i) = FULL"
  by (simp add: config_ok_def tconst_def less_4 task_table_def gen_task_def)

text \<open>A task before and after the scheduling.\<close>

definition task_after :: "OsTaskVar \<Rightarrow> Os \<Rightarrow> nat \<Rightarrow> bool" where
  "task_after p t i \<longleftrightarrow> ev_set (pcb t i) = ev_set p \<and> ev_wait (pcb t i) = ev_wait p
     \<and> (in_queue t i \<longleftrightarrow> pcb_state p = ST_READY \<or> pcb_state p = ST_RUNNING)
     \<and> (\<not> in_queue t i \<longrightarrow> pcb_state (pcb t i) = pcb_state p)"

lemma tick_ok:
  assumes "kernel_ok s" and "config_ok s" and "timing_ok n s" and "hook_room 6 s"
  obtains t u where "tick_interrupt fuel 0 s = Some t" and "kernel_ok t" and "config_ok t"
    and "timing_ok (n + 1) t" and "top_running t"
    and "\<forall>i < 4. task_after (u i) t i"
    and "u 0 = pcb s 0"
    and "u 1 = (if 50 dvd n + 1 then signal 4 (pcb s 1) else pcb s 1)"
    and "u 2 = (if n + 1 = 10 then signal 1 (pcb s 2) else pcb s 2)"
    and "u 3 = (if 100 dvd n + 1 then signal 2 (pcb s 3) else pcb s 3)"
    and "awake s \<longrightarrow> awake t \<and> os_errors t = os_errors s"
proof -
  let ?s1 = "counter_advance 0 ((s\<lparr>intNestCnt := intNestCnt s + 1\<rparr>)
      \<lparr>os_tick := os_tick (s\<lparr>intNestCnt := intNestCnt s + 1\<rparr>) + 1\<rparr>)"
  note e = irq_enter [OF assms(1-3)]
  have rm: "hook_room 6 ?s1" using assms(4) e(8) by (simp add: hook_room_def)
  obtain u where chk: "Os_AlarmCheck fuel 0 ?s1 = Some u" and u: "irq_ok u" "config_ok u"
    "timing_ok (n + 1) u"
    and p: "pcb u 0 = pcb s 0" "pcb u 1 = (if 50 dvd n + 1 then signal 4 (pcb s 1) else pcb s 1)"
      "pcb u 2 = (if n + 1 = 10 then signal 1 (pcb s 2) else pcb s 2)"
      "pcb u 3 = (if 100 dvd n + 1 then signal 2 (pcb s 3) else pcb s 3)"
    and quiet: "awake ?s1 \<longrightarrow> os_errors u = os_errors ?s1"
    by (rule alarms_checked [OF e(1-4,7) rm, of fuel, unfolded e(5)]) (rule that)
  note l = irq_leave_ok [OF u(1)]
  have cfg: "config_ok (irq_leave u)" and tim: "timing_ok (n + 1) (irq_leave u)"
    using u(2,3) by (simp_all only: l(5,6))
  have free: "Os_SchedulerResourceIsFree (irq_leave u)" using cfg by (simp add: config_ok_def)
  obtain v where v: "TailChaining (irq_leave u) = Some v" "kernel_ok v" "same_frame (irq_leave u) v"
    "top_running v" "ready_head v = ready_head (irq_leave u)"
    "\<forall>j < OS_TASK_CNT (irq_leave u). \<not> in_queue (irq_leave u) j \<longrightarrow>
      pcb_state (pcb v j) = pcb_state (pcb (irq_leave u) j)"
    using TailChaining_ok [OF l(1) free config_full [OF cfg]] by blast
  have run: "tick_interrupt fuel 0 s = Some v"
    unfolding tick_interrupt_def OsTick_def chk using v(1) u(2)
    by (simp add: irq_leave_def config_ok_def)
  have cv: "config_ok v" using cfg v(3)
    by (simp add: config_ok_def same_frame_def Os_SchedulerResourceIsFree_def Os_SysIntAnyDisabled_def)
  have tv: "timing_ok (n + 1) v" using tim v(3) by (simp add: timing_ok_def same_frame_def)
  have n: "OS_TASK_CNT (irq_leave u) = 4" "OS_TASK_CNT v = 4" using cfg cv by (simp_all add: config_ok_def)
  have ev: "ev_set (pcb v i) = ev_set (pcb u i) \<and> ev_wait (pcb v i) = ev_wait (pcb u i)" if "i < 4" for i
    using that n v(3) l(2) by (simp add: same_frame_def)
  have q: "in_queue v i = in_queue (irq_leave u) i" if "i < 4" for i
    using that n v(5) queue_okD(4) [OF kernel_okD(1) [OF v(2)], of i]
      queue_okD(4) [OF kernel_okD(1) [OF l(1)], of i] by simp
  have "task_after (pcb u i) v i" if "i < 4" for i
    using ev [OF that] q [OF that] v(6) that n l(2) by (simp add: task_after_def in_queue_def)
  then have after: "\<forall>i < 4. task_after (pcb u i) v i" by blast
  have up: "awake s \<longrightarrow> awake v \<and> os_errors v = os_errors s"
  proof
    assume a: "awake s"
    then have "awake u" using p awake_signal by (auto simp: awake_def less_4 simp del: One_nat_def)
    then have "awake v" using after by (auto simp: awake_def task_after_def in_queue_def)
    moreover have "awake ?s1" using a e(5) by (simp add: awake_def)
    ultimately show "awake v \<and> os_errors v = os_errors s"
      using quiet e(8) l(9) v(3) by (simp add: same_frame_def)
  qed
  from that [OF run v(2) cv tv v(4) after p up] show thesis .
qed

section \<open>Time\<close>

text \<open>The states with \<open>n\<close> ticks since the start: between the ticks the tasks make any of the calls
  of \<open>run_call\<close> but those on resources.  A tick reports at most six errors (two for each alarm
  of a suspended task); one that would fill the error log stalls and leads nowhere, so the
  ticks of \<open>os_time\<close> find room for six.  The log only grows: a state with room for six has been
  reached through such ticks only.\<close>

inductive os_time :: "nat \<Rightarrow> Os \<Rightarrow> bool" where
  boot: "os_time 0 booted"
| call: "os_time n s \<Longrightarrow> call_ok c s \<Longrightarrow> \<not> resource_call c \<Longrightarrow> run_call c s = Some (rv, t) \<Longrightarrow> os_time n t"
| tick: "os_time n s \<Longrightarrow> hook_room 6 s \<Longrightarrow> tick_interrupt fuel 0 s = Some t \<Longrightarrow> os_time (n + 1) t"

inductive_cases os_time_start: "os_time 0 s"

lemma booted_timing: "config_ok booted" "timing_ok 0 booted"
proof -
  have "ring 0 = 0" "ring (next_multiple 100 0) = 100" "ring (next_multiple 50 0) = 50"
    by (simp_all add: ring_def next_multiple_def)
  then show "timing_ok 0 booted"
    by (simp add: timing_ok_def booted_eq counters_at_def alarms_at_def armed_def counter_table_def
        alarm_table_def gen_alarm_def os_static_def)
  have n: "OS_TASK_CNT booted = 4" by (simp add: booted_simps)
  show "config_ok booted"
    unfolding config_ok_def n less_4
    by (simp add: booted_simps Os_SchedulerResourceIsFree_def Os_SysIntAnyDisabled_def)
qed

lemma os_time_ok: "os_time n s \<Longrightarrow> kernel_ok s \<and> config_ok s \<and> timing_ok n s"
proof (induction rule: os_time.induct)
  case boot
  show ?case using kernel_ok_booted booted_timing by simp
next
  case (call n s c rv t)
  then have k: "kernel_ok t" and c: "calm s t" using run_call_ok [of s c] by (simp_all add: returns_ok_def)
  have "timing_ok n t" using c call by (simp add: timing_ok_def calm_def)
  with k config_ok_calm [OF c] call show ?case by simp
next
  case (tick n s fuel t)
  then have i: "kernel_ok s" "config_ok s" "timing_ok n s" by simp_all
  obtain t' where "tick_interrupt fuel 0 s = Some t'" "kernel_ok t'" "config_ok t'" "timing_ok (n + 1) t'"
    by (rule tick_ok [OF i tick.hyps(2)])
  with tick show ?case by simp
qed

lemma top_running_critical:
  assumes "kernel_ok t" and "config_ok t" and "top_running t" and "in_queue t 1"
  shows "currTaskPtr t = 1"
proof -
  have p: "\<forall>i < 4. activePriority (pcb t i) = prio (task_table ! i)" and n: "OS_TASK_CNT t = 4"
    using assms(2) by (simp_all add: config_ok_def)
  have c: "currTaskPtr t < 4" using kernel_okD(2) [OF assms(1)] n by simp
  have "1 \<in> set (ready_head t)" using queue_okD(4) [OF kernel_okD(1) [OF assms(1)], of 1] n assms(4) by simp
  then have "activePriority (pcb t 1) \<le> activePriority (pcb t (currTaskPtr t))"
    using assms(3) by (simp add: top_running_def)
  then have "prio (task_table ! 1) \<le> prio (task_table ! currTaskPtr t)"
    using p c by (simp del: One_nat_def)
  moreover have "currTaskPtr t = 0 \<or> currTaskPtr t = 1 \<or> currTaskPtr t = 2 \<or> currTaskPtr t = 3"
    using c by auto
  ultimately show ?thesis by (auto simp: task_table_def gen_task_def word_le_nat_alt)
qed

section \<open>Properties\<close>


lemma booted_quiet: "awake booted" "os_errors booted = []"
  unfolding awake_def less_4 by (simp_all add: booted_simps)



text \<open>States with \<open>n\<close> ticks in which no error has been reported.\<close>

lemma quiet_tick:
  assumes "os_time n s" and "awake s" and "os_errors s = []"
  obtains t u where "os_time (n + 1) t" and "awake t" and "os_errors t = []"
    and "\<forall>i < 4. task_after (u i) t i"
    and "u 1 = (if 50 dvd n + 1 then signal 4 (pcb s 1) else pcb s 1)"
proof -
  have r: "hook_room 6 s" using assms(3) by (simp add: hook_room_def)
  have i: "kernel_ok s" "config_ok s" "timing_ok n s" using os_time_ok [OF assms(1)] by simp_all
  obtain t u where t: "tick_interrupt 1 0 s = Some t" and e: "\<forall>i < 4. task_after (u i) t i"
    and u: "u 1 = (if 50 dvd n + 1 then signal 4 (pcb s 1) else pcb s 1)"
    and q: "awake s \<longrightarrow> awake t \<and> os_errors t = os_errors s"
    by (rule tick_ok [OF i r])
  from that [OF os_time.tick [OF assms(1) r t] _ _ e u] q assms(2,3) show thesis by simp
qed

text \<open>\<open>CriticalTask\<close> waiting through the ticks before.\<close>

lemma waiting_ticks:
  assumes "os_time 0 s" and "pcb_state (pcb s 1) = ST_WAITING" and "ev_wait (pcb s 1) = 4"
    and "awake s" and "os_errors s = []" and "n < 50"
  shows "\<exists>t. os_time n t \<and> pcb_state (pcb t 1) = ST_WAITING \<and> ev_wait (pcb t 1) = 4
    \<and> awake t \<and> os_errors t = []"
  using assms(6)
proof (induction n)
  case 0
  with assms show ?case by blast
next
  case (Suc n)
  then obtain s where o: "os_time n s" and w: "pcb_state (pcb s 1) = ST_WAITING" "ev_wait (pcb s 1) = 4"
    and q: "awake s" "os_errors s = []"
    by auto
  obtain t u where t: "os_time (n + 1) t" "awake t" "os_errors t = []"
    and e: "\<forall>i < 4. task_after (u i) t i"
    and u: "u 1 = (if 50 dvd n + 1 then signal 4 (pcb s 1) else pcb s 1)"
    by (rule quiet_tick [OF o q])
  have "\<not> 50 dvd n + 1" using Suc.prems by (auto dest: dvd_imp_le)
  then have "task_after (pcb s 1) t 1" using spec [OF e, of 1] u by simp
  then have "pcb_state (pcb t 1) = ST_WAITING" "ev_wait (pcb t 1) = 4"
    using w by (auto simp: task_after_def)
  then show ?case using t by auto
qed

definition critical_waits :: Os where
  "critical_waits = snd (the (run_call (CallWaitEvent 4) booted))"

lemma critical_waits_eval:
  "run_call (CallWaitEvent 4) booted = Some (0, critical_waits)
   \<and> pcb_state (pcb critical_waits 1) = ST_WAITING \<and> ev_wait (pcb critical_waits 1) = 4
   \<and> os_errors critical_waits = []
   \<and> map (\<lambda>i. pcb_state (pcb critical_waits i)) [0, 1, 2, 3] = [1, 2, 1, 8]"
  unfolding critical_waits_def by code_simp

lemma critical_waits_time: "os_time 0 critical_waits" "awake critical_waits"
  using os_time.call [OF os_time.boot, of "CallWaitEvent 4"] critical_waits_eval
  by (simp_all add: awake_def less_4)


section \<open>Reading the counter\<close>

lemma os_time_exists: "\<exists>s. os_time n s \<and> awake s \<and> os_errors s = []"
proof (induction n)
  case 0
  show ?case using os_time.boot booted_quiet by blast
next
  case (Suc n)
  then obtain s where s: "os_time n s" "awake s" "os_errors s = []" by blast
  obtain t where "os_time (n + 1) t" "awake t" "os_errors t = []" by (rule quiet_tick [OF s])
  then show ?case by auto
qed

text \<open>the hardware counter is read from the kernel's tick count, not from the counter: from
  tick 65536 on (about 65 seconds) \<open>GetCounterValue\<close> returns a value above the counter's
  greatest value, which \<open>GetElapsedValue\<close>, given that very reading, rejects with
  \<open>E_OS_VALUE\<close>.\<close>

theorem counter_reading_rejected:
  assumes "os_time n s" and "65536 \<le> n" and "n < 2 ^ 32" and "hook_room 1 s"
  shows "\<exists>v u. GetCounterValue 0 s = Some (E_OK, Some v, s) \<and> unat v = n
    \<and> v > maxallowedvalue (counter_of s 0)
    \<and> GetElapsedValue 0 v s = Some (E_OS_VALUE, v, None, u)"
proof -
  have t: "timing_ok n s" using os_time_ok [OF assms(1)] by simp
  have u: "unat (of_nat n :: u32) = n" using assms(3) by (simp add: unat_of_nat)
  have "GetCounterValue 0 s = Some (E_OK, Some (of_nat n), s)"
    using t by (simp add: GetCounterValue_def timing_ok_def IsCounterValid_def OS_COUNTER_CNT_def
        alarm_simps)
  moreover have big: "(of_nat n :: u32) > maxallowedvalue (counter_of s 0)"
    using t u assms(2) by (simp add: timing_ok_def alarm_simps word_less_nat_alt)
  moreover have "\<exists>x. GetElapsedValue 0 (of_nat n) s = Some (E_OS_VALUE, of_nat n, None, x)"
    using t big assms(4) by (simp add: GetElapsedValue_def timing_ok_def IsCounterValid_def
        OS_COUNTER_CNT_def alarm_simps os_err_room)
  ultimately show ?thesis using u by auto
qed

theorem counter_reading_rejected_witness:
  "\<exists>s v u. os_time 65536 s \<and> GetCounterValue 0 s = Some (E_OK, Some v, s)
    \<and> GetElapsedValue 0 v s = Some (E_OS_VALUE, v, None, u)"
proof -
  obtain s where s: "os_time 65536 s" "os_errors s = []" using os_time_exists by blast
  have "hook_room 1 s" using s(2) by (simp add: hook_room_def)
  from counter_reading_rejected [OF s(1) _ _ this] s(1) show ?thesis by auto
qed

end
