(* ===== verification/OsProps.thy ===== *)
theory OsProps
  imports OsTime
begin

text \<open>
  What the single services promise a task: waiting for an event and being woken, activation
  limits, resources.  Each property is stated for every state that satisfies the kernel's
  invariant \<open>kernel_ok\<close> and applied to a state of the configured kernel.
\<close>

section \<open>Events\<close>

text \<open>\<open>WaitEvent\<close> never loses an event: when one of the awaited events is already set, it
  returns at once and changes nothing; otherwise the caller becomes WAITING for exactly the
  awaited events, leaves the ready queue, and a task of greatest priority runs.\<close>

theorem WaitEvent_blocks_or_continues:
  assumes "kernel_ok s" and "proc_kind (tconst s (currTaskPtr s)) = PROC_EXTENDED"
    and "resourceHead (pcb s (currTaskPtr s)) = []"
  shows "if ev_set (pcb s (currTaskPtr s)) AND Mask \<noteq> 0 then WaitEvent Mask s = Some (E_OK, s)
    else \<exists>t. WaitEvent Mask s = Some (E_OK, t) \<and> pcb_state (pcb t (currTaskPtr s)) = ST_WAITING
      \<and> ev_wait (pcb t (currTaskPtr s)) = Mask
      \<and> ready_head t = remove1 (currTaskPtr s) (ready_head s) \<and> kernel_ok t \<and> top_running t"
proof -
  let ?c = "currTaskPtr s"
  let ?s = "upd_pcb ?c (ev_wait_update (\<lambda>_. Mask)) s"
  have c: "?c < OS_TASK_CNT s" and n: "intNestCnt s = 0" and run: "pcb_state (pcb s ?c) = ST_RUNNING"
    using kernel_okD [OF assms(1)] by simp_all
  have free: "Os_SchedulerResourceIsFree s"
    using sched_free [OF assms(1)] assms(3) by (simp add: Os_TaskOccupiesResources_def)
  have nz: "?c \<noteq> 0" using extended_not_idle [OF assms(1,2)] .
  have k: "kernel_ok ?s" using assms(1) c run by (intro kernel_ok_upd) simp_all
  have nz': "currTaskPtr ?s \<noteq> 0" using nz by simp
  have op: "op_ok OP_WAIT_EVENT ?s" using op_ok_idle [OF k] nz' by simp
  obtain v where v: "Os_Dispatch OP_WAIT_EVENT ?s = Some v" "kernel_ok v" "top_running v" "same_frame ?s v"
    "ready_head v = remove1 ?c (ready_head s) \<and> pcb_state (pcb v ?c) = ST_WAITING"
    using Dispatch_ok [OF k _ op] free nz' by (metis upd_pcb_frame(6,11,17))
  have "ev_wait (pcb v ?c) = Mask" using v(4) c by (simp add: same_frame_def pcb_upd_pcb)
  with v free n assms(2,3) show ?thesis
    by (auto simp: WaitEvent_def Let_def Os_TaskOccupiesResources_def)
qed

theorem WaitEvent_blocks_or_continues_witness:
  "\<exists>t. WaitEvent EVENT_MASK_CriticalEvent booted = Some (E_OK, t)
    \<and> pcb_state (pcb t 1) = ST_WAITING \<and> ev_wait (pcb t 1) = EVENT_MASK_CriticalEvent"
proof -
  have c: "currTaskPtr booted = 1" by (simp add: booted_eq os_static_def)
  have e: "proc_kind (tconst booted (currTaskPtr booted)) = PROC_EXTENDED"
    "resourceHead (pcb booted (currTaskPtr booted)) = []" "ev_set (pcb booted 1) = 0"
    by (simp_all add: booted_simps)
  from WaitEvent_blocks_or_continues [OF kernel_ok_booted e(1,2), of EVENT_MASK_CriticalEvent]
  show ?thesis unfolding c using e(3) by auto
qed

text \<open>A dispatch on behalf of a ready task of greater priority takes the processor from the caller.\<close>

lemma preempting_dispatch:
  assumes k: "kernel_ok s" and free: "Os_SchedulerResourceIsFree s" and d: "d \<in> set (ready_head s)"
    and gt: "activePriority (pcb s d) > activePriority (pcb s (currTaskPtr s))"
  shows "\<exists>v. Os_Dispatch OP_SET_EVENT s = Some v \<and> kernel_ok v \<and> top_running v \<and> same_frame s v
    \<and> ready_head v = ready_head s \<and> currTaskPtr v \<noteq> currTaskPtr s"
proof -
  obtain v where v: "Os_Dispatch OP_SET_EVENT s = Some v" "kernel_ok v" "top_running v"
    "same_frame s v" "ready_head v = ready_head s"
    by (rule Dispatch_ok [OF k free, of OP_SET_EVENT]) (simp_all add: op_ok_def)
  have "d < OS_TASK_CNT s" "currTaskPtr s < OS_TASK_CNT s"
    using queue_okD(2) [OF kernel_okD(1) [OF k]] d kernel_okD(2) [OF k] by auto
  then have "activePriority (pcb v d) > activePriority (pcb v (currTaskPtr s))"
    using gt v(4) by (simp add: same_frame_def)
  then have "currTaskPtr v \<noteq> currTaskPtr s" using v(3,5) d by (auto simp: top_running_def)
  with v show ?thesis by blast
qed

text \<open>C16: \<open>SetEvent\<close> wakes the task that waits: the event is recorded, the task is in the ready
  queue, and whenever a task of greatest priority ran before, one runs after; so a woken task
  of greater priority than the caller runs before \<open>SetEvent\<close> returns to the caller.\<close>

theorem SetEvent_wakes_waiter:
  assumes k: "kernel_ok s" and top: "top_running s" and d: "unat TaskID < OS_TASK_CNT s"
    and ext: "proc_kind (tconst s (unat TaskID)) = PROC_EXTENDED"
    and w: "pcb_state (pcb s (unat TaskID)) = ST_WAITING"
    and m: "Mask AND ev_wait (pcb s (unat TaskID)) \<noteq> 0"
    and free: "Os_SchedulerResourceIsFree s"
    and full: "scheduling (tconst s (currTaskPtr s)) = FULL"
  shows "\<exists>t. SetEvent TaskID Mask s = Some (E_OK, t) \<and> kernel_ok t \<and> top_running t
    \<and> ev_set (pcb t (unat TaskID)) = ev_set (pcb s (unat TaskID)) OR Mask
    \<and> set (ready_head t) = insert (unat TaskID) (set (ready_head s))
    \<and> (activePriority (pcb s (unat TaskID)) > activePriority (pcb s (currTaskPtr s))
        \<longrightarrow> currTaskPtr t \<noteq> currTaskPtr s)"
proof -
  let ?d = "unat TaskID" and ?c = "currTaskPtr s"
  let ?s1 = "upd_pcb ?d (ev_set_update (\<lambda>x. x OR Mask)) s"
  let ?s2 = "Os_TaskMakeReady ?d ?s1"
  have c: "TASK_CHECK_ID TaskID s" "Os_TaskGet TaskID s = Some ?d"
    using d by (simp_all add: TASK_CHECK_ID_def Os_TaskGet_def)
  have k1: "kernel_ok ?s1" using k d w by (intro kernel_ok_upd) simp_all
  then have k2: "kernel_ok ?s2" using d by (simp add: kernel_ok_MakeReady)
  have q1: "queue_ok ?s1" "?d < OS_TASK_CNT ?s1" using kernel_okD(1) [OF k1] d by simp_all
  note mr = MakeReady_ok [OF q1]
  have f2: "same_frame ?s1 ?s2" "currTaskPtr ?s2 = ?c" "set (ready_head ?s2) = insert ?d (set (ready_head s))"
    using mr by simp_all
  have pr: "activePriority (pcb ?s2 i) = activePriority (pcb s i)"
    and ev: "ev_set (pcb ?s2 ?d) = ev_set (pcb s ?d) OR Mask" if "i < OS_TASK_CNT s" for i
    using f2(1) that d by (auto simp: same_frame_def pcb_upd_pcb)
  have cl: "?c < OS_TASK_CNT s" by (rule kernel_okD(2) [OF k])
  have free2: "Os_SchedulerResourceIsFree ?s2"
    using free f2(1) by (simp add: same_frame_def Os_SchedulerResourceIsFree_def upd_pcb_def)
  have full2: "scheduling (tconst ?s2 ?c) = FULL"
    using full f2(1) by (simp add: same_frame_def tconst_def upd_pcb_def)
  have n2: "intNestCnt ?s2 = 0" by (rule kernel_okD(3) [OF k2])
  have run: "SetEvent TaskID Mask s =
      (if preempts ?d ?s2 then do { s3 \<leftarrow> Os_Dispatch OP_SET_EVENT ?s2; Some (E_OK, s3) } else Some (E_OK, ?s2))"
    using c ext w m d by (simp add: SetEvent_def Let_def pcb_upd_pcb)
  have pre: "preempts ?d ?s2 \<longleftrightarrow> activePriority (pcb s ?d) > activePriority (pcb s ?c)"
    using n2 free2 full2 f2(2) pr [OF d] pr [OF cl] by (simp add: preempts_def)
  show ?thesis
  proof (cases "preempts ?d ?s2")
    case True
    then have "activePriority (pcb ?s2 ?d) > activePriority (pcb ?s2 (currTaskPtr ?s2))"
      using pre f2(2) pr [OF d] pr [OF cl] by simp
    then obtain v where v: "Os_Dispatch OP_SET_EVENT ?s2 = Some v" "kernel_ok v" "top_running v"
      "same_frame ?s2 v" "ready_head v = ready_head ?s2" "currTaskPtr v \<noteq> ?c"
      using preempting_dispatch [OF k2 free2, of ?d] f2(2,3) by auto
    moreover have "ev_set (pcb v ?d) = ev_set (pcb s ?d) OR Mask"
      using v(4) f2(1) ev [OF d] d by (simp add: same_frame_def)
    ultimately show ?thesis using run True f2(3) by simp
  next
    case False
    then have le: "activePriority (pcb s ?d) \<le> activePriority (pcb s ?c)" using pre by simp
    have "top_running ?s2"
      unfolding top_running_def f2(2,3)
      using top le pr [OF d] pr [OF cl] pr queue_okD(2) [OF kernel_okD(1) [OF k]]
      by (auto simp: top_running_def)
    then show ?thesis using run False k2 f2(3) ev [OF d] le by auto
  qed
qed

lemma critical_waits_facts:
  "top_running critical_waits" "currTaskPtr critical_waits = 3"
  "Os_SchedulerResourceIsFree critical_waits"
  "activePriority (pcb critical_waits 1) = 5" "activePriority (pcb critical_waits 3) = 3"
  unfolding critical_waits_def by code_simp+

theorem SetEvent_wakes_waiter_witness:
  "\<exists>t. SetEvent TASK_ID_CriticalTask EVENT_MASK_CriticalEvent critical_waits = Some (E_OK, t)
    \<and> kernel_ok t \<and> top_running t \<and> currTaskPtr t \<noteq> 3"
proof -
  have k: "kernel_ok critical_waits" and cfg: "config_ok critical_waits"
    using os_time_ok [OF critical_waits_time(1)] by simp_all
  have n: "OS_TASK_CNT critical_waits = 4" using cfg by (simp add: config_ok_def)
  have t: "proc_kind (tconst critical_waits 1) = PROC_EXTENDED" "scheduling (tconst critical_waits 3) = FULL"
    using config_ok_tconst [OF cfg] by (simp_all add: task_table_def gen_task_def)
  from SetEvent_wakes_waiter [OF k critical_waits_facts(1), of TASK_ID_CriticalTask EVENT_MASK_CriticalEvent]
  show ?thesis using n t critical_waits_facts critical_waits_eval by auto
qed

section \<open>Activations\<close>

text \<open>a task that is not suspended and has reached its activation limit cannot be activated
  once more: \<open>ActivateTask\<close> returns \<open>E_OS_LIMIT\<close> and leaves every task as it was.\<close>

theorem ActivateTask_respects_limit:
  assumes "unat TaskID < OS_TASK_CNT s" and "\<not> Os_SysIntAnyDisabled s"
    and "pcb_state (pcb s (unat TaskID)) \<noteq> ST_SUSPENDED"
    and "sint (activations (pcb s (unat TaskID))) = uint (activationLimit (tconst s (unat TaskID)))"
    and "activationLimit (tconst s (unat TaskID)) < 127" and "hook_room 1 s"
  shows "ActivateTask TaskID s = Some (E_OS_LIMIT, s\<lparr>os_errors := os_errors s @ [E_OS_LIMIT]\<rparr>)"
proof -
  let ?d = "unat TaskID"
  have c: "TASK_CHECK_ID TaskID s" "Os_TaskGet TaskID s = Some ?d"
    using assms(1) by (simp_all add: TASK_CHECK_ID_def Os_TaskGet_def)
  have lim: "uint (activationLimit (tconst s ?d)) < 127"
    using assms(5) by (simp add: word_less_def)
  have "sint (activations (pcb s ?d) + 1) = sint (activations (pcb s ?d)) + 1"
    using assms(4) lim by (simp add: sint_word_ariths signed_take_bit_int_eq_self_iff)
  then have over: "sint (activations (pcb s ?d) + 1) \<ge> uint (activationLimit (tconst s ?d)) + 1"
    using assms(4) by simp
  have undo: "upd_pcb ?d (activations_update (\<lambda>n. n - 1)) (upd_pcb ?d (activations_update (\<lambda>n. n + 1)) s) = s"
    using assms(1) by (simp add: upd_pcb_def OS_TASK_CNT_def list_update_same_conv)
  show ?thesis
    using c over undo assms(1-3,6) by (simp add: ActivateTask_def Let_def pcb_upd_pcb os_err_room)
qed

theorem ActivateTask_respects_limit_witness:
  "ActivateTask TASK_ID_CriticalTask booted
     = Some (E_OS_LIMIT, booted\<lparr>os_errors := os_errors booted @ [E_OS_LIMIT]\<rparr>)"
  by (rule ActivateTask_respects_limit) (simp_all add: booted_simps Os_SysIntAnyDisabled_def word_less_nat_alt hook_room_def)

section \<open>Resources\<close>

lemma res_get_upd_res:
  "(case r of ResScheduler \<Rightarrow> True | ResEntry n \<Rightarrow> n < OS_RESOURCE_CNT s) \<Longrightarrow>
    res_get r (upd_res r f s) = f (res_get r s)"
  by (simp add: res_get_def upd_res_def OS_RESOURCE_CNT_def split: OsResourceRef.splits)

lemma res_get_frame: "same_frame s t \<Longrightarrow> res_get r t = res_get r s"
  by (simp add: same_frame_def res_get_def split: OsResourceRef.split)

lemma OS_RESOURCE_CNT_upd [simp]:
  "OS_RESOURCE_CNT (upd_pcb i f s) = OS_RESOURCE_CNT s"
  "OS_RESOURCE_CNT (upd_res r g s) = OS_RESOURCE_CNT s"
  by (simp_all add: OS_RESOURCE_CNT_def upd_res_def split: OsResourceRef.split)

lemma GetResource_add:
  assumes "GetResource ResID s = Some (E_OK, t)" and "res_ref ResID s = Some r" and "intNestCnt s = 0"
  shows "t = Os_TaskResourceAdd r (currTaskPtr s) s"
    and "unat ResID = OS_RESOURCE_CNT s \<and> r = ResScheduler
      \<or> unat ResID \<noteq> OS_RESOURCE_CNT s \<and> Os_ResourceGet ResID s = Some r
        \<and> (\<exists>m. res_mask ResID = Some m \<and> resourceAccess (tconst s (currTaskPtr s)) AND m \<noteq> 0)"
  using assms
  by (auto simp: GetResource_def Let_def res_ref_def os_err_room split: if_splits Option.bind_splits)

lemma ResourceAdd_fields:
  assumes "res_ref ResID s = Some r" and "i < OS_TASK_CNT s"
    and "res_type (res_get r s) \<noteq> RESOURCE_TYPE_INTERNAL"
  defines "t \<equiv> Os_TaskResourceAdd r i s"
  shows "pcb t i = (pcb s i)\<lparr>activePriority := ceiling_priority (res_get r s),
      resourceHead := resourceHead (pcb s i) @ [r]\<rparr>"
    and "res_get r t = (res_get r s)\<lparr>res_owner := of_nat i, old_task_prio := activePriority (pcb s i)\<rparr>"
    and "tconst t = tconst s" and "OS_RESOURCE_CNT t = OS_RESOURCE_CNT s" and "currTaskPtr t = currTaskPtr s"
    and "OS_TASK_CNT t = OS_TASK_CNT s"
proof -
  have v: "case r of ResScheduler \<Rightarrow> True | ResEntry n \<Rightarrow> n < OS_RESOURCE_CNT s"
    using assms(1) by (auto simp: res_ref_def Os_ResourceGet_def split: if_splits)
  show "pcb t i = (pcb s i)\<lparr>activePriority := ceiling_priority (res_get r s),
      resourceHead := resourceHead (pcb s i) @ [r]\<rparr>"
    using assms(2,3) by (simp add: t_def Os_TaskResourceAdd_def Let_def pcb_upd_pcb)
  show "res_get r t = (res_get r s)\<lparr>res_owner := of_nat i, old_task_prio := activePriority (pcb s i)\<rparr>"
    using v by (simp add: t_def Os_TaskResourceAdd_def Let_def res_get_upd_res)
qed (simp_all add: t_def Os_TaskResourceAdd_def Let_def)

lemma ResourceRemove_fields:
  assumes "res_ref ResID s = Some r" and "i < OS_TASK_CNT s"
    and "res_type (res_get r s) \<noteq> RESOURCE_TYPE_INTERNAL" and "Os_TaskResourceRemove r i s = Some t"
  shows "pcb t i = (pcb s i)\<lparr>activePriority := old_task_prio (res_get r s),
      resourceHead := remove1 r (resourceHead (pcb s i))\<rparr>"
    and "res_owner (res_get r t) = NO_TASK_OWNER" and "OS_TASK_CNT t = OS_TASK_CNT s"
proof -
  have v: "case r of ResScheduler \<Rightarrow> True | ResEntry n \<Rightarrow> n < OS_RESOURCE_CNT s"
    using assms(1) by (auto simp: res_ref_def Os_ResourceGet_def split: if_splits)
  have t: "t = upd_pcb i (resourceHead_update (remove1 r)) (upd_pcb i
      (activePriority_update (\<lambda>_. old_task_prio (res_get r s)))
        (upd_res r (res_owner_update (\<lambda>_. NO_TASK_OWNER)) s))"
    using assms(3,4) by (simp add: Os_TaskResourceRemove_def Let_def split: if_splits)
  show "pcb t i = (pcb s i)\<lparr>activePriority := old_task_prio (res_get r s),
      resourceHead := remove1 r (resourceHead (pcb s i))\<rparr>"
    using assms(2) by (simp add: t pcb_upd_pcb)
  show "res_owner (res_get r t) = NO_TASK_OWNER" "OS_TASK_CNT t = OS_TASK_CNT s"
    using v by (simp_all add: t res_get_upd_res)
qed

text \<open>The part of \<open>ReleaseResource\<close> behind its checks and the removal.\<close>

definition release_tail :: "nat \<Rightarrow> Os \<Rightarrow> os_result" where
  "release_tail cur s1 =
     (if scheduling (tconst s1 cur) = FULL \<and> intNestCnt s1 = 0 \<and> Os_SchedulerResourceIsFree s1
      then do { top \<leftarrow> Os_TaskGetTop s1;
         (if activePriority (pcb s1 top) > activePriority (pcb s1 cur)
          then do { s2 \<leftarrow> Os_Dispatch OP_RELEASE_RESOURCE s1; Some (E_OK, s2) }
          else Some (E_OK, s1)) }
      else Some (E_OK, s1))"

lemma release_tail_ok:
  assumes "kernel_ok s" and "cur = currTaskPtr s"
  shows "\<exists>u. release_tail cur s = Some (E_OK, u) \<and> kernel_ok u \<and> same_frame s u"
proof -
  have "ready_head s \<noteq> []" using kernel_okD(5) [OF assms(1)] by (auto simp: idle_ok_def)
  then obtain top where top: "Os_TaskGetTop s = Some top"
    using TaskGetTop_ok [OF kernel_okD(1) [OF assms(1)]] by metis
  have "\<exists>v. Os_Dispatch OP_RELEASE_RESOURCE s = Some v \<and> kernel_ok v \<and> same_frame s v"
    if "Os_SchedulerResourceIsFree s"
    by (rule Dispatch_ok [OF assms(1) that, of OP_RELEASE_RESOURCE]) (auto simp: op_ok_def)
  then show ?thesis using top assms(1) by (auto simp: release_tail_def)
qed

text \<open>a resource that is taken and released again gives the task its priority back: while it
  is held, the task runs at the ceiling priority and owns the resource; \<open>ReleaseResource\<close> then
  succeeds, the resource is free, and the task has the priority and the resources it had
  before.\<close>

theorem resource_taken_and_released:
  assumes k: "kernel_ok s" and r: "res_ref ResID s = Some r"
    and std: "res_type (res_get r s) \<noteq> RESOURCE_TYPE_INTERNAL"
    and new: "r \<notin> set (resourceHead (pcb s (currTaskPtr s)))"
    and few: "OS_TASK_CNT s \<le> 0xFFFF"
    and get: "GetResource ResID s = Some (E_OK, t)"
  shows "activePriority (pcb t (currTaskPtr s)) = ceiling_priority (res_get r s)
    \<and> res_owner (res_get r t) = of_nat (currTaskPtr s)
    \<and> (\<exists>u. ReleaseResource ResID t = Some (E_OK, u) \<and> kernel_ok u
        \<and> activePriority (pcb u (currTaskPtr s)) = activePriority (pcb s (currTaskPtr s))
        \<and> resourceHead (pcb u (currTaskPtr s)) = resourceHead (pcb s (currTaskPtr s))
        \<and> res_owner (res_get r u) = NO_TASK_OWNER)"
proof -
  let ?c = "currTaskPtr s"
  have c: "?c < OS_TASK_CNT s" and n: "intNestCnt s = 0" using kernel_okD [OF k] by simp_all
  note add = GetResource_add [OF get r n]
  note tf = ResourceAdd_fields [OF r c std, folded add(1)]
  have kt: "kernel_ok t" unfolding add(1) by (rule ResourceAdd_ok [OF k refl])
  have rt: "res_ref ResID t = Some r" using r by (auto simp: res_ref_def tf(4) Os_ResourceGet_def split: if_splits)
  have own: "res_owner (res_get r t) = of_nat ?c" by (simp add: tf(2))
  have "?c < 2 ^ 16 - 1" using c few by simp
  then have no: "(of_nat ?c :: u16) \<noteq> NO_TASK_OWNER"
    by (auto simp: word_unat_eq_iff unat_of_nat)
  have hd: "resourceHead (pcb t ?c) = resourceHead (pcb s ?c) @ [r]" by (simp add: tf(1))
  obtain u1 where u1: "Os_TaskResourceRemove r ?c t = Some u1" "kernel_ok u1"
    using ResourceRemove_ok [OF kt, of ?c r] own hd tf(5) by auto
  have ct: "?c < OS_TASK_CNT t" using c tf(6) by simp
  have stdt: "res_type (res_get r t) \<noteq> RESOURCE_TYPE_INTERNAL" using std by (simp add: tf(2))
  note uf = ResourceRemove_fields [OF rt ct stdt u1(1)]
  have cu: "currTaskPtr u1 = ?c"
    using u1(1) by (auto simp: Os_TaskResourceRemove_def Let_def tf(5) split: if_splits)
  obtain u where u: "release_tail ?c u1 = Some (E_OK, u)" "kernel_ok u" "same_frame u1 u"
    using release_tail_ok [OF u1(2) cu [symmetric]] by blast
  have "ReleaseResource ResID t = release_tail ?c u1"
    using add(2) own no u1(1) tf
    by (auto simp: ReleaseResource_def Let_def release_tail_def Os_ResourceGet_def split del: if_split)
  moreover have "activePriority (pcb u ?c) = activePriority (pcb s ?c)"
    "resourceHead (pcb u ?c) = resourceHead (pcb s ?c)"
    using u(3) uf ct new hd by (simp_all add: same_frame_def tf(2) remove1_append)
  ultimately show ?thesis
    using u own uf(2) res_get_frame [OF u(3)] by (simp add: tf(1))
qed

theorem resource_taken_and_released_witness:
  "\<exists>t u. GetResource 0 booted = Some (E_OK, t) \<and> activePriority (pcb t 1) = OS_RES_SCHEDULER_PRIO
    \<and> ReleaseResource 0 t = Some (E_OK, u) \<and> activePriority (pcb u 1) = 5"
proof -
  have c: "currTaskPtr booted = 1" "activePriority (pcb booted 1) = 5" by (simp_all add: booted_simps)
  have n: "OS_RESOURCE_CNT booted = 0" "intNestCnt booted = 0"
    by (simp_all add: OS_RESOURCE_CNT_def booted_eq os_static_def)
  have r: "res_ref 0 booted = Some ResScheduler" by (simp add: res_ref_def n)
  obtain t where t: "GetResource 0 booted = Some (E_OK, t)" by (simp add: GetResource_def Let_def n)
  have s: "res_get ResScheduler booted = \<lparr>ceiling_priority = OS_RES_SCHEDULER_PRIO, old_task_prio = 0,
      res_owner = NO_TASK_OWNER, res_type = RESOURCE_TYPE_STANDARD\<rparr>"
    by (simp add: res_get_def booted_eq)
  have "resourceHead (pcb booted 1) = []" "OS_TASK_CNT booted \<le> 0xFFFF" by (simp_all add: booted_simps)
  with resource_taken_and_released [OF kernel_ok_booted r _ _ _ t]
  show ?thesis using t unfolding c s by auto
qed

section \<open>Alarms\<close>

lemma upd_alarm_fields:
  assumes "a < OS_ALARM_CNT s"
  shows "alarm (upd_alarm a f s) a = f (alarm s a)"
    and "counter_of (upd_alarm a f s) c = counter_of s c"
    and "OS_ALARM_CNT (upd_alarm a f s) = OS_ALARM_CNT s"
  using assms by (simp_all add: alarm_def upd_alarm_def counter_of_def OS_ALARM_CNT_def)

text \<open>an alarm that \<open>SetRelAlarm\<close> has accepted reads back as set: until the counter moves,
  \<open>GetAlarm\<close> returns the increment, across the counter's wrap-around too; \<open>CancelAlarm\<close> then
  succeeds, and the alarm is free again (\<open>E_OS_NOFUNC\<close>).\<close>

theorem relative_alarm_reads_back:
  assumes set: "SetRelAlarm AlarmId Increment Cycle s = Some (E_OK, t)"
    and c: "counter_val (counter_of s (alarm_counter (alarm s (unat AlarmId)))) \<le> COUNTER_MAX (unat AlarmId) s"
    and room: "hook_room 1 s"
  shows "GetAlarm AlarmId t = Some (E_OK, Some Increment, t)
    \<and> (\<exists>u v. CancelAlarm AlarmId t = Some (E_OK, u) \<and> GetAlarm AlarmId u = Some (E_OS_NOFUNC, None, v))"
proof -
  let ?a = "unat AlarmId"
  let ?f = "\<lambda>x. x\<lparr>alarm_active := True,
      expire_val := Os_CounterAdd (counter_val (counter_of s (alarm_counter x))) (COUNTER_MAX ?a s) Increment,
      cycletime := Cycle\<rparr>"
  have a: "?a < OS_ALARM_CNT s" and t: "t = upd_alarm ?a ?f s" and inc: "Increment \<le> COUNTER_MAX ?a s"
    using set by (auto simp: SetRelAlarm_def Os_AlarmGet_def ALARM_CHECK_ID_def os_err_room
        split: if_splits Option.bind_splits)
  have al: "alarm t ?a = ?f (alarm s ?a)" and co: "counter_of t = counter_of s" and n: "OS_ALARM_CNT t = OS_ALARM_CNT s"
    using upd_alarm_fields [OF a] by (simp_all add: t fun_eq_iff)
  have mx: "COUNTER_MAX ?a t = COUNTER_MAX ?a s" by (simp add: COUNTER_MAX_def al co)
  have id: "ALARM_CHECK_ID AlarmId t" "Os_AlarmGet AlarmId t = Some ?a" "?a < OS_ALARM_CNT t"
    using a by (simp_all add: ALARM_CHECK_ID_def Os_AlarmGet_def n)
  have "GetAlarm AlarmId t = Some (E_OK, Some Increment, t)"
    using id counter.diff_add [OF c inc] by (simp add: GetAlarm_def al co mx)
  moreover have "\<exists>u v. CancelAlarm AlarmId t = Some (E_OK, u) \<and> GetAlarm AlarmId u = Some (E_OS_NOFUNC, None, v)"
    using id upd_alarm_fields [OF id(3)] room
    by (simp add: CancelAlarm_def GetAlarm_def al ALARM_CHECK_ID_def Os_AlarmGet_def os_err_room)
      (simp add: hook_room_def t upd_alarm_def)
  ultimately show ?thesis by blast
qed

theorem relative_alarm_reads_back_witness:
  "\<exists>s t. CancelAlarm 0 booted = Some (E_OK, s) \<and> SetRelAlarm 0 700 0 s = Some (E_OK, t)
    \<and> GetAlarm 0 t = Some (E_OK, Some 700, t)"
proof -
  let ?s = "upd_alarm 0 (alarm_active_update (\<lambda>_. False)) booted"
  have c: "CancelAlarm 0 booted = Some (E_OK, ?s)"
    by (simp add: CancelAlarm_def ALARM_CHECK_ID_def Os_AlarmGet_def OS_ALARM_CNT_def alarm_def booted_eq armed_def)
  have "\<exists>t. SetRelAlarm 0 700 0 ?s = Some (E_OK, t)"
    by (simp add: SetRelAlarm_def ALARM_CHECK_ID_def Os_AlarmGet_def OS_ALARM_CNT_def upd_alarm_def
        booted_eq alarm_simps)
  then obtain t where t: "SetRelAlarm 0 700 0 ?s = Some (E_OK, t)" by blast
  have "counter_val (counter_of ?s (alarm_counter (alarm ?s (unat (0 :: AlarmType)))))
      \<le> COUNTER_MAX (unat (0 :: AlarmType)) ?s"
    by (simp add: upd_alarm_def booted_eq alarm_simps)
  moreover have "hook_room 1 ?s" by (simp add: hook_room_def upd_alarm_def booted_eq os_static_def)
  ultimately show ?thesis using relative_alarm_reads_back [OF t] c t by blast
qed

end
