(* ===== verification/Crc.thy ===== *)
theory Crc
  imports Pwc_Prelude
begin

text \<open>
  The checksum library (\<open>core/system/Crc\<close>): CRC-8 SAE J1850, CRC-8 with polynomial 0x2F,
  CRC-16 CCITT and the reflected CRC-32, each in the two build modes of the source: by
  polynomial division bit by bit (\<open>RUNTIME\<close>) and by table look-up (\<open>TABLE\<close>).  A data pointer
  with its length is the list of the bytes it points to, the NULL pointer is \<open>None\<close>.  The
  interface \<open>crc_engine\<close> states what error detection rests on: the update by one byte is
  injective in the remainder and in the byte.
\<close>

section \<open>Division bit by bit\<close>

text \<open>One pass of the inner loop: \<open>topbit\<close> is the mask of the remainder's highest bit.\<close>

definition crc_bit :: "'a::len word \<Rightarrow> 'a word \<Rightarrow> 'a word \<Rightarrow> 'a word" where
  "crc_bit topbit poly remainder =
     (if remainder AND topbit \<noteq> 0 then push_bit 1 remainder XOR poly else push_bit 1 remainder)"

definition CalculateCRC8 :: "u8 list \<Rightarrow> u8 \<Rightarrow> u8 \<Rightarrow> u8" where
  "CalculateCRC8 message start poly =
     fold (\<lambda>byte remainder. (crc_bit 0x80 poly ^^ 8) (remainder XOR byte)) message start"

definition CalculateCRC16 :: "u8 list \<Rightarrow> u16 \<Rightarrow> u16" where
  "CalculateCRC16 message start =
     fold (\<lambda>byte remainder. (crc_bit 0x8000 0x1021 ^^ 8) (remainder XOR push_bit 8 (ucast byte)))
       message start"

text \<open>The two reflection loops differ in the width only: the pass for bit number \<open>k\<close>.\<close>

fun reflect_pass :: "nat \<Rightarrow> nat \<Rightarrow> 'a::len word \<times> 'a word \<Rightarrow> 'a word \<times> 'a word" where
  "reflect_pass n k (reflection, data) =
     (if data AND 1 \<noteq> 0 then reflection OR push_bit (n - 1 - k) 1 else reflection,
      drop_bit 1 data)"

definition reflect_loop :: "nat \<Rightarrow> 'a::len word \<Rightarrow> 'a word" where
  "reflect_loop n data = fst (fold (reflect_pass n) [0..<n] (0, data))"

definition reflectResult :: "u32 \<Rightarrow> u32" where "reflectResult data = reflect_loop 32 data"
definition reflectInData :: "u8 \<Rightarrow> u8" where "reflectInData data = reflect_loop 8 data"

definition CalculateCRC32 :: "u8 list \<Rightarrow> u32 \<Rightarrow> u32" where
  "CalculateCRC32 message start =
     reflectResult (fold (\<lambda>byte remainder. (crc_bit 0x80000000 0x04C11DB7 ^^ 8)
         (remainder XOR push_bit 24 (ucast (reflectInData byte)))) message (reflectResult start))"

section \<open>The tables\<close>

definition crc8_tab :: "u8 list" where
  "crc8_tab = [
   0x0, 0x1d, 0x3a, 0x27, 0x74, 0x69, 0x4e, 0x53, 0xe8, 0xf5, 0xd2, 0xcf, 0x9c, 0x81, 0xa6, 0xbb,
   0xcd, 0xd0, 0xf7, 0xea, 0xb9, 0xa4, 0x83, 0x9e, 0x25, 0x38, 0x1f, 0x2, 0x51, 0x4c, 0x6b, 0x76,
   0x87, 0x9a, 0xbd, 0xa0, 0xf3, 0xee, 0xc9, 0xd4, 0x6f, 0x72, 0x55, 0x48, 0x1b, 0x6, 0x21, 0x3c,
   0x4a, 0x57, 0x70, 0x6d, 0x3e, 0x23, 0x4, 0x19, 0xa2, 0xbf, 0x98, 0x85, 0xd6, 0xcb, 0xec, 0xf1,
   0x13, 0xe, 0x29, 0x34, 0x67, 0x7a, 0x5d, 0x40, 0xfb, 0xe6, 0xc1, 0xdc, 0x8f, 0x92, 0xb5, 0xa8,
   0xde, 0xc3, 0xe4, 0xf9, 0xaa, 0xb7, 0x90, 0x8d, 0x36, 0x2b, 0xc, 0x11, 0x42, 0x5f, 0x78, 0x65,
   0x94, 0x89, 0xae, 0xb3, 0xe0, 0xfd, 0xda, 0xc7, 0x7c, 0x61, 0x46, 0x5b, 0x8, 0x15, 0x32, 0x2f,
   0x59, 0x44, 0x63, 0x7e, 0x2d, 0x30, 0x17, 0xa, 0xb1, 0xac, 0x8b, 0x96, 0xc5, 0xd8, 0xff, 0xe2,
   0x26, 0x3b, 0x1c, 0x1, 0x52, 0x4f, 0x68, 0x75, 0xce, 0xd3, 0xf4, 0xe9, 0xba, 0xa7, 0x80, 0x9d,
   0xeb, 0xf6, 0xd1, 0xcc, 0x9f, 0x82, 0xa5, 0xb8, 0x3, 0x1e, 0x39, 0x24, 0x77, 0x6a, 0x4d, 0x50,
   0xa1, 0xbc, 0x9b, 0x86, 0xd5, 0xc8, 0xef, 0xf2, 0x49, 0x54, 0x73, 0x6e, 0x3d, 0x20, 0x7, 0x1a,
   0x6c, 0x71, 0x56, 0x4b, 0x18, 0x5, 0x22, 0x3f, 0x84, 0x99, 0xbe, 0xa3, 0xf0, 0xed, 0xca, 0xd7,
   0x35, 0x28, 0xf, 0x12, 0x41, 0x5c, 0x7b, 0x66, 0xdd, 0xc0, 0xe7, 0xfa, 0xa9, 0xb4, 0x93, 0x8e,
   0xf8, 0xe5, 0xc2, 0xdf, 0x8c, 0x91, 0xb6, 0xab, 0x10, 0xd, 0x2a, 0x37, 0x64, 0x79, 0x5e, 0x43,
   0xb2, 0xaf, 0x88, 0x95, 0xc6, 0xdb, 0xfc, 0xe1, 0x5a, 0x47, 0x60, 0x7d, 0x2e, 0x33, 0x14, 0x9,
   0x7f, 0x62, 0x45, 0x58, 0xb, 0x16, 0x31, 0x2c, 0x97, 0x8a, 0xad, 0xb0, 0xe3, 0xfe, 0xd9, 0xc4]"

definition crc8H2F_tab :: "u8 list" where
  "crc8H2F_tab = [
   0x0, 0x2f, 0x5e, 0x71, 0xbc, 0x93, 0xe2, 0xcd, 0x57, 0x78, 0x9, 0x26, 0xeb, 0xc4, 0xb5, 0x9a,
   0xae, 0x81, 0xf0, 0xdf, 0x12, 0x3d, 0x4c, 0x63, 0xf9, 0xd6, 0xa7, 0x88, 0x45, 0x6a, 0x1b, 0x34,
   0x73, 0x5c, 0x2d, 0x2, 0xcf, 0xe0, 0x91, 0xbe, 0x24, 0xb, 0x7a, 0x55, 0x98, 0xb7, 0xc6, 0xe9,
   0xdd, 0xf2, 0x83, 0xac, 0x61, 0x4e, 0x3f, 0x10, 0x8a, 0xa5, 0xd4, 0xfb, 0x36, 0x19, 0x68, 0x47,
   0xe6, 0xc9, 0xb8, 0x97, 0x5a, 0x75, 0x4, 0x2b, 0xb1, 0x9e, 0xef, 0xc0, 0xd, 0x22, 0x53, 0x7c,
   0x48, 0x67, 0x16, 0x39, 0xf4, 0xdb, 0xaa, 0x85, 0x1f, 0x30, 0x41, 0x6e, 0xa3, 0x8c, 0xfd, 0xd2,
   0x95, 0xba, 0xcb, 0xe4, 0x29, 0x6, 0x77, 0x58, 0xc2, 0xed, 0x9c, 0xb3, 0x7e, 0x51, 0x20, 0xf,
   0x3b, 0x14, 0x65, 0x4a, 0x87, 0xa8, 0xd9, 0xf6, 0x6c, 0x43, 0x32, 0x1d, 0xd0, 0xff, 0x8e, 0xa1,
   0xe3, 0xcc, 0xbd, 0x92, 0x5f, 0x70, 0x1, 0x2e, 0xb4, 0x9b, 0xea, 0xc5, 0x8, 0x27, 0x56, 0x79,
   0x4d, 0x62, 0x13, 0x3c, 0xf1, 0xde, 0xaf, 0x80, 0x1a, 0x35, 0x44, 0x6b, 0xa6, 0x89, 0xf8, 0xd7,
   0x90, 0xbf, 0xce, 0xe1, 0x2c, 0x3, 0x72, 0x5d, 0xc7, 0xe8, 0x99, 0xb6, 0x7b, 0x54, 0x25, 0xa,
   0x3e, 0x11, 0x60, 0x4f, 0x82, 0xad, 0xdc, 0xf3, 0x69, 0x46, 0x37, 0x18, 0xd5, 0xfa, 0x8b, 0xa4,
   0x5, 0x2a, 0x5b, 0x74, 0xb9, 0x96, 0xe7, 0xc8, 0x52, 0x7d, 0xc, 0x23, 0xee, 0xc1, 0xb0, 0x9f,
   0xab, 0x84, 0xf5, 0xda, 0x17, 0x38, 0x49, 0x66, 0xfc, 0xd3, 0xa2, 0x8d, 0x40, 0x6f, 0x1e, 0x31,
   0x76, 0x59, 0x28, 0x7, 0xca, 0xe5, 0x94, 0xbb, 0x21, 0xe, 0x7f, 0x50, 0x9d, 0xb2, 0xc3, 0xec,
   0xd8, 0xf7, 0x86, 0xa9, 0x64, 0x4b, 0x3a, 0x15, 0x8f, 0xa0, 0xd1, 0xfe, 0x33, 0x1c, 0x6d, 0x42]"

definition crc16tab :: "u16 list" where
  "crc16tab = [
   0x0, 0x1021, 0x2042, 0x3063, 0x4084, 0x50a5, 0x60c6, 0x70e7,
   0x8108, 0x9129, 0xa14a, 0xb16b, 0xc18c, 0xd1ad, 0xe1ce, 0xf1ef,
   0x1231, 0x210, 0x3273, 0x2252, 0x52b5, 0x4294, 0x72f7, 0x62d6,
   0x9339, 0x8318, 0xb37b, 0xa35a, 0xd3bd, 0xc39c, 0xf3ff, 0xe3de,
   0x2462, 0x3443, 0x420, 0x1401, 0x64e6, 0x74c7, 0x44a4, 0x5485,
   0xa56a, 0xb54b, 0x8528, 0x9509, 0xe5ee, 0xf5cf, 0xc5ac, 0xd58d,
   0x3653, 0x2672, 0x1611, 0x630, 0x76d7, 0x66f6, 0x5695, 0x46b4,
   0xb75b, 0xa77a, 0x9719, 0x8738, 0xf7df, 0xe7fe, 0xd79d, 0xc7bc,
   0x48c4, 0x58e5, 0x6886, 0x78a7, 0x840, 0x1861, 0x2802, 0x3823,
   0xc9cc, 0xd9ed, 0xe98e, 0xf9af, 0x8948, 0x9969, 0xa90a, 0xb92b,
   0x5af5, 0x4ad4, 0x7ab7, 0x6a96, 0x1a71, 0xa50, 0x3a33, 0x2a12,
   0xdbfd, 0xcbdc, 0xfbbf, 0xeb9e, 0x9b79, 0x8b58, 0xbb3b, 0xab1a,
   0x6ca6, 0x7c87, 0x4ce4, 0x5cc5, 0x2c22, 0x3c03, 0xc60, 0x1c41,
   0xedae, 0xfd8f, 0xcdec, 0xddcd, 0xad2a, 0xbd0b, 0x8d68, 0x9d49,
   0x7e97, 0x6eb6, 0x5ed5, 0x4ef4, 0x3e13, 0x2e32, 0x1e51, 0xe70,
   0xff9f, 0xefbe, 0xdfdd, 0xcffc, 0xbf1b, 0xaf3a, 0x9f59, 0x8f78,
   0x9188, 0x81a9, 0xb1ca, 0xa1eb, 0xd10c, 0xc12d, 0xf14e, 0xe16f,
   0x1080, 0xa1, 0x30c2, 0x20e3, 0x5004, 0x4025, 0x7046, 0x6067,
   0x83b9, 0x9398, 0xa3fb, 0xb3da, 0xc33d, 0xd31c, 0xe37f, 0xf35e,
   0x2b1, 0x1290, 0x22f3, 0x32d2, 0x4235, 0x5214, 0x6277, 0x7256,
   0xb5ea, 0xa5cb, 0x95a8, 0x8589, 0xf56e, 0xe54f, 0xd52c, 0xc50d,
   0x34e2, 0x24c3, 0x14a0, 0x481, 0x7466, 0x6447, 0x5424, 0x4405,
   0xa7db, 0xb7fa, 0x8799, 0x97b8, 0xe75f, 0xf77e, 0xc71d, 0xd73c,
   0x26d3, 0x36f2, 0x691, 0x16b0, 0x6657, 0x7676, 0x4615, 0x5634,
   0xd94c, 0xc96d, 0xf90e, 0xe92f, 0x99c8, 0x89e9, 0xb98a, 0xa9ab,
   0x5844, 0x4865, 0x7806, 0x6827, 0x18c0, 0x8e1, 0x3882, 0x28a3,
   0xcb7d, 0xdb5c, 0xeb3f, 0xfb1e, 0x8bf9, 0x9bd8, 0xabbb, 0xbb9a,
   0x4a75, 0x5a54, 0x6a37, 0x7a16, 0xaf1, 0x1ad0, 0x2ab3, 0x3a92,
   0xfd2e, 0xed0f, 0xdd6c, 0xcd4d, 0xbdaa, 0xad8b, 0x9de8, 0x8dc9,
   0x7c26, 0x6c07, 0x5c64, 0x4c45, 0x3ca2, 0x2c83, 0x1ce0, 0xcc1,
   0xef1f, 0xff3e, 0xcf5d, 0xdf7c, 0xaf9b, 0xbfba, 0x8fd9, 0x9ff8,
   0x6e17, 0x7e36, 0x4e55, 0x5e74, 0x2e93, 0x3eb2, 0xed1, 0x1ef0]"

definition crc32_tab :: "u32 list" where
  "crc32_tab = [
   0x0, 0x77073096, 0xee0e612c, 0x990951ba, 0x76dc419, 0x706af48f, 0xe963a535, 0x9e6495a3,
   0xedb8832, 0x79dcb8a4, 0xe0d5e91e, 0x97d2d988, 0x9b64c2b, 0x7eb17cbd, 0xe7b82d07, 0x90bf1d91,
   0x1db71064, 0x6ab020f2, 0xf3b97148, 0x84be41de, 0x1adad47d, 0x6ddde4eb, 0xf4d4b551, 0x83d385c7,
   0x136c9856, 0x646ba8c0, 0xfd62f97a, 0x8a65c9ec, 0x14015c4f, 0x63066cd9, 0xfa0f3d63, 0x8d080df5,
   0x3b6e20c8, 0x4c69105e, 0xd56041e4, 0xa2677172, 0x3c03e4d1, 0x4b04d447, 0xd20d85fd, 0xa50ab56b,
   0x35b5a8fa, 0x42b2986c, 0xdbbbc9d6, 0xacbcf940, 0x32d86ce3, 0x45df5c75, 0xdcd60dcf, 0xabd13d59,
   0x26d930ac, 0x51de003a, 0xc8d75180, 0xbfd06116, 0x21b4f4b5, 0x56b3c423, 0xcfba9599, 0xb8bda50f,
   0x2802b89e, 0x5f058808, 0xc60cd9b2, 0xb10be924, 0x2f6f7c87, 0x58684c11, 0xc1611dab, 0xb6662d3d,
   0x76dc4190, 0x1db7106, 0x98d220bc, 0xefd5102a, 0x71b18589, 0x6b6b51f, 0x9fbfe4a5, 0xe8b8d433,
   0x7807c9a2, 0xf00f934, 0x9609a88e, 0xe10e9818, 0x7f6a0dbb, 0x86d3d2d, 0x91646c97, 0xe6635c01,
   0x6b6b51f4, 0x1c6c6162, 0x856530d8, 0xf262004e, 0x6c0695ed, 0x1b01a57b, 0x8208f4c1, 0xf50fc457,
   0x65b0d9c6, 0x12b7e950, 0x8bbeb8ea, 0xfcb9887c, 0x62dd1ddf, 0x15da2d49, 0x8cd37cf3, 0xfbd44c65,
   0x4db26158, 0x3ab551ce, 0xa3bc0074, 0xd4bb30e2, 0x4adfa541, 0x3dd895d7, 0xa4d1c46d, 0xd3d6f4fb,
   0x4369e96a, 0x346ed9fc, 0xad678846, 0xda60b8d0, 0x44042d73, 0x33031de5, 0xaa0a4c5f, 0xdd0d7cc9,
   0x5005713c, 0x270241aa, 0xbe0b1010, 0xc90c2086, 0x5768b525, 0x206f85b3, 0xb966d409, 0xce61e49f,
   0x5edef90e, 0x29d9c998, 0xb0d09822, 0xc7d7a8b4, 0x59b33d17, 0x2eb40d81, 0xb7bd5c3b, 0xc0ba6cad,
   0xedb88320, 0x9abfb3b6, 0x3b6e20c, 0x74b1d29a, 0xead54739, 0x9dd277af, 0x4db2615, 0x73dc1683,
   0xe3630b12, 0x94643b84, 0xd6d6a3e, 0x7a6a5aa8, 0xe40ecf0b, 0x9309ff9d, 0xa00ae27, 0x7d079eb1,
   0xf00f9344, 0x8708a3d2, 0x1e01f268, 0x6906c2fe, 0xf762575d, 0x806567cb, 0x196c3671, 0x6e6b06e7,
   0xfed41b76, 0x89d32be0, 0x10da7a5a, 0x67dd4acc, 0xf9b9df6f, 0x8ebeeff9, 0x17b7be43, 0x60b08ed5,
   0xd6d6a3e8, 0xa1d1937e, 0x38d8c2c4, 0x4fdff252, 0xd1bb67f1, 0xa6bc5767, 0x3fb506dd, 0x48b2364b,
   0xd80d2bda, 0xaf0a1b4c, 0x36034af6, 0x41047a60, 0xdf60efc3, 0xa867df55, 0x316e8eef, 0x4669be79,
   0xcb61b38c, 0xbc66831a, 0x256fd2a0, 0x5268e236, 0xcc0c7795, 0xbb0b4703, 0x220216b9, 0x5505262f,
   0xc5ba3bbe, 0xb2bd0b28, 0x2bb45a92, 0x5cb36a04, 0xc2d7ffa7, 0xb5d0cf31, 0x2cd99e8b, 0x5bdeae1d,
   0x9b64c2b0, 0xec63f226, 0x756aa39c, 0x26d930a, 0x9c0906a9, 0xeb0e363f, 0x72076785, 0x5005713,
   0x95bf4a82, 0xe2b87a14, 0x7bb12bae, 0xcb61b38, 0x92d28e9b, 0xe5d5be0d, 0x7cdcefb7, 0xbdbdf21,
   0x86d3d2d4, 0xf1d4e242, 0x68ddb3f8, 0x1fda836e, 0x81be16cd, 0xf6b9265b, 0x6fb077e1, 0x18b74777,
   0x88085ae6, 0xff0f6a70, 0x66063bca, 0x11010b5c, 0x8f659eff, 0xf862ae69, 0x616bffd3, 0x166ccf45,
   0xa00ae278, 0xd70dd2ee, 0x4e048354, 0x3903b3c2, 0xa7672661, 0xd06016f7, 0x4969474d, 0x3e6e77db,
   0xaed16a4a, 0xd9d65adc, 0x40df0b66, 0x37d83bf0, 0xa9bcae53, 0xdebb9ec5, 0x47b2cf7f, 0x30b5ffe9,
   0xbdbdf21c, 0xcabac28a, 0x53b39330, 0x24b4a3a6, 0xbad03605, 0xcdd70693, 0x54de5729, 0x23d967bf,
   0xb3667a2e, 0xc4614ab8, 0x5d681b02, 0x2a6f2b94, 0xb40bbe37, 0xc30c8ea1, 0x5a05df1b, 0x2d02ef8d]"

section \<open>The services\<close>

abbreviation CRC8_START_VALUE :: u8 where "CRC8_START_VALUE \<equiv> 0xFF"
abbreviation CRC8_XOR :: u8 where "CRC8_XOR \<equiv> 0xFF"
abbreviation CRC8_H2F_START_VALUE :: u8 where "CRC8_H2F_START_VALUE \<equiv> 0xFF"
abbreviation CRC8_H2F_XOR :: u8 where "CRC8_H2F_XOR \<equiv> 0xFF"
abbreviation CRC32_XOR :: u32 where "CRC32_XOR \<equiv> 0xFFFFFFFF"

datatype crc_mode = CRC_RUNTIME | CRC_TABLE

definition Crc_CalculateCRC8 :: "crc_mode \<Rightarrow> u8 list option \<Rightarrow> u8 \<Rightarrow> bool \<Rightarrow> u8" where
  "Crc_CalculateCRC8 mode Crc_DataPtr Crc_StartValue8 Crc_IsFirstCall =
     (case Crc_DataPtr of None \<Rightarrow> 0
      | Some data \<Rightarrow>
          (let crc = (if Crc_IsFirstCall then CRC8_START_VALUE else Crc_StartValue8 XOR CRC8_XOR);
               crc' = (case mode of
                   CRC_RUNTIME \<Rightarrow> CalculateCRC8 data crc 0x1D
                 | CRC_TABLE \<Rightarrow> fold (\<lambda>b c. crc8_tab ! unat (c XOR b)) data crc)
           in crc' XOR CRC8_XOR))"

definition Crc_CalculateCRC8H2F :: "crc_mode \<Rightarrow> u8 list option \<Rightarrow> u8 \<Rightarrow> bool \<Rightarrow> u8" where
  "Crc_CalculateCRC8H2F mode Crc_DataPtr Crc_StartValue8 Crc_IsFirstCall =
     (case Crc_DataPtr of None \<Rightarrow> 0
      | Some data \<Rightarrow>
          (let crc = (if Crc_IsFirstCall then CRC8_H2F_START_VALUE
                      else Crc_StartValue8 XOR CRC8_H2F_XOR);
               crc' = (case mode of
                   CRC_RUNTIME \<Rightarrow> CalculateCRC8 data crc 0x2F
                 | CRC_TABLE \<Rightarrow> fold (\<lambda>b c. crc8H2F_tab ! unat (c XOR b)) data crc)
           in crc' XOR CRC8_H2F_XOR))"

definition Crc_CalculateCRC16 :: "crc_mode \<Rightarrow> u8 list option \<Rightarrow> u16 \<Rightarrow> bool \<Rightarrow> u16" where
  "Crc_CalculateCRC16 mode Crc_DataPtr Crc_StartValue16 Crc_IsFirstCall =
     (case Crc_DataPtr of None \<Rightarrow> 0
      | Some data \<Rightarrow>
          (let crc = (if Crc_IsFirstCall then 0xFFFF else Crc_StartValue16 XOR 0x0000);
               crc' = (case mode of
                   CRC_RUNTIME \<Rightarrow> CalculateCRC16 data crc
                 | CRC_TABLE \<Rightarrow> fold (\<lambda>b c. push_bit 8 c XOR
                     crc16tab ! unat ((drop_bit 8 c XOR ucast b) AND 0x00FF)) data crc)
           in crc' XOR 0x0000))"

definition Crc_CalculateCRC32 :: "crc_mode \<Rightarrow> u8 list option \<Rightarrow> u32 \<Rightarrow> bool \<Rightarrow> u32" where
  "Crc_CalculateCRC32 mode Crc_DataPtr Crc_StartValue32 Crc_IsFirstCall =
     (case Crc_DataPtr of None \<Rightarrow> 0
      | Some data \<Rightarrow>
          (let crc = (if Crc_IsFirstCall then 0xFFFFFFFF else Crc_StartValue32 XOR CRC32_XOR);
               crc' = (case mode of
                   CRC_RUNTIME \<Rightarrow> CalculateCRC32 data crc
                 | CRC_TABLE \<Rightarrow> fold (\<lambda>b c. (drop_bit 8 c AND 0x00FFFFFF) XOR
                     crc32_tab ! unat ((c XOR ucast b) AND 0xFF)) data crc)
           in crc' XOR CRC32_XOR))"

section \<open>One pass of the division\<close>

lemma top_bits:
  "((w :: u8) AND 0x80 \<noteq> 0) = bit w 7"
  "((x :: u16) AND 0x8000 \<noteq> 0) = bit x 15"
  "((y :: u32) AND 0x80000000 \<noteq> 0) = bit y 31"
  using and_bit_mask_eq_0 [of 7 w] and_bit_mask_eq_0 [of 15 x] and_bit_mask_eq_0 [of 31 y]
  by (simp_all add: push_bit_eq_mult)

lemma crc_bit_xor:
  assumes top: "\<And>w :: 'a::len word. (w AND t \<noteq> 0) = bit w k"
  shows "crc_bit t poly (x XOR y) = crc_bit t poly x XOR crc_bit t poly y"
  unfolding crc_bit_def top by (auto simp: bit_xor_iff push_bit_xor ac_simps xor.left_commute)

lemma crc_bits_xor:
  assumes top: "\<And>w :: 'a::len word. (w AND t \<noteq> 0) = bit w k"
  shows "(crc_bit t poly ^^ n) (x XOR y) = (crc_bit t poly ^^ n) x XOR (crc_bit t poly ^^ n) y"
  by (induction n) (simp_all add: crc_bit_xor [OF top])

text \<open>A remainder whose \<open>n\<close> highest bits are clear is only shifted.\<close>

lemma crc_bits_shift:
  assumes top: "\<And>w :: 'a::len word. (w AND t \<noteq> 0) = bit w (LENGTH('a) - 1)"
    and "\<And>i. LENGTH('a) - n \<le> i \<Longrightarrow> \<not> bit x i" and "n \<le> LENGTH('a)"
  shows "(crc_bit t poly ^^ n) x = push_bit n x"
  using assms(2,3)
proof (induction n)
  case 0
  then show ?case by simp
next
  case (Suc n)
  have "(crc_bit t poly ^^ n) x = push_bit n x" using Suc by auto
  moreover have "\<not> bit (push_bit n x) (LENGTH('a) - 1)" using Suc.prems by (auto simp: bit_push_bit_iff)
  ultimately have "crc_bit t poly ((crc_bit t poly ^^ n) x) = push_bit 1 (push_bit n x)"
    by (simp only: crc_bit_def top if_False simp_thms)
  then show ?case by simp
qed

text \<open>The division loses nothing: its polynomials have the lowest bit set.\<close>

lemma crc_bit_inj:
  assumes top: "\<And>w :: 'a::len word. (w AND t \<noteq> 0) = bit w (LENGTH('a) - 1)" and "bit poly 0"
    and eq: "crc_bit t poly x = crc_bit t poly y"
  shows "x = y"
proof -
  have low: "bit (crc_bit t poly w) 0 = bit w (LENGTH('a) - 1)" for w
    using assms(2) by (simp add: crc_bit_def top bit_xor_iff bit_push_bit_iff del: push_bit_Suc)
  have top_eq: "bit x (LENGTH('a) - 1) = bit y (LENGTH('a) - 1)" using eq low by metis
  have undo: "(a XOR poly) XOR poly = a" for a by (simp add: xor.assoc)
  have cancel: "push_bit 1 x = push_bit 1 y" if "push_bit 1 x XOR poly = push_bit 1 y XOR poly"
    using that undo by metis
  then have sh: "push_bit 1 x = push_bit 1 y"
    using eq top_eq cancel unfolding crc_bit_def top by (metis (full_types))
  show ?thesis
  proof (rule bit_word_eqI)
    fix i assume i: "i < LENGTH('a)"
    show "bit x i = bit y i"
    proof (cases "i = LENGTH('a) - 1")
      case False
      with i have "bit (push_bit 1 w) (Suc i) = bit w i" for w :: "'a word"
        unfolding bit_push_bit_iff by (simp add: Suc_lessI)
      with sh show ?thesis by metis
    qed (use top_eq in simp)
  qed
qed

lemma crc_bits_inj:
  assumes top: "\<And>w :: 'a::len word. (w AND t \<noteq> 0) = bit w (LENGTH('a) - 1)" and "bit poly 0"
    and "(crc_bit t poly ^^ n) x = (crc_bit t poly ^^ n) y"
  shows "x = y"
  using assms(3) by (induction n) (auto dest: crc_bit_inj [OF top assms(2)])

section \<open>Bit reversal\<close>

lemma reflect_loop_steps:
  fixes x :: "'a::len word"
  assumes n: "n = LENGTH('a)" and k: "k \<le> n"
    and r: "fold (reflect_pass n) [0..<k] (0, x) = (r, d)"
  shows "d = drop_bit k x \<and> (\<forall>j. bit r j \<longleftrightarrow> n - k \<le> j \<and> j < n \<and> bit x (n - 1 - j))"
  using k r
proof (induction k arbitrary: r d)
  case 0
  then show ?case by (auto simp: n)
next
  case (Suc k)
  obtain r' d' where rd: "fold (reflect_pass n) [0..<k] (0, x) = (r', d')" by fastforce
  with Suc have IH: "d' = drop_bit k x" "\<And>j. bit r' j \<longleftrightarrow> n - k \<le> j \<and> j < n \<and> bit x (n - 1 - j)"
    by auto
  have low: "(d' AND 1 \<noteq> 0) = bit x k"
    by (simp add: IH(1) and_one_eq bit_iff_odd_drop_bit odd_iff_mod_2_eq_one)
  have r: "r = (if bit x k then r' OR push_bit (n - 1 - k) 1 else r')" and d: "d = drop_bit 1 d'"
    using Suc.prems(2) rd low by auto
  have p: "bit (push_bit (n - 1 - k) 1 :: 'a word) j \<longleftrightarrow> j = n - 1 - k" for j
    using Suc.prems(1) n by (auto simp: bit_push_bit_iff bit_exp_iff)
  have "bit r j \<longleftrightarrow> n - Suc k \<le> j \<and> j < n \<and> bit x (n - 1 - j)" for j
  proof -
    have "bit r j \<longleftrightarrow> (n - k \<le> j \<and> j < n \<and> bit x (n - 1 - j)) \<or> (bit x k \<and> j = n - 1 - k)"
      by (cases "bit x k") (simp_all only: r if_True if_False bit_or_iff IH(2) p simp_thms)
    also have "\<dots> \<longleftrightarrow> n - Suc k \<le> j \<and> j < n \<and> bit x (n - 1 - j)"
      using Suc.prems(1) by (cases "j = n - 1 - k") auto
    finally show ?thesis .
  qed
  then show ?case by (simp add: d IH(1))
qed

lemma bit_reflect_loop:
  fixes x :: "'a::len word"
  assumes "n = LENGTH('a)"
  shows "bit (reflect_loop n x) j \<longleftrightarrow> j < n \<and> bit x (n - 1 - j)"
proof -
  obtain r d where rd: "fold (reflect_pass n) [0..<n] (0, x) = (r, d)" by fastforce
  from reflect_loop_steps [OF assms order_refl this] rd show ?thesis
    by (simp add: reflect_loop_def)
qed

lemma bit_reflectResult: "bit (reflectResult x) j \<longleftrightarrow> j < 32 \<and> bit x (31 - j)"
  by (simp add: reflectResult_def bit_reflect_loop)

lemma bit_reflectInData: "bit (reflectInData x) j \<longleftrightarrow> j < 8 \<and> bit x (7 - j)"
  by (simp add: reflectInData_def bit_reflect_loop)

lemma reflectResult_twice: "reflectResult (reflectResult x) = x"
  by (rule bit_word_eqI) (auto simp: bit_reflectResult)

lemma reflectResult_xor: "reflectResult (x XOR y) = reflectResult x XOR reflectResult y"
  by (rule bit_word_eqI) (simp add: bit_reflectResult bit_xor_iff)

lemma reflectResult_byte: "reflectResult (push_bit 24 (ucast (reflectInData b))) = ucast b"
proof (rule bit_word_eqI)
  fix j assume j: "j < LENGTH(32)"
  show "bit (reflectResult (push_bit 24 (ucast (reflectInData b)))) j = bit (ucast b :: u32) j"
  proof (cases "j < 8")
    case True
    then have "24 \<le> 31 - j" "31 - j < 32" "7 - j < 32" "7 - j < 8" "7 - (7 - j) = j" by arith+
    then show ?thesis using j by (simp add: bit_reflectResult bit_reflectInData bit_push_bit_iff bit_ucast_iff)
  next
    case False
    then show ?thesis using j bit_imp_le_length [of b j]
      by (auto simp: bit_reflectResult bit_push_bit_iff bit_ucast_iff)
  qed
qed

text \<open>The reflected division works from the lowest bit.\<close>

definition crc_rbit :: "u32 \<Rightarrow> u32" where
  "crc_rbit r = (if r AND 1 \<noteq> 0 then drop_bit 1 r XOR 0xEDB88320 else drop_bit 1 r)"

lemma reflect_poly: "reflectResult 0x04C11DB7 = 0xEDB88320"
  by (simp add: reflectResult_def reflect_loop_def upt_conv_Cons)

lemma reflect_crc_bit:
  "reflectResult (crc_bit 0x80000000 0x04C11DB7 r) = crc_rbit (reflectResult r)"
proof -
  have top: "(r AND 0x80000000 \<noteq> 0) = bit r 31" by (rule top_bits(3))
  have low: "(reflectResult r AND 1 \<noteq> 0) = bit r 31"
    by (simp add: and_one_eq flip: odd_iff_mod_2_eq_one bit_0) (simp add: bit_reflectResult)
  have shift: "reflectResult (push_bit 1 r) = drop_bit 1 (reflectResult r)"
    by (rule bit_word_eqI, simp only: bit_reflectResult bit_push_bit_iff bit_drop_bit_eq)
       (auto simp: bit_reflectResult)
  show ?thesis
    unfolding crc_bit_def crc_rbit_def top low
    by (simp only: reflectResult_xor shift reflect_poly if_distrib [of reflectResult])
qed


lemma reflect_crc_bits:
  "reflectResult ((crc_bit 0x80000000 0x04C11DB7 ^^ n) r) = (crc_rbit ^^ n) (reflectResult r)"
  by (induction n) (simp_all add: reflect_crc_bit)

lemma crc_rbit_low: "(r AND 1 \<noteq> 0) = bit (r :: u32) 0"
  by (simp add: and_one_eq bit_0 flip: odd_iff_mod_2_eq_one)

lemma crc_rbit_xor: "crc_rbit (x XOR y) = crc_rbit x XOR crc_rbit y"
  unfolding crc_rbit_def crc_rbit_low by (auto simp: bit_xor_iff drop_bit_xor ac_simps xor.left_commute)

lemma crc_rbits_xor: "(crc_rbit ^^ n) (x XOR y) = (crc_rbit ^^ n) x XOR (crc_rbit ^^ n) y"
  by (induction n) (simp_all add: crc_rbit_xor)

lemma crc_rbits_shift:
  assumes "\<And>i. i < n \<Longrightarrow> \<not> bit x i"
  shows "(crc_rbit ^^ n) x = drop_bit n x"
  using assms
proof (induction n)
  case (Suc n)
  then have "(crc_rbit ^^ n) x = drop_bit n x" by simp
  moreover have "\<not> bit (drop_bit n x) 0" using Suc.prems [of n] by (simp add: bit_drop_bit_eq del: bit_0)
  ultimately have "crc_rbit ((crc_rbit ^^ n) x) = drop_bit 1 (drop_bit n x)"
    by (simp only: crc_rbit_def crc_rbit_low if_False)
  then show ?case by simp
qed simp

text \<open>The division of one byte is one look-up.\<close>

lemma split_mask: "w = (w AND NOT m) XOR (w AND m)" for w m :: "'a::len word"
  by (rule bit_word_eqI) (auto simp: bit_xor_iff bit_and_iff bit_not_iff)

lemma crc_rbyte_step: "(crc_rbit ^^ 8) w = drop_bit 8 w XOR (crc_rbit ^^ 8) (w AND mask 8)"
proof -
  have "(crc_rbit ^^ 8) w = (crc_rbit ^^ 8) (w AND NOT (mask 8)) XOR (crc_rbit ^^ 8) (w AND mask 8)"
    by (subst split_mask [of w "mask 8"]) (rule crc_rbits_xor)
  also have "(crc_rbit ^^ 8) (w AND NOT (mask 8)) = drop_bit 8 (w AND NOT (mask 8))"
    by (rule crc_rbits_shift) (simp add: bit_and_iff bit_not_iff bit_mask_iff)
  also have "drop_bit 8 (w AND NOT (mask 8)) = drop_bit 8 w"
    by (rule bit_word_eqI) (auto simp: bit_drop_bit_eq bit_and_iff bit_not_iff bit_mask_iff 
        dest: bit_imp_le_length)
  finally show ?thesis .
qed

section \<open>Bursts\<close>

text \<open>All four divisions enter a byte at the top of the remainder.\<close>

definition crc_step :: "'a::len word \<Rightarrow> 'a word \<Rightarrow> u8 \<Rightarrow> 'a word \<Rightarrow> 'a word" where
  "crc_step t poly b r = (crc_bit t poly ^^ 8) (r XOR push_bit (LENGTH('a) - 8) (ucast b))"

fun burst :: "u8 list \<Rightarrow> 'a::len word" where
  "burst [] = 0"
| "burst (b # bs) = push_bit (LENGTH('a) - 8) (ucast b) XOR drop_bit 8 (burst bs)"

lemma burst_low: "\<not> bit (burst bs :: 'a::len word) i" if "i < LENGTH('a) - 8 * length bs"
  using that by (induction bs arbitrary: i) (auto simp: bit_xor_iff bit_push_bit_iff bit_drop_bit_eq)

lemma burst_shift:
  "push_bit 8 (drop_bit 8 (burst bs)) = (burst bs :: 'a::len word)"
  if "8 * Suc (length bs) \<le> LENGTH('a)"
  by (rule bit_word_eqI, case_tac "n < 8")
     (use that in \<open>auto simp: bit_push_bit_iff bit_drop_bit_eq burst_low\<close>)

lemma burst_steps:
  assumes top: "\<And>w :: 'a::len word. (w AND t \<noteq> 0) = bit w (LENGTH('a) - 1)"
    and "8 * length bs \<le> LENGTH('a)"
  shows "fold (crc_step t poly) bs r = (crc_bit t poly ^^ (8 * length bs)) (r XOR burst bs)"
  using assms(2)
proof (induction bs arbitrary: r)
  case (Cons b bs)
  let ?c = "crc_bit t poly" and ?low = "drop_bit 8 (burst bs) :: 'a word"
  have "(?c ^^ 8) ?low = push_bit 8 ?low"
    by (rule crc_bits_shift [OF top])
       (use Cons.prems bit_imp_le_length in \<open>fastforce simp: bit_drop_bit_eq\<close>)+
  with Cons.prems have low: "(?c ^^ 8) ?low = burst bs" by (simp add: burst_shift)
  have "fold (crc_step t poly) (b # bs) r
      = (?c ^^ (8 * length bs)) ((?c ^^ 8) (r XOR push_bit (LENGTH('a) - 8) (ucast b)) XOR (?c ^^ 8) ?low)"
    using Cons.IH Cons.prems by (simp add: low crc_step_def [of t poly b r])
  also have "\<dots> = (?c ^^ (8 * length bs + 8)) (r XOR burst (b # bs))"
    by (simp add: funpow_add xor.assoc flip: crc_bits_xor [OF top])
  finally show ?case by (simp add: add.commute)
qed simp

lemma xor_cancel: "b = c" if "a XOR b = a XOR c" for a b c :: "'a::len word"
proof -
  have "a XOR (a XOR b) = a XOR (a XOR c)" by (simp only: that)
  then show ?thesis by (simp flip: xor.assoc)
qed

lemma burst_inj:
  assumes "length xs = length ys" and "8 * length xs \<le> LENGTH('a)"
    and "(burst xs :: 'a::len word) = burst ys"
  shows "xs = ys"
  using assms
proof (induction xs ys rule: list_induct2)
  case (Cons x xs y ys)
  have len: "8 \<le> LENGTH('a)" "8 * Suc (length xs) \<le> LENGTH('a)" using Cons.prems(1) by simp_all
  have top: "bit z i = bit (burst (z # zs) :: 'a word) (LENGTH('a) - 8 + i)" if "i < 8" for z :: u8 and zs i
    using that len(1) bit_imp_le_length [of "burst zs :: 'a word" "LENGTH('a) + i"]
    by (auto simp: bit_xor_iff bit_push_bit_iff bit_drop_bit_eq bit_ucast_iff dest: bit_imp_le_length)
  have "x = y"
  proof (rule bit_word_eqI)
    fix i assume "i < LENGTH(8)"
    then show "bit x i = bit y i" using top [of i x xs] top [of i y ys] Cons.prems(2) by simp
  qed
  have "drop_bit 8 (burst xs) = (drop_bit 8 (burst ys) :: 'a word)"
    using Cons.prems(2) unfolding burst.simps \<open>x = y\<close> by (rule xor_cancel)
  then have "burst xs = (burst ys :: 'a word)"
    using burst_shift [of xs, where 'a = 'a] burst_shift [of ys, where 'a = 'a] len(2) Cons.hyps by metis
  then have "xs = ys" using Cons.IH Cons.prems(1) by simp
  with \<open>x = y\<close> show ?case by simp
qed simp

section \<open>The tables are the division\<close>

text \<open>The division of one byte, evaluated on numerals only.\<close>

definition crc_byte :: "'a::len word \<Rightarrow> 'a word \<Rightarrow> 'a word \<Rightarrow> 'a word" where
  "crc_byte t poly r = (crc_bit t poly ^^ 8) r"

lemma eight_times: "(f ^^ 8) x = f (f (f (f (f (f (f (f x)))))))"
  by (simp add: numeral_eq_Suc)

lemmas crc_byte_numeral = crc_byte_def [of t poly "numeral n" for t poly n, unfolded eight_times]
  crc_byte_def [of t poly 0 for t poly, unfolded eight_times]
  crc_byte_def [of t poly 1 for t poly, unfolded eight_times]

lemmas crc_bit_numeral = crc_bit_def [of t poly "numeral n" for t poly n]
  crc_bit_def [of t poly 0 for t poly] crc_bit_def [of t poly 1 for t poly]

lemma crc8_tab_ok: "crc8_tab = map (\<lambda>i. crc_byte 0x80 0x1D (of_nat i)) [0..<256]"
  by (simp add: crc8_tab_def upt_conv_Cons crc_byte_numeral crc_bit_numeral)


lemma crc8H2F_tab_ok: "crc8H2F_tab = map (\<lambda>i. crc_byte 0x80 0x2F (of_nat i)) [0..<256]"
  by (simp add: crc8H2F_tab_def upt_conv_Cons crc_byte_numeral crc_bit_numeral)

lemma crc16tab_ok: "crc16tab = map (\<lambda>i. crc_byte 0x8000 0x1021 (of_nat (256 * i))) [0..<256]"
  by (simp add: crc16tab_def upt_conv_Cons crc_byte_numeral crc_bit_numeral)

definition crc_rbyte :: "u32 \<Rightarrow> u32" where "crc_rbyte r = (crc_rbit ^^ 8) r"

lemmas crc_rbyte_numeral = crc_rbyte_def [of "numeral n" for n, unfolded eight_times]
  crc_rbyte_def [of 0, unfolded eight_times] crc_rbyte_def [of 1, unfolded eight_times]

lemmas crc_rbit_numeral = crc_rbit_def [of "numeral n" for n] crc_rbit_def [of 0] crc_rbit_def [of 1]

lemma crc32_tab_low: "take 128 crc32_tab = map (\<lambda>i. crc_rbyte (of_nat i)) [0..<128]"
  by (simp add: crc32_tab_def upt_conv_Cons crc_rbyte_numeral crc_rbit_numeral)

lemma crc32_tab_high: "drop 128 crc32_tab = map (\<lambda>i. crc_rbyte (of_nat i)) [128..<256]"
  by (simp add: crc32_tab_def upt_conv_Cons crc_rbyte_numeral crc_rbit_numeral)

lemma crc32_tab_ok: "crc32_tab = map (\<lambda>i. crc_rbyte (of_nat i)) [0..<256]"
proof -
  have "[0..<256] = [0..<128] @ [128..<256]" using upt_add_eq_append [of 0 128 128] by simp
  then show ?thesis
    by (subst append_take_drop_id [of 128 crc32_tab, symmetric])
       (simp only: crc32_tab_low crc32_tab_high map_append)
qed

section \<open>A look-up divides a byte\<close>

lemma low_byte: "unat (w AND mask 8) < 256" for w :: "'a::len word"
proof -
  have "unat (w AND mask 8) = take_bit 8 (unat w)" by (simp add: unsigned_take_bit_eq flip: take_bit_eq_mask)
  then show ?thesis using take_bit_nat_less_exp [of 8 "unat w"] by simp
qed

lemma word_mask_8: "(0xFF :: u16) = mask 8" "(0xFF :: u32) = mask 8"
  by (simp_all add: mask_eq_exp_minus_1)

lemma crc8_lookup:
  "crc8_tab ! unat (r XOR b) = crc_step 0x80 0x1D b r"
  "crc8H2F_tab ! unat (r XOR b) = crc_step 0x80 0x2F b r"
  using unsigned_less [of "r XOR b", where 'a = nat]
  by (simp_all add: crc8_tab_ok crc8H2F_tab_ok crc_step_def crc_byte_def)

lemma crc16_lookup:
  "push_bit 8 c XOR crc16tab ! unat ((drop_bit 8 c XOR ucast b) AND 0x00FF) = crc_step 0x8000 0x1021 b c"
proof -
  define w where "w = c XOR push_bit 8 (ucast b)"
  define i where "i = (drop_bit 8 c XOR ucast b) AND (mask 8 :: u16)"
  let ?c = "crc_bit 0x8000 0x1021 :: u16 \<Rightarrow> u16"
  have "unat i < 256" unfolding i_def by (rule low_byte)
  moreover have "of_nat (256 * unat i) = push_bit 8 i" by (simp add: push_bit_eq_mult)
  ultimately have tab: "crc16tab ! unat i = (?c ^^ 8) (push_bit 8 i)"
    by (simp add: crc16tab_ok crc_byte_def)
  have high: "push_bit 8 i = w AND NOT (mask 8)"
    by (rule bit_word_eqI) (auto simp: i_def w_def bit_push_bit_iff bit_and_iff bit_mask_iff bit_not_iff
        bit_xor_iff bit_drop_bit_eq bit_ucast_iff)
  have "(?c ^^ 8) w = (?c ^^ 8) (w AND NOT (mask 8)) XOR (?c ^^ 8) (w AND mask 8)"
    by (subst split_mask [of w "mask 8"]) (rule crc_bits_xor [OF top_bits(2)])
  also have "(?c ^^ 8) (w AND mask 8) = push_bit 8 (w AND mask 8)"
    by (rule crc_bits_shift) (simp_all add: top_bits bit_and_iff bit_mask_iff)
  also have "push_bit 8 (w AND mask 8) = push_bit 8 c"
    by (rule bit_word_eqI) (auto simp: w_def bit_push_bit_iff bit_and_iff bit_mask_iff bit_xor_iff bit_ucast_iff)
  finally have "crc_step 0x8000 0x1021 b c = (?c ^^ 8) (w AND NOT (mask 8)) XOR push_bit 8 c"
    by (simp add: crc_step_def w_def)
  then show ?thesis unfolding word_mask_8 i_def [symmetric] tab high by (simp add: xor.commute)
qed

lemma crc32_lookup:
  "(drop_bit 8 c AND 0x00FFFFFF) XOR crc32_tab ! unat ((c XOR ucast b) AND 0xFF)
     = (crc_rbit ^^ 8) (c XOR ucast b)" for b :: u8
proof -
  define w where "w = c XOR ucast b"
  have m: "(0x00FFFFFF :: u32) = mask 24" by (simp add: mask_eq_exp_minus_1)
  have "crc32_tab ! unat (w AND mask 8) = (crc_rbit ^^ 8) (w AND mask 8)"
    using low_byte [of w] by (simp add: crc32_tab_ok crc_rbyte_def)
  moreover have "\<not> bit b (8 + n)" for n using bit_imp_le_length [of b "8 + n"] by auto
  then have "drop_bit 8 c AND mask 24 = drop_bit 8 w"
    by (intro bit_word_eqI) (auto simp: w_def bit_and_iff bit_mask_iff bit_xor_iff bit_drop_bit_eq
        bit_ucast_iff dest: bit_imp_le_length)
  ultimately show ?thesis
    by (simp only: m word_mask_8 w_def [symmetric] crc_rbyte_step [of w])
qed


section \<open>Both modes run the same engines\<close>

lemma CalculateCRC8_steps: "CalculateCRC8 data r poly = fold (crc_step 0x80 poly) data r"
  by (simp add: CalculateCRC8_def crc_step_def [abs_def])

lemma CalculateCRC16_steps: "CalculateCRC16 data r = fold (crc_step 0x8000 0x1021) data r"
  by (simp add: CalculateCRC16_def crc_step_def [abs_def])

definition crc32_step :: "u8 \<Rightarrow> u32 \<Rightarrow> u32" where
  "crc32_step b r = (crc_rbit ^^ 8) (r XOR ucast b)"

lemma CalculateCRC32_reflected:
  "fold crc32_step data r
     = reflectResult (fold (crc_step 0x80000000 0x04C11DB7) (map reflectInData data) (reflectResult r))"
proof (induction data arbitrary: r)
  case (Cons b data)
  have "reflectResult (crc_step 0x80000000 0x04C11DB7 (reflectInData b) (reflectResult r)) = crc32_step b r"
    by (simp add: crc_step_def crc32_step_def reflect_crc_bits reflectResult_xor reflectResult_twice
        reflectResult_byte)
  then have "crc_step 0x80000000 0x04C11DB7 (reflectInData b) (reflectResult r) = reflectResult (crc32_step b r)"
    by (metis reflectResult_twice)
  then show ?case by (simp add: Cons.IH)
qed (simp add: reflectResult_twice)

lemma CalculateCRC32_steps: "CalculateCRC32 data r = fold crc32_step data r"
  by (simp add: CalculateCRC32_def CalculateCRC32_reflected crc_step_def [abs_def] fold_map comp_def)

lemmas crc_lookups = crc8_lookup crc16_lookup crc32_lookup [folded crc32_step_def]

lemma Crc_engines:
  "Crc_CalculateCRC8 mode (Some data) v first
     = fold (crc_step 0x80 0x1D) data (if first then 0xFF else v XOR 0xFF) XOR 0xFF"
  "Crc_CalculateCRC8H2F mode (Some data) v first
     = fold (crc_step 0x80 0x2F) data (if first then 0xFF else v XOR 0xFF) XOR 0xFF"
  "Crc_CalculateCRC16 mode (Some data) v16 first
     = fold (crc_step 0x8000 0x1021) data (if first then 0xFFFF else v16)"
  "Crc_CalculateCRC32 mode (Some data) v32 first
     = fold crc32_step data (if first then 0xFFFFFFFF else v32 XOR 0xFFFFFFFF) XOR 0xFFFFFFFF"
  unfolding Crc_CalculateCRC8_def Crc_CalculateCRC8H2F_def Crc_CalculateCRC16_def
    Crc_CalculateCRC32_def option.case Let_def CalculateCRC8_steps CalculateCRC16_steps
    CalculateCRC32_steps crc_lookups
  by (cases mode; simp only: crc_mode.case xor.right_neutral)+

lemma Crc_null:
  "Crc_CalculateCRC8 mode None v first = 0" "Crc_CalculateCRC8H2F mode None v first = 0"
  "Crc_CalculateCRC16 mode None v16 first = 0" "Crc_CalculateCRC32 mode None v32 first = 0"
  by (simp_all add: Crc_CalculateCRC8_def Crc_CalculateCRC8H2F_def Crc_CalculateCRC16_def
      Crc_CalculateCRC32_def)

section \<open>Error detection\<close>

text \<open>What a remainder engine promises: no step loses information about the remainder, and a
  burst of at most \<open>window\<close> bytes is not lost in the remainder it produces.\<close>

locale crc_engine =
  fixes upd :: "u8 \<Rightarrow> 'r \<Rightarrow> 'r" and window :: nat
  assumes upd_inj: "upd b r = upd b r' \<Longrightarrow> r = r'"
    and window_inj: "length xs = length ys \<Longrightarrow> length xs \<le> window \<Longrightarrow>
      fold upd xs r = fold upd ys r \<Longrightarrow> xs = ys"
begin

lemma fold_inj: "r = r'" if "fold upd post r = fold upd post r'"
  using that by (induction post arbitrary: r r') (auto dest: upd_inj)

lemma burst_detected:
  assumes "length xs = length ys" "length xs \<le> window" "xs \<noteq> ys"
  shows "fold upd (pre @ xs @ post) r \<noteq> fold upd (pre @ ys @ post) r"
  using assms window_inj [of xs ys] fold_inj [of post] by auto

lemma wrong_start_detected: "fold upd data r \<noteq> fold upd data r'" if "r \<noteq> r'"
  using that fold_inj by blast

end

lemma crc_step_inj:
  assumes top: "\<And>w :: 'a::len word. (w AND t \<noteq> 0) = bit w (LENGTH('a) - 1)" and "bit poly 0"
    and "crc_step t poly b r = crc_step t poly b r'"
  shows "r = r'"
  using crc_bits_inj [OF top assms(2), of 8] assms(3) xor_cancel [of "push_bit (LENGTH('a) - 8) (ucast b)" r r']
  by (auto simp: crc_step_def xor.commute)

lemma crc_step_window:
  assumes top: "\<And>w :: 'a::len word. (w AND t \<noteq> 0) = bit w (LENGTH('a) - 1)" and "bit poly 0"
    and len: "length xs = length ys" "8 * length xs \<le> LENGTH('a)"
    and eq: "fold (crc_step t poly) xs r = fold (crc_step t poly) ys r"
  shows "xs = ys"
proof -
  have "(crc_bit t poly ^^ (8 * length xs)) (r XOR burst xs) = (crc_bit t poly ^^ (8 * length xs)) (r XOR burst ys)"
    using eq len by (simp add: burst_steps [OF top])
  then have "r XOR burst xs = r XOR burst ys" by (rule crc_bits_inj [OF top assms(2)])
  then have "burst xs = (burst ys :: 'a word)" by (rule xor_cancel)
  then show ?thesis using burst_inj len by blast
qed

lemma crc_engine_division:
  assumes "\<And>w :: 'a::len word. (w AND t \<noteq> 0) = bit w (LENGTH('a) - 1)" and "bit poly 0"
    and "8 * n \<le> LENGTH('a)"
  shows "crc_engine (crc_step t poly) n"
  by unfold_locales
     (rule crc_step_inj [OF assms(1,2)], assumption,
      rule crc_step_window [OF assms(1,2)], use assms(3) in auto)

interpretation crc8: crc_engine "crc_step (0x80 :: u8) 0x1D" 1
  by (rule crc_engine_division) (simp_all add: top_bits)

interpretation crc8h2f: crc_engine "crc_step (0x80 :: u8) 0x2F" 1
  by (rule crc_engine_division) (simp_all add: top_bits)

interpretation crc16: crc_engine "crc_step (0x8000 :: u16) 0x1021" 2
  by (rule crc_engine_division) (simp_all add: top_bits)

text \<open>The reflected engine is the plain one seen in a mirror.\<close>

lemma crc32_division: "crc_engine (crc_step (0x80000000 :: u32) 0x04C11DB7) 4"
  by (rule crc_engine_division) (simp_all add: top_bits)

lemma reflectResult_inj: "reflectResult x = reflectResult y \<Longrightarrow> x = y"
  by (metis reflectResult_twice)

lemma reflectInData_inj: "inj reflectInData"
proof (rule injI, rule bit_word_eqI)
  fix x y :: u8 and i
  assume eq: "reflectInData x = reflectInData y" and i: "i < LENGTH(8)"
  have "bit w i = bit (reflectInData w) (7 - i)" for w
    using i less_imp_diff_less [of 7 8 i] by (simp add: bit_reflectInData)
  with eq show "bit x i = bit y i" by metis
qed

interpretation crc32: crc_engine crc32_step 4
proof
  show "r = r'" if "crc32_step b r = crc32_step b r'" for b r r'
    using that CalculateCRC32_reflected [of "[b]"]
    by (auto dest!: reflectResult_inj crc_engine.upd_inj [OF crc32_division])
  show "xs = ys" if "length xs = length ys" "length xs \<le> 4" "fold crc32_step xs r = fold crc32_step ys r"
    for xs ys r
    using that crc_engine.window_inj [OF crc32_division, of "map reflectInData xs" "map reflectInData ys"]
    by (auto simp: CalculateCRC32_reflected inj_map_eq_map [OF reflectInData_inj] dest!: reflectResult_inj)
qed

section \<open>What the services guarantee\<close>

text \<open>C17: the two build modes of the checksum library are the same functions: for every
  data pointer, start value and first-call flag the table-driven code returns what the division
  bit by bit returns, for all four checksums.\<close>

theorem crc_modes_agree:
  "Crc_CalculateCRC8 CRC_TABLE = Crc_CalculateCRC8 CRC_RUNTIME
   \<and> Crc_CalculateCRC8H2F CRC_TABLE = Crc_CalculateCRC8H2F CRC_RUNTIME
   \<and> Crc_CalculateCRC16 CRC_TABLE = Crc_CalculateCRC16 CRC_RUNTIME
   \<and> Crc_CalculateCRC32 CRC_TABLE = Crc_CalculateCRC32 CRC_RUNTIME"
proof -
  have "Crc_CalculateCRC8 CRC_TABLE p v f = Crc_CalculateCRC8 CRC_RUNTIME p v f"
    "Crc_CalculateCRC8H2F CRC_TABLE p v f = Crc_CalculateCRC8H2F CRC_RUNTIME p v f"
    "Crc_CalculateCRC16 CRC_TABLE p v' f = Crc_CalculateCRC16 CRC_RUNTIME p v' f"
    "Crc_CalculateCRC32 CRC_TABLE p v'' f = Crc_CalculateCRC32 CRC_RUNTIME p v'' f"
    for p v v' v'' f
    by (cases p; simp only: Crc_engines Crc_null)+
  then show ?thesis by (intro conjI ext)
qed

text \<open>a checksum may be computed in several calls: the checksum of a message in two parts
  is the checksum of the second part started, not as a first call, from the checksum of the
  first.\<close>

theorem crc_resumes:
  "Crc_CalculateCRC8 m (Some (xs @ ys)) v f
     = Crc_CalculateCRC8 m (Some ys) (Crc_CalculateCRC8 m (Some xs) v f) False
   \<and> Crc_CalculateCRC8H2F m (Some (xs @ ys)) v f
     = Crc_CalculateCRC8H2F m (Some ys) (Crc_CalculateCRC8H2F m (Some xs) v f) False
   \<and> Crc_CalculateCRC16 m (Some (xs @ ys)) v' f
     = Crc_CalculateCRC16 m (Some ys) (Crc_CalculateCRC16 m (Some xs) v' f) False
   \<and> Crc_CalculateCRC32 m (Some (xs @ ys)) v'' f
     = Crc_CalculateCRC32 m (Some ys) (Crc_CalculateCRC32 m (Some xs) v'' f) False"
  by (simp add: Crc_engines xor.assoc)

text \<open>C18: a burst of errors inside one byte changes both 8-bit checksums, one inside two bytes
  changes the 16-bit checksum and one inside four bytes the 32-bit checksum, whatever surrounds
  it, whatever the start value and in either build mode.\<close>

theorem crc_burst_detected:
  assumes "length xs = length ys" and "xs \<noteq> ys"
  shows "(length xs \<le> 1 \<longrightarrow>
      Crc_CalculateCRC8 m (Some (pre @ xs @ post)) v f \<noteq> Crc_CalculateCRC8 m (Some (pre @ ys @ post)) v f
    \<and> Crc_CalculateCRC8H2F m (Some (pre @ xs @ post)) v f
        \<noteq> Crc_CalculateCRC8H2F m (Some (pre @ ys @ post)) v f)
    \<and> (length xs \<le> 2 \<longrightarrow>
      Crc_CalculateCRC16 m (Some (pre @ xs @ post)) v' f \<noteq> Crc_CalculateCRC16 m (Some (pre @ ys @ post)) v' f)
    \<and> (length xs \<le> 4 \<longrightarrow>
      Crc_CalculateCRC32 m (Some (pre @ xs @ post)) v'' f \<noteq> Crc_CalculateCRC32 m (Some (pre @ ys @ post)) v'' f)"
  unfolding Crc_engines
  using crc8.burst_detected [OF assms(1) _ assms(2)] crc8h2f.burst_detected [OF assms(1) _ assms(2)]
    crc16.burst_detected [OF assms(1) _ assms(2)] crc32.burst_detected [OF assms(1) _ assms(2)]
  by (auto dest: xor_cancel simp: xor.commute)

theorem crc_burst_detected_witness:
  "Crc_CalculateCRC8 CRC_TABLE (Some [1, 2, 4]) 0 True \<noteq> Crc_CalculateCRC8 CRC_TABLE (Some [1, 3, 4]) 0 True
   \<and> Crc_CalculateCRC16 CRC_TABLE (Some [1, 2, 4]) 0 True \<noteq> Crc_CalculateCRC16 CRC_TABLE (Some [1, 3, 4]) 0 True
   \<and> Crc_CalculateCRC32 CRC_TABLE (Some [1, 2, 4]) 0 True \<noteq> Crc_CalculateCRC32 CRC_TABLE (Some [1, 3, 4]) 0 True"
  using crc_burst_detected [of "[2]" "[3]" CRC_TABLE "[1]" "[4]" 0 True 0 0] by simp

end
