(* ===== verification/E2E.thy ===== *)
theory E2E
  imports Crc
begin

text \<open>
  The end-to-end protection library (\<open>core/system/E2E/E2E.c\<close>): the checksum routines over
  bytes, 16-bit and 32-bit words and over arrays of them, and the counter of profile 1.  The
  interface \<open>e2e_counter\<close> states what a profile's sequence counter promises the receiver: the
  difference of two counters is the number of messages between them.
\<close>

abbreviation E2E_E_INPUTERR_NULL :: u8 where "E2E_E_INPUTERR_NULL \<equiv> 0x13"
abbreviation E2E_E_INPUTERR_WRONG :: u8 where "E2E_E_INPUTERR_WRONG \<equiv> 0x17"
abbreviation E2E_E_OK :: u8 where "E2E_E_OK \<equiv> 0x00"

text \<open>The sum is an \<open>int\<close>, so it does not wrap at 255.\<close>

definition E2E_UpdateCounter :: "u8 \<Rightarrow> u8" where
  "E2E_UpdateCounter Counter = word_of_nat ((unat Counter + 1) mod 15)"

section \<open>CRC-8 SAE J1850, without the checksum library's final XOR\<close>

definition E2E_CRC8u8 :: "crc_mode \<Rightarrow> u8 \<Rightarrow> u8 \<Rightarrow> u8" where
  "E2E_CRC8u8 mode E2E_Data E2E_StartValue =
     Crc_CalculateCRC8 mode (Some [E2E_Data]) (E2E_StartValue XOR CRC8_XOR) False XOR CRC8_XOR"

definition E2E_CRC8u16 :: "crc_mode \<Rightarrow> u16 \<Rightarrow> u8 \<Rightarrow> u8" where
  "E2E_CRC8u16 mode E2E_Data E2E_StartValue =
     Crc_CalculateCRC8 mode (Some [ucast (E2E_Data AND 0xFF), ucast (drop_bit 8 E2E_Data)])
       (E2E_StartValue XOR CRC8_XOR) False XOR CRC8_XOR"

definition E2E_CRC8u32 :: "crc_mode \<Rightarrow> u32 \<Rightarrow> u8 \<Rightarrow> u8" where
  "E2E_CRC8u32 mode E2E_Data E2E_StartValue =
     Crc_CalculateCRC8 mode
       (Some [ucast (E2E_Data AND 0xFF), ucast (drop_bit 8 E2E_Data AND 0xFF),
              ucast (drop_bit 16 E2E_Data AND 0xFF), ucast (drop_bit 24 E2E_Data)])
       (E2E_StartValue XOR CRC8_XOR) False XOR CRC8_XOR"

definition E2E_CRC8u8Array :: "crc_mode \<Rightarrow> u8 list option \<Rightarrow> u8 \<Rightarrow> u8" where
  "E2E_CRC8u8Array mode E2E_DataPtr E2E_StartValue =
     Crc_CalculateCRC8 mode E2E_DataPtr (E2E_StartValue XOR CRC8_XOR) False XOR CRC8_XOR"

definition E2E_CRC8u16Array :: "crc_mode \<Rightarrow> u16 list \<Rightarrow> u8 \<Rightarrow> u8" where
  "E2E_CRC8u16Array mode data E2E_StartValue = fold (E2E_CRC8u16 mode) data E2E_StartValue"

definition E2E_CRC8u32Array :: "crc_mode \<Rightarrow> u32 list \<Rightarrow> u8 \<Rightarrow> u8" where
  "E2E_CRC8u32Array mode data E2E_StartValue = fold (E2E_CRC8u32 mode) data E2E_StartValue"

section \<open>CRC-8 with polynomial 0x2F\<close>

definition E2E_CRC8H2Fu8 :: "crc_mode \<Rightarrow> u8 \<Rightarrow> u8 \<Rightarrow> u8" where
  "E2E_CRC8H2Fu8 mode E2E_Data E2E_StartValue =
     Crc_CalculateCRC8H2F mode (Some [E2E_Data]) E2E_StartValue False"

definition E2E_CRC8H2Fu16 :: "crc_mode \<Rightarrow> u16 \<Rightarrow> u8 \<Rightarrow> u8" where
  "E2E_CRC8H2Fu16 mode E2E_Data E2E_StartValue =
     Crc_CalculateCRC8H2F mode (Some [ucast (E2E_Data AND 0xFF), ucast (drop_bit 8 E2E_Data)])
       E2E_StartValue False"

definition E2E_CRC8H2Fu32 :: "crc_mode \<Rightarrow> u32 \<Rightarrow> u8 \<Rightarrow> u8" where
  "E2E_CRC8H2Fu32 mode E2E_Data E2E_StartValue =
     Crc_CalculateCRC8H2F mode
       (Some [ucast (E2E_Data AND 0xFF), ucast (drop_bit 8 E2E_Data AND 0xFF),
              ucast (drop_bit 16 E2E_Data AND 0xFF), ucast (drop_bit 24 E2E_Data)])
       E2E_StartValue False"

definition E2E_CRC8H2Fu8Array :: "crc_mode \<Rightarrow> u8 list option \<Rightarrow> u8 \<Rightarrow> u8" where
  "E2E_CRC8H2Fu8Array mode E2E_DataPtr E2E_StartValue =
     Crc_CalculateCRC8H2F mode E2E_DataPtr E2E_StartValue False"

definition E2E_CRC8H2Fu16Array :: "crc_mode \<Rightarrow> u16 list \<Rightarrow> u8 \<Rightarrow> u8" where
  "E2E_CRC8H2Fu16Array mode data E2E_StartValue = fold (E2E_CRC8H2Fu16 mode) data E2E_StartValue"

definition E2E_CRC8H2Fu32Array :: "crc_mode \<Rightarrow> u32 list \<Rightarrow> u8 \<Rightarrow> u8" where
  "E2E_CRC8H2Fu32Array mode data E2E_StartValue = fold (E2E_CRC8H2Fu32 mode) data E2E_StartValue"

section \<open>Words are their bytes, lowest first\<close>

definition le16 :: "u16 \<Rightarrow> u8 list" where "le16 w = map (\<lambda>k. ucast (drop_bit (8 * k) w)) [0..<2]"
definition le32 :: "u32 \<Rightarrow> u8 list" where "le32 w = map (\<lambda>k. ucast (drop_bit (8 * k) w)) [0..<4]"

lemma ucast_low_byte: "(ucast (w AND 0xFF) :: u8) = ucast w" "(ucast (x AND 0xFF) :: u8) = ucast x"
  for w :: u16 and x :: u32
  unfolding word_mask_8 by (rule bit_word_eqI; simp add: bit_ucast_iff bit_and_iff bit_mask_iff)+

lemma le16_bytes: "[ucast (w AND 0xFF), ucast (drop_bit 8 w)] = le16 w"
  by (simp add: le16_def upt_conv_Cons ucast_low_byte)

lemma le32_bytes: "[ucast (w AND 0xFF), ucast (drop_bit 8 w AND 0xFF),
    ucast (drop_bit 16 w AND 0xFF), ucast (drop_bit 24 w)] = le32 w"
  by (simp add: le32_def upt_conv_Cons ucast_low_byte)

lemma fold_concat_map: "fold (\<lambda>w. fold f (g w)) ws r = fold f (concat (map g ws)) r"
  by (induction ws arbitrary: r) simp_all

lemma E2E_CRC8_engine:
  "E2E_CRC8u8 m b = crc_step 0x80 0x1D b" "E2E_CRC8u16 m = (\<lambda>w. fold (crc_step 0x80 0x1D) (le16 w))"
  "E2E_CRC8u32 m = (\<lambda>v. fold (crc_step 0x80 0x1D) (le32 v))"
  "E2E_CRC8u8Array m (Some bs) = fold (crc_step 0x80 0x1D) bs"
  by (simp_all add: fun_eq_iff E2E_CRC8u8_def E2E_CRC8u16_def E2E_CRC8u32_def E2E_CRC8u8Array_def
      Crc_engines le16_bytes le32_bytes xor.assoc)

lemma E2E_CRC8H2F_engine:
  "E2E_CRC8H2Fu8 m b s = crc_step 0x80 0x2F b (s XOR 0xFF) XOR 0xFF"
  "E2E_CRC8H2Fu16 m w s = fold (crc_step 0x80 0x2F) (le16 w) (s XOR 0xFF) XOR 0xFF"
  "E2E_CRC8H2Fu32 m v s = fold (crc_step 0x80 0x2F) (le32 v) (s XOR 0xFF) XOR 0xFF"
  "E2E_CRC8H2Fu8Array m (Some bs) s = fold (crc_step 0x80 0x2F) bs (s XOR 0xFF) XOR 0xFF"
  by (simp_all add: E2E_CRC8H2Fu8_def E2E_CRC8H2Fu16_def E2E_CRC8H2Fu32_def E2E_CRC8H2Fu8Array_def
      Crc_engines le16_bytes le32_bytes)

lemma fold_between_xor:
  fixes r :: "'r::len word"
  assumes "\<And>w s. F w s = fold f (g w) (s XOR m) XOR m"
  shows "fold F ws r = fold f (concat (map g ws)) (r XOR m) XOR m"
  by (induction ws arbitrary: r) (simp_all add: assms xor.assoc)

text \<open>the checksum of an array of 16-bit or 32-bit words is the checksum of the array of its
  bytes, lowest byte of each word first, for both polynomials and in either build mode: the
  result does not depend on the byte order of the processor.\<close>

theorem e2e_crc_is_bytewise:
  "E2E_CRC8u16Array m ws s = E2E_CRC8u8Array m' (Some (concat (map le16 ws))) s
   \<and> E2E_CRC8u32Array m vs s = E2E_CRC8u8Array m' (Some (concat (map le32 vs))) s
   \<and> E2E_CRC8H2Fu16Array m ws s = E2E_CRC8H2Fu8Array m' (Some (concat (map le16 ws))) s
   \<and> E2E_CRC8H2Fu32Array m vs s = E2E_CRC8H2Fu8Array m' (Some (concat (map le32 vs))) s"
  unfolding E2E_CRC8u16Array_def E2E_CRC8u32Array_def E2E_CRC8H2Fu16Array_def E2E_CRC8H2Fu32Array_def
  by (simp only: E2E_CRC8_engine E2E_CRC8H2F_engine fold_between_xor [OF E2E_CRC8H2F_engine(2)]
      fold_between_xor [OF E2E_CRC8H2F_engine(3)] fold_concat_map simp_thms)

section \<open>Counters in half a byte\<close>

lemma nibble_masks: "(0x0F :: u8) = mask 4" "(0xF0 :: u8) = NOT (mask 4)"
  by (simp_all add: mask_eq_exp_minus_1)

lemma nibble_written:
  "((b AND 0xF0) OR (k AND 0x0F)) AND 0x0F = k AND (0x0F :: u8)"
  "drop_bit 4 ((b AND 0x0F) OR (push_bit 4 k AND 0xF0)) AND 0x0F = k AND (0x0F :: u8)"
  unfolding nibble_masks
  by (rule bit_word_eqI; auto simp: bit_and_iff bit_or_iff bit_mask_iff bit_not_iff bit_drop_bit_eq
      bit_push_bit_iff)+

lemma nibble_below: "unat (k AND 0x0F) < 16" for k :: u8
proof -
  have "unat (k AND 0x0F) = take_bit 4 (unat k)"
    unfolding nibble_masks by (simp add: unsigned_take_bit_eq flip: take_bit_eq_mask)
  then show ?thesis using take_bit_nat_less_exp [of 4 "unat k"] by simp
qed

lemma nibble_id: "k AND 0x0F = k" if "unat k < 16" for k :: u8
  unfolding nibble_masks
  by (rule word_unat_eq_iff [THEN iffD2])
     (use that in \<open>simp add: unsigned_take_bit_eq take_bit_nat_eq_self flip: take_bit_eq_mask\<close>)

lemma nibble_parity: "unat (k AND 0x0F) mod 2 = unat k mod 2" for k :: u8
proof -
  have "unat (k AND 0x0F) = take_bit 4 (unat k)"
    unfolding nibble_masks by (simp add: unsigned_take_bit_eq flip: take_bit_eq_mask)
  then show ?thesis by (simp add: take_bit_eq_mod mod_mod_cancel)
qed

lemma unat_wrapped_difference:
  assumes "unat r < unat l" and "unat l < n" and "n \<le> 16"
  shows "unat (of_nat n + r - l :: u8) = (unat r + n - unat l) mod n"
proof -
  have s: "unat (of_nat n + r :: u8) = n + unat r"
    using assms by (simp add: unat_word_ariths unsigned_of_nat take_bit_eq_mod)
  then have "l \<le> of_nat n + r" using assms by (simp add: word_le_nat_alt)
  then have "unat (of_nat n + r - l) = n + unat r - unat l" by (simp add: unat_sub s)
  then show ?thesis using assms by simp
qed

lemma one_byte_changed: "i < length xs \<Longrightarrow> \<exists>pre post. xs = pre @ [xs ! i] @ post \<and> xs[i := b] = pre @ [b] @ post"
  by (metis append_Cons append_Nil id_take_nth_drop upd_conv_take_nth_drop)

end
