(* ===== verification/E2E_P01.thy ===== *)
theory E2E_P01
  imports E2E
begin

text \<open>
  End-to-end protection, profile 1 (\<open>core/system/E2E/E2E_P01.c\<close>).  The sender writes a 4-bit
  counter and a CRC-8 into the data block; the receiver classifies each block by its checksum and
  by the counter's distance from the last valid one.  The three pointer arguments are options;
  the data block is the list of the bytes the pointer leads to, of which the caller provides
  \<open>DataLength / 8\<close>.  The configuration's 16-bit members are promoted to \<open>int\<close> in the source, so
  their sums do not wrap.
\<close>

datatype E2E_P01DataIDMode = E2E_P01_DATAID_BOTH | E2E_P01_DATAID_ALT | E2E_P01_DATAID_LOW

record E2E_P01ConfigType =
  CounterOffset :: u16
  CRCOffset :: u16
  DataID :: u16
  DataIDMode :: E2E_P01DataIDMode
  DataLength :: u16
  MaxDeltaCounterInit :: u8

record E2E_P01SenderStateType =
  Counter :: u8

datatype E2E_P01ReceiverStatusType =
    E2E_P01STATUS_OK | E2E_P01STATUS_NONEWDATA | E2E_P01STATUS_WRONGCRC | E2E_P01STATUS_INITAL
  | E2E_P01STATUS_REPEATED | E2E_P01STATUS_OKSOMELOST | E2E_P01STATUS_WRONGSEQUENCE

record E2E_P01ReceiverStateType =
  LastValidCounter :: u8
  MaxDeltaCounter :: u8
  WaitForFirstData :: bool
  NewDataAvailable :: bool
  LostData :: u8
  Status :: E2E_P01ReceiverStatusType

abbreviation MAX_P01_DATA_LENGTH_IN_BITS :: nat where "MAX_P01_DATA_LENGTH_IN_BITS \<equiv> 240"
abbreviation MAX_P01_COUNTER_VALUE :: u8 where "MAX_P01_COUNTER_VALUE \<equiv> 14"

definition CalculateDeltaCounter_P01 :: "u8 \<Rightarrow> u8 \<Rightarrow> u8" where
  "CalculateDeltaCounter_P01 receivedCounter lastValidCounter =
     (if lastValidCounter \<le> receivedCounter then receivedCounter - lastValidCounter
      else MAX_P01_COUNTER_VALUE + 1 + receivedCounter - lastValidCounter)"

definition CheckConfig_P01 :: "E2E_P01ConfigType option \<Rightarrow> u8" where
  "CheckConfig_P01 Config = (case Config of
     None \<Rightarrow> E2E_E_INPUTERR_NULL
   | Some c \<Rightarrow>
      (let DL = unat (DataLength c); CO = unat (CounterOffset c); RO = unat (CRCOffset c) in
       if MAX_P01_DATA_LENGTH_IN_BITS < DL \<or> DL mod 8 \<noteq> 0 \<or> CO mod 4 \<noteq> 0 \<or> RO mod 8 \<noteq> 0
       then E2E_E_INPUTERR_WRONG
       else if DL < RO + 8 \<or> DL < CO + 4 \<or> RO div 8 = CO div 8
       then E2E_E_INPUTERR_WRONG
       else E2E_E_OK))"

definition CalculateCrc :: "crc_mode \<Rightarrow> E2E_P01ConfigType \<Rightarrow> u8 \<Rightarrow> u8 list \<Rightarrow> u8" where
  "CalculateCrc mode c counter Data =
     (let crc = 0x00 XOR CRC8_XOR;
          lowerByteId = ucast (DataID c);
          upperByteId = ucast (drop_bit 8 (DataID c));
          RO = unat (CRCOffset c) div 8; DL = unat (DataLength c) div 8;
          crc = (if DataIDMode c = E2E_P01_DATAID_BOTH then
                   Crc_CalculateCRC8 mode (Some [upperByteId])
                     (Crc_CalculateCRC8 mode (Some [lowerByteId]) crc False) False
                 else if DataIDMode c = E2E_P01_DATAID_LOW then
                   Crc_CalculateCRC8 mode (Some [lowerByteId]) crc False
                 else if unat counter mod 2 = 0 then
                   Crc_CalculateCRC8 mode (Some [lowerByteId]) crc False
                 else Crc_CalculateCRC8 mode (Some [upperByteId]) crc False);
          crc = (if 8 \<le> unat (CRCOffset c) then Crc_CalculateCRC8 mode (Some (take RO Data)) crc False
                 else crc);
          crc = (if int RO < int DL - 1 then
                   Crc_CalculateCRC8 mode (Some (take (DL - RO - 1) (drop (RO + 1) Data))) crc False
                 else crc)
      in crc XOR CRC8_XOR)"

definition E2E_P01Protect :: "crc_mode \<Rightarrow> E2E_P01ConfigType option \<Rightarrow> E2E_P01SenderStateType option \<Rightarrow>
    u8 list option \<Rightarrow> u8 \<times> E2E_P01SenderStateType option \<times> u8 list option" where
  "E2E_P01Protect mode Config State Data =
     (let returnValue = CheckConfig_P01 Config in
      if returnValue \<noteq> E2E_E_OK then (returnValue, State, Data)
      else case (Config, State, Data) of
        (Some c, Some s, Some d) \<Rightarrow>
          (let CO = unat (CounterOffset c); CB = CO div 8;
               d = (if CO mod 8 = 0
                    then d[CB := (d ! CB AND 0xF0) OR (Counter s AND 0x0F)]
                    else d[CB := (d ! CB AND 0x0F) OR (push_bit 4 (Counter s) AND 0xF0)]);
               d = d[unat (CRCOffset c) div 8 := CalculateCrc mode c (Counter s) d]
           in (E2E_E_OK, Some (s\<lparr>Counter := E2E_UpdateCounter (Counter s)\<rparr>), Some d))
      | _ \<Rightarrow> (E2E_E_INPUTERR_NULL, State, Data))"

definition E2E_P01Check :: "crc_mode \<Rightarrow> E2E_P01ConfigType option \<Rightarrow> E2E_P01ReceiverStateType option \<Rightarrow>
    u8 list option \<Rightarrow> u8 \<times> E2E_P01ReceiverStateType option" where
  "E2E_P01Check mode Config State Data =
     (let returnValue = CheckConfig_P01 Config in
      if returnValue \<noteq> E2E_E_OK then (returnValue, State)
      else case (Config, State, Data) of
        (Some c, Some s, Some d) \<Rightarrow>
          (let s = (if MaxDeltaCounter s < MAX_P01_COUNTER_VALUE
                    then s\<lparr>MaxDeltaCounter := MaxDeltaCounter s + 1\<rparr> else s) in
           if \<not> NewDataAvailable s then (E2E_E_OK, Some (s\<lparr>Status := E2E_P01STATUS_NONEWDATA\<rparr>))
           else
           (let CO = unat (CounterOffset c);
                receivedCounter = (if CO mod 8 = 0 then d ! (CO div 8) AND 0x0F
                                   else drop_bit 4 (d ! (CO div 8)) AND 0x0F);
                receivedCrc = d ! (unat (CRCOffset c) div 8);
                calculatedCrc = CalculateCrc mode c receivedCounter d in
            if receivedCrc \<noteq> calculatedCrc then (E2E_E_OK, Some (s\<lparr>Status := E2E_P01STATUS_WRONGCRC\<rparr>))
            else if WaitForFirstData s then
              (E2E_E_OK, Some (s\<lparr>WaitForFirstData := False,
                 MaxDeltaCounter := MaxDeltaCounterInit c,
                 LastValidCounter := receivedCounter, Status := E2E_P01STATUS_INITAL\<rparr>))
            else
            (let delta = CalculateDeltaCounter_P01 receivedCounter (LastValidCounter s) in
             if delta = 1 then
               (E2E_E_OK, Some (s\<lparr>MaxDeltaCounter := MaxDeltaCounterInit c,
                  LastValidCounter := receivedCounter, LostData := 0, Status := E2E_P01STATUS_OK\<rparr>))
             else if delta = 0 then (E2E_E_OK, Some (s\<lparr>Status := E2E_P01STATUS_REPEATED\<rparr>))
             else if delta \<le> MaxDeltaCounter s then
               (E2E_E_OK, Some (s\<lparr>MaxDeltaCounter := MaxDeltaCounterInit c,
                  LastValidCounter := receivedCounter, LostData := delta - 1,
                  Status := E2E_P01STATUS_OKSOMELOST\<rparr>))
             else (E2E_E_OK, Some (s\<lparr>Status := E2E_P01STATUS_WRONGSEQUENCE\<rparr>)))))
      | _ \<Rightarrow> (E2E_E_INPUTERR_NULL, State))"
section \<open>The layout of a data block\<close>

abbreviation crc_index :: "E2E_P01ConfigType \<Rightarrow> nat" where "crc_index c \<equiv> unat (CRCOffset c) div 8"
abbreviation counter_index :: "E2E_P01ConfigType \<Rightarrow> nat" where "counter_index c \<equiv> unat (CounterOffset c) div 8"
abbreviation data_bytes :: "E2E_P01ConfigType \<Rightarrow> nat" where "data_bytes c \<equiv> unat (DataLength c) div 8"
abbreviation valid_P01 :: "E2E_P01ConfigType \<Rightarrow> bool" where
  "valid_P01 c \<equiv> CheckConfig_P01 (Some c) = E2E_E_OK"

lemma block_index:
  fixes i n :: nat
  shows "i + 8 \<le> n \<Longrightarrow> i div 8 < n div 8"
    and "n mod 8 = 0 \<Longrightarrow> i mod 4 = 0 \<Longrightarrow> i + 4 \<le> n \<Longrightarrow> i div 8 < n div 8"
proof -
  show "i div 8 < n div 8" if "i + 8 \<le> n" using div_le_mono [OF that, of 8] by simp
  show "i div 8 < n div 8" if n: "n mod 8 = 0" and i: "i mod 4 = 0" and le: "i + 4 \<le> n"
  proof -
    obtain p q where "n = 8 * q" "i = 4 * p"
      using n i by (auto dest!: mod_0_imp_dvd simp: dvd_def)
    then show ?thesis using le by (auto simp: div_less_iff_less_mult)
  qed
qed

lemma valid_P01_layout:
  assumes "valid_P01 c"
  shows "crc_index c < data_bytes c" "counter_index c < data_bytes c" "crc_index c \<noteq> counter_index c"
proof -
  let ?DL = "unat (DataLength c)" and ?CO = "unat (CounterOffset c)" and ?RO = "unat (CRCOffset c)"
  have v: "?DL mod 8 = 0" "?CO mod 4 = 0" "?RO mod 8 = 0" "?RO + 8 \<le> ?DL" "?CO + 4 \<le> ?DL"
    "crc_index c \<noteq> counter_index c"
    using assms by (auto simp: CheckConfig_P01_def Let_def not_le split: if_splits)
  show "crc_index c < data_bytes c" by (rule block_index(1)) fact
  show "counter_index c < data_bytes c" by (rule block_index(2)) fact+
  show "crc_index c \<noteq> counter_index c" by fact
qed

text \<open>The received counter, and the block with a counter written into it.\<close>

definition counter_of :: "E2E_P01ConfigType \<Rightarrow> u8 list \<Rightarrow> u8" where
  "counter_of c d = (if unat (CounterOffset c) mod 8 = 0 then d ! counter_index c AND 0x0F
                     else drop_bit 4 (d ! counter_index c) AND 0x0F)"

definition put_counter :: "E2E_P01ConfigType \<Rightarrow> u8 \<Rightarrow> u8 list \<Rightarrow> u8 list" where
  "put_counter c k d = (if unat (CounterOffset c) mod 8 = 0
     then d[counter_index c := (d ! counter_index c AND 0xF0) OR (k AND 0x0F)]
     else d[counter_index c := (d ! counter_index c AND 0x0F) OR (push_bit 4 k AND 0xF0)])"

lemma length_put_counter [simp]: "length (put_counter c k d) = length d"
  by (simp add: put_counter_def)

lemma counter_of_put_counter:
  "counter_of c (put_counter c k d) = k AND 0x0F" if "counter_index c < length d"
  by (cases "unat (CounterOffset c) mod 8 = 0")
     (simp_all only: counter_of_def put_counter_def if_True if_False simp_thms
       nth_list_update_eq [OF that] nibble_written)

lemma counter_of_crc_byte: "counter_of c (d[crc_index c := b]) = counter_of c d" if "valid_P01 c"
  using valid_P01_layout(3) [OF that] by (simp add: counter_of_def)

section \<open>The checksum\<close>

text \<open>The part of the data identifier that enters the checksum.\<close>

definition data_id_bytes :: "E2E_P01ConfigType \<Rightarrow> u8 \<Rightarrow> u8 list" where
  "data_id_bytes c k =
     (let low = ucast (DataID c); high = ucast (drop_bit 8 (DataID c)) in
      case DataIDMode c of
        E2E_P01_DATAID_BOTH \<Rightarrow> [low, high]
      | E2E_P01_DATAID_LOW \<Rightarrow> [low]
      | E2E_P01_DATAID_ALT \<Rightarrow> if unat k mod 2 = 0 then [low] else [high])"

text \<open>The block without its checksum byte.\<close>

definition crc_payload :: "E2E_P01ConfigType \<Rightarrow> u8 list \<Rightarrow> u8 list" where
  "crc_payload c d = take (crc_index c) d @ take (data_bytes c - crc_index c - 1) (drop (crc_index c + 1) d)"

lemma CalculateCrc_engine:
  "CalculateCrc mode c k d = fold (crc_step 0x80 0x1D) (data_id_bytes c k @ crc_payload c d) 0"
proof -
  have "crc_index c = 0" if "\<not> 8 \<le> unat (CRCOffset c)" using that by simp
  then show ?thesis
    by (cases "DataIDMode c")
       (simp_all add: CalculateCrc_def Let_def Crc_engines data_id_bytes_def crc_payload_def xor.assoc)
qed

lemma CalculateCrc_crc_byte: "CalculateCrc mode c k (d[crc_index c := b]) = CalculateCrc mode' c k d"
  by (simp add: CalculateCrc_engine crc_payload_def)

lemma CalculateCrc_nibble: "CalculateCrc mode c (k AND 0x0F) d = CalculateCrc mode' c k d"
  by (simp add: CalculateCrc_engine data_id_bytes_def Let_def nibble_parity)
section \<open>The counter\<close>

interpretation p01: e2e_counter 15 E2E_UpdateCounter CalculateDeltaCounter_P01
proof
  show "unat (E2E_UpdateCounter c) = (unat c + 1) mod 15" for c
    by (simp add: E2E_UpdateCounter_def unsigned_of_nat take_bit_eq_mod)
  show "unat (CalculateDeltaCounter_P01 r l) = (unat r + 15 - unat l) mod 15"
    if "unat r < 15" "unat l < 15" for r l
  proof (cases "l \<le> r")
    case True
    then show ?thesis using that by (simp add: CalculateDeltaCounter_P01_def unat_sub word_le_nat_alt
        plain_difference)
  next
    case False
    then show ?thesis using that unat_wrapped_difference [of r l 15]
      by (simp add: CalculateDeltaCounter_P01_def word_le_nat_alt)
  qed
qed simp_all

section \<open>Sender and receiver\<close>

definition p01_block :: "crc_mode \<Rightarrow> E2E_P01ConfigType \<Rightarrow> u8 \<Rightarrow> u8 list \<Rightarrow> u8 list" where
  "p01_block mode c k d =
     (let d = put_counter c k d in d[crc_index c := CalculateCrc mode c k d])"

lemma E2E_P01Protect_block:
  assumes "valid_P01 c"
  shows "E2E_P01Protect mode (Some c) (Some s) (Some d)
    = (E2E_E_OK, Some (s\<lparr>Counter := E2E_UpdateCounter (Counter s)\<rparr>), Some (p01_block mode c (Counter s) d))"
  using assms by (simp add: E2E_P01Protect_def p01_block_def put_counter_def Let_def)

lemma p01_block_received:
  assumes "valid_P01 c" and "data_bytes c \<le> length d"
  shows "counter_of c (p01_block mode c k d) = k AND 0x0F"
    and "p01_block mode c k d ! crc_index c = CalculateCrc mode' c (k AND 0x0F) (p01_block mode c k d)"
    and "length (p01_block mode c k d) = length d"
  using assms valid_P01_layout [OF assms(1)]
  by (simp_all add: p01_block_def Let_def counter_of_crc_byte counter_of_put_counter CalculateCrc_nibble
      CalculateCrc_crc_byte [of _ _ _ _ _ mode] CalculateCrc_nibble [where mode' = mode])

text \<open>The receiver's window grows by one at every check; a block with a correct checksum is then
  judged by its counter.\<close>

definition p01_widen :: "E2E_P01ReceiverStateType \<Rightarrow> E2E_P01ReceiverStateType" where
  "p01_widen s = (if MaxDeltaCounter s < MAX_P01_COUNTER_VALUE
                  then s\<lparr>MaxDeltaCounter := MaxDeltaCounter s + 1\<rparr> else s)"

definition p01_judge :: "E2E_P01ConfigType \<Rightarrow> u8 \<Rightarrow> E2E_P01ReceiverStateType \<Rightarrow> E2E_P01ReceiverStateType" where
  "p01_judge c k s =
     (let accept = s\<lparr>MaxDeltaCounter := MaxDeltaCounterInit c, LastValidCounter := k\<rparr>;
          delta = CalculateDeltaCounter_P01 k (LastValidCounter s) in
      if WaitForFirstData s then accept\<lparr>WaitForFirstData := False, Status := E2E_P01STATUS_INITAL\<rparr>
      else if delta = 1 then accept\<lparr>LostData := 0, Status := E2E_P01STATUS_OK\<rparr>
      else if delta = 0 then s\<lparr>Status := E2E_P01STATUS_REPEATED\<rparr>
      else if delta \<le> MaxDeltaCounter s
        then accept\<lparr>LostData := delta - 1, Status := E2E_P01STATUS_OKSOMELOST\<rparr>
      else s\<lparr>Status := E2E_P01STATUS_WRONGSEQUENCE\<rparr>)"

lemma E2E_P01Check_cases:
  assumes "valid_P01 c"
  shows "E2E_P01Check mode (Some c) (Some s) (Some d) = (E2E_E_OK, Some (
    if \<not> NewDataAvailable s then (p01_widen s)\<lparr>Status := E2E_P01STATUS_NONEWDATA\<rparr>
    else if d ! crc_index c \<noteq> CalculateCrc mode c (counter_of c d) d
      then (p01_widen s)\<lparr>Status := E2E_P01STATUS_WRONGCRC\<rparr>
    else p01_judge c (counter_of c d) (p01_widen s)))"
proof -
  have widen: "NewDataAvailable (p01_widen s) = NewDataAvailable s" by (simp add: p01_widen_def)
  have swap: "t\<lparr>WaitForFirstData := False, MaxDeltaCounter := m, LastValidCounter := k, Status := st\<rparr>
    = t\<lparr>MaxDeltaCounter := m, LastValidCounter := k, WaitForFirstData := False, Status := st\<rparr>" for t m k st
    by (cases t) simp
  show ?thesis
    unfolding E2E_P01Check_def p01_widen_def [symmetric] counter_of_def [symmetric] Let_def assms
      option.case prod.case
    by (simp add: widen swap p01_judge_def Let_def counter_of_def)
qed

text \<open>Sending a list of blocks, and receiving one with its status.\<close>

fun p01_sends :: "crc_mode \<Rightarrow> E2E_P01ConfigType \<Rightarrow> E2E_P01SenderStateType \<Rightarrow> u8 list list \<Rightarrow> u8 list list" where
  "p01_sends mode c s [] = []"
| "p01_sends mode c s (d # ds) =
     (let (ret, s', b) = E2E_P01Protect mode (Some c) (Some s) (Some d)
      in the b # p01_sends mode c (the s') ds)"

fun p01_receives :: "crc_mode \<Rightarrow> E2E_P01ConfigType \<Rightarrow> E2E_P01ReceiverStateType \<Rightarrow> u8 list list \<Rightarrow>
    E2E_P01ReceiverStatusType list" where
  "p01_receives mode c r [] = []"
| "p01_receives mode c r (b # bs) =
     (let (ret, r') = E2E_P01Check mode (Some c) (Some r) (Some b)
      in Status (the r') # p01_receives mode c (the r') bs)"

lemma p01_sends_Cons [simp]:
  assumes "valid_P01 c"
  shows "p01_sends mode c s (d # ds)
    = p01_block mode c (Counter s) d # p01_sends mode c (s\<lparr>Counter := E2E_UpdateCounter (Counter s)\<rparr>) ds"
  using assms by (simp add: E2E_P01Protect_block)

declare p01_sends.simps(2) [simp del]

lemma last_p01_sends:
  assumes "valid_P01 c" and "ds \<noteq> []"
  shows "last (p01_sends mode c s ds)
    = p01_block mode c ((E2E_UpdateCounter ^^ (length ds - 1)) (Counter s)) (last ds)"
  using assms(2)
proof (induction ds arbitrary: s rule: list_nonempty_induct)
  case (single d)
  then show ?case using assms(1) by simp
next
  case (cons d ds)
  have "p01_sends mode c s' ds \<noteq> []" for s' using cons.hyps assms(1) by (cases ds) simp_all
  moreover have "(E2E_UpdateCounter ^^ (length ds - 1)) (E2E_UpdateCounter k) = (E2E_UpdateCounter ^^ length ds) k"
    for k using cons.hyps by (cases ds) (simp_all add: funpow_swap1)
  ultimately show ?case using cons assms(1) by simp
qed

lemma E2E_P01Check_block:
  assumes "valid_P01 c" and "data_bytes c \<le> length d" and "NewDataAvailable r" and "unat k < 15"
  shows "E2E_P01Check mode' (Some c) (Some r) (Some (p01_block mode c k d))
    = (E2E_E_OK, Some (p01_judge c k (p01_widen r)))"
  using assms p01_block_received(1) [OF assms(1,2), of mode k]
    p01_block_received(2) [OF assms(1,2), of mode k mode'] nibble_id [of k]
  by (simp add: E2E_P01Check_cases)
lemma p01_widen_simps [simp]:
  "LastValidCounter (p01_widen r) = LastValidCounter r"
  "WaitForFirstData (p01_widen r) = WaitForFirstData r"
  "NewDataAvailable (p01_widen r) = NewDataAvailable r"
  "LostData (p01_widen r) = LostData r"
  by (simp_all add: p01_widen_def)

lemma p01_widen_window:
  "unat (MaxDeltaCounter (p01_widen r)) = (if unat (MaxDeltaCounter r) < 14 then unat (MaxDeltaCounter r) + 1
     else unat (MaxDeltaCounter r))"
  by (auto simp: p01_widen_def word_less_nat_alt unat_word_ariths)

text \<open>A receiver in step with the sender accepts every block.\<close>

lemma p01_in_step:
  assumes "valid_P01 c" and "\<forall>d\<in>set ds. data_bytes c \<le> length d"
    and "NewDataAvailable r" and "\<not> WaitForFirstData r" and "unat (LastValidCounter r) < 15"
    and "Counter s = E2E_UpdateCounter (LastValidCounter r)"
  shows "p01_receives mode' c r (p01_sends mode c s ds) = replicate (length ds) E2E_P01STATUS_OK"
  using assms(2-)
proof (induction ds arbitrary: r s)
  case (Cons d ds)
  have k: "unat (Counter s) < 15" using Cons.prems p01.nxts_below [of _ 1] by simp
  have "CalculateDeltaCounter_P01 (Counter s) (LastValidCounter r) = 1"
    using Cons.prems p01.delta_next by simp
  then have "p01_judge c (Counter s) (p01_widen r) = (p01_widen r)\<lparr>MaxDeltaCounter := MaxDeltaCounterInit c,
      LastValidCounter := Counter s, LostData := 0, Status := E2E_P01STATUS_OK\<rparr>"
    using Cons.prems by (simp add: p01_judge_def Let_def)
  then show ?case
    using assms(1) Cons.prems k by (simp add: E2E_P01Check_block Cons.IH)
qed simp

text \<open>C19: profile 1, undisturbed: a receiver waiting for its first data that gets every block a
  sender protects answers INITAL to the first and OK to all others, whatever their payload, in
  either checksum build of the two ends.\<close>

theorem p01_stream_accepted:
  assumes "valid_P01 c" and "\<forall>d\<in>set ds. data_bytes c \<le> length d"
    and "unat (Counter s) < 15" and "NewDataAvailable r" and "WaitForFirstData r"
  shows "p01_receives mode' c r (p01_sends mode c s ds)
    = (if ds = [] then [] else E2E_P01STATUS_INITAL # replicate (length ds - 1) E2E_P01STATUS_OK)"
proof (cases ds)
  case (Cons d ds')
  have "p01_judge c (Counter s) (p01_widen r) = (p01_widen r)\<lparr>MaxDeltaCounter := MaxDeltaCounterInit c,
      LastValidCounter := Counter s, WaitForFirstData := False, Status := E2E_P01STATUS_INITAL\<rparr>"
    using assms(5) by (simp add: p01_judge_def Let_def)
  then show ?thesis
    using assms Cons by (simp add: E2E_P01Check_block p01_in_step)
qed simp

text \<open>C20: profile 1, lossy channel: when a receiver in step with the sender misses all but the
  last of \<open>n\<close> consecutive blocks it judges that one by \<open>n\<close> modulo 15: OK for 1, REPEATED for 0,
  OKSOMELOST with the number of lost blocks while the distance is within its window, which has
  grown by one for this check, and WRONGSEQUENCE beyond it.\<close>

theorem p01_gap_classified:
  assumes "valid_P01 c" and "data_bytes c \<le> length (last ds)" and "ds \<noteq> []"
    and "NewDataAvailable r" and "\<not> WaitForFirstData r" and "unat (LastValidCounter r) < 15"
    and "Counter s = E2E_UpdateCounter (LastValidCounter r)"
  shows "\<exists>r' n. n = length ds mod 15
    \<and> E2E_P01Check mode' (Some c) (Some r) (Some (last (p01_sends mode c s ds))) = (E2E_E_OK, Some r')
    \<and> Status r' = (if n = 1 then E2E_P01STATUS_OK else if n = 0 then E2E_P01STATUS_REPEATED
        else if n \<le> unat (MaxDeltaCounter r) + 1 then E2E_P01STATUS_OKSOMELOST
        else E2E_P01STATUS_WRONGSEQUENCE)
    \<and> unat (LostData r') = (if n = 1 then 0
        else if n \<noteq> 0 \<and> n \<le> unat (MaxDeltaCounter r) + 1 then n - 1 else unat (LostData r))"
proof -
  define k where "k = (E2E_UpdateCounter ^^ length ds) (LastValidCounter r)"
  let ?n = "length ds mod 15" and ?r = "p01_judge c k (p01_widen r)"
  have k: "unat k < 15" unfolding k_def using assms(6) by (rule p01.nxts_below)
  have "(E2E_UpdateCounter ^^ (length ds - 1)) (Counter s) = k"
    using assms(3,7) by (cases ds) (simp_all add: k_def funpow_swap1)
  then have chk: "E2E_P01Check mode' (Some c) (Some r) (Some (last (p01_sends mode c s ds))) = (E2E_E_OK, Some ?r)"
    using assms k by (simp add: last_p01_sends E2E_P01Check_block)
  define delta where "delta = CalculateDeltaCounter_P01 k (LastValidCounter r)"
  have d: "unat delta = ?n" unfolding delta_def k_def using assms(6) by (rule p01.delta_nxts)
  have "?n \<le> 14" by (simp add: less_Suc_eq_le [symmetric])
  then have win: "delta \<le> MaxDeltaCounter (p01_widen r) \<longleftrightarrow> ?n \<le> unat (MaxDeltaCounter r) + 1"
    using d by (auto simp: word_le_nat_alt p01_widen_window)
  have num: "delta = 1 \<longleftrightarrow> ?n = 1" "delta = 0 \<longleftrightarrow> ?n = 0" using d by (simp_all add: word_unat_eq_iff)
  have "unat (delta - 1) = ?n - 1" if "?n \<noteq> 0"
    using that d by (subst unat_sub) (simp_all add: word_le_nat_alt)
  then show ?thesis
    using chk assms(5)
    by (intro exI [of _ ?r] exI [of _ ?n])
       (simp add: p01_judge_def Let_def delta_def [symmetric] num win)
qed
text \<open>A configuration for the examples: four bytes, the checksum first, the counter in the low
  half of the second.\<close>

definition example_config :: E2E_P01ConfigType where
  "example_config = \<lparr>CounterOffset = 8, CRCOffset = 0, DataID = 0x1234,
     DataIDMode = E2E_P01_DATAID_BOTH, DataLength = 32, MaxDeltaCounterInit = 2\<rparr>"

definition example_receiver :: "bool \<Rightarrow> E2E_P01ReceiverStateType" where
  "example_receiver first = \<lparr>LastValidCounter = 13, MaxDeltaCounter = 2, WaitForFirstData = first,
     NewDataAvailable = True, LostData = 0, Status = E2E_P01STATUS_NONEWDATA\<rparr>"

lemma example_valid: "valid_P01 example_config" "data_bytes example_config = 4"
  by (simp_all add: example_config_def CheckConfig_P01_def Let_def)

theorem p01_stream_accepted_witness:
  "p01_receives CRC_TABLE example_config (example_receiver True)
     (p01_sends CRC_RUNTIME example_config \<lparr>Counter = 14\<rparr> [[0, 0, 1, 2], [0, 0, 3, 4], [0, 0, 5, 6]])
   = [E2E_P01STATUS_INITAL, E2E_P01STATUS_OK, E2E_P01STATUS_OK]"
  using p01_stream_accepted [OF example_valid(1), of "[[0, 0, 1, 2], [0, 0, 3, 4], [0, 0, 5, 6]]"
      "\<lparr>Counter = 14\<rparr>" "example_receiver True" CRC_TABLE CRC_RUNTIME]
  by (simp add: example_valid example_receiver_def)

theorem p01_gap_classified_witness:
  "\<exists>r'. E2E_P01Check CRC_TABLE (Some example_config) (Some (example_receiver False))
     (Some (last (p01_sends CRC_RUNTIME example_config \<lparr>Counter = 14\<rparr>
       [[0, 0, 1, 2], [0, 0, 3, 4], [0, 0, 5, 6]]))) = (E2E_E_OK, Some r')
   \<and> Status r' = E2E_P01STATUS_OKSOMELOST \<and> unat (LostData r') = 2"
  using p01_gap_classified [OF example_valid(1), of "[[0, 0, 1, 2], [0, 0, 3, 4], [0, 0, 5, 6]]"
      "example_receiver False" "\<lparr>Counter = 14\<rparr>" CRC_TABLE CRC_RUNTIME]
  by (simp add: example_valid example_receiver_def E2E_UpdateCounter_def)

section \<open>Corruption\<close>

lemma crc_payload_changed:
  assumes "data_bytes c \<le> length d" and "i < data_bytes c" and "i \<noteq> crc_index c"
    and "crc_index c < data_bytes c"
  shows "\<exists>pre post. crc_payload c d = pre @ [d ! i] @ post \<and> crc_payload c (d[i := b]) = pre @ [b] @ post"
proof -
  define j where "j = (if i < crc_index c then i else i - 1)"
  have "j < length (crc_payload c d)" using assms by (auto simp: j_def crc_payload_def)
  moreover have "crc_payload c d ! j = d ! i"
  proof (cases "i < crc_index c")
    case False
    then have "i - Suc (crc_index c) < data_bytes c - Suc (crc_index c)"
      "crc_index c < i" "\<not> i - Suc 0 < crc_index c"
      using assms by auto
    then show ?thesis using assms False by (simp add: j_def crc_payload_def nth_append)
  qed (use assms in \<open>simp add: j_def crc_payload_def nth_append\<close>)
  moreover have "crc_payload c (d[i := b]) = (crc_payload c d)[j := b]"
    using assms by (auto simp: j_def crc_payload_def take_update_swap drop_update_swap list_update_append list_update_beyond)
  ultimately show ?thesis using one_byte_changed [of j "crc_payload c d" b] by simp
qed

lemma CalculateCrc_changed:
  assumes "data_bytes c \<le> length d" and "i < data_bytes c" and "i \<noteq> crc_index c"
    and "crc_index c < data_bytes c" and "b \<noteq> d ! i" and "data_id_bytes c k = data_id_bytes c k'"
  shows "CalculateCrc mode c k (d[i := b]) \<noteq> CalculateCrc mode' c k' d"
proof -
  obtain pre post where "crc_payload c d = pre @ [d ! i] @ post" "crc_payload c (d[i := b]) = pre @ [b] @ post"
    using crc_payload_changed [OF assms(1-4)] by blast
  then show ?thesis
    using crc8.burst_detected [of "[b]" "[d ! i]" "data_id_bytes c k' @ pre" post 0] assms(5,6)
    by (simp add: CalculateCrc_engine)
qed

text \<open>profile 1, corruption: a protected block in which one byte has been changed on the way is
  rejected as WRONGCRC and leaves the receiver's last counter and its count of lost data as they
  were.  With alternating data identifiers the counter's byte is excepted, since changing it
  changes the identifier too.\<close>

theorem p01_corruption_rejected:
  assumes "valid_P01 c" and "data_bytes c \<le> length d" and "NewDataAvailable r"
    and "E2E_P01Protect mode (Some c) (Some s) (Some d) = (ret, s', Some blk)"
    and "i < data_bytes c" and "b \<noteq> blk ! i"
    and "DataIDMode c = E2E_P01_DATAID_ALT \<Longrightarrow> i \<noteq> counter_index c"
  shows "\<exists>r'. E2E_P01Check mode' (Some c) (Some r) (Some (blk[i := b])) = (E2E_E_OK, Some r')
    \<and> Status r' = E2E_P01STATUS_WRONGCRC \<and> LastValidCounter r' = LastValidCounter r
    \<and> LostData r' = LostData r \<and> WaitForFirstData r' = WaitForFirstData r"
proof -
  let ?k = "Counter s" and ?blk' = "blk[i := b]"
  have blk: "blk = p01_block mode c ?k d" using assms(1,4) by (simp add: E2E_P01Protect_block)
  note layout = valid_P01_layout [OF assms(1)]
  have len: "data_bytes c \<le> length blk" and k: "counter_of c blk = ?k AND 0x0F"
    and crc: "blk ! crc_index c = CalculateCrc mode' c (counter_of c blk) blk"
    using p01_block_received [OF assms(1,2)] assms(2) by (simp_all add: blk)
  have "?blk' ! crc_index c \<noteq> CalculateCrc mode' c (counter_of c ?blk') ?blk'"
  proof (cases "i = crc_index c")
    case True
    then show ?thesis
      using assms(1,5,6) len crc by (simp add: counter_of_crc_byte CalculateCrc_crc_byte [where mode' = mode'])
  next
    case False
    have "data_id_bytes c (counter_of c ?blk') = data_id_bytes c (counter_of c blk)"
    proof (cases "i = counter_index c")
      case True
      then show ?thesis using assms(7) by (cases "DataIDMode c") (simp_all add: data_id_bytes_def Let_def)
    qed (simp add: counter_of_def)
    then show ?thesis
      using CalculateCrc_changed [OF len assms(5) False layout(1) assms(6), of _ _ mode' mode'] crc False
      by (metis nth_list_update_neq)
  qed
  then show ?thesis using assms(1,3) by (simp add: E2E_P01Check_cases)
qed

theorem p01_corruption_rejected_witness:
  "\<exists>blk r'. E2E_P01Protect CRC_TABLE (Some example_config) (Some \<lparr>Counter = 14\<rparr>) (Some [0, 0, 1, 2])
     = (E2E_E_OK, Some \<lparr>Counter = 0\<rparr>, Some blk)
   \<and> E2E_P01Check CRC_TABLE (Some example_config) (Some (example_receiver False)) (Some (blk[1 := blk ! 1 XOR 1]))
     = (E2E_E_OK, Some r') \<and> Status r' = E2E_P01STATUS_WRONGCRC"
proof -
  let ?blk = "p01_block CRC_TABLE example_config 14 [0, 0, 1, 2]"
  have p: "E2E_P01Protect CRC_TABLE (Some example_config) (Some \<lparr>Counter = 14\<rparr>) (Some [0, 0, 1, 2])
     = (E2E_E_OK, Some \<lparr>Counter = 0\<rparr>, Some ?blk)"
    by (simp add: E2E_P01Protect_block example_valid E2E_UpdateCounter_def)
  have "b XOR 1 \<noteq> b" for b :: u8 using xor_cancel [of b 1 0] by auto
  then show ?thesis
    using p01_corruption_rejected [OF example_valid(1) _ _ p, of "example_receiver False" 1 "?blk ! 1 XOR 1" CRC_TABLE] p
    by (auto simp: example_valid example_receiver_def example_config_def)
qed

end
