(* ===== verification/E2E_P02.thy ===== *)
theory E2E_P02
  imports E2E
begin

text \<open>
  End-to-end protection, profile 2 (\<open>core/system/E2E/E2E_P02.c\<close>).  The checksum is the first
  byte, a 4-bit counter is in the low half of the second, and every counter value has a data
  identifier of its own that enters the checksum.  The pointer arguments are options, the data
  block is the list of the bytes the pointer leads to, of which the caller provides
  \<open>DataLength / 8\<close>, and \<open>DataIDList\<close> has the 16 entries of the source's array.
\<close>

record E2E_P02ConfigType =
  DataLength :: u16
  DataIDList :: "u8 list"
  MaxDeltaCounterInit :: u8

record E2E_P02SenderStateType =
  Counter :: u8

datatype E2E_P02ReceiverStatusType =
    E2E_P02STATUS_OK | E2E_P02STATUS_NONEWDATA | E2E_P02STATUS_WRONGCRC | E2E_P02STATUS_INITIAL
  | E2E_P02STATUS_REPEATED | E2E_P02STATUS_OKSOMELOST | E2E_P02STATUS_WRONGSEQUENCE

record E2E_P02ReceiverStateType =
  LastValidCounter :: u8
  MaxDeltaCounter :: u8
  WaitForFirstData :: bool
  NewDataAvailable :: bool
  LostData :: u8
  Status :: E2E_P02ReceiverStatusType

abbreviation MAX_P02_COUNTER_VALUE :: u8 where "MAX_P02_COUNTER_VALUE \<equiv> 15"
abbreviation MAX_P02_DATA_LENGTH_IN_BITS :: nat where "MAX_P02_DATA_LENGTH_IN_BITS \<equiv> 8 * 256"
abbreviation MIN_P02_DATA_LENGTH_IN_BITS :: nat where "MIN_P02_DATA_LENGTH_IN_BITS \<equiv> 8 * 2"

definition CalculateDeltaCounter_P02 :: "u8 \<Rightarrow> u8 \<Rightarrow> u8" where
  "CalculateDeltaCounter_P02 receivedCounter lastValidCounter =
     (if lastValidCounter \<le> receivedCounter then receivedCounter - lastValidCounter
      else MAX_P02_COUNTER_VALUE + 1 + receivedCounter - lastValidCounter)"

definition CheckConfig_P02 :: "E2E_P02ConfigType option \<Rightarrow> u8" where
  "CheckConfig_P02 Config = (case Config of
     None \<Rightarrow> E2E_E_INPUTERR_NULL
   | Some c \<Rightarrow>
       if unat (DataLength c) mod 8 \<noteq> 0 \<or> unat (DataLength c) < MIN_P02_DATA_LENGTH_IN_BITS
         \<or> MAX_P02_DATA_LENGTH_IN_BITS < unat (DataLength c)
       then E2E_E_INPUTERR_WRONG else E2E_E_OK)"

definition E2E_P02Protect :: "crc_mode \<Rightarrow> E2E_P02ConfigType option \<Rightarrow> E2E_P02SenderStateType option \<Rightarrow>
    u8 list option \<Rightarrow> u8 \<times> E2E_P02SenderStateType option \<times> u8 list option" where
  "E2E_P02Protect mode Config State Data =
     (let returnValue = CheckConfig_P02 Config in
      if returnValue \<noteq> E2E_E_OK then (returnValue, State, Data)
      else case (Config, State, Data) of
        (Some c, Some s, Some d) \<Rightarrow>
          (let s = s\<lparr>Counter := word_of_nat ((unat (Counter s) + 1) mod 16)\<rparr>;
               d = d[1 := (d ! 1 AND 0xF0) OR (Counter s AND 0x0F)];
               dataId = DataIDList c ! unat (Counter s);
               crc = Crc_CalculateCRC8H2F mode (Some (take (unat (DataLength c) div 8 - 1) (drop 1 d))) 0x00 True;
               crc = Crc_CalculateCRC8H2F mode (Some [dataId]) crc False
           in (E2E_E_OK, Some s, Some (d[0 := crc])))
      | _ \<Rightarrow> (E2E_E_INPUTERR_NULL, State, Data))"

definition E2E_P02Check :: "crc_mode \<Rightarrow> E2E_P02ConfigType option \<Rightarrow> E2E_P02ReceiverStateType option \<Rightarrow>
    u8 list option \<Rightarrow> u8 \<times> E2E_P02ReceiverStateType option" where
  "E2E_P02Check mode Config State Data =
     (let returnValue = CheckConfig_P02 Config in
      if returnValue \<noteq> E2E_E_OK then (returnValue, State)
      else case (Config, State, Data) of
        (Some c, Some s, Some d) \<Rightarrow>
          (let s = (if MaxDeltaCounter s < MAX_P02_COUNTER_VALUE
                    then s\<lparr>MaxDeltaCounter := MaxDeltaCounter s + 1\<rparr> else s) in
           if \<not> NewDataAvailable s then (E2E_E_OK, Some (s\<lparr>Status := E2E_P02STATUS_NONEWDATA\<rparr>))
           else
           (let receivedCounter = d ! 1 AND 0xF;
                dataId = DataIDList c ! unat receivedCounter;
                crc = Crc_CalculateCRC8H2F mode (Some (take (unat (DataLength c) div 8 - 1) (drop 1 d))) 0x00 True;
                crc = Crc_CalculateCRC8H2F mode (Some [dataId]) crc False in
            if crc \<noteq> d ! 0 then (E2E_E_OK, Some (s\<lparr>Status := E2E_P02STATUS_WRONGCRC\<rparr>))
            else if WaitForFirstData s then
              (E2E_E_OK, Some (s\<lparr>WaitForFirstData := False,
                 MaxDeltaCounter := MaxDeltaCounterInit c,
                 LastValidCounter := receivedCounter, Status := E2E_P02STATUS_INITIAL\<rparr>))
            else
            (let deltaCounter = CalculateDeltaCounter_P02 receivedCounter (LastValidCounter s) in
             if deltaCounter = 1 then
               (E2E_E_OK, Some (s\<lparr>MaxDeltaCounter := MaxDeltaCounterInit c,
                  LastValidCounter := receivedCounter, LostData := 0, Status := E2E_P02STATUS_OK\<rparr>))
             else if deltaCounter = 0 then (E2E_E_OK, Some (s\<lparr>Status := E2E_P02STATUS_REPEATED\<rparr>))
             else if MaxDeltaCounter s < deltaCounter then
               (E2E_E_OK, Some (s\<lparr>Status := E2E_P02STATUS_WRONGSEQUENCE\<rparr>))
             else (E2E_E_OK, Some (s\<lparr>MaxDeltaCounter := MaxDeltaCounterInit c,
                  LastValidCounter := receivedCounter, LostData := deltaCounter - 1,
                  Status := E2E_P02STATUS_OKSOMELOST\<rparr>)))))
      | _ \<Rightarrow> (E2E_E_INPUTERR_NULL, State))"

section \<open>The block and its counter\<close>

text \<open>The two statements of the sender that step its counter, as one function.\<close>

definition p02_next :: "u8 \<Rightarrow> u8" where "p02_next k = word_of_nat ((unat k + 1) mod 16)"

interpretation p02: e2e_counter 16 p02_next CalculateDeltaCounter_P02
proof
  show "unat (p02_next c) = (unat c + 1) mod 16" for c
    by (simp add: p02_next_def unsigned_of_nat take_bit_eq_mod)
  show "unat (CalculateDeltaCounter_P02 r l) = (unat r + 16 - unat l) mod 16"
    if "unat r < 16" "unat l < 16" for r l
  proof (cases "l \<le> r")
    case True
    then show ?thesis using that
      by (simp add: CalculateDeltaCounter_P02_def unat_sub word_le_nat_alt plain_difference)
  next
    case False
    then show ?thesis using that unat_wrapped_difference [of r l 16]
      by (simp add: CalculateDeltaCounter_P02_def word_le_nat_alt)
  qed
qed simp_all

definition p02_crc :: "E2E_P02ConfigType \<Rightarrow> u8 \<Rightarrow> u8 list \<Rightarrow> u8" where
  "p02_crc c k d = fold (crc_step 0x80 0x2F)
     (take (unat (DataLength c) div 8 - 1) (drop 1 d) @ [DataIDList c ! unat k]) 0xFF XOR 0xFF"

definition p02_block :: "E2E_P02ConfigType \<Rightarrow> u8 \<Rightarrow> u8 list \<Rightarrow> u8 list" where
  "p02_block c k d = (let d = d[1 := (d ! 1 AND 0xF0) OR (k AND 0x0F)] in d[0 := p02_crc c k d])"

abbreviation valid_P02 :: "E2E_P02ConfigType \<Rightarrow> bool" where
  "valid_P02 c \<equiv> CheckConfig_P02 (Some c) = E2E_E_OK"

abbreviation data_bytes :: "E2E_P02ConfigType \<Rightarrow> nat" where "data_bytes c \<equiv> unat (DataLength c) div 8"

lemma valid_P02_layout: "2 \<le> data_bytes c" if "valid_P02 c"
proof -
  have "16 \<le> unat (DataLength c)" using that by (auto simp: CheckConfig_P02_def split: if_splits)
  from div_le_mono [OF this, of 8] show ?thesis by simp
qed

lemma p02_crc_calls:
  "Crc_CalculateCRC8H2F mode (Some [DataIDList c ! unat k])
     (Crc_CalculateCRC8H2F mode (Some (take (data_bytes c - 1) (drop 1 d))) 0x00 True) False = p02_crc c k d"
  by (simp add: p02_crc_def Crc_engines xor.assoc)

lemma p02_crc_first_byte: "p02_crc c k (d[0 := b]) = p02_crc c k d"
  by (simp add: p02_crc_def)

lemma E2E_P02Protect_block:
  assumes "valid_P02 c"
  shows "E2E_P02Protect mode (Some c) (Some s) (Some d) =
    (E2E_E_OK, Some (s\<lparr>Counter := p02_next (Counter s)\<rparr>), Some (p02_block c (p02_next (Counter s)) d))"
  using assms unfolding E2E_P02Protect_def Let_def assms p02_next_def [symmetric]
  by (simp add: p02_block_def Let_def p02_crc_calls [simplified])

lemma p02_block_received:
  assumes "2 \<le> length d" and "unat k < 16"
  shows "p02_block c k d ! 1 AND 0x0F = k" "p02_block c k d ! 0 = p02_crc c k (p02_block c k d)"
    and "length (p02_block c k d) = length d"
proof -
  show "p02_block c k d ! 1 AND 0x0F = k"
    using assms nibble_written(1) [of "d ! 1" k] by (simp add: p02_block_def Let_def nibble_id)
  have "0 < length d" using assms by auto
  then show "p02_block c k d ! 0 = p02_crc c k (p02_block c k d)"
    by (simp add: p02_block_def Let_def p02_crc_first_byte)
qed (simp add: p02_block_def Let_def)
section \<open>The receiver\<close>

definition p02_widen :: "E2E_P02ReceiverStateType \<Rightarrow> E2E_P02ReceiverStateType" where
  "p02_widen s = (if MaxDeltaCounter s < MAX_P02_COUNTER_VALUE
                  then s\<lparr>MaxDeltaCounter := MaxDeltaCounter s + 1\<rparr> else s)"

definition p02_judge :: "E2E_P02ConfigType \<Rightarrow> u8 \<Rightarrow> E2E_P02ReceiverStateType \<Rightarrow> E2E_P02ReceiverStateType" where
  "p02_judge c k s =
     (let accept = s\<lparr>MaxDeltaCounter := MaxDeltaCounterInit c, LastValidCounter := k\<rparr>;
          delta = CalculateDeltaCounter_P02 k (LastValidCounter s) in
      if WaitForFirstData s then accept\<lparr>WaitForFirstData := False, Status := E2E_P02STATUS_INITIAL\<rparr>
      else if delta = 1 then accept\<lparr>LostData := 0, Status := E2E_P02STATUS_OK\<rparr>
      else if delta = 0 then s\<lparr>Status := E2E_P02STATUS_REPEATED\<rparr>
      else if delta \<le> MaxDeltaCounter s
        then accept\<lparr>LostData := delta - 1, Status := E2E_P02STATUS_OKSOMELOST\<rparr>
      else s\<lparr>Status := E2E_P02STATUS_WRONGSEQUENCE\<rparr>)"

lemma p02_widen_simps [simp]:
  "LastValidCounter (p02_widen r) = LastValidCounter r"
  "WaitForFirstData (p02_widen r) = WaitForFirstData r"
  "NewDataAvailable (p02_widen r) = NewDataAvailable r"
  "LostData (p02_widen r) = LostData r"
  by (simp_all add: p02_widen_def)

lemma p02_widen_window:
  "unat (MaxDeltaCounter (p02_widen r)) = (if unat (MaxDeltaCounter r) < 15 then unat (MaxDeltaCounter r) + 1
     else unat (MaxDeltaCounter r))"
  by (auto simp: p02_widen_def word_less_nat_alt unat_word_ariths)

lemma E2E_P02Check_cases:
  assumes "valid_P02 c"
  shows "E2E_P02Check mode (Some c) (Some s) (Some d) = (E2E_E_OK, Some (
    if \<not> NewDataAvailable s then (p02_widen s)\<lparr>Status := E2E_P02STATUS_NONEWDATA\<rparr>
    else if p02_crc c (d ! 1 AND 0xF) d \<noteq> d ! 0 then (p02_widen s)\<lparr>Status := E2E_P02STATUS_WRONGCRC\<rparr>
    else p02_judge c (d ! 1 AND 0xF) (p02_widen s)))"
proof -
  have widen: "NewDataAvailable (p02_widen s) = NewDataAvailable s" by simp
  have swap: "t\<lparr>WaitForFirstData := False, MaxDeltaCounter := m, LastValidCounter := k, Status := st\<rparr>
    = t\<lparr>MaxDeltaCounter := m, LastValidCounter := k, WaitForFirstData := False, Status := st\<rparr>"
    for t :: E2E_P02ReceiverStateType and m k st by (cases t) simp
  show ?thesis
    unfolding E2E_P02Check_def p02_widen_def [symmetric] Let_def assms option.case prod.case p02_crc_calls
    by (simp add: widen swap p02_judge_def Let_def not_less)
qed

lemma E2E_P02Check_block:
  assumes "valid_P02 c" and "2 \<le> length d" and "NewDataAvailable r" and "unat k < 16"
  shows "E2E_P02Check mode' (Some c) (Some r) (Some (p02_block c k d))
    = (E2E_E_OK, Some (p02_judge c k (p02_widen r)))"
  using assms p02_block_received(1,2) [OF assms(2,4), of c] by (simp add: E2E_P02Check_cases)

text \<open>Sending a list of blocks.\<close>

fun p02_sends :: "crc_mode \<Rightarrow> E2E_P02ConfigType \<Rightarrow> E2E_P02SenderStateType \<Rightarrow> u8 list list \<Rightarrow> u8 list list" where
  "p02_sends mode c s [] = []"
| "p02_sends mode c s (d # ds) =
     (let (ret, s', b) = E2E_P02Protect mode (Some c) (Some s) (Some d)
      in the b # p02_sends mode c (the s') ds)"

lemma p02_sends_Cons [simp]:
  assumes "valid_P02 c"
  shows "p02_sends mode c s (d # ds) =
    p02_block c (p02_next (Counter s)) d # p02_sends mode c (s\<lparr>Counter := p02_next (Counter s)\<rparr>) ds"
  using assms by (simp add: E2E_P02Protect_block)

declare p02_sends.simps(2) [simp del]

lemma last_p02_sends:
  assumes "valid_P02 c" and "ds \<noteq> []"
  shows "last (p02_sends mode c s ds) = p02_block c ((p02_next ^^ length ds) (Counter s)) (last ds)"
  using assms(2)
proof (induction ds arbitrary: s rule: list_nonempty_induct)
  case (single d)
  then show ?case using assms(1) by simp
next
  case (cons d ds)
  have "p02_sends mode c s' ds \<noteq> []" for s' using cons.hyps assms(1) by (cases ds) simp_all
  then show ?case using cons assms(1) by (simp add: funpow_swap1)
qed

section \<open>What profile 2 guarantees\<close>

text \<open>profile 2, lossy channel: when a receiver in step with the sender misses all but the
  last of \<open>n\<close> consecutive blocks it judges that one by \<open>n\<close> modulo 16: OK for 1, REPEATED for 0,
  OKSOMELOST with the number of lost blocks while the distance is within its window, which has
  grown by one for this check, and WRONGSEQUENCE beyond it.\<close>

theorem p02_gap_classified:
  assumes "valid_P02 c" and "2 \<le> length (last ds)" and "ds \<noteq> []"
    and "NewDataAvailable r" and "\<not> WaitForFirstData r" and "unat (LastValidCounter r) < 16"
    and "Counter s = LastValidCounter r"
  shows "\<exists>r' n. n = length ds mod 16
    \<and> E2E_P02Check mode' (Some c) (Some r) (Some (last (p02_sends mode c s ds))) = (E2E_E_OK, Some r')
    \<and> Status r' = (if n = 1 then E2E_P02STATUS_OK else if n = 0 then E2E_P02STATUS_REPEATED
        else if n \<le> unat (MaxDeltaCounter r) + 1 then E2E_P02STATUS_OKSOMELOST
        else E2E_P02STATUS_WRONGSEQUENCE)
    \<and> unat (LostData r') = (if n = 1 then 0
        else if n \<noteq> 0 \<and> n \<le> unat (MaxDeltaCounter r) + 1 then n - 1 else unat (LostData r))"
proof -
  define k where "k = (p02_next ^^ length ds) (LastValidCounter r)"
  let ?n = "length ds mod 16" and ?r = "p02_judge c k (p02_widen r)"
  have k: "unat k < 16" unfolding k_def using assms(6) by (rule p02.nxts_below)
  then have chk: "E2E_P02Check mode' (Some c) (Some r) (Some (last (p02_sends mode c s ds))) = (E2E_E_OK, Some ?r)"
    using assms by (simp add: last_p02_sends E2E_P02Check_block k_def)
  define delta where "delta = CalculateDeltaCounter_P02 k (LastValidCounter r)"
  have d: "unat delta = ?n" unfolding delta_def k_def using assms(6) by (rule p02.delta_nxts)
  have "?n \<le> 15" by (simp add: less_Suc_eq_le [symmetric])
  then have win: "delta \<le> MaxDeltaCounter (p02_widen r) \<longleftrightarrow> ?n \<le> unat (MaxDeltaCounter r) + 1"
    using d by (auto simp: word_le_nat_alt p02_widen_window)
  have num: "delta = 1 \<longleftrightarrow> ?n = 1" "delta = 0 \<longleftrightarrow> ?n = 0" using d by (simp_all add: word_unat_eq_iff)
  have "unat (delta - 1) = ?n - 1" if "?n \<noteq> 0"
    using that d by (subst unat_sub) (simp_all add: word_le_nat_alt)
  then show ?thesis
    using chk assms(5)
    by (intro exI [of _ ?r] exI [of _ ?n])
       (simp add: p02_judge_def Let_def delta_def [symmetric] num win)
qed

lemma p02_crc_data_id:
  assumes "DataLength c' = DataLength c" and "DataIDList c' ! unat k \<noteq> DataIDList c ! unat k"
  shows "p02_crc c' k d \<noteq> p02_crc c k d"
  using crc8h2f.burst_detected [of "[DataIDList c' ! unat k]" "[DataIDList c ! unat k]"
      "take (data_bytes c - 1) (drop 1 d)" "[]" "0xFF"] assms xor_cancel
  by (auto simp: p02_crc_def xor.commute)

lemma p02_crc_changed:
  assumes "i < data_bytes c" and "i \<noteq> 0" and "data_bytes c \<le> length d" and "b \<noteq> d ! i"
  shows "p02_crc c k (d[i := b]) \<noteq> p02_crc c k d"
proof -
  let ?n = "data_bytes c - 1"
  define data where "data = take ?n (drop 1 d)"
  have j: "i - 1 < length data" "data ! (i - 1) = d ! i" using assms by (auto simp: data_def)
  have upd: "take ?n (drop 1 (d[i := b])) = data[i - 1 := b]"
    using assms(2) by (simp add: data_def take_update_swap drop_update_swap)
  obtain pre post where "data = pre @ [d ! i] @ post" "data[i - 1 := b] = pre @ [b] @ post"
    using one_byte_changed [OF j(1), of b] j(2) by auto
  then show ?thesis
    using crc8h2f.burst_detected [of "[b]" "[d ! i]" pre "post @ [DataIDList c ! unat k]" "0xFF"]
      assms(4) xor_cancel
    by (auto simp: p02_crc_def upd [simplified] data_def [simplified, symmetric] xor.commute)
qed

text \<open>profile 2, corruption and masquerade: a protected block is rejected as WRONGCRC and
  leaves the last counter as it was when one byte other than the counter's has been changed on
  the way, or when the receiver expects another data identifier for this counter, that is, the
  block of another sender.\<close>

theorem p02_corruption_rejected:
  assumes "valid_P02 c" and "data_bytes c \<le> length d" and "NewDataAvailable r"
    and "E2E_P02Protect mode (Some c) (Some s) (Some d) = (ret, Some s', Some blk)"
    and "DataLength c' = DataLength c"
    and "i < data_bytes c \<and> i \<noteq> 1 \<and> b \<noteq> blk ! i
           \<and> DataIDList c' ! unat (Counter s') = DataIDList c ! unat (Counter s')
         \<or> b = blk ! i \<and> DataIDList c' ! unat (Counter s') \<noteq> DataIDList c ! unat (Counter s')"
  shows "\<exists>r'. E2E_P02Check mode' (Some c') (Some r) (Some (blk[i := b])) = (E2E_E_OK, Some r')
    \<and> Status r' = E2E_P02STATUS_WRONGCRC \<and> LastValidCounter r' = LastValidCounter r
    \<and> LostData r' = LostData r \<and> WaitForFirstData r' = WaitForFirstData r"
proof -
  let ?k = "p02_next (Counter s)" and ?blk' = "blk[i := b]"
  have blk: "blk = p02_block c ?k d" "?k = Counter s'" using assms(1,4) by (auto simp: E2E_P02Protect_block)
  have k: "unat ?k < 16" by (simp add: p02_next_def unsigned_of_nat take_bit_eq_mod)
  have two: "2 \<le> length d" using valid_P02_layout [OF assms(1)] assms(2) by linarith
  have len: "data_bytes c \<le> length blk" and cnt: "blk ! 1 AND 0x0F = ?k" and crc: "blk ! 0 = p02_crc c ?k blk"
    using p02_block_received [OF two k, where c = c] assms(2) by (simp_all add: blk(1))
  have v': "valid_P02 c'" using assms(1,5) by (simp add: CheckConfig_P02_def)
  have same: "?blk' ! 1 AND 0xF = ?k" using cnt assms(6) by (cases "i = 1") auto
  have "p02_crc c' ?k ?blk' \<noteq> ?blk' ! 0"
  proof (cases "b = blk ! i")
    case True
    then show ?thesis using p02_crc_data_id [OF assms(5)] assms(6) blk(2) crc by auto
  next
    case False
    then have i: "i < data_bytes c" and id: "DataIDList c' ! unat ?k = DataIDList c ! unat ?k"
      using assms(6) blk(2) by auto
    have eqc: "p02_crc c' ?k e = p02_crc c ?k e" for e using id assms(5) by (simp add: p02_crc_def)
    show ?thesis
    proof (cases "i = 0")
      case True
      moreover have "0 < length blk" using len i by linarith
      ultimately show ?thesis using False crc by (simp add: eqc p02_crc_first_byte)
    next
      case inner: False
      then show ?thesis using p02_crc_changed [OF i inner len False, of ?k] crc by (simp add: eqc)
    qed
  qed
  then show ?thesis using v' assms(3) by (simp add: E2E_P02Check_cases same [simplified])
qed

definition example_config :: E2E_P02ConfigType where
  "example_config = \<lparr>DataLength = 32, DataIDList = map of_nat [20..<36], MaxDeltaCounterInit = 2\<rparr>"

definition example_receiver :: E2E_P02ReceiverStateType where
  "example_receiver = \<lparr>LastValidCounter = 14, MaxDeltaCounter = 2, WaitForFirstData = False,
     NewDataAvailable = True, LostData = 0, Status = E2E_P02STATUS_NONEWDATA\<rparr>"

lemma example_valid_P02: "valid_P02 example_config" "data_bytes example_config = 4"
  by (simp_all add: example_config_def CheckConfig_P02_def)

theorem p02_gap_classified_witness:
  "\<exists>r'. E2E_P02Check CRC_TABLE (Some example_config) (Some example_receiver)
     (Some (last (p02_sends CRC_RUNTIME example_config \<lparr>Counter = 14\<rparr>
       [[0, 0, 1, 2], [0, 0, 3, 4], [0, 0, 5, 6]]))) = (E2E_E_OK, Some r')
   \<and> Status r' = E2E_P02STATUS_OKSOMELOST \<and> unat (LostData r') = 2"
  using p02_gap_classified [OF example_valid_P02(1), of "[[0, 0, 1, 2], [0, 0, 3, 4], [0, 0, 5, 6]]"
      example_receiver "\<lparr>Counter = 14\<rparr>" CRC_TABLE CRC_RUNTIME]
  by (simp add: example_receiver_def)

theorem p02_corruption_rejected_witness:
  "\<exists>blk r'. E2E_P02Protect CRC_TABLE (Some example_config) (Some \<lparr>Counter = 14\<rparr>) (Some [0, 0, 1, 2])
     = (E2E_E_OK, Some \<lparr>Counter = 15\<rparr>, Some blk)
   \<and> E2E_P02Check CRC_TABLE (Some (example_config\<lparr>DataIDList := map of_nat [21..<37]\<rparr>))
       (Some example_receiver) (Some (blk[2 := blk ! 2])) = (E2E_E_OK, Some r')
   \<and> Status r' = E2E_P02STATUS_WRONGCRC"
proof -
  let ?blk = "p02_block example_config 15 [0, 0, 1, 2]"
  have p: "E2E_P02Protect CRC_TABLE (Some example_config) (Some \<lparr>Counter = 14\<rparr>) (Some [0, 0, 1, 2])
     = (E2E_E_OK, Some \<lparr>Counter = 15\<rparr>, Some ?blk)"
    by (simp add: E2E_P02Protect_block example_valid_P02 p02_next_def)
  show ?thesis
    using p02_corruption_rejected [OF example_valid_P02(1) _ _ p, of example_receiver
        "example_config\<lparr>DataIDList := map of_nat [21..<37]\<rparr>" 2 "?blk ! 2" CRC_TABLE] p
    by (auto simp: example_valid_P02 example_receiver_def example_config_def)
qed

end
