(* ===== verification/Queues.thy ===== *)
theory Queues
  imports Pwc_Prelude
begin

text \<open>
  The two bounded queues of the code: the circular buffer of \<open>core/common/cirq_buffer.c\<close>, which
  the memory services and the mail boxes use, and the generated fifo of the run-time environment
  (\<open>Rte_Fifo.c\<close>), which also remembers an overflow.  Both copy elements of \<open>dataSize\<close> bytes in and
  out of a byte buffer.  The record member \<open>mem\<close> is the memory \<open>bufStart\<close> points to and the
  pointers \<open>head\<close>, \<open>tail\<close> and \<open>bufEnd\<close> are offsets into it.  The interface \<open>bounded_queue\<close> states
  what a queue promises its users, and both are shown to provide it.
\<close>

section \<open>Copying bytes\<close>

definition mem_write :: "nat \<Rightarrow> 'b list \<Rightarrow> 'b list \<Rightarrow> 'b list" where
  "mem_write off bytes mem = take off mem @ bytes @ drop (off + length bytes) mem"

definition mem_read :: "nat \<Rightarrow> nat \<Rightarrow> 'b list \<Rightarrow> 'b list" where
  "mem_read off n mem = take n (drop off mem)"

section \<open>The circular buffer\<close>

record CirqBufferType =
  maxCnt :: int
  currCnt :: int
  dataSize :: nat
  head :: nat
  tail :: nat
  bufEnd :: nat
  mem :: "u8 list"

definition CirqBuffStatCreate :: "u8 list \<Rightarrow> nat \<Rightarrow> nat \<Rightarrow> CirqBufferType" where
  "CirqBuffStatCreate buffer cnt dsize =
     \<lparr>maxCnt = int cnt, currCnt = 0, dataSize = dsize, head = 0, tail = 0, bufEnd = dsize * cnt,
      mem = buffer\<rparr>"

definition CirqBuff_Init :: "CirqBufferType \<Rightarrow> u8 list \<Rightarrow> nat \<Rightarrow> nat \<Rightarrow> CirqBufferType" where
  "CirqBuff_Init q buffer cnt dsize =
     q\<lparr>mem := buffer, maxCnt := int cnt, bufEnd := dsize * cnt, head := 0, tail := 0,
       dataSize := dsize, currCnt := 0\<rparr>"

definition CirqBuffPush :: "CirqBufferType \<Rightarrow> u8 list \<Rightarrow> int \<times> CirqBufferType" where
  "CirqBuffPush c data =
     (if currCnt c = maxCnt c then (1, c)
      else let c = c\<lparr>mem := mem_write (head c) data (mem c)\<rparr>;
               c = c\<lparr>head := head c + dataSize c\<rparr>;
               c = (if head c = bufEnd c then c\<lparr>head := 0\<rparr> else c)
           in (0, c\<lparr>currCnt := currCnt c + 1\<rparr>))"

text \<open>The second component is what is written to \<open>dataPtr\<close>, if anything is.\<close>

definition CirqBuffPop :: "CirqBufferType \<Rightarrow> int \<times> u8 list option \<times> CirqBufferType" where
  "CirqBuffPop c =
     (if currCnt c = 0 then (1, None, c)
      else let data = mem_read (tail c) (dataSize c) (mem c);
               c = c\<lparr>tail := tail c + dataSize c\<rparr>;
               c = (if tail c = bufEnd c then c\<lparr>tail := 0\<rparr> else c)
           in (0, Some data, c\<lparr>currCnt := currCnt c - 1\<rparr>))"

text \<open>The lock operations hand out the place of an element; the release operations are inline
  functions of the header file.\<close>

definition CirqBuff_PushLock :: "CirqBufferType \<Rightarrow> nat option \<times> CirqBufferType" where
  "CirqBuff_PushLock c =
     (if currCnt c = maxCnt c then (None, c)
      else let dataPtr = head c;
               c = c\<lparr>head := head c + dataSize c\<rparr>;
               c = (if head c = bufEnd c then c\<lparr>head := 0\<rparr> else c)
           in (Some dataPtr, c))"

definition CirqBuff_PushRelease :: "CirqBufferType \<Rightarrow> CirqBufferType" where
  "CirqBuff_PushRelease c = c\<lparr>currCnt := currCnt c + 1\<rparr>"

definition CirqBuff_PopLock :: "CirqBufferType \<Rightarrow> nat option \<times> CirqBufferType" where
  "CirqBuff_PopLock c =
     (if currCnt c = 0 then (None, c)
      else let dataPtr = tail c;
               c = c\<lparr>tail := tail c + dataSize c\<rparr>;
               c = (if tail c = bufEnd c then c\<lparr>tail := 0\<rparr> else c)
           in (Some dataPtr, c\<lparr>currCnt := currCnt c - 1\<rparr>))"

definition CirqBuff_PopRelease :: "CirqBufferType \<Rightarrow> CirqBufferType" where
  "CirqBuff_PopRelease c = c\<lparr>currCnt := currCnt c - 1\<rparr>"

definition CirqBuff_Empty :: "CirqBufferType \<Rightarrow> bool" where
  "CirqBuff_Empty c = (currCnt c = 0)"

section \<open>The fifo of the run-time environment\<close>

abbreviation RTE_E_OK :: u8 where "RTE_E_OK \<equiv> 0"
abbreviation RTE_E_LIMIT :: u8 where "RTE_E_LIMIT \<equiv> 130"
abbreviation RTE_E_NO_DATA :: u8 where "RTE_E_NO_DATA \<equiv> 131"
abbreviation RTE_E_LOST_DATA :: u8 where "RTE_E_LOST_DATA \<equiv> 64"

record RteFifoType =
  fmaxCnt :: u8
  fcurrCnt :: u8
  bufFullFlag :: bool
  fdataSize :: nat
  fhead :: nat
  ftail :: nat
  fbufEnd :: nat
  fmem :: "u8 list"


definition Rte_Fifo_Init :: "RteFifoType \<Rightarrow> u8 list \<Rightarrow> nat \<Rightarrow> nat \<Rightarrow> RteFifoType" where
  "Rte_Fifo_Init f buffer cnt dsize =
     f\<lparr>fmem := buffer, fmaxCnt := word_of_nat cnt, fbufEnd := dsize * cnt, fhead := 0, ftail := 0,
       fdataSize := dsize, fcurrCnt := 0\<rparr>"

definition Rte_Fifo_Push :: "RteFifoType \<Rightarrow> u8 list \<Rightarrow> u8 \<times> RteFifoType" where
  "Rte_Fifo_Push f data =
     (if fcurrCnt f = fmaxCnt f then (RTE_E_LIMIT, f\<lparr>bufFullFlag := True\<rparr>)
      else let f = f\<lparr>fmem := mem_write (fhead f) data (fmem f)\<rparr>;
               f = f\<lparr>fhead := fhead f + fdataSize f\<rparr>;
               f = (if fhead f = fbufEnd f then f\<lparr>fhead := 0\<rparr> else f)
           in (RTE_E_OK, f\<lparr>fcurrCnt := fcurrCnt f + 1\<rparr>))"

definition Rte_Fifo_Pop :: "RteFifoType \<Rightarrow> u8 \<times> u8 list option \<times> RteFifoType" where
  "Rte_Fifo_Pop f =
     (if fcurrCnt f = 0 then (RTE_E_NO_DATA, None, f)
      else let data = mem_read (ftail f) (fdataSize f) (fmem f);
               f = f\<lparr>ftail := ftail f + fdataSize f\<rparr>;
               f = (if ftail f = fbufEnd f then f\<lparr>ftail := 0\<rparr> else f);
               f = f\<lparr>fcurrCnt := fcurrCnt f - 1\<rparr>
           in if bufFullFlag f then (RTE_E_LOST_DATA, Some data, f\<lparr>bufFullFlag := False\<rparr>)
              else (RTE_E_OK, Some data, f))"

definition Rte_Fifo_Is_Empty :: "RteFifoType \<Rightarrow> bool" where
  "Rte_Fifo_Is_Empty f = (fcurrCnt f = 0)"

section \<open>A ring of slots in a byte buffer\<close>

text \<open>The \<open>n\<close> elements of \<open>ds\<close> bytes from slot \<open>t\<close> on, in a buffer of \<open>m\<close> slots.\<close>

definition ring_elems :: "nat \<Rightarrow> nat \<Rightarrow> nat \<Rightarrow> nat \<Rightarrow> 'b list \<Rightarrow> 'b list list" where
  "ring_elems ds m t n bs = map (\<lambda>i. mem_read (ds * ((t + i) mod m)) ds bs) [0..<n]"

lemma length_ring_elems [simp]: "length (ring_elems ds m t n bs) = n"
  by (simp add: ring_elems_def)

lemma length_mem_write [simp]:
  "off + length x \<le> length bs \<Longrightarrow> length (mem_write off x bs) = length bs"
  by (simp add: mem_write_def)

lemma mem_read_written: "off \<le> length bs \<Longrightarrow> mem_read off (length x) (mem_write off x bs) = x"
  by (simp add: mem_read_def mem_write_def)

lemma mem_read_disjoint:
  assumes "off + length x \<le> length bs" and "i + n \<le> off \<or> off + length x \<le> i"
  shows "mem_read i n (mem_write off x bs) = mem_read i n bs"
proof (rule nth_equalityI)
  show "length (mem_read i n (mem_write off x bs)) = length (mem_read i n bs)"
    using assms(1) by (simp add: mem_read_def)
  fix k assume "k < length (mem_read i n (mem_write off x bs))"
  then have "k < n" "i + k < length bs" using assms(1) by (auto simp: mem_read_def)
  then show "mem_read i n (mem_write off x bs) ! k = mem_read i n bs ! k"
    using assms by (auto simp: mem_read_def mem_write_def nth_append)
qed

lemma slot_in_buffer: "s < m \<Longrightarrow> ds * s + ds \<le> ds * m" for ds m s :: nat
  by (metis Suc_leI mult_Suc_right add.commute mult_le_mono2)

lemma ring_push:
  assumes m: "n < m" and len: "length bs = ds * m" "length x = ds"
  shows "ring_elems ds m t (Suc n) (mem_write (ds * ((t + n) mod m)) x bs) = ring_elems ds m t n bs @ [x]"
proof -
  let ?s = "(t + n) mod m" and ?w = "mem_write (ds * ((t + n) mod m)) x bs"
  have s: "?s < m" using m by simp
  have "mem_read (ds * ((t + i) mod m)) ds ?w = mem_read (ds * ((t + i) mod m)) ds bs" if "i < n" for i
  proof (rule mem_read_disjoint)
    have "?s \<noteq> (t + i) mod m" using that m by (intro ring_slot_distinct) simp_all
    then show "ds * ((t + i) mod m) + ds \<le> ds * ?s \<or> ds * ?s + length x \<le> ds * ((t + i) mod m)"
      using len(2) slot_in_buffer [of "(t + i) mod m" ?s ds] slot_in_buffer [of ?s "(t + i) mod m" ds] by linarith
  qed (use len slot_in_buffer [OF s] in simp)
  moreover have "mem_read (ds * ?s) ds ?w = x"
    using mem_read_written [of "ds * ?s" bs x] len(2) slot_in_buffer [OF s, of ds, folded len(1)]
    by (metis add_leD1)
  ultimately show ?thesis by (simp add: ring_elems_def)
qed

lemma ring_pop:
  assumes "0 < n"
  shows "ring_elems ds m t n bs = mem_read (ds * (t mod m)) ds bs # ring_elems ds m (Suc t mod m) (n - 1) bs"
proof -
  have "[0..<n] = 0 # map Suc [0..<n - 1]" using assms by (simp add: map_Suc_upt upt_conv_Cons)
  moreover have "(Suc t mod m + i) mod m = (t + Suc i) mod m" for i by (simp add: mod_add_left_eq)
  ultimately show ?thesis by (simp add: ring_elems_def del: upt_Suc)
qed

text \<open>Stepping a pointer to the next slot, and back to the start at the end of the buffer.\<close>

lemma next_slot:
  assumes "s < m" and "0 < ds"
  shows "(if ds * s + ds = ds * m then 0 else ds * s + ds) = ds * (Suc s mod m)"
proof (cases "Suc s = m")
  case False
  then have "Suc s < m" using assms(1) by simp
  moreover have "ds * s + ds = ds * Suc s" by simp
  ultimately show ?thesis using assms(2) by (simp del: mult_Suc_right)
qed auto


section \<open>What a queue promises\<close>

datatype 'e queue_op = Put 'e | Get

text \<open>Running operations: the elements put with success, those got, and the queue left.\<close>

fun queue_run :: "('e \<Rightarrow> 'q \<Rightarrow> bool \<times> 'q) \<Rightarrow> ('q \<Rightarrow> 'e option \<times> 'q) \<Rightarrow> 'e queue_op list \<Rightarrow> 'q \<Rightarrow>
    'e list \<times> 'e list \<times> 'q" where
  "queue_run put get [] q = ([], [], q)"
| "queue_run put get (Put e # ops) q =
     (let (done, q') = put e q; (ins, outs, q'') = queue_run put get ops q'
      in (if done then e # ins else ins, outs, q''))"
| "queue_run put get (Get # ops) q =
     (let (e, q') = get q; (ins, outs, q'') = queue_run put get ops q'
      in (ins, case e of None \<Rightarrow> outs | Some e \<Rightarrow> e # outs, q''))"

locale bounded_queue =
  fixes ok :: "nat \<Rightarrow> 'q \<Rightarrow> bool" and contents :: "'q \<Rightarrow> 'e list" and fits :: "'e \<Rightarrow> 'q \<Rightarrow> bool"
    and put :: "'e \<Rightarrow> 'q \<Rightarrow> bool \<times> 'q" and get :: "'q \<Rightarrow> 'e option \<times> 'q"
  assumes put_room: "ok cap q \<Longrightarrow> fits e q \<Longrightarrow> length (contents q) < cap \<Longrightarrow>
      \<exists>q'. put e q = (True, q') \<and> ok cap q' \<and> contents q' = contents q @ [e]"
    and put_full: "ok cap q \<Longrightarrow> fits e q \<Longrightarrow> length (contents q) = cap \<Longrightarrow>
      \<exists>q'. put e q = (False, q') \<and> ok cap q' \<and> contents q' = contents q"
    and get_some: "ok cap q \<Longrightarrow> contents q = e # es \<Longrightarrow>
      \<exists>q'. get q = (Some e, q') \<and> ok cap q' \<and> contents q' = es"
    and get_none: "ok cap q \<Longrightarrow> contents q = [] \<Longrightarrow>
      \<exists>q'. get q = (None, q') \<and> ok cap q' \<and> contents q' = []"
    and within: "ok cap q \<Longrightarrow> length (contents q) \<le> cap"
    and fits_put: "fits e' (snd (put e q)) = fits e' q"
    and fits_get: "fits e' (snd (get q)) = fits e' q"
begin

lemma put_cases:
  assumes "ok cap q" "fits e q"
  obtains (room) q' where "put e q = (True, q')" "ok cap q'" "contents q' = contents q @ [e]"
      "length (contents q) < cap"
    | (full) q' where "put e q = (False, q')" "ok cap q'" "contents q' = contents q"
      "length (contents q) = cap"
proof (cases "length (contents q) = cap")
  case True
  then show thesis using put_full [OF assms] full by blast
next
  case False
  then have "length (contents q) < cap" using within [OF assms(1)] by simp
  then show thesis using put_room [OF assms] room by blast
qed

lemma get_cases:
  assumes "ok cap q"
  obtains (some) e q' where "get q = (Some e, q')" "ok cap q'" "contents q = e # contents q'"
    | (none) q' where "get q = (None, q')" "ok cap q'" "contents q' = []" "contents q = []"
  using get_some [OF assms] get_none [OF assms] by (cases "contents q") blast+

text \<open>No element is lost, duplicated or reordered, and the capacity is never exceeded.\<close>

lemma fifo:
  assumes "ok cap q" and "\<forall>e. Put e \<in> set ops \<longrightarrow> fits e q"
    and "queue_run put get ops q = (ins, outs, q')"
  shows "ok cap q' \<and> contents q @ ins = outs @ contents q' \<and> length (contents q') \<le> cap"
  using assms
proof (induction ops arbitrary: q ins outs)
  case Nil
  then show ?case using within by auto
next
  case (Cons op ops)
  show ?case
  proof (cases op)
    case (Put e)
    obtain b q1 ins1 where put: "put e q = (b, q1)" and run: "queue_run put get ops q1 = (ins1, outs, q')"
      and ins: "ins = (if b then e # ins1 else ins1)"
      using Cons.prems(3) Put by (auto split: prod.splits)
    have "\<forall>e. Put e \<in> set ops \<longrightarrow> fits e q1"
      using Cons.prems(2) fits_put [of _ e q] put by auto
    moreover have "ok cap q1 \<and> contents q1 = contents q @ (if b then [e] else [])"
      using put_cases [OF Cons.prems(1), of e] Cons.prems(2) Put put by fastforce
    ultimately show ?thesis using Cons.IH [OF _ _ run] ins by auto
  next
    case Get
    obtain r q1 outs1 where get: "get q = (r, q1)" and run: "queue_run put get ops q1 = (ins, outs1, q')"
      and outs: "outs = (case r of None \<Rightarrow> outs1 | Some e \<Rightarrow> e # outs1)"
      using Cons.prems(3) Get by (auto split: prod.splits)
    have "\<forall>e. Put e \<in> set ops \<longrightarrow> fits e q1"
      using Cons.prems(2) fits_get [of _ q] get by auto
    moreover have "ok cap q1 \<and> contents q = (case r of None \<Rightarrow> [] | Some e \<Rightarrow> [e]) @ contents q1"
      using get_cases [OF Cons.prems(1)] get by fastforce
    ultimately show ?thesis using Cons.IH [OF _ _ run] outs by (auto split: option.splits)
  qed
qed

end

section \<open>Both queues keep the promise\<close>

text \<open>A buffer of \<open>m\<close> slots in use: \<open>n\<close> elements from the tail on, and the head behind them.\<close>

definition ring_ok :: "nat \<Rightarrow> nat \<Rightarrow> nat \<Rightarrow> nat \<Rightarrow> nat \<Rightarrow> nat \<Rightarrow> 'b list \<Rightarrow> bool" where
  "ring_ok m n ds hp tp en bs \<longleftrightarrow> 0 < m \<and> n \<le> m \<and> 0 < ds \<and> en = ds * m \<and> length bs = ds * m
     \<and> (\<exists>t<m. tp = ds * t \<and> hp = ds * ((t + n) mod m))"

lemma ring_ok_push:
  assumes "ring_ok m n ds hp tp en bs" and "n < m" and "length x = ds"
  shows "ring_ok m (Suc n) ds (if hp + ds = en then 0 else hp + ds) tp en (mem_write hp x bs)"
    and "ring_elems ds m (tp div ds) (Suc n) (mem_write hp x bs) = ring_elems ds m (tp div ds) n bs @ [x]"
proof -
  obtain t where t: "t < m" "tp = ds * t" "hp = ds * ((t + n) mod m)" and ds: "0 < ds"
    and en: "en = ds * m" and bs: "length bs = ds * m" using assms(1) by (auto simp: ring_ok_def)
  have s: "(t + n) mod m < m" using assms(2) by simp
  have "(if hp + ds = en then 0 else hp + ds) = ds * ((t + Suc n) mod m)"
    using next_slot [OF s ds] by (simp only: t(3) en mod_Suc_eq add_Suc_right)
  moreover have "length (mem_write hp x bs) = ds * m"
    using slot_in_buffer [OF s, of ds] bs assms(3) by (simp add: t(3))
  ultimately show "ring_ok m (Suc n) ds (if hp + ds = en then 0 else hp + ds) tp en (mem_write hp x bs)"
    using assms(2) t ds en unfolding ring_ok_def by (intro conjI exI [of _ t]) auto
  show "ring_elems ds m (tp div ds) (Suc n) (mem_write hp x bs) = ring_elems ds m (tp div ds) n bs @ [x]"
    using ring_push [OF assms(2) bs assms(3)] ds by (simp add: t)
qed

lemma ring_ok_pop:
  assumes "ring_ok m n ds hp tp en bs" and "0 < n" and "tp' = (if tp + ds = en then 0 else tp + ds)"
  shows "ring_ok m (n - 1) ds hp tp' en bs"
    and "ring_elems ds m (tp div ds) n bs = mem_read tp ds bs # ring_elems ds m (tp' div ds) (n - 1) bs"
proof -
  obtain t where t: "t < m" "tp = ds * t" "hp = ds * ((t + n) mod m)" and ds: "0 < ds"
    and en: "en = ds * m" and bs: "length bs = ds * m" using assms(1) by (auto simp: ring_ok_def)
  have tp': "tp' = ds * (Suc t mod m)"
    using next_slot [OF t(1) ds] by (simp only: assms(3) t(2) en)
  have "(Suc t mod m + (n - 1)) mod m = (t + n) mod m"
    using assms(2) mod_add_left_eq [of "Suc t" m "n - 1"] by simp
  then show "ring_ok m (n - 1) ds hp tp' en bs"
    using assms(1) t ds unfolding ring_ok_def by (intro conjI exI [of _ "Suc t mod m"]) (auto simp: tp')
  show "ring_elems ds m (tp div ds) n bs = mem_read tp ds bs # ring_elems ds m (tp' div ds) (n - 1) bs"
    using ring_pop [OF assms(2), of ds m t bs] ds t by (simp add: tp')
qed

definition cirq_ok :: "nat \<Rightarrow> CirqBufferType \<Rightarrow> bool" where
  "cirq_ok cap c \<longleftrightarrow> maxCnt c = int cap \<and> 0 \<le> currCnt c
     \<and> ring_ok cap (nat (currCnt c)) (dataSize c) (head c) (tail c) (bufEnd c) (mem c)"

definition cirq_contents :: "CirqBufferType \<Rightarrow> u8 list list" where
  "cirq_contents c = ring_elems (dataSize c) (nat (maxCnt c)) (tail c div dataSize c) (nat (currCnt c)) (mem c)"

definition cirq_put :: "u8 list \<Rightarrow> CirqBufferType \<Rightarrow> bool \<times> CirqBufferType" where
  "cirq_put e c = (let (rv, c') = CirqBuffPush c e in (rv = 0, c'))"

definition cirq_get :: "CirqBufferType \<Rightarrow> u8 list option \<times> CirqBufferType" where
  "cirq_get c = (let (rv, data, c') = CirqBuffPop c in (data, c'))"

lemma CirqBuffPush_room:
  assumes "cirq_ok cap c" and "length e = dataSize c" and "length (cirq_contents c) < cap"
  shows "\<exists>c'. CirqBuffPush c e = (0, c') \<and> cirq_ok cap c' \<and> cirq_contents c' = cirq_contents c @ [e]"
proof -
  from assms(1) have cap: "maxCnt c = int cap" and n: "0 \<le> currCnt c"
    and ring: "ring_ok cap (nat (currCnt c)) (dataSize c) (head c) (tail c) (bufEnd c) (mem c)"
    by (simp_all add: cirq_ok_def)
  have lt: "nat (currCnt c) < cap" using assms(3) by (simp add: cirq_contents_def)
  let ?c' = "c\<lparr>mem := mem_write (head c) e (mem c),
    head := if head c + dataSize c = bufEnd c then 0 else head c + dataSize c, currCnt := currCnt c + 1\<rparr>"
  have "CirqBuffPush c e = (0, ?c')"
    using lt n cap by (cases c) (auto simp: CirqBuffPush_def Let_def)
  moreover have "nat (currCnt c + 1) = Suc (nat (currCnt c))" using n by simp
  ultimately show ?thesis
    using ring_ok_push [OF ring lt assms(2)] cap n
    by (intro exI [of _ ?c']) (simp add: cirq_ok_def cirq_contents_def)
qed

lemma CirqBuffPop_some:
  assumes "cirq_ok cap c" and "cirq_contents c = e # es"
  shows "\<exists>c'. CirqBuffPop c = (0, Some e, c') \<and> cirq_ok cap c' \<and> cirq_contents c' = es"
proof -
  from assms(1) have cap: "maxCnt c = int cap"
    and ring: "ring_ok cap (nat (currCnt c)) (dataSize c) (head c) (tail c) (bufEnd c) (mem c)"
    by (simp_all add: cirq_ok_def)
  have pos: "0 < nat (currCnt c)" using arg_cong [OF assms(2), of length] by (simp add: cirq_contents_def)
  let ?tp = "if tail c + dataSize c = bufEnd c then 0 else tail c + dataSize c"
  let ?c' = "c\<lparr>tail := ?tp, currCnt := currCnt c - 1\<rparr>"
  have "CirqBuffPop c = (0, Some (mem_read (tail c) (dataSize c) (mem c)), ?c')"
    using pos by (cases c) (auto simp: CirqBuffPop_def Let_def)
  moreover have "nat (currCnt c - 1) = nat (currCnt c) - 1" by simp
  ultimately show ?thesis
    using ring_ok_pop [OF ring pos refl] cap pos assms(2)
    by (intro exI [of _ ?c']) (simp add: cirq_ok_def cirq_contents_def)
qed

interpretation cirq: bounded_queue cirq_ok cirq_contents "\<lambda>e c. length e = dataSize c" cirq_put cirq_get
proof
  fix cap c and e :: "u8 list" and es
  assume ok: "cirq_ok cap c"
  show "\<exists>c'. cirq_put e c = (True, c') \<and> cirq_ok cap c' \<and> cirq_contents c' = cirq_contents c @ [e]"
    if "length e = dataSize c" "length (cirq_contents c) < cap"
    using CirqBuffPush_room [OF ok that] by (auto simp: cirq_put_def)
  show "\<exists>c'. cirq_put e c = (False, c') \<and> cirq_ok cap c' \<and> cirq_contents c' = cirq_contents c"
    if "length (cirq_contents c) = cap"
    using ok that by (auto simp: cirq_put_def CirqBuffPush_def cirq_contents_def cirq_ok_def)
  show "\<exists>c'. cirq_get c = (Some e, c') \<and> cirq_ok cap c' \<and> cirq_contents c' = es"
    if "cirq_contents c = e # es"
    using CirqBuffPop_some [OF ok that] by (auto simp: cirq_get_def)
  show "\<exists>c'. cirq_get c = (None, c') \<and> cirq_ok cap c' \<and> cirq_contents c' = []"
    if "cirq_contents c = []"
  proof -
    have "currCnt c = 0" using ok arg_cong [OF that, of length] by (simp add: cirq_contents_def cirq_ok_def)
    then show ?thesis using ok that by (simp add: cirq_get_def CirqBuffPop_def)
  qed
  show "length (cirq_contents c) \<le> cap"
    using ok by (auto simp: cirq_contents_def cirq_ok_def ring_ok_def)
next
  show "(length e' = dataSize (snd (cirq_put e c))) = (length e' = dataSize c)" for e' e :: "u8 list" and c
    by (auto simp: cirq_put_def CirqBuffPush_def Let_def)
  show "(length e' = dataSize (snd (cirq_get c))) = (length e' = dataSize c)" for e' :: "u8 list" and c
    by (auto simp: cirq_get_def CirqBuffPop_def Let_def)
qed

text \<open>C21: the circular buffer is a bounded queue: whatever operations follow its creation, the
  elements taken out are the elements put in with success, in the same order and bytewise
  unchanged, the others are those still inside, and their number is the counter and never
  exceeds the capacity.\<close>

theorem CirqBuff_is_fifo:
  assumes "0 < cnt" and "0 < dsize" and "length buffer = dsize * cnt"
    and "\<forall>e. Put e \<in> set ops \<longrightarrow> length e = dsize"
    and "queue_run cirq_put cirq_get ops (CirqBuffStatCreate buffer cnt dsize) = (ins, outs, c)"
  shows "\<exists>inside. ins = outs @ inside \<and> length inside \<le> cnt \<and> currCnt c = int (length inside)"
proof -
  let ?c = "CirqBuffStatCreate buffer cnt dsize"
  have "cirq_ok cnt ?c" using assms(1-3)
    by (auto simp: cirq_ok_def ring_ok_def CirqBuffStatCreate_def intro!: exI [of _ 0])
  moreover have "cirq_contents ?c = []"
    by (simp add: cirq_contents_def CirqBuffStatCreate_def ring_elems_def)
  ultimately have "cirq_ok cnt c \<and> ins = outs @ cirq_contents c \<and> length (cirq_contents c) \<le> cnt"
    using cirq.fifo [OF _ _ assms(5), of cnt] assms(4) by (simp add: CirqBuffStatCreate_def)
  then show ?thesis by (intro exI [of _ "cirq_contents c"]) (auto simp: cirq_ok_def cirq_contents_def)
qed

theorem CirqBuff_is_fifo_witness:
  "\<exists>ins outs c inside. queue_run cirq_put cirq_get [Put [1, 2], Put [3, 4], Put [5, 6], Get, Put [7, 8], Get]
     (CirqBuffStatCreate [0, 0, 0, 0] 2 2) = (ins, outs, c)
   \<and> ins = [[1, 2], [3, 4], [7, 8]] \<and> ins = outs @ inside \<and> currCnt c = int (length inside)"
proof -
  let ?ops = "[Put [1, 2], Put [3, 4], Put [5, 6], Get, Put [7, 8], Get]"
  obtain ins outs c where run: "queue_run cirq_put cirq_get ?ops (CirqBuffStatCreate [0, 0, 0, 0] 2 2) = (ins, outs, c)"
    by (metis prod_cases3)
  moreover from run have "ins = [[1, 2], [3, 4], [7, 8]]"
    by (simp add: cirq_put_def cirq_get_def CirqBuffPush_def CirqBuffPop_def CirqBuffStatCreate_def Let_def)
  ultimately show ?thesis
    using CirqBuff_is_fifo [of 2 2 "[0, 0, 0, 0]" ?ops ins outs c] by auto
qed

text \<open>The lock operations: \<open>PopLock\<close> counts the element out and \<open>PopRelease\<close> counts it out again.\<close>

lemma PopLock_PopRelease_counts_twice:
  "0 < currCnt c \<Longrightarrow> CirqBuff_PopLock c = (Some dataPtr, c') \<Longrightarrow>
     currCnt (CirqBuff_PopRelease c') = currCnt c - 2"
  by (auto simp: CirqBuff_PopLock_def CirqBuff_PopRelease_def Let_def)

section \<open>The fifo of the run-time environment\<close>

definition rte_ok :: "nat \<Rightarrow> RteFifoType \<Rightarrow> bool" where
  "rte_ok cap f \<longleftrightarrow> unat (fmaxCnt f) = cap
     \<and> ring_ok cap (unat (fcurrCnt f)) (fdataSize f) (fhead f) (ftail f) (fbufEnd f) (fmem f)"

definition rte_contents :: "RteFifoType \<Rightarrow> u8 list list" where
  "rte_contents f =
     ring_elems (fdataSize f) (unat (fmaxCnt f)) (ftail f div fdataSize f) (unat (fcurrCnt f)) (fmem f)"

lemma rte_full_iff: "fcurrCnt f = fmaxCnt f \<longleftrightarrow> length (rte_contents f) = cap" if "rte_ok cap f"
  using that by (auto simp: rte_contents_def rte_ok_def word_unat_eq_iff)

lemma rte_within: "rte_ok cap f \<Longrightarrow> length (rte_contents f) \<le> cap"
  by (auto simp: rte_contents_def rte_ok_def ring_ok_def)

lemma Rte_Fifo_Push_full:
  assumes "rte_ok cap f" and "length (rte_contents f) = cap"
  shows "\<exists>f'. Rte_Fifo_Push f e = (RTE_E_LIMIT, f') \<and> rte_ok cap f' \<and> rte_contents f' = rte_contents f
    \<and> bufFullFlag f' \<and> fdataSize f' = fdataSize f"
  using assms rte_full_iff [OF assms(1)] by (auto simp: Rte_Fifo_Push_def rte_ok_def rte_contents_def)

lemma Rte_Fifo_Push_room:
  assumes "rte_ok cap f" and "length e = fdataSize f" and "length (rte_contents f) < cap"
  shows "\<exists>f'. Rte_Fifo_Push f e = (RTE_E_OK, f') \<and> rte_ok cap f' \<and> rte_contents f' = rte_contents f @ [e]
    \<and> bufFullFlag f' = bufFullFlag f \<and> fdataSize f' = fdataSize f"
proof -
  from assms(1) have cap: "unat (fmaxCnt f) = cap"
    and ring: "ring_ok cap (unat (fcurrCnt f)) (fdataSize f) (fhead f) (ftail f) (fbufEnd f) (fmem f)"
    by (simp_all add: rte_ok_def)
  have lt: "unat (fcurrCnt f) < cap" using assms(3) by (simp add: rte_contents_def)
  let ?f' = "f\<lparr>fmem := mem_write (fhead f) e (fmem f),
    fhead := if fhead f + fdataSize f = fbufEnd f then 0 else fhead f + fdataSize f, fcurrCnt := fcurrCnt f + 1\<rparr>"
  have "Rte_Fifo_Push f e = (RTE_E_OK, ?f')"
    using lt cap by (cases f) (auto simp: Rte_Fifo_Push_def Let_def)
  moreover have "unat (fcurrCnt f + 1) = Suc (unat (fcurrCnt f))"
    using lt cap by (intro unat_Suc_below [of _ "fmaxCnt f"]) (simp add: word_less_nat_alt)
  ultimately show ?thesis
    using ring_ok_push [OF ring lt assms(2)] cap
    by (intro exI [of _ ?f']) (simp add: rte_ok_def rte_contents_def)
qed

lemma Rte_Fifo_Pop_none:
  assumes "rte_ok cap f" and "rte_contents f = []"
  shows "Rte_Fifo_Pop f = (RTE_E_NO_DATA, None, f)"
  using arg_cong [OF assms(2), of length] by (simp add: Rte_Fifo_Pop_def rte_contents_def unat_eq_0)

lemma Rte_Fifo_Pop_some:
  assumes "rte_ok cap f" and "rte_contents f = e # es"
  shows "\<exists>f'. Rte_Fifo_Pop f = (if bufFullFlag f then RTE_E_LOST_DATA else RTE_E_OK, Some e, f')
    \<and> rte_ok cap f' \<and> rte_contents f' = es \<and> \<not> bufFullFlag f' \<and> fdataSize f' = fdataSize f"
proof -
  from assms(1) have cap: "unat (fmaxCnt f) = cap"
    and ring: "ring_ok cap (unat (fcurrCnt f)) (fdataSize f) (fhead f) (ftail f) (fbufEnd f) (fmem f)"
    by (simp_all add: rte_ok_def)
  have pos: "0 < unat (fcurrCnt f)" using arg_cong [OF assms(2), of length] by (simp add: rte_contents_def)
  let ?tp = "if ftail f + fdataSize f = fbufEnd f then 0 else ftail f + fdataSize f"
  let ?f' = "f\<lparr>ftail := ?tp, fcurrCnt := fcurrCnt f - 1, bufFullFlag := False\<rparr>"
  have "Rte_Fifo_Pop f = (if bufFullFlag f then RTE_E_LOST_DATA else RTE_E_OK,
      Some (mem_read (ftail f) (fdataSize f) (fmem f)), ?f')"
    using pos by (cases f) (auto simp: Rte_Fifo_Pop_def Let_def)
  moreover have "unat (fcurrCnt f - 1) = unat (fcurrCnt f) - 1"
    using pos by (subst unat_sub) (simp_all add: word_le_nat_alt)
  ultimately show ?thesis
    using ring_ok_pop [OF ring pos refl] cap assms(2)
    by (intro exI [of _ ?f']) (simp add: rte_ok_def rte_contents_def)
qed

definition rte_put :: "u8 list \<Rightarrow> RteFifoType \<Rightarrow> bool \<times> RteFifoType" where
  "rte_put e f = (let (rv, f') = Rte_Fifo_Push f e in (rv = RTE_E_OK, f'))"

definition rte_get :: "RteFifoType \<Rightarrow> u8 list option \<times> RteFifoType" where
  "rte_get f = (let (rv, data, f') = Rte_Fifo_Pop f in (data, f'))"

interpretation rte: bounded_queue rte_ok rte_contents "\<lambda>e f. length e = fdataSize f" rte_put rte_get
proof
  fix cap f and e :: "u8 list" and es
  assume ok: "rte_ok cap f"
  show "\<exists>f'. rte_put e f = (True, f') \<and> rte_ok cap f' \<and> rte_contents f' = rte_contents f @ [e]"
    if "length e = fdataSize f" "length (rte_contents f) < cap"
    using Rte_Fifo_Push_room [OF ok that] by (auto simp: rte_put_def)
  show "\<exists>f'. rte_put e f = (False, f') \<and> rte_ok cap f' \<and> rte_contents f' = rte_contents f"
    if "length (rte_contents f) = cap"
    using Rte_Fifo_Push_full [OF ok that, of e] by (auto simp: rte_put_def)
  show "\<exists>f'. rte_get f = (Some e, f') \<and> rte_ok cap f' \<and> rte_contents f' = es"
    if "rte_contents f = e # es"
    using Rte_Fifo_Pop_some [OF ok that] by (auto simp: rte_get_def)
  show "\<exists>f'. rte_get f = (None, f') \<and> rte_ok cap f' \<and> rte_contents f' = []"
    if "rte_contents f = []"
    using Rte_Fifo_Pop_none [OF ok that] ok that by (auto simp: rte_get_def)
  show "length (rte_contents f) \<le> cap" using ok by (rule rte_within)
next
  show "(length e' = fdataSize (snd (rte_put e f))) = (length e' = fdataSize f)" for e' e :: "u8 list" and f
    by (auto simp: rte_put_def Rte_Fifo_Push_def Let_def)
  show "(length e' = fdataSize (snd (rte_get f))) = (length e' = fdataSize f)" for e' :: "u8 list" and f
    by (auto simp: rte_get_def Rte_Fifo_Pop_def Let_def)
qed

text \<open>What the fifo specifies: a list of at most \<open>cap\<close> elements, and whether one was refused since
  an element was last taken out.\<close>

fun fifo_spec :: "nat \<Rightarrow> u8 list queue_op list \<Rightarrow> u8 list list \<times> bool \<Rightarrow> (u8 \<times> u8 list option) list" where
  "fifo_spec cap [] (es, lost) = []"
| "fifo_spec cap (Put e # ops) (es, lost) =
     (if length es = cap then (RTE_E_LIMIT, None) # fifo_spec cap ops (es, True)
      else (RTE_E_OK, None) # fifo_spec cap ops (es @ [e], lost))"
| "fifo_spec cap (Get # ops) ([], lost) = (RTE_E_NO_DATA, None) # fifo_spec cap ops ([], lost)"
| "fifo_spec cap (Get # ops) (e # es, lost) =
     (if lost then RTE_E_LOST_DATA else RTE_E_OK, Some e) # fifo_spec cap ops (es, False)"

text \<open>The answers of the code to the same operations.\<close>

fun rte_run :: "u8 list queue_op list \<Rightarrow> RteFifoType \<Rightarrow> (u8 \<times> u8 list option) list" where
  "rte_run [] f = []"
| "rte_run (Put e # ops) f = (let (rv, f') = Rte_Fifo_Push f e in (rv, None) # rte_run ops f')"
| "rte_run (Get # ops) f = (let (rv, data, f') = Rte_Fifo_Pop f in (rv, data) # rte_run ops f')"

lemma rte_run_spec:
  assumes "rte_ok cap f" and "\<forall>e. Put e \<in> set ops \<longrightarrow> length e = fdataSize f"
  shows "rte_run ops f = fifo_spec cap ops (rte_contents f, bufFullFlag f)"
  using assms
proof (induction ops arbitrary: f)
  case (Cons op ops)
  show ?case
  proof (cases op)
    case (Put e)
    have len: "length e = fdataSize f" using Cons.prems(2) Put by simp
    show ?thesis
    proof (cases "length (rte_contents f) = cap")
      case True
      from Rte_Fifo_Push_full [OF Cons.prems(1) True, of e] Cons.IH Cons.prems(2) Put True
      show ?thesis by fastforce
    next
      case False
      then have "length (rte_contents f) < cap" using rte_within [OF Cons.prems(1)] by simp
      from Rte_Fifo_Push_room [OF Cons.prems(1) len this] Cons.IH Cons.prems(2) Put False
      show ?thesis by fastforce
    qed
  next
    case Get
    show ?thesis
    proof (cases "rte_contents f")
      case Nil
      from Rte_Fifo_Pop_none [OF Cons.prems(1) Nil] Cons.IH [OF Cons.prems(1)] Cons.prems(2) Get Nil
      show ?thesis by simp
    next
      case (Cons e es)
      from Rte_Fifo_Pop_some [OF Cons.prems(1) this] Cons.IH Cons.prems(2) Get this
      show ?thesis by fastforce
    qed
  qed
qed simp

text \<open>C22: the fifo of the run-time environment implements its specification: initialised with
  room for at most 255 elements it answers every sequence of pushes and pops as the abstract
  queue does, so elements come out in order, a push is refused exactly when the queue is full,
  and a pop reports lost data exactly when a push was refused since the last successful one.
  The overflow flag is the one found in memory: initialisation does not clear it.\<close>

theorem Rte_Fifo_refines_queue:
  assumes "0 < cnt" and "cnt < 256" and "0 < dsize" and "length buffer = dsize * cnt"
    and "\<forall>e. Put e \<in> set ops \<longrightarrow> length e = dsize"
  shows "rte_run ops (Rte_Fifo_Init f buffer cnt dsize) = fifo_spec cnt ops ([], bufFullFlag f)"
proof -
  let ?f = "Rte_Fifo_Init f buffer cnt dsize"
  have "unat (word_of_nat cnt :: u8) = cnt" using assms(2) by (simp add: unsigned_of_nat take_bit_eq_mod)
  then have "rte_ok cnt ?f" using assms(1,3,4)
    by (auto simp: rte_ok_def ring_ok_def Rte_Fifo_Init_def intro!: exI [of _ 0])
  moreover have "rte_contents ?f = []" "bufFullFlag ?f = bufFullFlag f" "fdataSize ?f = dsize"
    by (simp_all add: rte_contents_def Rte_Fifo_Init_def ring_elems_def)
  ultimately show ?thesis using rte_run_spec [of cnt ?f ops] assms(5) by simp
qed

theorem Rte_Fifo_refines_queue_witness:
  "rte_run [Put [1], Put [2], Put [3], Get, Get, Get]
     (Rte_Fifo_Init \<lparr>fmaxCnt = 0, fcurrCnt = 0, bufFullFlag = False, fdataSize = 0, fhead = 0, ftail = 0,
        fbufEnd = 0, fmem = []\<rparr> [0, 0] 2 1)
   = [(RTE_E_OK, None), (RTE_E_OK, None), (RTE_E_LIMIT, None), (RTE_E_LOST_DATA, Some [1]),
      (RTE_E_OK, Some [2]), (RTE_E_NO_DATA, None)]"
  by (subst Rte_Fifo_refines_queue) auto

end
