(* ===== verification/WdgM.thy ===== *)
theory WdgM
  imports Pwc_Prelude
begin

text \<open>
  The watchdog manager (\<open>core/system/WdgM/WdgM.c\<close>) with its configuration types
  (\<open>WdgM_ConfigTypes.h\<close>) and runtime data (\<open>WdgM_internalTypes.h\<close>).  Supervised entities report
  checkpoints; alive, deadline and logical supervision judge them, and the main function turns
  the verdicts into a local state per entity and a global state that decides whether the
  watchdogs are triggered.

  A configuration array with its length is a list.  The instance holds the configuration, the
  runtime data and what goes out of the module: the reports to the error tracer and the calls of
  the watchdog interface, latest last.  The build modelled has the error tracer on and the
  diagnostic event manager, the mode manager's callbacks and the immediate reset off; the two
  switches \<open>WDGM_OFF_MODE_ENABLED\<close> and \<open>WDGM_DEFENSIVE_BEHAVIOR\<close> are members of the configuration.
  The watchdog driver's answer to a change of mode is the function \<open>wdg_answer\<close>.  An access behind
  the end of the entity table and a failed assertion are \<open>None\<close>.
\<close>

section \<open>Configuration\<close>

abbreviation WDGM_LOCAL_STATUS_OK :: u8 where "WDGM_LOCAL_STATUS_OK \<equiv> 0x00"
abbreviation WDGM_LOCAL_STATUS_FAILED :: u8 where "WDGM_LOCAL_STATUS_FAILED \<equiv> 0x01"
abbreviation WDGM_LOCAL_STATUS_EXPIRED :: u8 where "WDGM_LOCAL_STATUS_EXPIRED \<equiv> 0x02"
abbreviation WDGM_LOCAL_STATUS_DEACTIVATED :: u8 where "WDGM_LOCAL_STATUS_DEACTIVATED \<equiv> 0x04"
abbreviation WDGM_GLOBAL_STATUS_OK :: u8 where "WDGM_GLOBAL_STATUS_OK \<equiv> 0x00"
abbreviation WDGM_GLOBAL_STATUS_FAILED :: u8 where "WDGM_GLOBAL_STATUS_FAILED \<equiv> 0x01"
abbreviation WDGM_GLOBAL_STATUS_EXPIRED :: u8 where "WDGM_GLOBAL_STATUS_EXPIRED \<equiv> 0x02"
abbreviation WDGM_GLOBAL_STATUS_STOPPED :: u8 where "WDGM_GLOBAL_STATUS_STOPPED \<equiv> 0x03"
abbreviation WDGM_GLOBAL_STATUS_DEACTIVATED :: u8 where "WDGM_GLOBAL_STATUS_DEACTIVATED \<equiv> 0x04"
abbreviation WDGM_SUBSTATE_INCORRECT :: u8 where "WDGM_SUBSTATE_INCORRECT \<equiv> 0x00"
abbreviation WDGM_SUBSTATE_CORRECT :: u8 where "WDGM_SUBSTATE_CORRECT \<equiv> 0x01"

datatype WdgIf_ModeType = WDGIF_OFF_MODE | WDGIF_SLOW_MODE | WDGIF_FAST_MODE

record WdgM_Trigger =
  TriggerConditionValue :: u16
  WatchdogMode :: WdgIf_ModeType
  trigger_WatchdogId :: u8

record WdgM_AliveSupervision =
  CheckpointId :: u16
  ExpectedAliveIndications :: u16
  MinMargin :: u8
  MaxMargin :: u8
  SupervisionReferenceCycle :: u16

record WdgM_DeadlineSupervision =
  CheckpointIdStart :: u16
  CheckpointIdFinish :: u16
  DeadlineMin :: u32
  DeadlineMax :: u32

record WdgM_InternalTransition =
  CheckpointIdSource :: u16
  CheckpointIdDestination :: u16

record WdgM_SupervisedEntity =
  CheckpointIds :: "u16 list"
  Transitions :: "WdgM_InternalTransition list"
  StartCheckpointIds :: "u16 list"
  FinalCheckpointIds :: "u16 list"

record WdgM_SupervisedEntityConfiguration =
  SupervisedEntityId :: u16
  CheckInternalLogic :: bool
  AliveSupervisions :: "WdgM_AliveSupervision list"
  DeadlineSupervisions :: "WdgM_DeadlineSupervision list"
  FailedAliveSupervisionReferenceCycleTol :: u8

record WdgM_Mode =
  mode_Id :: u8
  ExpiredSupervisionCycleTol :: u16
  SupervisionCycle :: u32
  SEConfigurations :: "WdgM_SupervisedEntityConfiguration list"
  Triggers :: "WdgM_Trigger list"

record WdgM_Watchdog =
  WatchdogDeviceId :: u8

record WdgM_ConfigType =
  allowedCallerIds :: "u16 list"
  SupervisedEntities :: "WdgM_SupervisedEntity list"
  Watchdogs :: "WdgM_Watchdog list"
  initialModeId :: u8
  Modes :: "WdgM_Mode list"
  OFF_MODE_ENABLED :: bool
  DEFENSIVE_BEHAVIOR :: bool
  wdg_answer :: "u8 \<Rightarrow> WdgIf_ModeType \<Rightarrow> Std_ReturnType"

section \<open>Runtime data\<close>

record WdgM_internal_AliveSupervision =
  AliveCounter :: u32
  SupervisionCycleCounter :: u16
  wasEvaluated :: bool

record WdgM_internal_DeadlineSupervision =
  TimestampStart :: u32

record WdgM_internal_SupervisedEntity =
  LocalState :: u8
  SubstateAlive :: u8
  SubstateDeadline :: u8
  SubstateLogical :: u8
  IsInternalGraphActive :: bool
  PreviousCheckpointId_Deadline :: u16
  PreviousCheckpointId_internalLogic :: u16
  FailedAliveCyclesCounter :: u8

record WdgM_internal_SupervisedEntityConfig =
  rtAlive :: "WdgM_internal_AliveSupervision list"
  rtDeadline :: "WdgM_internal_DeadlineSupervision list"

record WdgM_internal_Mode =
  SE_Configs :: "WdgM_internal_SupervisedEntityConfig list"
  ExpiredSupervisionCycleCounter :: u16

text \<open>Calls of the watchdog interface.\<close>

datatype wdgif_call = WdgIf_SetMode u8 WdgIf_ModeType | WdgIf_SetTriggerCondition u8 u16

record WdgM_instance =
  ConfigPtr :: WdgM_ConfigType
  SEs :: "WdgM_internal_SupervisedEntity list"
  rtModes :: "WdgM_internal_Mode list"
  isInitiated :: bool
  GlobalState :: u8
  CurrentTime :: u32
  CurrentModePtr :: "WdgM_Mode option"
  ResetInitiated :: bool
  firstExpiredSEID :: u16
  isFirstExpiredSet :: bool
  det_reports :: "(u8 \<times> u8) list"
  wdgif_calls :: "wdgif_call list"

abbreviation WDGM_SID_INIT :: u8 where "WDGM_SID_INIT \<equiv> 0x00"
abbreviation WDGM_SID_DEINIT :: u8 where "WDGM_SID_DEINIT \<equiv> 0x01"
abbreviation WDGM_SID_SETMODE :: u8 where "WDGM_SID_SETMODE \<equiv> 0x03"
abbreviation WDGM_SID_GETMODE :: u8 where "WDGM_SID_GETMODE \<equiv> 0x0B"
abbreviation WDGM_SID_CHECKPOINTREACHED :: u8 where "WDGM_SID_CHECKPOINTREACHED \<equiv> 0x0E"
abbreviation WDGM_SID_UPDATEALIVECOUNTER :: u8 where "WDGM_SID_UPDATEALIVECOUNTER \<equiv> 0x04"
abbreviation WDGM_SID_GETLOCALSTATUS :: u8 where "WDGM_SID_GETLOCALSTATUS \<equiv> 0x0C"
abbreviation WDGM_SID_GETGLOBALSTATUS :: u8 where "WDGM_SID_GETGLOBALSTATUS \<equiv> 0x0D"
abbreviation WDGM_SID_PERFORMRESET :: u8 where "WDGM_SID_PERFORMRESET \<equiv> 0x0F"
abbreviation WDGM_SID_GETFIRSTEXPIREDSEID :: u8 where "WDGM_SID_GETFIRSTEXPIREDSEID \<equiv> 0x10"
abbreviation WDGM_SID_MAINFUNCTION :: u8 where "WDGM_SID_MAINFUNCTION \<equiv> 0x08"
abbreviation WDGM_E_NO_INIT :: u8 where "WDGM_E_NO_INIT \<equiv> 0x10"
abbreviation WDGM_E_PARAM_MODE :: u8 where "WDGM_E_PARAM_MODE \<equiv> 0x12"
abbreviation WDGM_E_PARAM_SEID :: u8 where "WDGM_E_PARAM_SEID \<equiv> 0x13"
abbreviation WDGM_E_INV_POINTER :: u8 where "WDGM_E_INV_POINTER \<equiv> 0x14"
abbreviation WDGM_E_DISABLE_NOT_ALLOWED :: u8 where "WDGM_E_DISABLE_NOT_ALLOWED \<equiv> 0x15"
abbreviation WDGM_E_CPID :: u8 where "WDGM_E_CPID \<equiv> 0x16"
abbreviation WDGM_E_DEPRECATED :: u8 where "WDGM_E_DEPRECATED \<equiv> 0x17"
abbreviation WDGM_E_AMBIGIOUS :: u8 where "WDGM_E_AMBIGIOUS \<equiv> 0x18"
abbreviation WDGM_E_SEDEACTIVATED :: u8 where "WDGM_E_SEDEACTIVATED \<equiv> 0x19"

text \<open>The mode \<open>CurrentMode\<close> points to; the pointer is NULL (\<open>None\<close>) until the first initialisation
  has selected a mode.\<close>

abbreviation CurrentMode :: "WdgM_instance \<Rightarrow> WdgM_Mode" where "CurrentMode s \<equiv> the (CurrentModePtr s)"

definition wdgm_det :: "u8 \<Rightarrow> u8 \<Rightarrow> WdgM_instance \<Rightarrow> WdgM_instance" where
  "wdgm_det fid err s = s\<lparr>det_reports := det_reports s @ [(fid, err)]\<rparr>"

definition wdgif_do :: "wdgif_call \<Rightarrow> WdgM_instance \<Rightarrow> WdgM_instance" where
  "wdgif_do c s = s\<lparr>wdgif_calls := wdgif_calls s @ [c]\<rparr>"

definition upd_se :: "nat \<Rightarrow> (WdgM_internal_SupervisedEntity \<Rightarrow> WdgM_internal_SupervisedEntity) \<Rightarrow>
    WdgM_instance \<Rightarrow> WdgM_instance" where
  "upd_se i f s = s\<lparr>SEs := (SEs s)[i := f (SEs s ! i)]\<rparr>"

text \<open>The runtime data of entry \<open>i\<close> of the current mode.\<close>

abbreviation mode_index :: "WdgM_instance \<Rightarrow> nat" where "mode_index s \<equiv> unat (mode_Id (CurrentMode s))"

abbreviation rt_conf :: "nat \<Rightarrow> WdgM_instance \<Rightarrow> WdgM_internal_SupervisedEntityConfig" where
  "rt_conf i s \<equiv> SE_Configs (rtModes s ! mode_index s) ! i"

definition upd_conf :: "nat \<Rightarrow> (WdgM_internal_SupervisedEntityConfig \<Rightarrow> WdgM_internal_SupervisedEntityConfig) \<Rightarrow>
    WdgM_instance \<Rightarrow> WdgM_instance" where
  "upd_conf i f s =
     (let m = mode_index s; md = rtModes s ! m in
      s\<lparr>rtModes := (rtModes s)[m := md\<lparr>SE_Configs := (SE_Configs md)[i := f (SE_Configs md ! i)]\<rparr>]\<rparr>)"

section \<open>Entities and modes\<close>

definition WdgM_internal_DeactivateAndResetSE :: "nat \<Rightarrow> WdgM_instance \<Rightarrow> WdgM_instance" where
  "WdgM_internal_DeactivateAndResetSE SEIndex =
     upd_se SEIndex (\<lambda>e. e\<lparr>LocalState := WDGM_LOCAL_STATUS_DEACTIVATED,
       IsInternalGraphActive := False, PreviousCheckpointId_internalLogic := 0,
       PreviousCheckpointId_Deadline := 0, FailedAliveCyclesCounter := 0,
       SubstateAlive := WDGM_SUBSTATE_CORRECT, SubstateDeadline := WDGM_SUBSTATE_CORRECT,
       SubstateLogical := WDGM_SUBSTATE_CORRECT\<rparr>)"

text \<open>The counter is cleared inside the loop over the entity configurations.\<close>

definition WdgM_internal_ResetSEConfigsForMode :: "nat \<Rightarrow> WdgM_instance \<Rightarrow> WdgM_instance" where
  "WdgM_internal_ResetSEConfigsForMode m s =
     (let md = rtModes s ! m;
          reset = (\<lambda>c. c\<lparr>rtAlive := map (\<lambda>a. a\<lparr>AliveCounter := 0, SupervisionCycleCounter := 0\<rparr>) (rtAlive c),
                          rtDeadline := map (\<lambda>d. d\<lparr>TimestampStart := 0\<rparr>) (rtDeadline c)\<rparr>);
          md = (if SE_Configs md = [] then md
                else md\<lparr>ExpiredSupervisionCycleCounter := 0, SE_Configs := map reset (SE_Configs md)\<rparr>)
      in s\<lparr>rtModes := (rtModes s)[m := md]\<rparr>)"

definition WdgM_internal_isAtLeastOneWdogEnabled :: "nat \<Rightarrow> u8 \<Rightarrow> u8 \<Rightarrow> WdgM_instance \<Rightarrow> bool \<times> WdgM_instance" where
  "WdgM_internal_isAtLeastOneWdogEnabled mode fid err s =
     (let newMode = Modes (ConfigPtr s) ! mode in
      if list_ex (\<lambda>t. WatchdogMode t \<noteq> WDGIF_OFF_MODE) (Triggers newMode) then (True, s)
      else (False, wdgm_det fid err s))"

definition WdgM_internal_isAllowedForCalling :: "u16 \<Rightarrow> WdgM_instance \<Rightarrow> bool" where
  "WdgM_internal_isAllowedForCalling CallerID s = list_ex (\<lambda>c. c = CallerID) (allowedCallerIds (ConfigPtr s))"

section \<open>Watchdogs\<close>

definition trigger_device :: "WdgM_instance \<Rightarrow> WdgM_Trigger \<Rightarrow> u8" where
  "trigger_device s t = WatchdogDeviceId (Watchdogs (ConfigPtr s) ! unat (trigger_WatchdogId t))"

fun deactivate_triggers :: "WdgM_Trigger list \<Rightarrow> WdgM_instance \<Rightarrow> Std_ReturnType \<times> WdgM_instance" where
  "deactivate_triggers [] s = (E_OK, s)"
| "deactivate_triggers (t # ts) s =
     (let d = trigger_device s t; s1 = wdgif_do (WdgIf_SetMode d WDGIF_OFF_MODE) s in
      if wdg_answer (ConfigPtr s) d WDGIF_OFF_MODE \<noteq> E_OK
      then (E_NOT_OK, s1\<lparr>GlobalState := WDGM_GLOBAL_STATUS_STOPPED\<rparr>)
      else deactivate_triggers ts s1)"

definition WdgM_internal_deactivateCurrentTriggers :: "WdgM_instance \<Rightarrow> Std_ReturnType \<times> WdgM_instance" where
  "WdgM_internal_deactivateCurrentTriggers s = deactivate_triggers (Triggers (CurrentMode s)) s"

fun WdgM_internal_activateTriggers :: "WdgM_Trigger list \<Rightarrow> WdgM_instance \<Rightarrow> Std_ReturnType \<times> WdgM_instance" where
  "WdgM_internal_activateTriggers [] s = (E_OK, s)"
| "WdgM_internal_activateTriggers (t # ts) s =
     (let d = trigger_device s t;
          s1 = wdgif_do (WdgIf_SetMode d (WatchdogMode t)) s;
          potError = wdg_answer (ConfigPtr s) d (WatchdogMode t);
          s2 = (if potError = E_OK \<and> WatchdogMode t \<noteq> WDGIF_OFF_MODE
                then wdgif_do (WdgIf_SetTriggerCondition d (TriggerConditionValue t)) s1 else s1) in
      if potError \<noteq> E_OK then (E_NOT_OK, s2\<lparr>GlobalState := WDGM_GLOBAL_STATUS_STOPPED\<rparr>)
      else WdgM_internal_activateTriggers ts s2)"

section \<open>Alive supervision\<close>

text \<open>The arithmetic is on \<open>sint16\<close>, that is, modulo \<open>2 ^ 16\<close> and read with a sign.\<close>

definition WdgM_internal_SpecAliveAlgo ::
  "WdgM_AliveSupervision \<Rightarrow> WdgM_internal_AliveSupervision \<Rightarrow> u8 \<times> WdgM_internal_AliveSupervision" where
  "WdgM_internal_SpecAliveAlgo aliveCP rt =
     (let f = SupervisionReferenceCycle aliveCP - ExpectedAliveIndications aliveCP;
          temp = ucast (AliveCounter rt) - SupervisionCycleCounter rt + f;
          retVal = (if sint temp \<le> uint (MaxMargin aliveCP) \<and> sint temp \<ge> - uint (MinMargin aliveCP)
                    then WDGM_SUBSTATE_CORRECT else WDGM_SUBSTATE_INCORRECT)
      in (retVal, rt\<lparr>AliveCounter := 0, SupervisionCycleCounter := 0\<rparr>))"

definition WdgM_internal_IsAliveHold ::
  "WdgM_AliveSupervision \<Rightarrow> WdgM_internal_AliveSupervision \<Rightarrow> u8 \<times> WdgM_internal_AliveSupervision" where
  "WdgM_internal_IsAliveHold aliveCP rt0 =
     (let rt = rt0\<lparr>wasEvaluated := False\<rparr> in
      if SupervisionReferenceCycle aliveCP = 1 then
        (let (r, rt') = WdgM_internal_SpecAliveAlgo aliveCP rt in (r, rt'\<lparr>wasEvaluated := True\<rparr>))
      else if SupervisionCycleCounter rt = SupervisionReferenceCycle aliveCP then
        (let (r, rt') = WdgM_internal_SpecAliveAlgo aliveCP rt in (r, rt'\<lparr>wasEvaluated := True\<rparr>))
      else (WDGM_SUBSTATE_CORRECT, rt))"

text \<open>The loop over the alive supervisions of one entity: the runtime data, the verdict and
  whether any of them was evaluated.\<close>

fun check_alive_loop :: "WdgM_AliveSupervision list \<Rightarrow> WdgM_internal_AliveSupervision list \<Rightarrow> u8 \<Rightarrow> bool \<Rightarrow>
    WdgM_internal_AliveSupervision list \<times> u8 \<times> bool" where
  "check_alive_loop (cp # cps) (rt # rts) result writeResult =
     (let (tempRes, rt') = WdgM_internal_IsAliveHold cp (rt\<lparr>SupervisionCycleCounter := SupervisionCycleCounter rt + 1\<rparr>);
          writeResult = (if wasEvaluated rt' then True else writeResult);
          result = (if tempRes = WDGM_SUBSTATE_INCORRECT then tempRes else result);
          (rts', result, writeResult) = check_alive_loop cps rts result writeResult
      in (rt' # rts', result, writeResult))"
| "check_alive_loop _ rts result writeResult = (rts, result, writeResult)"

definition check_alive :: "nat \<Rightarrow> WdgM_instance \<Rightarrow> WdgM_instance" where
  "check_alive i s =
     (let seConf = SEConfigurations (CurrentMode s) ! i; e = unat (SupervisedEntityId seConf);
          (rts, result, writeResult) =
            check_alive_loop (AliveSupervisions seConf) (rtAlive (rt_conf i s)) WDGM_SUBSTATE_CORRECT False;
          s1 = upd_conf i (rtAlive_update (\<lambda>_. rts)) s
      in upd_se e (SubstateAlive_update (\<lambda>v. if writeResult then result else v)) s1)"

definition WdgM_internal_CheckAlives :: "WdgM_instance \<Rightarrow> WdgM_instance" where
  "WdgM_internal_CheckAlives s = fold check_alive [0..<length (SEConfigurations (CurrentMode s))] s"

definition WdgM_internal_AliveMonitoring ::
  "WdgM_AliveSupervision list \<Rightarrow> u16 \<Rightarrow> WdgM_internal_AliveSupervision list \<Rightarrow> WdgM_internal_AliveSupervision list" where
  "WdgM_internal_AliveMonitoring cps CPId rts =
     (case List.find (\<lambda>i. CheckpointId (cps ! i) = CPId) [0..<length cps] of
        None \<Rightarrow> rts
      | Some i \<Rightarrow> rts[i := (rts ! i)\<lparr>AliveCounter := AliveCounter (rts ! i) + 1\<rparr>])"

section \<open>Deadline supervision\<close>

definition WdgM_internalIsDeadlineHold :: "u32 \<Rightarrow> WdgM_DeadlineSupervision \<Rightarrow> WdgM_internal_DeadlineSupervision \<Rightarrow> u8" where
  "WdgM_internalIsDeadlineHold now cp rt =
     (if now \<ge> TimestampStart rt + DeadlineMin cp \<and> now \<le> TimestampStart rt + DeadlineMax cp
      then WDGM_SUBSTATE_CORRECT else WDGM_SUBSTATE_INCORRECT)"

text \<open>The loop over the deadline supervisions of one entity; the third component is the new
  previous checkpoint.\<close>

fun deadline_loop :: "u32 \<Rightarrow> u16 \<Rightarrow> WdgM_DeadlineSupervision list \<Rightarrow> WdgM_internal_DeadlineSupervision list \<Rightarrow>
    u16 \<Rightarrow> u8 \<times> WdgM_internal_DeadlineSupervision list \<times> u16" where
  "deadline_loop now CPId (cp # cps) (rt # rts) prev =
     (let (rt, prev) = (if CheckpointIdStart cp = CPId then (rt\<lparr>TimestampStart := now\<rparr>, CPId) else (rt, prev)) in
      if CheckpointIdFinish cp = CPId \<and> TimestampStart rt \<noteq> 0 then
        (if WdgM_internalIsDeadlineHold now cp rt = WDGM_SUBSTATE_INCORRECT
         then (WDGM_SUBSTATE_INCORRECT, rt # rts, prev)
         else let (r, rts', prev') = deadline_loop now CPId cps rts CPId
              in (r, rt\<lparr>TimestampStart := 0\<rparr> # rts', prev'))
      else let (r, rts', prev') = deadline_loop now CPId cps rts prev in (r, rt # rts', prev'))"
| "deadline_loop now CPId _ rts prev = (WDGM_SUBSTATE_CORRECT, rts, prev)"

section \<open>Logical supervision\<close>

definition WdgM_internal_LogicalMonitoring_GraphActive ::
  "WdgM_SupervisedEntity \<Rightarrow> u16 \<Rightarrow> WdgM_internal_SupervisedEntity \<Rightarrow> u8 \<times> WdgM_internal_SupervisedEntity" where
  "WdgM_internal_LogicalMonitoring_GraphActive se CPId e =
     (if list_ex (\<lambda>t. CheckpointIdSource t = PreviousCheckpointId_internalLogic e
                    \<and> CheckpointIdDestination t = CPId) (Transitions se)
      then (WDGM_SUBSTATE_CORRECT,
            e\<lparr>PreviousCheckpointId_internalLogic := CPId,
              IsInternalGraphActive :=
                (if list_ex (\<lambda>c. c = CPId) (FinalCheckpointIds se) then False else IsInternalGraphActive e)\<rparr>)
      else (WDGM_SUBSTATE_INCORRECT, e))"

definition WdgM_internal_LogicalMonitoring_GraphInactive ::
  "WdgM_SupervisedEntity \<Rightarrow> u16 \<Rightarrow> WdgM_internal_SupervisedEntity \<Rightarrow> u8 \<times> WdgM_internal_SupervisedEntity" where
  "WdgM_internal_LogicalMonitoring_GraphInactive se CPId e =
     (if list_ex (\<lambda>c. c = CPId) (StartCheckpointIds se)
      then (WDGM_SUBSTATE_CORRECT,
            e\<lparr>IsInternalGraphActive := True, PreviousCheckpointId_internalLogic := CPId\<rparr>)
      else (WDGM_SUBSTATE_INCORRECT, e))"

definition WdgM_internal_LogicalMonitoring ::
  "WdgM_SupervisedEntity \<Rightarrow> u16 \<Rightarrow> WdgM_internal_SupervisedEntity \<Rightarrow> u8 \<times> WdgM_internal_SupervisedEntity" where
  "WdgM_internal_LogicalMonitoring se CPId e =
     (if IsInternalGraphActive e then WdgM_internal_LogicalMonitoring_GraphActive se CPId e
      else WdgM_internal_LogicalMonitoring_GraphInactive se CPId e)"
section \<open>Local and global state\<close>

definition CalculateLocalState_FromFailedNoError :: "WdgM_internal_SupervisedEntity \<Rightarrow> WdgM_internal_SupervisedEntity" where
  "CalculateLocalState_FromFailedNoError e =
     (if FailedAliveCyclesCounter e > 1 then e\<lparr>FailedAliveCyclesCounter := FailedAliveCyclesCounter e - 1\<rparr>
      else e\<lparr>FailedAliveCyclesCounter := 0, LocalState := WDGM_LOCAL_STATUS_OK\<rparr>)"

text \<open>The first branch, which the two functions below share.\<close>

definition fail_once :: "u8 \<Rightarrow> WdgM_internal_AliveSupervision list \<Rightarrow> WdgM_internal_SupervisedEntity \<Rightarrow>
    WdgM_internal_SupervisedEntity" where
  "fail_once tol rts e =
     (if FailedAliveCyclesCounter e \<le> tol \<and> SubstateAlive e = WDGM_SUBSTATE_INCORRECT
      then (let e1 = e\<lparr>LocalState := WDGM_LOCAL_STATUS_FAILED\<rparr> in
            if list_ex wasEvaluated rts then e1\<lparr>FailedAliveCyclesCounter := FailedAliveCyclesCounter e1 + 1\<rparr> else e1)
      else e)"

definition CalculateLocalState_FromOKOneError :: "WdgM_SupervisedEntityConfiguration \<Rightarrow>
    WdgM_internal_AliveSupervision list \<Rightarrow> WdgM_internal_SupervisedEntity \<Rightarrow> WdgM_internal_SupervisedEntity" where
  "CalculateLocalState_FromOKOneError seConf rts e0 =
     (let tol = FailedAliveSupervisionReferenceCycleTol seConf; e = fail_once tol rts e0 in
      if FailedAliveCyclesCounter e > tol \<or> SubstateAlive e = WDGM_SUBSTATE_CORRECT
      then e\<lparr>LocalState := WDGM_LOCAL_STATUS_EXPIRED\<rparr> else e)"

definition CalculateLocalState_FromFailedOneError :: "WdgM_SupervisedEntityConfiguration \<Rightarrow>
    WdgM_internal_AliveSupervision list \<Rightarrow> WdgM_internal_SupervisedEntity \<Rightarrow> WdgM_internal_SupervisedEntity" where
  "CalculateLocalState_FromFailedOneError seConf rts e0 =
     (let tol = FailedAliveSupervisionReferenceCycleTol seConf; e = fail_once tol rts e0 in
      if FailedAliveCyclesCounter e > tol then e\<lparr>LocalState := WDGM_LOCAL_STATUS_EXPIRED\<rparr> else e)"

definition WdgM_internal_CalculateLocalState :: "WdgM_SupervisedEntityConfiguration \<Rightarrow>
    WdgM_internal_AliveSupervision list \<Rightarrow> WdgM_internal_SupervisedEntity \<Rightarrow> WdgM_internal_SupervisedEntity" where
  "WdgM_internal_CalculateLocalState seConf rts e =
     (let temp = SubstateAlive e + SubstateDeadline e + SubstateLogical e in
      if temp = 3 then
        (if LocalState e = WDGM_LOCAL_STATUS_FAILED then CalculateLocalState_FromFailedNoError e else e)
      else if temp = 2 then
        (if LocalState e = WDGM_LOCAL_STATUS_OK then CalculateLocalState_FromOKOneError seConf rts e
         else if LocalState e = WDGM_LOCAL_STATUS_FAILED then CalculateLocalState_FromFailedOneError seConf rts e
         else e)
      else if temp = 1 \<or> temp = 0 then e\<lparr>LocalState := WDGM_LOCAL_STATUS_EXPIRED\<rparr>
      else e)"

definition expired_cycles :: "WdgM_instance \<Rightarrow> u16" where
  "expired_cycles s = ExpiredSupervisionCycleCounter (rtModes s ! mode_index s)"

definition WdgM_internal_updateFromGlobalOK :: "u16 \<Rightarrow> u16 \<Rightarrow> WdgM_instance \<Rightarrow> WdgM_instance" where
  "WdgM_internal_updateFromGlobalOK expired failed s =
     (let s = (if failed > 0 then s\<lparr>GlobalState := WDGM_GLOBAL_STATUS_FAILED\<rparr> else s);
          tol = ExpiredSupervisionCycleTol (CurrentMode s) in
      if expired > 0 \<and> expired_cycles s < tol then s\<lparr>GlobalState := WDGM_GLOBAL_STATUS_EXPIRED\<rparr>
      else if expired > 0 \<and> expired_cycles s \<ge> tol then s\<lparr>GlobalState := WDGM_GLOBAL_STATUS_STOPPED\<rparr>
      else s)"

definition WdgM_internal_updateFromGlobalFAILED :: "u16 \<Rightarrow> u16 \<Rightarrow> WdgM_instance \<Rightarrow> WdgM_instance" where
  "WdgM_internal_updateFromGlobalFAILED expired failed s =
     (let tol = ExpiredSupervisionCycleTol (CurrentMode s) in
      if failed = 0 \<and> expired = 0 then s\<lparr>GlobalState := WDGM_GLOBAL_STATUS_OK\<rparr>
      else if expired > 0 \<and> expired_cycles s < tol then s\<lparr>GlobalState := WDGM_GLOBAL_STATUS_EXPIRED\<rparr>
      else if expired > 0 \<and> expired_cycles s \<ge> tol then s\<lparr>GlobalState := WDGM_GLOBAL_STATUS_STOPPED\<rparr>
      else s)"

definition WdgM_internal_updateFromGlobalEXPIRED :: "u16 \<Rightarrow> WdgM_instance \<Rightarrow> WdgM_instance" where
  "WdgM_internal_updateFromGlobalEXPIRED expired s =
     (let tol = ExpiredSupervisionCycleTol (CurrentMode s); m = mode_index s; md = rtModes s ! m in
      if expired > 0 \<and> expired_cycles s < tol
      then s\<lparr>rtModes := (rtModes s)[m := md\<lparr>ExpiredSupervisionCycleCounter := ExpiredSupervisionCycleCounter md + 1\<rparr>]\<rparr>
      else if expired > 0 \<and> expired_cycles s \<ge> tol then s\<lparr>GlobalState := WDGM_GLOBAL_STATUS_STOPPED\<rparr>
      else s)"

text \<open>The pass of the loop for configuration \<open>i\<close>, with the two counters.\<close>

fun local_pass :: "nat \<Rightarrow> u16 \<times> u16 \<times> WdgM_instance \<Rightarrow> u16 \<times> u16 \<times> WdgM_instance" where
  "local_pass i (expired, failed, s) =
     (let seConf = SEConfigurations (CurrentMode s) ! i; k = unat (SupervisedEntityId seConf);
          s1 = upd_se k (WdgM_internal_CalculateLocalState seConf (rtAlive (rt_conf i s))) s;
          st = LocalState (SEs s1 ! k);
          s2 = (if st = WDGM_LOCAL_STATUS_EXPIRED \<and> \<not> isFirstExpiredSet s1
                then s1\<lparr>firstExpiredSEID := of_nat i, isFirstExpiredSet := True\<rparr> else s1)
      in (if st = WDGM_LOCAL_STATUS_EXPIRED then expired + 1 else expired,
          if st = WDGM_LOCAL_STATUS_FAILED then failed + 1 else failed, s2))"

definition WdgM_internal_CalculateGlobalState :: "WdgM_instance \<Rightarrow> WdgM_instance" where
  "WdgM_internal_CalculateGlobalState s0 =
     (let (expired, failed, s) = fold local_pass [0..<length (SEConfigurations (CurrentMode s0))] (0, 0, s0) in
      if GlobalState s = WDGM_GLOBAL_STATUS_OK then WdgM_internal_updateFromGlobalOK expired failed s
      else if GlobalState s = WDGM_GLOBAL_STATUS_FAILED then WdgM_internal_updateFromGlobalFAILED expired failed s
      else if GlobalState s = WDGM_GLOBAL_STATUS_EXPIRED then WdgM_internal_updateFromGlobalEXPIRED expired s
      else s)"

section \<open>The services\<close>

definition WdgM_Init :: "WdgM_ConfigType option \<Rightarrow> WdgM_instance \<Rightarrow> WdgM_instance" where
  "WdgM_Init ConfigPtr' s =
     (case ConfigPtr' of
        None \<Rightarrow> wdgm_det WDGM_SID_INIT WDGM_E_INV_POINTER s
      | Some c \<Rightarrow>
         if isInitiated s then s
         else
          (let s1 = s\<lparr>ConfigPtr := c\<rparr>;
               initialMode = Modes c ! unat (initialModeId c);
               (enabled, s2) = (if OFF_MODE_ENABLED c
                  then WdgM_internal_isAtLeastOneWdogEnabled (unat (mode_Id initialMode)) WDGM_SID_INIT
                         WDGM_E_DISABLE_NOT_ALLOWED s1
                  else (True, s1)) in
           if \<not> enabled then s2
           else
            (let s3 = fold WdgM_internal_DeactivateAndResetSE [0..<length (SupervisedEntities c)] s2;
                 s4 = fold (\<lambda>conf. upd_se (unat (SupervisedEntityId conf)) (LocalState_update (\<lambda>_. WDGM_LOCAL_STATUS_OK)))
                        (SEConfigurations initialMode) s3;
                 s5 = WdgM_internal_ResetSEConfigsForMode (unat (mode_Id initialMode)) s4;
                 s6 = s5\<lparr>GlobalState := WDGM_GLOBAL_STATUS_OK, isFirstExpiredSet := False, firstExpiredSEID := 0,
                         CurrentModePtr := Some initialMode, ResetInitiated := False, CurrentTime := 0\<rparr>;
                 (rv, s7) = WdgM_internal_activateTriggers (Triggers initialMode) s6
             in if rv = E_NOT_OK then s7 else s7\<lparr>isInitiated := True\<rparr>)))"

definition stop_all_triggers :: "WdgM_instance \<Rightarrow> WdgM_instance" where
  "stop_all_triggers s =
     fold (\<lambda>w. wdgif_do (WdgIf_SetTriggerCondition (WatchdogDeviceId w) 0)) (Watchdogs (ConfigPtr s)) s"

definition WdgM_DeInit :: "WdgM_instance \<Rightarrow> WdgM_instance" where
  "WdgM_DeInit s =
     (if \<not> isInitiated s then wdgm_det WDGM_SID_DEINIT WDGM_E_NO_INIT s
      else if GlobalState s = WDGM_GLOBAL_STATUS_OK then
        (let (rv, s1) = WdgM_internal_deactivateCurrentTriggers (s\<lparr>GlobalState := WDGM_GLOBAL_STATUS_DEACTIVATED\<rparr>) in
         if rv = E_NOT_OK then s1 else (stop_all_triggers s1)\<lparr>isInitiated := False\<rparr>)
      else s)"

text \<open>The \<open>while\<close> loop of \<open>WdgM_SetMode\<close> over the configurations left, with \<open>SEIndex\<close>; \<open>n\<close> is the
  number of entities.\<close>

fun setmode_loop :: "nat \<Rightarrow> WdgM_SupervisedEntityConfiguration list \<Rightarrow> nat \<Rightarrow> WdgM_instance \<Rightarrow> WdgM_instance" where
  "setmode_loop n [] SEIndex s = fold WdgM_internal_DeactivateAndResetSE [SEIndex..<n] s"
| "setmode_loop n (conf # confs) SEIndex s =
     (let untilID = unat (SupervisedEntityId conf);
          s1 = fold WdgM_internal_DeactivateAndResetSE [SEIndex..<untilID] s;
          SEIndex = max SEIndex untilID;
          s2 = (if LocalState (SEs s1 ! SEIndex) = WDGM_LOCAL_STATUS_DEACTIVATED
                then upd_se SEIndex (LocalState_update (\<lambda>_. WDGM_LOCAL_STATUS_OK)) s1 else s1)
      in setmode_loop n confs (SEIndex + 1) s2)"

definition WdgM_SetMode :: "u8 \<Rightarrow> u16 \<Rightarrow> WdgM_instance \<Rightarrow> Std_ReturnType \<times> WdgM_instance" where
  "WdgM_SetMode Mode CallerID s =
     (if \<not> isInitiated s then (E_NOT_OK, wdgm_det WDGM_SID_SETMODE WDGM_E_NO_INIT s)
      else if length (Modes (ConfigPtr s)) \<le> unat Mode
      then (E_NOT_OK, wdgm_det WDGM_SID_SETMODE WDGM_E_PARAM_MODE s)
      else
       (let (enabled, s0) = (if OFF_MODE_ENABLED (ConfigPtr s)
              then WdgM_internal_isAtLeastOneWdogEnabled (unat Mode) WDGM_SID_SETMODE WDGM_E_DISABLE_NOT_ALLOWED s
              else (True, s)) in
        if \<not> enabled then (E_NOT_OK, s0)
        else if DEFENSIVE_BEHAVIOR (ConfigPtr s) \<and> \<not> WdgM_internal_isAllowedForCalling CallerID s0 then (E_NOT_OK, s0)
        else if GlobalState s0 = WDGM_GLOBAL_STATUS_OK \<or> GlobalState s0 = WDGM_GLOBAL_STATUS_FAILED then
          (let newMode = Modes (ConfigPtr s0) ! unat Mode;
               s1 = setmode_loop (length (SupervisedEntities (ConfigPtr s0))) (SEConfigurations newMode) 0 s0;
               s2 = WdgM_internal_ResetSEConfigsForMode (mode_index s1) s1;
               (rv, s3) = WdgM_internal_deactivateCurrentTriggers s2;
               (rv, s4) = (if rv = E_OK
                  then (let (rv', t) = WdgM_internal_activateTriggers (Triggers newMode) s3 in (rv OR rv', t))
                  else (rv, s3))
           in (rv, s4\<lparr>CurrentModePtr := Some newMode\<rparr>))
        else (E_OK, s0)))"

definition WdgM_GetMode :: "bool \<Rightarrow> WdgM_instance \<Rightarrow> Std_ReturnType \<times> u8 option \<times> WdgM_instance" where
  "WdgM_GetMode null s =
     (if \<not> isInitiated s then (E_NOT_OK, None, wdgm_det WDGM_SID_GETMODE WDGM_E_NO_INIT s)
      else if null then (E_NOT_OK, None, wdgm_det WDGM_SID_GETMODE WDGM_E_INV_POINTER s)
      else (E_OK, Some (mode_Id (CurrentMode s)), s))"

text \<open>The three supervisions of a checkpoint of entity \<open>k\<close>, whose configuration has the index \<open>i\<close>.\<close>

definition supervise_checkpoint :: "nat \<Rightarrow> u16 \<Rightarrow> WdgM_SupervisedEntity \<Rightarrow> nat \<Rightarrow> WdgM_instance \<Rightarrow> WdgM_instance" where
  "supervise_checkpoint k CheckpointID se i s =
     (let seConf = SEConfigurations (CurrentMode s) ! i;
          s1 = upd_conf i (rtAlive_update (WdgM_internal_AliveMonitoring (AliveSupervisions seConf) CheckpointID)) s;
          (d, rtd, prev) = deadline_loop (CurrentTime s1) CheckpointID (DeadlineSupervisions seConf)
                             (rtDeadline (rt_conf i s1)) (PreviousCheckpointId_Deadline (SEs s1 ! k));
          s2 = upd_conf i (rtDeadline_update (\<lambda>_. rtd)) s1;
          s3 = upd_se k (\<lambda>e. e\<lparr>PreviousCheckpointId_Deadline := prev, SubstateDeadline := d\<rparr>) s2
      in if CheckInternalLogic seConf
         then upd_se k (\<lambda>e. let (v, e') = WdgM_internal_LogicalMonitoring se CheckpointID e
                            in e'\<lparr>SubstateLogical := v\<rparr>) s3
         else s3)"

definition WdgM_CheckpointReached :: "u16 \<Rightarrow> u16 \<Rightarrow> WdgM_instance \<Rightarrow> (Std_ReturnType \<times> WdgM_instance) option" where
  "WdgM_CheckpointReached SEID CheckpointID s =
     (let k = unat SEID in
      if \<not> isInitiated s then Some (E_NOT_OK, wdgm_det WDGM_SID_CHECKPOINTREACHED WDGM_E_NO_INIT s)
      else if k > length (SupervisedEntities (ConfigPtr s))
      then Some (E_NOT_OK, wdgm_det WDGM_SID_CHECKPOINTREACHED WDGM_E_PARAM_SEID s)
      else if k = length (SupervisedEntities (ConfigPtr s)) then None
      else
       (let se = SupervisedEntities (ConfigPtr s) ! k in
        if unat CheckpointID > length (CheckpointIds se)
        then Some (E_NOT_OK, wdgm_det WDGM_SID_CHECKPOINTREACHED WDGM_E_CPID s)
        else if LocalState (SEs s ! k) \<noteq> WDGM_LOCAL_STATUS_DEACTIVATED then
         (case List.find (\<lambda>i. SupervisedEntityId (SEConfigurations (CurrentMode s) ! i) = SEID)
                 [0..<length (SEConfigurations (CurrentMode s))] of
            None \<Rightarrow> None
          | Some i \<Rightarrow> Some (E_OK, supervise_checkpoint k CheckpointID se i s))
        else Some (E_NOT_OK, wdgm_det WDGM_SID_CHECKPOINTREACHED WDGM_E_SEDEACTIVATED s)))"

definition WdgM_UpdateAliveCounter :: "u16 \<Rightarrow> WdgM_instance \<Rightarrow> (Std_ReturnType \<times> WdgM_instance) option" where
  "WdgM_UpdateAliveCounter SEID s =
     (if \<not> isInitiated s then Some (E_NOT_OK, wdgm_det WDGM_SID_UPDATEALIVECOUNTER WDGM_E_NO_INIT s)
      else
       (let s1 = wdgm_det WDGM_SID_UPDATEALIVECOUNTER WDGM_E_DEPRECATED s in
        case List.find (\<lambda>c. SupervisedEntityId c = SEID) (SEConfigurations (CurrentMode s1)) of
          None \<Rightarrow> Some (E_NOT_OK, wdgm_det WDGM_SID_UPDATEALIVECOUNTER WDGM_E_PARAM_SEID s1)
        | Some c \<Rightarrow>
            if length (AliveSupervisions c) > 1
            then Some (E_NOT_OK, wdgm_det WDGM_SID_UPDATEALIVECOUNTER WDGM_E_AMBIGIOUS s1)
            else if length (AliveSupervisions c) = 0 then Some (E_NOT_OK, s1)
            else WdgM_CheckpointReached SEID (CheckpointId (AliveSupervisions c ! 0)) s1))"

definition WdgM_GetLocalStatus :: "u16 \<Rightarrow> bool \<Rightarrow> WdgM_instance \<Rightarrow> (Std_ReturnType \<times> u8 option \<times> WdgM_instance) option" where
  "WdgM_GetLocalStatus SEID null s =
     (if \<not> isInitiated s then Some (E_NOT_OK, None, wdgm_det WDGM_SID_GETLOCALSTATUS WDGM_E_NO_INIT s)
      else if null then Some (E_NOT_OK, None, wdgm_det WDGM_SID_GETLOCALSTATUS WDGM_E_INV_POINTER s)
      else if unat SEID > length (SupervisedEntities (ConfigPtr s))
      then Some (E_NOT_OK, None, wdgm_det WDGM_SID_GETLOCALSTATUS WDGM_E_PARAM_SEID s)
      else if unat SEID = length (SupervisedEntities (ConfigPtr s)) then None
      else Some (E_OK, Some (LocalState (SEs s ! unat SEID)), s))"

definition WdgM_GetGlobalStatus :: "bool \<Rightarrow> WdgM_instance \<Rightarrow> Std_ReturnType \<times> u8 option \<times> WdgM_instance" where
  "WdgM_GetGlobalStatus null s =
     (if \<not> isInitiated s then (E_NOT_OK, None, wdgm_det WDGM_SID_GETGLOBALSTATUS WDGM_E_NO_INIT s)
      else if null then (E_NOT_OK, None, wdgm_det WDGM_SID_GETGLOBALSTATUS WDGM_E_INV_POINTER s)
      else (E_OK, Some (GlobalState s), s))"

definition WdgM_PerformReset :: "WdgM_instance \<Rightarrow> Std_ReturnType \<times> WdgM_instance" where
  "WdgM_PerformReset s =
     (if \<not> isInitiated s then (E_NOT_OK, wdgm_det WDGM_SID_PERFORMRESET WDGM_E_NO_INIT s)
      else if \<not> ResetInitiated s then (E_OK, stop_all_triggers (s\<lparr>ResetInitiated := True\<rparr>))
      else (E_NOT_OK, s))"

definition WdgM_GetFirstExpiredSEID :: "bool \<Rightarrow> WdgM_instance \<Rightarrow> Std_ReturnType \<times> u16 option \<times> WdgM_instance" where
  "WdgM_GetFirstExpiredSEID null s =
     (if null then (E_NOT_OK, None, wdgm_det WDGM_SID_GETFIRSTEXPIREDSEID WDGM_E_INV_POINTER s)
      else if isFirstExpiredSet s then (E_OK, Some (firstExpiredSEID s), s)
      else (E_NOT_OK, None, s))"

text \<open>The trigger conditions at the end of the main function.\<close>

definition set_triggers :: "WdgM_instance \<Rightarrow> WdgM_instance" where
  "set_triggers s =
     fold (\<lambda>t s. if WatchdogMode t \<noteq> WDGIF_OFF_MODE
       then wdgif_do (WdgIf_SetTriggerCondition (trigger_device s t)
              (if GlobalState s = WDGM_GLOBAL_STATUS_STOPPED then 0 else TriggerConditionValue t)) s
       else s) (Triggers (CurrentMode s)) s"

definition main_cycle :: "WdgM_instance \<Rightarrow> WdgM_instance" where
  "main_cycle s =
     (let s1 = s\<lparr>CurrentTime := CurrentTime s + SupervisionCycle (CurrentMode s)\<rparr>
      in set_triggers (WdgM_internal_CalculateGlobalState (WdgM_internal_CheckAlives s1)))"

text \<open>\<open>None\<close>: a build without defensive behaviour goes through the NULL mode when it runs before
  the first initialisation.\<close>

definition WdgM_MainFunction :: "WdgM_instance \<Rightarrow> WdgM_instance option" where
  "WdgM_MainFunction s =
     (if DEFENSIVE_BEHAVIOR (ConfigPtr s) \<and> \<not> isInitiated s
      then Some (wdgm_det WDGM_SID_MAINFUNCTION WDGM_E_NO_INIT s)
      else if GlobalState s \<noteq> WDGM_GLOBAL_STATUS_DEACTIVATED then
        (if CurrentModePtr s = None then None else Some (main_cycle s))
      else Some s)"

end
