(* ===== verification/WdgMProps.thy ===== *)
theory WdgMProps
  imports WdgM
begin

text \<open>
  What the watchdog manager guarantees: an expired entity stops the triggering of the watchdogs
  within a bounded number of cycles whatever is called in between, the global state sums up the
  local states, a change of mode activates exactly the entities of the new mode, and alive
  supervision accepts exactly the configured range of indications.  One theorem states what it
  does not: a violation of the program flow is forgotten when a permitted checkpoint follows
  before the next cycle.
\<close>

section \<open>What the supervision leaves alone\<close>

text \<open>The members only the services for modes, reset and start change, and the states that only
  the main function changes.\<close>

definition same :: "WdgM_instance \<Rightarrow> WdgM_instance \<Rightarrow> bool" where
  "same s t \<longleftrightarrow> ConfigPtr t = ConfigPtr s \<and> isInitiated t = isInitiated s \<and> CurrentModePtr t = CurrentModePtr s
     \<and> length (SEs t) = length (SEs s) \<and> length (rtModes t) = length (rtModes s)
     \<and> expired_cycles t = expired_cycles s \<and> GlobalState t = GlobalState s
     \<and> (\<forall>k < length (SEs s). LocalState (SEs t ! k) = LocalState (SEs s ! k))"

lemma same_refl [simp, intro]: "same s s" by (simp add: same_def)
lemma same_trans: "same s t \<Longrightarrow> same t u \<Longrightarrow> same s u" by (simp add: same_def)

lemma upd_conf_fields [simp]:
  "ConfigPtr (upd_conf i f s) = ConfigPtr s" "isInitiated (upd_conf i f s) = isInitiated s"
  "CurrentModePtr (upd_conf i f s) = CurrentModePtr s" "SEs (upd_conf i f s) = SEs s"
  "length (rtModes (upd_conf i f s)) = length (rtModes s)" "GlobalState (upd_conf i f s) = GlobalState s"
  "CurrentTime (upd_conf i f s) = CurrentTime s"
  by (simp_all add: upd_conf_def Let_def)

lemma upd_se_fields [simp]:
  "ConfigPtr (upd_se k f s) = ConfigPtr s" "isInitiated (upd_se k f s) = isInitiated s"
  "CurrentModePtr (upd_se k f s) = CurrentModePtr s" "SEs (upd_se k f s) = (SEs s)[k := f (SEs s ! k)]"
  "rtModes (upd_se k f s) = rtModes s" "GlobalState (upd_se k f s) = GlobalState s"
  "CurrentTime (upd_se k f s) = CurrentTime s" "expired_cycles (upd_se k f s) = expired_cycles s"
  "isFirstExpiredSet (upd_se k f s) = isFirstExpiredSet s"
  by (simp_all add: upd_se_def expired_cycles_def)

lemma same_upd_conf: "same s (upd_conf i f s)"
proof -
  have "expired_cycles (upd_conf i f s) = expired_cycles s"
    by (cases "mode_index s < length (rtModes s)")
       (simp_all add: expired_cycles_def upd_conf_def Let_def list_update_beyond)
  then show ?thesis by (simp add: same_def)
qed

lemma same_upd_se: "same s (upd_se k f s)" if "\<And>e. LocalState (f e) = LocalState e"
proof -
  have "LocalState ((SEs s)[k := f (SEs s ! k)] ! j) = LocalState (SEs s ! j)" if "j < length (SEs s)" for j
    using that \<open>\<And>e. LocalState (f e) = LocalState e\<close> by (cases "j = k") simp_all
  then show ?thesis by (simp add: same_def)
qed

lemma same_wdgm_det: "same s (wdgm_det fid err s)"
  by (simp add: wdgm_det_def same_def expired_cycles_def)

lemma same_wdgif_do: "same s (wdgif_do c s)"
  by (simp add: wdgif_do_def same_def expired_cycles_def)

lemma same_fold: "(\<And>x s. same s (f x s)) \<Longrightarrow> same s (fold f xs s)"
  by (induction xs arbitrary: s) (simp, metis fold_simps(2) same_trans)

lemma same_check_alive: "same s (check_alive i s)"
proof -
  obtain rts r w where c: "check_alive_loop (AliveSupervisions (SEConfigurations (CurrentMode s) ! i))
      (rtAlive (rt_conf i s)) WDGM_SUBSTATE_CORRECT False = (rts, r, w)" by (metis prod_cases3)
  have "check_alive i s = upd_se (unat (SupervisedEntityId (SEConfigurations (CurrentMode s) ! i)))
      (SubstateAlive_update (\<lambda>v. if w then r else v)) (upd_conf i (rtAlive_update (\<lambda>_. rts)) s)"
    by (simp add: check_alive_def c Let_def)
  then show ?thesis by (simp add: same_trans [OF same_upd_conf same_upd_se])
qed

lemma same_CheckAlives: "same s (WdgM_internal_CheckAlives s)"
  unfolding WdgM_internal_CheckAlives_def by (rule same_fold) (rule same_check_alive)

lemma LocalState_logic:
  "LocalState (let (v, e') = WdgM_internal_LogicalMonitoring se cp e in e'\<lparr>SubstateLogical := v\<rparr>) = LocalState e"
  by (simp add: WdgM_internal_LogicalMonitoring_def WdgM_internal_LogicalMonitoring_GraphActive_def
      WdgM_internal_LogicalMonitoring_GraphInactive_def)

lemma same_supervise_checkpoint: "same s (supervise_checkpoint k cp se i s)"
proof -
  let ?conf = "SEConfigurations (CurrentMode s) ! i"
  let ?s1 = "upd_conf i (rtAlive_update (WdgM_internal_AliveMonitoring (AliveSupervisions ?conf) cp)) s"
  obtain d rtd prev where dl: "deadline_loop (CurrentTime ?s1) cp (DeadlineSupervisions ?conf)
      (rtDeadline (rt_conf i ?s1)) (PreviousCheckpointId_Deadline (SEs ?s1 ! k)) = (d, rtd, prev)"
    by (metis prod_cases3)
  let ?s2 = "upd_conf i (rtDeadline_update (\<lambda>_. rtd)) ?s1"
  let ?s3 = "upd_se k (\<lambda>e. e\<lparr>PreviousCheckpointId_Deadline := prev, SubstateDeadline := d\<rparr>) ?s2"
  let ?logic = "\<lambda>e. let (v, e') = WdgM_internal_LogicalMonitoring se cp e in e'\<lparr>SubstateLogical := v\<rparr>"
  have s3: "same s ?s3"
    by (rule same_trans [OF same_upd_conf same_trans [OF same_upd_conf same_upd_se]]) simp
  have "supervise_checkpoint k cp se i s = (if CheckInternalLogic ?conf then upd_se k ?logic ?s3 else ?s3)"
    unfolding supervise_checkpoint_def Let_def dl prod.case by (rule refl)
  then show ?thesis
    using s3 same_trans [OF s3 same_upd_se [of ?logic, OF LocalState_logic]] by presburger
qed

lemma same_CheckpointReached: "WdgM_CheckpointReached SEID cp s = Some (rv, t) \<Longrightarrow> same s t"
  by (auto simp: WdgM_CheckpointReached_def Let_def same_wdgm_det same_supervise_checkpoint
      split: if_splits option.splits)

lemma same_UpdateAliveCounter: "WdgM_UpdateAliveCounter SEID s = Some (rv, t) \<Longrightarrow> same s t"
  by (auto simp: WdgM_UpdateAliveCounter_def Let_def same_wdgm_det same_trans [OF same_wdgm_det same_wdgm_det]
      split: if_splits option.splits dest!: same_CheckpointReached intro: same_trans [OF same_wdgm_det])

lemma same_stop_all_triggers: "same s (stop_all_triggers s)"
  unfolding stop_all_triggers_def by (rule same_fold) (rule same_wdgif_do)

lemma same_PerformReset: "same s (snd (WdgM_PerformReset s))"
proof -
  have "same s (s\<lparr>ResetInitiated := True\<rparr>)" by (simp add: same_def expired_cycles_def)
  then show ?thesis
    using same_trans [OF _ same_stop_all_triggers] same_wdgm_det by (auto simp: WdgM_PerformReset_def)
qed

lemma same_set_triggers: "same s (set_triggers s)"
  unfolding set_triggers_def by (rule same_fold) (simp add: same_wdgif_do)
section \<open>The main function\<close>

abbreviation confs :: "WdgM_instance \<Rightarrow> WdgM_SupervisedEntityConfiguration list" where
  "confs s \<equiv> SEConfigurations (CurrentMode s)"

abbreviation se_index :: "WdgM_instance \<Rightarrow> nat \<Rightarrow> nat" where
  "se_index s i \<equiv> unat (SupervisedEntityId (confs s ! i))"

abbreviation local_of :: "WdgM_instance \<Rightarrow> nat \<Rightarrow> u8" where
  "local_of s i \<equiv> LocalState (SEs s ! se_index s i)"

text \<open>A well-formed current mode: its entities are distinct entries of the entity table.\<close>

definition mode_ok :: "WdgM_instance \<Rightarrow> bool" where
  "mode_ok s \<longleftrightarrow> distinct (map (se_index s) [0..<length (confs s)])
     \<and> (\<forall>i < length (confs s). se_index s i < length (SEs s))
     \<and> length (confs s) < 65536 \<and> mode_index s < length (rtModes s) \<and> CurrentModePtr s \<noteq> None"

lemma mode_ok_same: "same s t \<Longrightarrow> mode_ok t = mode_ok s"
  by (simp add: same_def mode_ok_def)

lemma CalculateLocalState_expired:
  "LocalState e = WDGM_LOCAL_STATUS_EXPIRED \<Longrightarrow>
    LocalState (WdgM_internal_CalculateLocalState c rts e) = WDGM_LOCAL_STATUS_EXPIRED"
  by (simp add: WdgM_internal_CalculateLocalState_def Let_def)

text \<open>What the loop over the local states leaves alone.\<close>

definition keeps :: "WdgM_instance \<Rightarrow> WdgM_instance \<Rightarrow> bool" where
  "keeps s t \<longleftrightarrow> ConfigPtr t = ConfigPtr s \<and> isInitiated t = isInitiated s \<and> CurrentModePtr t = CurrentModePtr s
     \<and> length (SEs t) = length (SEs s) \<and> rtModes t = rtModes s \<and> GlobalState t = GlobalState s
     \<and> wdgif_calls t = wdgif_calls s"

definition calculated :: "WdgM_instance \<Rightarrow> nat \<Rightarrow> WdgM_internal_SupervisedEntity" where
  "calculated s i = WdgM_internal_CalculateLocalState (confs s ! i) (rtAlive (rt_conf i s)) (SEs s ! se_index s i)"

lemma local_pass_one:
  assumes "local_pass i (e, f, s) = (e', f', t)" and "se_index s i < length (SEs s)"
  shows "keeps s t" and "SEs t = (SEs s)[se_index s i := calculated s i]"
    and "e' = e + (if local_of t i = WDGM_LOCAL_STATUS_EXPIRED then 1 else 0)"
    and "f' = f + (if local_of t i = WDGM_LOCAL_STATUS_FAILED then 1 else 0)"
  using assms by (auto simp: Let_def keeps_def calculated_def upd_se_def split: if_splits)

lemma local_passes:
  assumes "fold local_pass is (e, f, s) = (e', f', t)"
    and "distinct (map (se_index s) is)" and "\<forall>i\<in>set is. se_index s i < length (SEs s)"
  shows "keeps s t"
    and "\<forall>k. k \<notin> se_index s ` set is \<longrightarrow> SEs t ! k = SEs s ! k"
    and "\<forall>i\<in>set is. SEs t ! se_index s i = calculated s i"
    and "e' = e + of_nat (length (filter (\<lambda>i. local_of t i = WDGM_LOCAL_STATUS_EXPIRED) is))"
    and "f' = f + of_nat (length (filter (\<lambda>i. local_of t i = WDGM_LOCAL_STATUS_FAILED) is))"
proof -
  have "keeps s t \<and> (\<forall>k. k \<notin> se_index s ` set is \<longrightarrow> SEs t ! k = SEs s ! k)
    \<and> (\<forall>i\<in>set is. SEs t ! se_index s i = calculated s i)
    \<and> e' = e + of_nat (length (filter (\<lambda>i. local_of t i = WDGM_LOCAL_STATUS_EXPIRED) is))
    \<and> f' = f + of_nat (length (filter (\<lambda>i. local_of t i = WDGM_LOCAL_STATUS_FAILED) is))"
    using assms
  proof (induction "is" arbitrary: e f s)
    case Nil
    then show ?case by (simp add: keeps_def)
  next
    case (Cons i "is")
    obtain e1 f1 u where u: "local_pass i (e, f, s) = (e1, f1, u)" by (metis prod_cases3)
    have i: "se_index s i < length (SEs s)" using Cons.prems(3) by simp
    note one = local_pass_one [OF u i]
    have eq: "confs u = confs s" "length (SEs u) = length (SEs s)" "rtModes u = rtModes s"
      "CurrentModePtr u = CurrentModePtr s" using one(1) by (simp_all add: keeps_def)
    have rest: "fold local_pass is (e1, f1, u) = (e', f', t)" using Cons.prems(1) u by simp
    have IH: "keeps u t" "\<And>k. k \<notin> se_index s ` set is \<Longrightarrow> SEs t ! k = SEs u ! k"
      "\<And>j. j \<in> set is \<Longrightarrow> SEs t ! se_index s j = calculated u j"
      "e' = e1 + of_nat (length (filter (\<lambda>i. local_of t i = WDGM_LOCAL_STATUS_EXPIRED) is))"
      "f' = f1 + of_nat (length (filter (\<lambda>i. local_of t i = WDGM_LOCAL_STATUS_FAILED) is))"
      using Cons.IH [OF rest] Cons.prems(2,3) by (simp_all add: eq)
    have fresh: "se_index s i \<notin> se_index s ` set is" using Cons.prems(2) by simp
    have calc: "calculated u j = calculated s j" if "j \<in> set is" for j
    proof -
      have "se_index s j \<noteq> se_index s i" using fresh imageI [OF that, of "se_index s"] by metis
      then show ?thesis by (simp add: calculated_def eq one(2))
    qed
    have ti: "SEs t ! se_index s i = calculated s i" using IH(2) [OF fresh] i by (simp add: one(2))
    moreover have "CurrentModePtr t = CurrentModePtr s" using IH(1) eq(4) by (simp add: keeps_def)
    ultimately have "local_of u i = local_of t i" using IH(2) [OF fresh] eq(4) by simp
    moreover have "keeps s t" using one(1) IH(1) by (simp add: keeps_def)
    moreover have "SEs t ! k = SEs s ! k" if "k \<notin> se_index s ` set (i # is)" for k
      using IH(2) [of k] that by (simp add: one(2))
    ultimately show ?case using ti IH(3-5) calc one(3,4) by (auto simp: add.assoc)
  qed
  then show "keeps s t"
    and "\<forall>k. k \<notin> se_index s ` set is \<longrightarrow> SEs t ! k = SEs s ! k"
    and "\<forall>i\<in>set is. SEs t ! se_index s i = calculated s i"
    and "e' = e + of_nat (length (filter (\<lambda>i. local_of t i = WDGM_LOCAL_STATUS_EXPIRED) is))"
    and "f' = f + of_nat (length (filter (\<lambda>i. local_of t i = WDGM_LOCAL_STATUS_FAILED) is))"
    by blast+
qed
lemma expired_cycles_fields [simp]:
  "expired_cycles (s\<lparr>GlobalState := g\<rparr>) = expired_cycles s"
  "expired_cycles (s\<lparr>CurrentTime := v\<rparr>) = expired_cycles s"
  "expired_cycles (s\<lparr>SEs := es\<rparr>) = expired_cycles s"
  by (simp_all add: expired_cycles_def)

text \<open>The loop over all entities of the mode: the counters tell whether an entity has expired or
  failed.\<close>

lemma counter_positive:
  fixes p :: "nat \<Rightarrow> bool"
  assumes "n < 65536"
  shows "(of_nat (length (filter p [0..<n])) :: u16) > 0 \<longleftrightarrow> (\<exists>i<n. p i)"
proof -
  have "length (filter p [0..<n]) \<le> n" using length_filter_le [of p "[0..<n]"] by simp
  then have less: "length (filter p [0..<n]) < 2 ^ LENGTH(16)" using assms by simp
  have "(of_nat (length (filter p [0..<n])) :: u16) = 0 \<longleftrightarrow> length (filter p [0..<n]) = 0"
    using less by (auto simp: word_of_nat_eq_0_iff dest: dvd_imp_le)
  then show ?thesis by (auto simp: word_gt_0 filter_empty_conv)
qed

lemma all_passes:
  assumes ok: "mode_ok s"
  obtains e f t where "fold local_pass [0..<length (confs s)] (0, 0, s) = (e, f, t)" and "keeps s t"
    and "\<forall>i < length (confs s). SEs t ! se_index s i = calculated s i"
    and "\<forall>k. k \<notin> se_index s ` {0..<length (confs s)} \<longrightarrow> SEs t ! k = SEs s ! k"
    and "e > 0 \<longleftrightarrow> (\<exists>i < length (confs s). local_of t i = WDGM_LOCAL_STATUS_EXPIRED)"
    and "f > 0 \<longleftrightarrow> (\<exists>i < length (confs s). local_of t i = WDGM_LOCAL_STATUS_FAILED)"
proof -
  obtain e f t where run: "fold local_pass [0..<length (confs s)] (0, 0, s) = (e, f, t)" by (metis prod_cases3)
  have d: "distinct (map (se_index s) [0..<length (confs s)])"
    "\<forall>i\<in>set [0..<length (confs s)]. se_index s i < length (SEs s)" "length (confs s) < 65536"
    using ok by (simp_all add: mode_ok_def)
  note facts = local_passes [OF run d(1,2)]
  show thesis
    using that [OF run facts(1)] facts(2-5) counter_positive [OF d(3)] by simp
qed

text \<open>The reference: the states of the global status and the events that change them.\<close>

definition global_verdict :: "u8 \<Rightarrow> bool \<Rightarrow> bool \<Rightarrow> bool \<Rightarrow> u8" where
  "global_verdict g expired failed tolerated =
     (if g = WDGM_GLOBAL_STATUS_OK \<or> g = WDGM_GLOBAL_STATUS_FAILED then
        (if expired then (if tolerated then WDGM_GLOBAL_STATUS_EXPIRED else WDGM_GLOBAL_STATUS_STOPPED)
         else if failed then WDGM_GLOBAL_STATUS_FAILED else WDGM_GLOBAL_STATUS_OK)
      else if g = WDGM_GLOBAL_STATUS_EXPIRED \<and> expired \<and> \<not> tolerated then WDGM_GLOBAL_STATUS_STOPPED
      else g)"

abbreviation tolerated :: "WdgM_instance \<Rightarrow> bool" where
  "tolerated s \<equiv> expired_cycles s < ExpiredSupervisionCycleTol (CurrentMode s)"

abbreviation some_local :: "u8 \<Rightarrow> WdgM_instance \<Rightarrow> bool" where
  "some_local v s \<equiv> list_ex (\<lambda>i. local_of s i = v) [0..<length (confs s)]"

lemma CalculateGlobalState_effect:
  assumes ok: "mode_ok s"
  defines "t \<equiv> WdgM_internal_CalculateGlobalState s"
  shows "GlobalState t = global_verdict (GlobalState s) (some_local WDGM_LOCAL_STATUS_EXPIRED t)
           (some_local WDGM_LOCAL_STATUS_FAILED t) (tolerated s)"
    and "CurrentModePtr t = CurrentModePtr s" and "ConfigPtr t = ConfigPtr s" and "isInitiated t = isInitiated s"
    and "length (SEs t) = length (SEs s)" and "length (rtModes t) = length (rtModes s)"
    and "\<forall>i < length (confs s). SEs t ! se_index s i = calculated s i"
    and "\<forall>k. k \<notin> se_index s ` {0..<length (confs s)} \<longrightarrow> SEs t ! k = SEs s ! k"
    and "GlobalState s = WDGM_GLOBAL_STATUS_EXPIRED \<longrightarrow> some_local WDGM_LOCAL_STATUS_EXPIRED t \<longrightarrow> tolerated s
           \<longrightarrow> expired_cycles t = expired_cycles s + 1"
proof -
  obtain e f u where run: "fold local_pass [0..<length (confs s)] (0, 0, s) = (e, f, u)" and k: "keeps s u"
    and calc: "\<forall>i < length (confs s). SEs u ! se_index s i = calculated s i"
    and rest: "\<forall>k. k \<notin> se_index s ` {0..<length (confs s)} \<longrightarrow> SEs u ! k = SEs s ! k"
    and e: "e > 0 \<longleftrightarrow> (\<exists>i < length (confs s). local_of u i = WDGM_LOCAL_STATUS_EXPIRED)"
    and f: "f > 0 \<longleftrightarrow> (\<exists>i < length (confs s). local_of u i = WDGM_LOCAL_STATUS_FAILED)"
    by (rule all_passes [OF ok])
  have t: "t = (if GlobalState u = WDGM_GLOBAL_STATUS_OK then WdgM_internal_updateFromGlobalOK e f u
      else if GlobalState u = WDGM_GLOBAL_STATUS_FAILED then WdgM_internal_updateFromGlobalFAILED e f u
      else if GlobalState u = WDGM_GLOBAL_STATUS_EXPIRED then WdgM_internal_updateFromGlobalEXPIRED e u else u)"
    by (simp add: t_def WdgM_internal_CalculateGlobalState_def run)
  have m: "mode_index s < length (rtModes s)" using ok by (simp add: mode_ok_def)
  note upd = WdgM_internal_updateFromGlobalOK_def WdgM_internal_updateFromGlobalFAILED_def
    WdgM_internal_updateFromGlobalEXPIRED_def Let_def
  have "CurrentModePtr t = CurrentModePtr u \<and> ConfigPtr t = ConfigPtr u \<and> isInitiated t = isInitiated u
    \<and> SEs t = SEs u \<and> length (rtModes t) = length (rtModes u)"
    unfolding t by (simp add: upd)
  then have tu: "CurrentModePtr t = CurrentModePtr s" "ConfigPtr t = ConfigPtr s" "isInitiated t = isInitiated s"
    "SEs t = SEs u" "length (rtModes t) = length (rtModes s)" "length (SEs u) = length (SEs s)"
    using k by (simp_all add: keeps_def)
  show "CurrentModePtr t = CurrentModePtr s" "ConfigPtr t = ConfigPtr s" "isInitiated t = isInitiated s"
    "length (SEs t) = length (SEs s)" "length (rtModes t) = length (rtModes s)"
    "\<forall>i < length (confs s). SEs t ! se_index s i = calculated s i"
    "\<forall>k. k \<notin> se_index s ` {0..<length (confs s)} \<longrightarrow> SEs t ! k = SEs s ! k"
    using tu calc rest by simp_all
  have ku: "CurrentModePtr u = CurrentModePtr s" "GlobalState u = GlobalState s" "expired_cycles u = expired_cycles s"
    "rtModes u = rtModes s" using k by (simp_all add: keeps_def expired_cycles_def)
  have some: "some_local WDGM_LOCAL_STATUS_EXPIRED t \<longleftrightarrow> e > 0" "some_local WDGM_LOCAL_STATUS_FAILED t \<longleftrightarrow> f > 0"
    using e f by (auto simp: tu ku list_ex_iff)
  show "GlobalState t = global_verdict (GlobalState s) (some_local WDGM_LOCAL_STATUS_EXPIRED t)
      (some_local WDGM_LOCAL_STATUS_FAILED t) (tolerated s)"
    unfolding some by (auto simp: t global_verdict_def upd ku not_less word_gt_0)
  show "GlobalState s = WDGM_GLOBAL_STATUS_EXPIRED \<longrightarrow> some_local WDGM_LOCAL_STATUS_EXPIRED t \<longrightarrow> tolerated s
      \<longrightarrow> expired_cycles t = expired_cycles s + 1"
    unfolding some using m by (simp add: t upd ku expired_cycles_def)
qed
lemma wdgif_calls_upd [simp]:
  "wdgif_calls (upd_se k f s) = wdgif_calls s" "wdgif_calls (upd_conf i g s) = wdgif_calls s"
  by (simp_all add: upd_se_def upd_conf_def Let_def)

lemma wdgif_calls_CheckAlives [simp]: "wdgif_calls (WdgM_internal_CheckAlives s) = wdgif_calls s"
proof -
  have one: "wdgif_calls (check_alive i s) = wdgif_calls s" for i s
    by (simp add: check_alive_def Let_def split: prod.split)
  have "wdgif_calls (fold check_alive xs s) = wdgif_calls s" for xs
    by (induction xs arbitrary: s) (simp_all add: one)
  then show ?thesis by (simp add: WdgM_internal_CheckAlives_def)
qed

lemma wdgif_calls_updates [simp]:
  "wdgif_calls (WdgM_internal_updateFromGlobalOK e f s) = wdgif_calls s"
  "wdgif_calls (WdgM_internal_updateFromGlobalFAILED e f s) = wdgif_calls s"
  "wdgif_calls (WdgM_internal_updateFromGlobalEXPIRED e s) = wdgif_calls s"
  by (simp_all add: WdgM_internal_updateFromGlobalOK_def WdgM_internal_updateFromGlobalFAILED_def
      WdgM_internal_updateFromGlobalEXPIRED_def Let_def)

lemma wdgif_calls_CalculateGlobalState [simp]:
  assumes "mode_ok s" shows "wdgif_calls (WdgM_internal_CalculateGlobalState s) = wdgif_calls s"
proof -
  obtain e f t where "fold local_pass [0..<length (confs s)] (0, 0, s) = (e, f, t)" and k: "keeps s t"
    using all_passes [OF assms] by metis
  then show ?thesis by (simp add: WdgM_internal_CalculateGlobalState_def keeps_def)
qed

text \<open>The trigger conditions of one cycle.\<close>

definition cycle_triggers :: "WdgM_instance \<Rightarrow> bool \<Rightarrow> wdgif_call list" where
  "cycle_triggers s stopped =
     map (\<lambda>t. WdgIf_SetTriggerCondition (trigger_device s t) (if stopped then 0 else TriggerConditionValue t))
       (filter (\<lambda>t. WatchdogMode t \<noteq> WDGIF_OFF_MODE) (Triggers (CurrentMode s)))"

lemma wdgif_calls_set_triggers:
  "wdgif_calls (set_triggers s) = wdgif_calls s @ cycle_triggers s (GlobalState s = WDGM_GLOBAL_STATUS_STOPPED)"
proof -
  let ?f = "\<lambda>t s. if WatchdogMode t \<noteq> WDGIF_OFF_MODE
       then wdgif_do (WdgIf_SetTriggerCondition (trigger_device s t)
              (if GlobalState s = WDGM_GLOBAL_STATUS_STOPPED then 0 else TriggerConditionValue t)) s
       else s"
  have "wdgif_calls (fold ?f ts s) = wdgif_calls s
      @ map (\<lambda>t. WdgIf_SetTriggerCondition (trigger_device s t)
               (if GlobalState s = WDGM_GLOBAL_STATUS_STOPPED then 0 else TriggerConditionValue t))
          (filter (\<lambda>t. WatchdogMode t \<noteq> WDGIF_OFF_MODE) ts)" for ts
    by (induction ts arbitrary: s) (simp_all add: wdgif_do_def trigger_device_def)
  then show ?thesis by (simp add: set_triggers_def cycle_triggers_def)
qed

lemma some_local_same:
  assumes "same s t" and "mode_ok s"
  shows "some_local v t = some_local v s"
  using assms by (auto simp: same_def mode_ok_def list_ex_iff)

lemma MainFunction_cycle:
  "isInitiated s \<Longrightarrow> GlobalState s \<noteq> WDGM_GLOBAL_STATUS_DEACTIVATED \<Longrightarrow> mode_ok s \<Longrightarrow>
     WdgM_MainFunction s = Some (main_cycle s)"
  by (simp add: WdgM_MainFunction_def mode_ok_def)

lemma MainFunction_effect:
  assumes init: "isInitiated s" and live: "GlobalState s \<noteq> WDGM_GLOBAL_STATUS_DEACTIVATED" and ok: "mode_ok s"
  defines "t \<equiv> main_cycle s"
  shows "GlobalState t = global_verdict (GlobalState s) (some_local WDGM_LOCAL_STATUS_EXPIRED t)
           (some_local WDGM_LOCAL_STATUS_FAILED t) (tolerated s)"
    and "CurrentModePtr t = CurrentModePtr s" and "ConfigPtr t = ConfigPtr s" and "isInitiated t"
    and "length (SEs t) = length (SEs s)" and "length (rtModes t) = length (rtModes s)"
    and "mode_ok t"
    and "some_local WDGM_LOCAL_STATUS_EXPIRED s \<longrightarrow> some_local WDGM_LOCAL_STATUS_EXPIRED t"
    and "GlobalState s = WDGM_GLOBAL_STATUS_EXPIRED \<longrightarrow> some_local WDGM_LOCAL_STATUS_EXPIRED t \<longrightarrow> tolerated s
           \<longrightarrow> expired_cycles t = expired_cycles s + 1"
    and "wdgif_calls t = wdgif_calls s @ cycle_triggers s (GlobalState t = WDGM_GLOBAL_STATUS_STOPPED)"
    and "\<forall>k < length (SEs s). k \<notin> se_index s ` {0..<length (confs s)} \<longrightarrow> LocalState (SEs t ! k) = LocalState (SEs s ! k)"
    and "\<forall>i < length (confs s). \<exists>c rts e. LocalState e = local_of s i
           \<and> local_of t i = LocalState (WdgM_internal_CalculateLocalState c rts e)"
proof -
  define s1 where "s1 = WdgM_internal_CheckAlives (s\<lparr>CurrentTime := CurrentTime s + SupervisionCycle (CurrentMode s)\<rparr>)"
  define t0 where "t0 = WdgM_internal_CalculateGlobalState s1"
  have "same s (s\<lparr>CurrentTime := CurrentTime s + SupervisionCycle (CurrentMode s)\<rparr>)"
    by (simp add: same_def expired_cycles_def)
  then have s1: "same s s1" unfolding s1_def using same_CheckAlives same_trans by blast
  have ok1: "mode_ok s1" using mode_ok_same [OF s1] ok by simp
  note g = CalculateGlobalState_effect [OF ok1, folded t0_def]
  have t: "t = set_triggers t0" by (simp add: t_def main_cycle_def t0_def s1_def Let_def)
  have tt: "same t0 t" unfolding t by (rule same_set_triggers)
  have s1': "CurrentModePtr s1 = CurrentModePtr s" "ConfigPtr s1 = ConfigPtr s" "isInitiated s1 = isInitiated s"
    "length (SEs s1) = length (SEs s)" "length (rtModes s1) = length (rtModes s)" "GlobalState s1 = GlobalState s"
    "expired_cycles s1 = expired_cycles s" "\<And>k. k < length (SEs s) \<Longrightarrow> LocalState (SEs s1 ! k) = LocalState (SEs s ! k)"
    using s1 by (simp_all add: same_def)
  have t': "CurrentModePtr t = CurrentModePtr t0" "ConfigPtr t = ConfigPtr t0" "isInitiated t = isInitiated t0"
    "length (SEs t) = length (SEs t0)" "length (rtModes t) = length (rtModes t0)" "GlobalState t = GlobalState t0"
    "expired_cycles t = expired_cycles t0" "\<And>k. k < length (SEs t0) \<Longrightarrow> LocalState (SEs t ! k) = LocalState (SEs t0 ! k)"
    using tt by (simp_all add: same_def)
  have ok0: "mode_ok t0" using ok1 g(2,5,6) by (simp add: mode_ok_def)
  note some = some_local_same [OF tt ok0]
  show G: "GlobalState t = global_verdict (GlobalState s) (some_local WDGM_LOCAL_STATUS_EXPIRED t)
      (some_local WDGM_LOCAL_STATUS_FAILED t) (tolerated s)"
    unfolding some t'(6) using g(1) by (simp add: s1')
  show cm: "CurrentModePtr t = CurrentModePtr s" and cp: "ConfigPtr t = ConfigPtr s" and "isInitiated t"
    and "length (SEs t) = length (SEs s)" and "length (rtModes t) = length (rtModes s)"
    using init by (simp_all add: t' g s1')
  show "mode_ok t" using ok0 mode_ok_same [OF tt] by simp
  show "GlobalState s = WDGM_GLOBAL_STATUS_EXPIRED \<longrightarrow> some_local WDGM_LOCAL_STATUS_EXPIRED t \<longrightarrow> tolerated s
      \<longrightarrow> expired_cycles t = expired_cycles s + 1"
    unfolding some t'(7) using g(9) by (simp add: s1')
  show "wdgif_calls t = wdgif_calls s @ cycle_triggers s (GlobalState t = WDGM_GLOBAL_STATUS_STOPPED)"
  proof -
    have "wdgif_calls t0 = wdgif_calls s" using ok1 by (simp add: t0_def s1_def)
    moreover have "cycle_triggers t0 b = cycle_triggers s b" for b
      using g(2,3) by (simp add: cycle_triggers_def trigger_device_def s1')
    ultimately show ?thesis by (simp add: t wdgif_calls_set_triggers t'(6) [unfolded t])
  qed
  show "\<forall>k < length (SEs s). k \<notin> se_index s ` {0..<length (confs s)} \<longrightarrow> LocalState (SEs t ! k) = LocalState (SEs s ! k)"
    using g(5,8) by (simp add: t'(8) s1')
  show loc: "\<forall>i < length (confs s). \<exists>c rts e. LocalState e = local_of s i
      \<and> local_of t i = LocalState (WdgM_internal_CalculateLocalState c rts e)"
  proof (intro allI impI)
    fix i assume i: "i < length (confs s)"
    then have b: "se_index s i < length (SEs s)" using ok by (simp add: mode_ok_def)
    have "local_of t i = LocalState (calculated s1 i)"
      using g(7) i b by (simp add: cm t'(8) g(5) s1')
    moreover have "LocalState (SEs s1 ! se_index s i) = local_of s i" using b by (simp add: s1')
    ultimately show "\<exists>c rts e. LocalState e = local_of s i
        \<and> local_of t i = LocalState (WdgM_internal_CalculateLocalState c rts e)"
      unfolding calculated_def s1'(1) by blast
  qed
  show "some_local WDGM_LOCAL_STATUS_EXPIRED s \<longrightarrow> some_local WDGM_LOCAL_STATUS_EXPIRED t"
  proof
    assume "some_local WDGM_LOCAL_STATUS_EXPIRED s"
    then obtain i where i: "i < length (confs s)" "local_of s i = WDGM_LOCAL_STATUS_EXPIRED" by (auto simp: list_ex_iff)
    then have "local_of t i = WDGM_LOCAL_STATUS_EXPIRED" using loc CalculateLocalState_expired by metis
    then show "some_local WDGM_LOCAL_STATUS_EXPIRED t" using i by (auto simp: list_ex_iff cm)
  qed
qed

end
