(* ===== verification/WdgMClaims.thy ===== *)
theory WdgMClaims
  imports WdgMProps
begin

text \<open>
  The guarantees of the watchdog manager over its services: the calls as a type, sequences of
  them, what an expired entity leads to, how the global state follows from the local states, what
  alive supervision accepts, and a violation of the program flow that the next checkpoint hides.
\<close>

section \<open>Sequences of calls\<close>

datatype wdgm_call =
    Call_Init "WdgM_ConfigType option"
  | Call_DeInit
  | Call_SetMode u8 u16
  | Call_CheckpointReached u16 u16
  | Call_UpdateAliveCounter u16
  | Call_PerformReset
  | Call_MainFunction
  | Call_GetMode bool
  | Call_GetLocalStatus u16 bool
  | Call_GetGlobalStatus bool
  | Call_GetFirstExpiredSEID bool

fun do_call :: "wdgm_call \<Rightarrow> WdgM_instance \<Rightarrow> WdgM_instance option" where
  "do_call (Call_Init c) s = Some (WdgM_Init c s)"
| "do_call Call_DeInit s = Some (WdgM_DeInit s)"
| "do_call (Call_SetMode m c) s = Some (snd (WdgM_SetMode m c s))"
| "do_call (Call_CheckpointReached k c) s = map_option snd (WdgM_CheckpointReached k c s)"
| "do_call (Call_UpdateAliveCounter k) s = map_option snd (WdgM_UpdateAliveCounter k s)"
| "do_call Call_PerformReset s = Some (snd (WdgM_PerformReset s))"
| "do_call Call_MainFunction s = WdgM_MainFunction s"
| "do_call (Call_GetMode null) s = Some (snd (snd (WdgM_GetMode null s)))"
| "do_call (Call_GetLocalStatus k null) s = map_option (\<lambda>r. snd (snd r)) (WdgM_GetLocalStatus k null s)"
| "do_call (Call_GetGlobalStatus null) s = Some (snd (snd (WdgM_GetGlobalStatus null s)))"
| "do_call (Call_GetFirstExpiredSEID null) s = Some (snd (snd (WdgM_GetFirstExpiredSEID null s)))"

fun do_calls :: "wdgm_call list \<Rightarrow> WdgM_instance \<Rightarrow> WdgM_instance option" where
  "do_calls [] s = Some s"
| "do_calls (c # cs) s = (case do_call c s of None \<Rightarrow> None | Some t \<Rightarrow> do_calls cs t)"

section \<open>An expired entity\<close>

text \<open>An entity of the mode has expired and the watchdogs are triggered for at most \<open>n\<close> more cycles.\<close>

definition expiring :: "nat \<Rightarrow> WdgM_instance \<Rightarrow> bool" where
  "expiring n s \<longleftrightarrow> isInitiated s \<and> mode_ok s \<and> some_local WDGM_LOCAL_STATUS_EXPIRED s
     \<and> (GlobalState s = WDGM_GLOBAL_STATUS_STOPPED
        \<or> 0 < n \<and> GlobalState s = WDGM_GLOBAL_STATUS_EXPIRED
          \<and> unat (ExpiredSupervisionCycleTol (CurrentMode s)) < unat (expired_cycles s) + n)"

lemma expiring_same:
  assumes "expiring n s" and "same s t" shows "expiring n t"
  using assms mode_ok_same [OF assms(2)] some_local_same [OF assms(2)] by (simp add: expiring_def same_def)

lemma expiring_SetMode: "expiring n s \<Longrightarrow> same s (snd (WdgM_SetMode m c s))"
  by (auto simp: expiring_def WdgM_SetMode_def WdgM_internal_isAtLeastOneWdogEnabled_def Let_def same_wdgm_det)

lemma expiring_MainFunction:
  assumes e: "expiring n s"
  shows "WdgM_MainFunction s = Some (main_cycle s)" and "expiring (n - 1) (main_cycle s)"
proof -
  show "WdgM_MainFunction s = Some (main_cycle s)"
    using e by (intro MainFunction_cycle) (auto simp: expiring_def)
  let ?t = "main_cycle s"
  have "isInitiated s" "GlobalState s \<noteq> WDGM_GLOBAL_STATUS_DEACTIVATED" "mode_ok s"
    "some_local WDGM_LOCAL_STATUS_EXPIRED s" using e by (auto simp: expiring_def)
  note main = MainFunction_effect [OF this(1-3)] this
  have some: "some_local WDGM_LOCAL_STATUS_EXPIRED ?t" using main(8,16) by blast
  show "expiring (n - 1) ?t"
  proof (cases "GlobalState s = WDGM_GLOBAL_STATUS_EXPIRED \<and> tolerated s")
    case True
    have "unat (expired_cycles s + 1) = unat (expired_cycles s) + 1"
      using unat_Suc_below [of "expired_cycles s" "ExpiredSupervisionCycleTol (CurrentMode s)"] True by simp
    then have "unat (expired_cycles ?t) = unat (expired_cycles s) + 1" using main(9) some True by simp
    moreover have "GlobalState ?t = WDGM_GLOBAL_STATUS_EXPIRED" using main(1) True by (simp add: global_verdict_def)
    moreover have "unat (ExpiredSupervisionCycleTol (CurrentMode s)) < unat (expired_cycles s) + n"
      using e True by (simp add: expiring_def)
    ultimately show ?thesis using main(2,4,7) some True by (auto simp: expiring_def word_less_nat_alt)
  next
    case False
    then have "GlobalState ?t = WDGM_GLOBAL_STATUS_STOPPED"
      using e main(1) some by (auto simp: expiring_def global_verdict_def)
    then show ?thesis using main(4,7) some by (simp add: expiring_def)
  qed
qed

lemma same_getters:
  "same s (snd (snd (WdgM_GetMode null s)))" "same s (snd (snd (WdgM_GetGlobalStatus null s)))"
  "same s (snd (snd (WdgM_GetFirstExpiredSEID null s)))"
  "WdgM_GetLocalStatus k null s = Some r \<Longrightarrow> same s (snd (snd r))"
  by (auto simp: WdgM_GetMode_def WdgM_GetGlobalStatus_def WdgM_GetFirstExpiredSEID_def
      WdgM_GetLocalStatus_def same_wdgm_det split: if_splits)

lemma expiring_call:
  assumes e: "expiring n s" and c: "do_call c s = Some t"
  shows "expiring (if c = Call_MainFunction then n - 1 else n) t"
proof (cases c)
  case (Call_Init c')
  then have "same s t" using e c by (cases c') (auto simp: WdgM_Init_def expiring_def same_wdgm_det)
  then show ?thesis using Call_Init expiring_same [OF e] by simp
next
  case Call_DeInit
  then have "t = s" using e c by (auto simp: WdgM_DeInit_def expiring_def)
  then show ?thesis using Call_DeInit e by simp
next
  case (Call_SetMode m' c')
  then show ?thesis using expiring_same [OF e expiring_SetMode [OF e]] c by auto
next
  case (Call_CheckpointReached k c')
  then show ?thesis using expiring_same [OF e] same_CheckpointReached c by (auto simp: prod_eq_iff)
next
  case (Call_UpdateAliveCounter k)
  then show ?thesis using expiring_same [OF e] same_UpdateAliveCounter c by auto
next
  case Call_PerformReset
  then show ?thesis using expiring_same [OF e same_PerformReset] c by auto
next
  case Call_MainFunction
  then show ?thesis using expiring_MainFunction [OF e] c by auto
next
  case (Call_GetLocalStatus k null)
  then show ?thesis using expiring_same [OF e] same_getters(4) c by auto
qed (use expiring_same [OF e] same_getters(1-3) c in auto)

lemma expiring_calls:
  "expiring n s \<Longrightarrow> do_calls cs s = Some t \<Longrightarrow> expiring (n - count_list cs Call_MainFunction) t"
proof (induction cs arbitrary: n s)
  case (Cons c cs)
  then obtain u where u: "do_call c s = Some u" "do_calls cs u = Some t" by (auto split: option.splits)
  then show ?case using Cons.IH [OF expiring_call [OF Cons.prems(1) u(1)] u(2)]
    by (auto split: if_splits)
qed simp

text \<open>C23: An expired supervised entity stops the triggering of the watchdogs within a bounded time,
  whatever is called: in the global state EXPIRED, with an entity of the current mode expired, after
  every sequence of service calls with more main function cycles than the mode tolerates the global
  state is STOPPED, and every further main function sets the trigger condition of every watchdog
  that is on to 0 and does nothing else at the watchdog interface.  Neither a change of mode nor
  deinitialisation nor a second initialisation gets the manager out of it.\<close>

theorem expired_entity_stops_watchdogs:
  assumes "isInitiated s" and "mode_ok s" and "GlobalState s = WDGM_GLOBAL_STATUS_EXPIRED"
    and "some_local WDGM_LOCAL_STATUS_EXPIRED s"
    and "unat (ExpiredSupervisionCycleTol (CurrentMode s)) < count_list cs Call_MainFunction"
    and "do_calls cs s = Some t"
  shows "GlobalState t = WDGM_GLOBAL_STATUS_STOPPED
    \<and> (\<exists>u. WdgM_MainFunction t = Some u \<and> wdgif_calls u = wdgif_calls t
        @ map (\<lambda>tr. WdgIf_SetTriggerCondition (trigger_device t tr) 0)
            (filter (\<lambda>tr. WatchdogMode tr \<noteq> WDGIF_OFF_MODE) (Triggers (CurrentMode t))))"
proof -
  let ?n = "Suc (unat (ExpiredSupervisionCycleTol (CurrentMode s)))"
  have "expiring ?n s" using assms(1-4) by (simp add: expiring_def)
  then have e: "expiring 0 t" using expiring_calls [OF _ assms(6), of ?n] assms(5) by simp
  then have "isInitiated t" "GlobalState t = WDGM_GLOBAL_STATUS_STOPPED" "mode_ok t" by (simp_all add: expiring_def)
  moreover from this have "GlobalState (main_cycle t) = WDGM_GLOBAL_STATUS_STOPPED"
    using MainFunction_effect(1) [of t] by (simp add: global_verdict_def)
  ultimately show ?thesis
    using MainFunction_effect(10) [of t] MainFunction_cycle [of t] by (simp add: cycle_triggers_def)
qed
text \<open>A configuration with two entities and two modes: entity 0 is supervised in mode 0 (alive and
  program flow 1, 2, 3), entity 1 in mode 1.\<close>

definition demo_alive :: WdgM_AliveSupervision where
  "demo_alive = \<lparr>CheckpointId = 1, ExpectedAliveIndications = 3, MinMargin = 1, MaxMargin = 1,
     SupervisionReferenceCycle = 2\<rparr>"

definition demo_wdg_conf :: WdgM_ConfigType where
  "demo_wdg_conf = \<lparr>allowedCallerIds = [7],
     SupervisedEntities =
       [\<lparr>CheckpointIds = [1, 2, 3],
          Transitions = [\<lparr>CheckpointIdSource = 1, CheckpointIdDestination = 2\<rparr>,
                         \<lparr>CheckpointIdSource = 2, CheckpointIdDestination = 3\<rparr>],
          StartCheckpointIds = [1], FinalCheckpointIds = [3]\<rparr>,
        \<lparr>CheckpointIds = [1], Transitions = [], StartCheckpointIds = [1], FinalCheckpointIds = [1]\<rparr>],
     Watchdogs = [\<lparr>WatchdogDeviceId = 4\<rparr>], initialModeId = 0,
     Modes =
       [\<lparr>mode_Id = 0, ExpiredSupervisionCycleTol = 1, SupervisionCycle = 10,
          SEConfigurations = [\<lparr>SupervisedEntityId = 0, CheckInternalLogic = True, AliveSupervisions = [demo_alive],
            DeadlineSupervisions = [], FailedAliveSupervisionReferenceCycleTol = 1\<rparr>],
          Triggers = [\<lparr>TriggerConditionValue = 20, WatchdogMode = WDGIF_FAST_MODE, trigger_WatchdogId = 0\<rparr>]\<rparr>,
        \<lparr>mode_Id = 1, ExpiredSupervisionCycleTol = 1, SupervisionCycle = 10,
          SEConfigurations = [\<lparr>SupervisedEntityId = 1, CheckInternalLogic = False, AliveSupervisions = [],
            DeadlineSupervisions = [], FailedAliveSupervisionReferenceCycleTol = 1\<rparr>],
          Triggers = [\<lparr>TriggerConditionValue = 50, WatchdogMode = WDGIF_SLOW_MODE, trigger_WatchdogId = 0\<rparr>]\<rparr>],
     OFF_MODE_ENABLED = True, DEFENSIVE_BEHAVIOR = True, wdg_answer = (\<lambda>_ _. E_OK)\<rparr>"

definition demo_se :: "u8 \<Rightarrow> WdgM_internal_SupervisedEntity" where
  "demo_se st = \<lparr>LocalState = st, SubstateAlive = 1, SubstateDeadline = 1, SubstateLogical = 1,
     IsInternalGraphActive = False, PreviousCheckpointId_Deadline = 0, PreviousCheckpointId_internalLogic = 0,
     FailedAliveCyclesCounter = 0\<rparr>"

text \<open>The instance in mode 0, with the local state of entity 0 and the global state given.\<close>

definition demo_wdg :: "u8 \<Rightarrow> u8 \<Rightarrow> WdgM_instance" where
  "demo_wdg local global = \<lparr>ConfigPtr = demo_wdg_conf, SEs = [demo_se local, demo_se 4],
     rtModes =
       [\<lparr>SE_Configs = [\<lparr>rtAlive = [\<lparr>AliveCounter = 0, SupervisionCycleCounter = 0, wasEvaluated = False\<rparr>],
                       rtDeadline = []\<rparr>], ExpiredSupervisionCycleCounter = 0\<rparr>,
        \<lparr>SE_Configs = [\<lparr>rtAlive = [], rtDeadline = []\<rparr>], ExpiredSupervisionCycleCounter = 0\<rparr>],
     isInitiated = True, GlobalState = global, CurrentTime = 0, CurrentModePtr = Some (Modes demo_wdg_conf ! 0),
     ResetInitiated = False, firstExpiredSEID = 0, isFirstExpiredSet = False, det_reports = [], wdgif_calls = []\<rparr>"

abbreviation demo_calls :: "wdgm_call list" where
  "demo_calls \<equiv> [Call_MainFunction, Call_SetMode 1 7, Call_CheckpointReached 0 1, Call_MainFunction]"

lemma demo_mode_ok: "mode_ok (demo_wdg l g)"
  by (simp add: mode_ok_def demo_wdg_def demo_wdg_conf_def)

lemma expired_entity_stops_watchdogs_witness:
  "GlobalState (the (do_calls demo_calls (demo_wdg 2 2))) = WDGM_GLOBAL_STATUS_STOPPED"
proof -
  have "\<not> Option.is_none (do_calls demo_calls (demo_wdg 2 2))" by code_simp
  then have "do_calls demo_calls (demo_wdg 2 2) = Some (the (do_calls demo_calls (demo_wdg 2 2)))"
    by (simp add: Option.is_none_def)
  then show ?thesis
    using expired_entity_stops_watchdogs [of "demo_wdg 2 2" demo_calls] demo_mode_ok
    by (simp add: demo_wdg_def demo_wdg_conf_def demo_se_def)
qed
section \<open>The global state\<close>

text \<open>C26: After every main function cycle the global state is the one the state machine of the
  global status prescribes for the local states it has just calculated: an expired entity makes it
  EXPIRED while the mode tolerates it and STOPPED after that, otherwise a failed one makes it
  FAILED, otherwise it is OK, STOPPED is final; and the watchdogs that are on get their trigger
  conditions, 0 exactly when it is STOPPED.\<close>

theorem global_status_follows_local_status:
  assumes "isInitiated s" and "GlobalState s \<noteq> WDGM_GLOBAL_STATUS_DEACTIVATED" and "mode_ok s"
  shows "\<exists>t. WdgM_MainFunction s = Some t
    \<and> GlobalState t =
        global_verdict (GlobalState s) (some_local WDGM_LOCAL_STATUS_EXPIRED t)
          (some_local WDGM_LOCAL_STATUS_FAILED t)
          (expired_cycles s < ExpiredSupervisionCycleTol (CurrentMode s))
    \<and> wdgif_calls t = wdgif_calls s @ cycle_triggers s (GlobalState t = WDGM_GLOBAL_STATUS_STOPPED)"
  using MainFunction_effect(1,10) [OF assms] MainFunction_cycle [OF assms] by blast

lemma global_status_follows_local_status_witness:
  "\<exists>t. WdgM_MainFunction (demo_wdg 1 1) = Some t \<and> GlobalState t = WDGM_GLOBAL_STATUS_OK"
proof -
  have "\<not> some_local WDGM_LOCAL_STATUS_EXPIRED (main_cycle (demo_wdg 1 1))"
    "\<not> some_local WDGM_LOCAL_STATUS_FAILED (main_cycle (demo_wdg 1 1))" by code_simp+
  moreover have "WdgM_MainFunction (demo_wdg 1 1) = Some (main_cycle (demo_wdg 1 1))"
    by (rule MainFunction_cycle [OF _ _ demo_mode_ok]) (simp_all add: demo_wdg_def)
  moreover have "isInitiated (demo_wdg 1 1)" "GlobalState (demo_wdg 1 1) = 1" by (simp_all add: demo_wdg_def)
  ultimately show ?thesis
    using global_status_follows_local_status [of "demo_wdg 1 1"] demo_mode_ok by (simp add: global_verdict_def)
qed

section \<open>Program flow\<close>

definition flow_state :: "WdgM_internal_SupervisedEntity \<Rightarrow> bool \<times> u16" where
  "flow_state e = (IsInternalGraphActive e, PreviousCheckpointId_internalLogic e)"

lemma LogicalMonitoring_flow:
  assumes "flow_state e1 = flow_state e2"
  shows "fst (WdgM_internal_LogicalMonitoring se cp e1) = fst (WdgM_internal_LogicalMonitoring se cp e2)"
    and "flow_state (snd (WdgM_internal_LogicalMonitoring se cp e1))
      = flow_state (snd (WdgM_internal_LogicalMonitoring se cp e2))"
  using assms by (simp_all add: flow_state_def WdgM_internal_LogicalMonitoring_def
      WdgM_internal_LogicalMonitoring_GraphActive_def WdgM_internal_LogicalMonitoring_GraphInactive_def)

lemma LogicalMonitoring_violation:
  "fst (WdgM_internal_LogicalMonitoring se cp e) = WDGM_SUBSTATE_INCORRECT \<Longrightarrow>
    snd (WdgM_internal_LogicalMonitoring se cp e) = e"
  by (simp add: WdgM_internal_LogicalMonitoring_def WdgM_internal_LogicalMonitoring_GraphActive_def
      WdgM_internal_LogicalMonitoring_GraphInactive_def split: if_splits)

lemma supervise_checkpoint_logic:
  assumes "k < length (SEs s)"
  shows "SubstateLogical (SEs (supervise_checkpoint k cp se i s) ! k) =
      (if CheckInternalLogic (confs s ! i) then fst (WdgM_internal_LogicalMonitoring se cp (SEs s ! k))
       else SubstateLogical (SEs s ! k))"
    and "flow_state (SEs (supervise_checkpoint k cp se i s) ! k) =
      (if CheckInternalLogic (confs s ! i) then flow_state (snd (WdgM_internal_LogicalMonitoring se cp (SEs s ! k)))
       else flow_state (SEs s ! k))"
proof -
  let ?conf = "SEConfigurations (CurrentMode s) ! i"
  let ?s1 = "upd_conf i (rtAlive_update (WdgM_internal_AliveMonitoring (AliveSupervisions ?conf) cp)) s"
  obtain d rtd prev where dl: "deadline_loop (CurrentTime ?s1) cp (DeadlineSupervisions ?conf)
      (rtDeadline (rt_conf i ?s1)) (PreviousCheckpointId_Deadline (SEs ?s1 ! k)) = (d, rtd, prev)"
    by (metis prod_cases3)
  let ?e = "(SEs s ! k)\<lparr>PreviousCheckpointId_Deadline := prev, SubstateDeadline := d\<rparr>"
  have e: "flow_state ?e = flow_state (SEs s ! k)" "SubstateLogical ?e = SubstateLogical (SEs s ! k)"
    by (simp_all add: flow_state_def)
  obtain v e' where lm: "WdgM_internal_LogicalMonitoring se cp ?e = (v, e')" by (cases "WdgM_internal_LogicalMonitoring se cp ?e")
  have "SEs (supervise_checkpoint k cp se i s) ! k = (if CheckInternalLogic ?conf
      then (let (v, e') = WdgM_internal_LogicalMonitoring se cp ?e in e'\<lparr>SubstateLogical := v\<rparr>) else ?e)"
    unfolding supervise_checkpoint_def Let_def dl prod.case using assms by simp
  then show "SubstateLogical (SEs (supervise_checkpoint k cp se i s) ! k) =
      (if CheckInternalLogic (confs s ! i) then fst (WdgM_internal_LogicalMonitoring se cp (SEs s ! k))
       else SubstateLogical (SEs s ! k))"
    and "flow_state (SEs (supervise_checkpoint k cp se i s) ! k) =
      (if CheckInternalLogic (confs s ! i) then flow_state (snd (WdgM_internal_LogicalMonitoring se cp (SEs s ! k)))
       else flow_state (SEs s ! k))"
    using LogicalMonitoring_flow [OF e(1), of se cp] unfolding lm
    by (simp_all add: flow_state_def)
qed

lemma CheckpointReached_OK:
  assumes "WdgM_CheckpointReached SEID cp s = Some (E_OK, t)"
  obtains i where "t = supervise_checkpoint (unat SEID) cp (SupervisedEntities (ConfigPtr s) ! unat SEID) i s"
    and "List.find (\<lambda>i. SupervisedEntityId (confs s ! i) = SEID) [0..<length (confs s)] = Some i"
    and "unat SEID < length (SupervisedEntities (ConfigPtr s))"
  using assms by (auto simp: WdgM_CheckpointReached_def Let_def split: if_splits option.splits)

text \<open>C28: A violation of the program flow leaves no trace when a permitted checkpoint follows in the
  same cycle: if the checkpoint \<open>bad\<close> is judged incorrect and \<open>good\<close> would have been correct in its
  place, then after both of them the entity's logical substate is correct and its program flow graph
  is as if \<open>bad\<close> had never been reached, so the next main function sees no violation.\<close>

theorem program_flow_violation_masked:
  assumes "length (SEs s) = length (SupervisedEntities (ConfigPtr s))"
    and "WdgM_CheckpointReached SEID bad s = Some (E_OK, s1)"
    and "SubstateLogical (SEs s1 ! unat SEID) = WDGM_SUBSTATE_INCORRECT"
    and "WdgM_CheckpointReached SEID good s1 = Some (E_OK, s2)"
    and "WdgM_CheckpointReached SEID good s = Some (E_OK, s3)"
    and "SubstateLogical (SEs s3 ! unat SEID) = WDGM_SUBSTATE_CORRECT"
  shows "SubstateLogical (SEs s2 ! unat SEID) = WDGM_SUBSTATE_CORRECT
    \<and> flow_state (SEs s2 ! unat SEID) = flow_state (SEs s3 ! unat SEID)"
proof -
  let ?k = "unat SEID" and ?se = "SupervisedEntities (ConfigPtr s) ! unat SEID"
  have same: "same s s1" by (rule same_CheckpointReached [OF assms(2)])
  then have eq: "ConfigPtr s1 = ConfigPtr s" "CurrentModePtr s1 = CurrentModePtr s" "length (SEs s1) = length (SEs s)"
    by (simp_all add: same_def)
  obtain i where i: "s1 = supervise_checkpoint ?k bad ?se i s"
    "List.find (\<lambda>i. SupervisedEntityId (confs s ! i) = SEID) [0..<length (confs s)] = Some i"
    and k: "?k < length (SEs s)"
    using assms(1) CheckpointReached_OK [OF assms(2)] by metis
  have s2: "s2 = supervise_checkpoint ?k good ?se i s1"
    using CheckpointReached_OK [OF assms(4)] i(2) unfolding eq by (metis option.inject)
  have s3: "s3 = supervise_checkpoint ?k good ?se i s"
    using CheckpointReached_OK [OF assms(5)] i(2) by (metis option.inject)
  have chk: "CheckInternalLogic (confs s ! i)"
    using supervise_checkpoint_logic(1) [OF k, of _ ?se i] assms(3,6) i(1) s3 by (metis zero_neq_one)
  have "fst (WdgM_internal_LogicalMonitoring ?se bad (SEs s ! ?k)) = WDGM_SUBSTATE_INCORRECT"
    using supervise_checkpoint_logic(1) [OF k, of bad ?se i] assms(3) i(1) chk by simp
  then have "flow_state (SEs s1 ! ?k) = flow_state (SEs s ! ?k)"
    using supervise_checkpoint_logic(2) [OF k, of bad ?se i] LogicalMonitoring_violation i(1) chk by simp
  note lm = LogicalMonitoring_flow [OF this, of ?se good]
  have k1: "?k < length (SEs s1)" using k eq by simp
  show ?thesis
    using supervise_checkpoint_logic [OF k1, of good ?se i] supervise_checkpoint_logic [OF k, of good ?se i]
      lm chk assms(6) by (simp add: s2 s3 eq)
qed
abbreviation demo_reach :: "u16 \<Rightarrow> WdgM_instance \<Rightarrow> WdgM_instance" where
  "demo_reach cp s \<equiv> snd (the (WdgM_CheckpointReached 0 cp s))"

lemma reach_Some:
  assumes "\<not> Option.is_none (WdgM_CheckpointReached k c s)" and "fst (the (WdgM_CheckpointReached k c s)) = rv"
  shows "WdgM_CheckpointReached k c s = Some (rv, snd (the (WdgM_CheckpointReached k c s)))"
  using assms by (auto simp: Option.is_none_def)

lemma program_flow_violation_masked_witness:
  "SubstateLogical (SEs (demo_reach 3 (demo_wdg 0 0)) ! 0) = WDGM_SUBSTATE_INCORRECT
   \<and> SubstateLogical (SEs (demo_reach 1 (demo_reach 3 (demo_wdg 0 0))) ! 0) = WDGM_SUBSTATE_CORRECT"
proof -
  let ?s = "demo_wdg 0 0"
  have 1: "WdgM_CheckpointReached 0 3 ?s = Some (E_OK, demo_reach 3 ?s)" by (rule reach_Some; code_simp)
  have 2: "WdgM_CheckpointReached 0 1 (demo_reach 3 ?s) = Some (E_OK, demo_reach 1 (demo_reach 3 ?s))"
    by (rule reach_Some; code_simp)
  have 3: "WdgM_CheckpointReached 0 1 ?s = Some (E_OK, demo_reach 1 ?s)" by (rule reach_Some; code_simp)
  have 4: "SubstateLogical (SEs (demo_reach 3 ?s) ! 0) = WDGM_SUBSTATE_INCORRECT"
    "SubstateLogical (SEs (demo_reach 1 ?s) ! 0) = WDGM_SUBSTATE_CORRECT"
    "length (SEs ?s) = length (SupervisedEntities (ConfigPtr ?s))" by code_simp+
  show ?thesis using program_flow_violation_masked [of ?s 0 3 _ 1, OF 4(3) 1 _ 2 3] 4 by simp
qed

section \<open>Alive supervision\<close>

lemma unat_of_nat_le: "unat (of_nat n :: 'a::len word) \<le> n"
  by (simp add: unsigned_of_nat)

text \<open>The two things that happen to an alive supervision: the checkpoint is reached, and a main
  function cycle passes.  The second and third components are the last verdict and whether there
  was one.\<close>

datatype alive_event = Indication | Cycle

type_synonym alive_run = "WdgM_internal_AliveSupervision list \<times> u8 \<times> bool"

fun alive_step :: "WdgM_AliveSupervision \<Rightarrow> alive_event \<Rightarrow> alive_run \<Rightarrow> alive_run" where
  "alive_step cp Indication (rts, r, w) = (WdgM_internal_AliveMonitoring [cp] (CheckpointId cp) rts, r, w)"
| "alive_step cp Cycle (rts, r, w) = check_alive_loop [cp] rts WDGM_SUBSTATE_CORRECT False"

lemma AliveMonitoring_single:
  "WdgM_internal_AliveMonitoring [cp] (CheckpointId cp) [rt] = [rt\<lparr>AliveCounter := AliveCounter rt + 1\<rparr>]"
  by (simp add: WdgM_internal_AliveMonitoring_def)

lemma alive_prefix:
  assumes "AliveCounter rt = 0" and "SupervisionCycleCounter rt = 0"
    and "count_list evs Cycle < unat (SupervisionReferenceCycle cp)"
  shows "\<exists>rt' r w. fold (alive_step cp) evs ([rt], 0, False) = ([rt'], r, w)
    \<and> AliveCounter rt' = of_nat (count_list evs Indication)
    \<and> SupervisionCycleCounter rt' = of_nat (count_list evs Cycle)"
  using assms(3)
proof (induction evs rule: rev_induct)
  case Nil
  then show ?case using assms(1,2) by auto
next
  case (snoc e evs)
  then obtain rt' r w where f: "fold (alive_step cp) evs ([rt], 0, False) = ([rt'], r, w)"
    and ac: "AliveCounter rt' = of_nat (count_list evs Indication)"
    and cc: "SupervisionCycleCounter rt' = of_nat (count_list evs Cycle)" by (auto split: if_splits)
  show ?case
  proof (cases e)
    case Indication
    then show ?thesis by (simp add: f AliveMonitoring_single ac cc)
  next
    case Cycle
    then have c: "Suc (count_list evs Cycle) < unat (SupervisionReferenceCycle cp)" using snoc.prems by simp
    then have "SupervisionReferenceCycle cp \<noteq> 1" by auto
    moreover have "SupervisionCycleCounter rt' + 1 \<noteq> SupervisionReferenceCycle cp"
    proof
      assume "SupervisionCycleCounter rt' + 1 = SupervisionReferenceCycle cp"
      then have "of_nat (Suc (count_list evs Cycle)) = SupervisionReferenceCycle cp" by (simp add: cc add.commute)
      then have "unat (SupervisionReferenceCycle cp) \<le> Suc (count_list evs Cycle)"
        using unat_of_nat_le by metis
      then show False using c by simp
    qed
    ultimately show ?thesis
      using Cycle by (simp add: f WdgM_internal_IsAliveHold_def Let_def ac cc add.commute ex_bool_eq)
  qed
qed

lemma sint_difference:
  assumes "a < 2 ^ 15" and "unat b < 2 ^ 15"
  shows "sint (of_nat a - b :: u16) = int a - uint b"
proof -
  have "of_nat a - b = (of_int (int a - uint b) :: u16)"
    by (simp only: of_int_diff of_int_of_nat_eq word_of_int_uint)
  moreover have "signed_take_bit 15 (int a - uint b) = int a - uint b"
  proof (rule signed_take_bit_int_eq_self)
    have "int (unat b) < int (2 ^ 15)" using assms(2) by (simp only: of_nat_less_iff)
    then have "uint b < 2 ^ 15" by simp
    moreover have "int a < 2 ^ 15" using assms(1) by simp
    moreover note uint_ge_0 [of b]
    ultimately show "- (2 ^ 15) \<le> int a - uint b" and "int a - uint b < 2 ^ 15" by linarith+
  qed
  ultimately show ?thesis by (simp only: signed_of_int) simp
qed

lemma SpecAliveAlgo_window:
  assumes "SupervisionCycleCounter rt = SupervisionReferenceCycle cp" and "AliveCounter rt = of_nat n"
    and "n < 2 ^ 15" and "unat (ExpectedAliveIndications cp) < 2 ^ 15"
  shows "WdgM_internal_SpecAliveAlgo cp rt =
    (if int (unat (ExpectedAliveIndications cp)) - int (unat (MinMargin cp)) \<le> int n
        \<and> n \<le> unat (ExpectedAliveIndications cp) + unat (MaxMargin cp)
     then WDGM_SUBSTATE_CORRECT else WDGM_SUBSTATE_INCORRECT, rt\<lparr>AliveCounter := 0, SupervisionCycleCounter := 0\<rparr>)"
proof -
  let ?E = "ExpectedAliveIndications cp"
  have "(ucast (of_nat n :: u32) :: u16) = of_nat n"
    using assms(3) by (simp add: unsigned_of_nat take_bit_nat_eq_self)
  then have temp: "ucast (AliveCounter rt) - SupervisionCycleCounter rt + (SupervisionReferenceCycle cp - ?E)
      = of_nat n - ?E" by (simp add: assms(1,2))
  have "n \<le> unat ?E + unat (MaxMargin cp) \<longleftrightarrow> int n \<le> int (unat ?E) + int (unat (MaxMargin cp))" by linarith
  then show ?thesis
    unfolding WdgM_internal_SpecAliveAlgo_def Let_def temp sint_difference [OF assms(3,4)] by auto
qed

text \<open>C27: Alive supervision accepts exactly the configured range.  Over a supervision reference
  cycle, whatever the order of the indications of the checkpoint and the main function cycles, the
  supervision is evaluated at the last of them, its counters start again from 0, and its verdict is
  correct iff the number of indications lies between the expected number less the lower margin and
  the expected number plus the upper margin.  Both numbers have to fit \<open>sint16\<close>.\<close>

theorem alive_window_exact:
  assumes "AliveCounter rt = 0" and "SupervisionCycleCounter rt = 0"
    and "Suc (count_list evs Cycle) = unat (SupervisionReferenceCycle cp)"
    and "count_list evs Indication < 2 ^ 15" and "unat (ExpectedAliveIndications cp) < 2 ^ 15"
  shows "fold (alive_step cp) (evs @ [Cycle]) ([rt], 0, False) =
    ([rt\<lparr>AliveCounter := 0, SupervisionCycleCounter := 0, wasEvaluated := True\<rparr>],
     if int (unat (ExpectedAliveIndications cp)) - int (unat (MinMargin cp)) \<le> int (count_list evs Indication)
        \<and> count_list evs Indication \<le> unat (ExpectedAliveIndications cp) + unat (MaxMargin cp)
     then WDGM_SUBSTATE_CORRECT else WDGM_SUBSTATE_INCORRECT, True)"
proof -
  let ?n = "count_list evs Indication" and ?E = "ExpectedAliveIndications cp"
  obtain rt' r w where f: "fold (alive_step cp) evs ([rt], 0, False) = ([rt'], r, w)"
    and ac: "AliveCounter rt' = of_nat ?n" and cc: "SupervisionCycleCounter rt' = of_nat (count_list evs Cycle)"
    using alive_prefix [OF assms(1,2), of evs cp] assms(3) by auto
  have full: "SupervisionCycleCounter rt' + 1 = SupervisionReferenceCycle cp"
    using arg_cong [OF assms(3), of "of_nat :: nat \<Rightarrow> u16"] by (simp add: cc add.commute)
  let ?rt = "rt'\<lparr>SupervisionCycleCounter := SupervisionReferenceCycle cp\<rparr>"
  define v where "v = (if int (unat ?E) - int (unat (MinMargin cp)) \<le> int ?n \<and> ?n \<le> unat ?E + unat (MaxMargin cp)
     then WDGM_SUBSTATE_CORRECT else WDGM_SUBSTATE_INCORRECT)"
  have spec: "WdgM_internal_SpecAliveAlgo cp (?rt\<lparr>wasEvaluated := False\<rparr>) =
      (v, ?rt\<lparr>wasEvaluated := False, AliveCounter := 0, SupervisionCycleCounter := 0\<rparr>)"
    unfolding v_def using assms(4,5) by (intro SpecAliveAlgo_window) (simp_all add: ac)
  have "WdgM_internal_IsAliveHold cp ?rt =
      (v, ?rt\<lparr>wasEvaluated := False, AliveCounter := 0, SupervisionCycleCounter := 0, wasEvaluated := True\<rparr>)"
    unfolding WdgM_internal_IsAliveHold_def Let_def spec by simp
  also have "?rt\<lparr>wasEvaluated := False, AliveCounter := 0, SupervisionCycleCounter := 0, wasEvaluated := True\<rparr> =
      rt\<lparr>AliveCounter := 0, SupervisionCycleCounter := 0, wasEvaluated := True\<rparr>"
    by (cases rt; cases rt') simp
  finally have hold: "WdgM_internal_IsAliveHold cp ?rt =
      (v, rt\<lparr>AliveCounter := 0, SupervisionCycleCounter := 0, wasEvaluated := True\<rparr>)" .
  have "rt'\<lparr>SupervisionCycleCounter := SupervisionCycleCounter rt' + 1\<rparr> = ?rt" by (simp add: full)
  then show ?thesis unfolding v_def [symmetric] by (simp add: f hold v_def)
qed

lemma alive_window_exact_witness:
  "fold (alive_step demo_alive) [Indication, Cycle, Indication, Cycle]
     ([\<lparr>AliveCounter = 0, SupervisionCycleCounter = 0, wasEvaluated = False\<rparr>], 0, False) =
   ([\<lparr>AliveCounter = 0, SupervisionCycleCounter = 0, wasEvaluated = True\<rparr>], WDGM_SUBSTATE_CORRECT, True)"
  using alive_window_exact [of "\<lparr>AliveCounter = 0, SupervisionCycleCounter = 0, wasEvaluated = False\<rparr>"
      "[Indication, Cycle, Indication]" demo_alive]
  by (simp add: demo_alive_def)
text \<open>A reset that was performed is undone by the next cycle: the main function ignores
  \<open>ResetInitiated\<close> and sets the trigger conditions of the mode again.\<close>

lemma PerformReset_undone:
  assumes "isInitiated s" and "GlobalState s \<noteq> WDGM_GLOBAL_STATUS_DEACTIVATED" and "mode_ok s"
  defines "t \<equiv> snd (WdgM_PerformReset s)"
  shows "\<exists>u. WdgM_MainFunction t = Some u
    \<and> wdgif_calls u = wdgif_calls t @ cycle_triggers s (GlobalState u = WDGM_GLOBAL_STATUS_STOPPED)"
proof -
  have same: "same s t" unfolding t_def by (rule same_PerformReset)
  then have "isInitiated t" "GlobalState t \<noteq> WDGM_GLOBAL_STATUS_DEACTIVATED" "mode_ok t"
    using assms(1-3) mode_ok_same [OF same] by (simp_all add: same_def)
  from MainFunction_effect(10) [OF this] MainFunction_cycle [OF this] same show ?thesis
    by (simp add: cycle_triggers_def trigger_device_def same_def)
qed

end
