(* ===== verification/WdgMModes.thy ===== *)
theory WdgMModes
  imports WdgMClaims
begin

text \<open>
  Modes of the watchdog manager: which entities a change of mode activates, and the invariant that
  makes reporting a checkpoint safe -- the active entities are always exactly those the current mode
  has a configuration for, so the search for the configuration of an active entity never fails.
\<close>

section \<open>Activating and deactivating entities\<close>

definition deact :: "WdgM_internal_SupervisedEntity \<Rightarrow> WdgM_internal_SupervisedEntity" where
  "deact e = e\<lparr>LocalState := WDGM_LOCAL_STATUS_DEACTIVATED,
       IsInternalGraphActive := False, PreviousCheckpointId_internalLogic := 0,
       PreviousCheckpointId_Deadline := 0, FailedAliveCyclesCounter := 0,
       SubstateAlive := WDGM_SUBSTATE_CORRECT, SubstateDeadline := WDGM_SUBSTATE_CORRECT,
       SubstateLogical := WDGM_SUBSTATE_CORRECT\<rparr>"

lemma LocalState_deact [simp]: "LocalState (deact e) = WDGM_LOCAL_STATUS_DEACTIVATED"
  by (simp add: deact_def)

lemma DeactivateAndResetSE_deact: "WdgM_internal_DeactivateAndResetSE i = upd_se i deact"
  by (simp add: WdgM_internal_DeactivateAndResetSE_def deact_def [abs_def])

text \<open>Only the entity table differs.\<close>

definition only_ses :: "WdgM_instance \<Rightarrow> WdgM_instance \<Rightarrow> bool" where
  "only_ses s t \<longleftrightarrow> t = s\<lparr>SEs := SEs t\<rparr> \<and> length (SEs t) = length (SEs s)"

lemma only_ses_refl [simp]: "only_ses s s" by (simp add: only_ses_def)

lemma only_ses_trans: "only_ses s t \<Longrightarrow> only_ses t u \<Longrightarrow> only_ses s u"
proof -
  assume st: "only_ses s t" and tu: "only_ses t u"
  have "u = (s\<lparr>SEs := SEs t\<rparr>)\<lparr>SEs := SEs u\<rparr>" using st tu unfolding only_ses_def by metis
  then show "only_ses s u" using st tu by (simp add: only_ses_def)
qed

lemma only_ses_upd_se [simp]: "only_ses s (upd_se k f s)"
  by (simp add: only_ses_def upd_se_def)

lemma only_ses_fields:
  assumes "only_ses s t"
  shows "ConfigPtr t = ConfigPtr s" "rtModes t = rtModes s" "isInitiated t = isInitiated s"
    "GlobalState t = GlobalState s" "CurrentModePtr t = CurrentModePtr s" "length (SEs t) = length (SEs s)"
    "wdgif_calls t = wdgif_calls s"
proof -
  have t: "t = s\<lparr>SEs := SEs t\<rparr>" and l: "length (SEs t) = length (SEs s)" using assms by (simp_all add: only_ses_def)
  show "ConfigPtr t = ConfigPtr s" "rtModes t = rtModes s" "isInitiated t = isInitiated s"
    "GlobalState t = GlobalState s" "CurrentModePtr t = CurrentModePtr s" "wdgif_calls t = wdgif_calls s"
    by (subst t, simp)+
  show "length (SEs t) = length (SEs s)" by (rule l)
qed

lemma deactivate_range:
  assumes "b \<le> length (SEs s)"
  shows "only_ses s (fold WdgM_internal_DeactivateAndResetSE [a..<b] s)
    \<and> (\<forall>k. SEs (fold WdgM_internal_DeactivateAndResetSE [a..<b] s) ! k
          = (if a \<le> k \<and> k < b then deact (SEs s ! k) else SEs s ! k))"
  using assms
proof (induction b)
  case (Suc b)
  show ?case
  proof (cases "a \<le> b")
    case True
    let ?t = "fold WdgM_internal_DeactivateAndResetSE [a..<b] s"
    have IH: "only_ses s ?t" "\<And>k. SEs ?t ! k = (if a \<le> k \<and> k < b then deact (SEs s ! k) else SEs s ! k)"
      using Suc by simp_all
    have "fold WdgM_internal_DeactivateAndResetSE [a..<Suc b] s = upd_se b deact ?t"
      using True by (simp add: DeactivateAndResetSE_deact)
    moreover have "only_ses s (upd_se b deact ?t)" using only_ses_trans [OF IH(1) only_ses_upd_se] .
    moreover have "b < length (SEs ?t)" using only_ses_fields(6) [OF IH(1)] Suc.prems by simp
    ultimately show ?thesis using True IH(2) by (auto simp: nth_list_update less_Suc_eq)
  next
    case False
    then show ?thesis by auto
  qed
qed simp

abbreviation conf_ids :: "WdgM_SupervisedEntityConfiguration list \<Rightarrow> nat list" where
  "conf_ids cs \<equiv> map (\<lambda>c. unat (SupervisedEntityId c)) cs"

definition activate_se :: "WdgM_internal_SupervisedEntity \<Rightarrow> WdgM_internal_SupervisedEntity" where
  "activate_se e = (if LocalState e = WDGM_LOCAL_STATUS_DEACTIVATED then e\<lparr>LocalState := WDGM_LOCAL_STATUS_OK\<rparr> else e)"

lemma setmode_loop_effect:
  assumes "sorted_wrt (<) (conf_ids cs)" and "\<forall>k\<in>set (conf_ids cs). i \<le> k \<and> k < length (SEs s)"
    and "n = length (SEs s)"
  shows "only_ses s (setmode_loop n cs i s)
    \<and> (\<forall>k < n. SEs (setmode_loop n cs i s) ! k
         = (if k < i then SEs s ! k else if k \<in> set (conf_ids cs) then activate_se (SEs s ! k) else deact (SEs s ! k)))"
  using assms
proof (induction cs arbitrary: i s)
  case Nil
  then show ?case using deactivate_range [of n s i] by auto
next
  case (Cons c cs)
  define u where "u = unat (SupervisedEntityId c)"
  define s1 where "s1 = fold WdgM_internal_DeactivateAndResetSE [i..<u] s"
  define s2 where "s2 = (if LocalState (SEs s1 ! u) = WDGM_LOCAL_STATUS_DEACTIVATED
                then upd_se u (LocalState_update (\<lambda>_. WDGM_LOCAL_STATUS_OK)) s1 else s1)"
  define r where "r = setmode_loop n cs (u + 1) s2"
  have u: "i \<le> u" "u < length (SEs s)" using Cons.prems(2) by (auto simp: u_def)
  have s1: "only_ses s s1" "\<And>k. SEs s1 ! k = (if i \<le> k \<and> k < u then deact (SEs s ! k) else SEs s ! k)"
    using deactivate_range [of u s i] u by (auto simp: s1_def)
  have s2: "only_ses s s2"
    using s1(1) only_ses_trans [OF s1(1) only_ses_upd_se [of s1 u]] by (simp add: s2_def)
  have len: "length (SEs s2) = length (SEs s)" by (rule only_ses_fields(6) [OF s2])
  have ses2: "SEs s2 ! k = (if k = u then activate_se (SEs s ! k) else SEs s1 ! k)" for k
    using only_ses_fields(6) [OF s1(1)] u(2) s1(2) [of u] by (auto simp: activate_se_def s2_def)
  have loop: "setmode_loop n (c # cs) i s = r"
    using u(1) by (simp add: Let_def max_def r_def s2_def s1_def u_def)
  have ids: "conf_ids (c # cs) = u # conf_ids cs" by (simp add: u_def)
  have later: "\<forall>k\<in>set (conf_ids cs). u + 1 \<le> k \<and> k < length (SEs s2)"
    using Cons.prems(1,2) len by (auto simp: u_def)
  have IH: "only_ses s2 r"
    "\<And>k. k < n \<Longrightarrow> SEs r ! k = (if k < u + 1 then SEs s2 ! k
       else if k \<in> set (conf_ids cs) then activate_se (SEs s2 ! k) else deact (SEs s2 ! k))"
    using Cons.IH [of "u + 1" s2] Cons.prems(1,3) later len by (auto simp: r_def)
  have "only_ses s r" by (rule only_ses_trans [OF s2 IH(1)])
  moreover have "SEs r ! k = (if k < i then SEs s ! k
      else if k \<in> set (conf_ids (c # cs)) then activate_se (SEs s ! k) else deact (SEs s ! k))"
    if k: "k < n" for k
  proof -
    consider "k < i" | "i \<le> k" "k < u" | "k = u" | "u < k" by linarith
    then show ?thesis
    proof cases
      case 2
      then have "k \<notin> set (conf_ids cs)" using later by fastforce
      then show ?thesis using IH(2) [OF k] 2 ses2 s1(2) unfolding ids by simp
    qed (use IH(2) [OF k] u ses2 s1(2) in \<open>simp_all only: ids list.set insert_iff, simp_all\<close>)
  qed
  ultimately show ?case unfolding loop by blast
qed
section \<open>A change of mode\<close>

lemma deactivate_triggers_fields:
  "SEs (snd (deactivate_triggers ts s)) = SEs s \<and> ConfigPtr (snd (deactivate_triggers ts s)) = ConfigPtr s
   \<and> isInitiated (snd (deactivate_triggers ts s)) = isInitiated s
   \<and> rtModes (snd (deactivate_triggers ts s)) = rtModes s"
  by (induction ts arbitrary: s) (simp_all add: Let_def wdgif_do_def)

lemma activateTriggers_fields:
  "SEs (snd (WdgM_internal_activateTriggers ts s)) = SEs s
   \<and> ConfigPtr (snd (WdgM_internal_activateTriggers ts s)) = ConfigPtr s
   \<and> isInitiated (snd (WdgM_internal_activateTriggers ts s)) = isInitiated s
   \<and> rtModes (snd (WdgM_internal_activateTriggers ts s)) = rtModes s
   \<and> CurrentModePtr (snd (WdgM_internal_activateTriggers ts s)) = CurrentModePtr s"
proof (induction ts arbitrary: s)
  case (Cons t ts)
  let ?d = "trigger_device s t" and ?w = "WatchdogMode t"
  define s2 where "s2 = (if wdg_answer (ConfigPtr s) ?d ?w = E_OK \<and> ?w \<noteq> WDGIF_OFF_MODE
      then wdgif_do (WdgIf_SetTriggerCondition ?d (TriggerConditionValue t)) (wdgif_do (WdgIf_SetMode ?d ?w) s)
      else wdgif_do (WdgIf_SetMode ?d ?w) s)"
  have f: "SEs s2 = SEs s" "ConfigPtr s2 = ConfigPtr s" "isInitiated s2 = isInitiated s"
    "rtModes s2 = rtModes s" "CurrentModePtr s2 = CurrentModePtr s" by (simp_all add: s2_def wdgif_do_def)
  have "WdgM_internal_activateTriggers (t # ts) s = (if wdg_answer (ConfigPtr s) ?d ?w \<noteq> E_OK
      then (E_NOT_OK, s2\<lparr>GlobalState := WDGM_GLOBAL_STATUS_STOPPED\<rparr>) else WdgM_internal_activateTriggers ts s2)"
    by (simp only: WdgM_internal_activateTriggers.simps Let_def s2_def)
  then show ?case using Cons.IH [of s2] f by simp
qed simp

lemma ResetSEConfigs_fields [simp]:
  "SEs (WdgM_internal_ResetSEConfigsForMode m s) = SEs s"
  "ConfigPtr (WdgM_internal_ResetSEConfigsForMode m s) = ConfigPtr s"
  "isInitiated (WdgM_internal_ResetSEConfigsForMode m s) = isInitiated s"
  "CurrentModePtr (WdgM_internal_ResetSEConfigsForMode m s) = CurrentModePtr s"
  "length (rtModes (WdgM_internal_ResetSEConfigsForMode m s)) = length (rtModes s)"
  by (simp_all add: WdgM_internal_ResetSEConfigsForMode_def Let_def)

text \<open>A configuration whose modes list distinct entities of the table, by increasing identifier, and
  are numbered by their position.\<close>

definition conf_wf :: "WdgM_ConfigType \<Rightarrow> bool" where
  "conf_wf c \<longleftrightarrow> length (SupervisedEntities c) < 65536 \<and> unat (initialModeId c) < length (Modes c)
     \<and> list_all (\<lambda>m. sorted_wrt (<) (conf_ids (SEConfigurations m))
          \<and> list_all (\<lambda>k. k < length (SupervisedEntities c)) (conf_ids (SEConfigurations m))) (Modes c)
     \<and> list_all (\<lambda>j. unat (mode_Id (Modes c ! j)) = j) [0..<length (Modes c)]"

abbreviation mode_permitted :: "u8 \<Rightarrow> u16 \<Rightarrow> WdgM_instance \<Rightarrow> bool" where
  "mode_permitted m caller s \<equiv> isInitiated s \<and> unat m < length (Modes (ConfigPtr s))
     \<and> (OFF_MODE_ENABLED (ConfigPtr s)
          \<longrightarrow> list_ex (\<lambda>t. WatchdogMode t \<noteq> WDGIF_OFF_MODE) (Triggers (Modes (ConfigPtr s) ! unat m)))
     \<and> (DEFENSIVE_BEHAVIOR (ConfigPtr s) \<longrightarrow> WdgM_internal_isAllowedForCalling caller s)
     \<and> (GlobalState s = WDGM_GLOBAL_STATUS_OK \<or> GlobalState s = WDGM_GLOBAL_STATUS_FAILED)"

lemma SetMode_refused:
  assumes "\<not> mode_permitted m caller s" shows "same s (snd (WdgM_SetMode m caller s))"
proof -
  let ?on = "OFF_MODE_ENABLED (ConfigPtr s)
      \<longrightarrow> list_ex (\<lambda>t. WatchdogMode t \<noteq> WDGIF_OFF_MODE) (Triggers (Modes (ConfigPtr s) ! unat m))"
  have en: "(if OFF_MODE_ENABLED (ConfigPtr s)
      then WdgM_internal_isAtLeastOneWdogEnabled (unat m) WDGM_SID_SETMODE WDGM_E_DISABLE_NOT_ALLOWED s
      else (True, s)) = (if ?on then (True, s) else (False, wdgm_det WDGM_SID_SETMODE WDGM_E_DISABLE_NOT_ALLOWED s))"
    by (simp add: WdgM_internal_isAtLeastOneWdogEnabled_def)
  consider "\<not> isInitiated s" | "isInitiated s" "length (Modes (ConfigPtr s)) \<le> unat m"
    | "isInitiated s" "\<not> length (Modes (ConfigPtr s)) \<le> unat m" "\<not> ?on"
    | "isInitiated s" "\<not> length (Modes (ConfigPtr s)) \<le> unat m" "?on"
      "DEFENSIVE_BEHAVIOR (ConfigPtr s) \<and> \<not> WdgM_internal_isAllowedForCalling caller s"
    | "isInitiated s" "\<not> length (Modes (ConfigPtr s)) \<le> unat m" "?on"
      "\<not> (DEFENSIVE_BEHAVIOR (ConfigPtr s) \<and> \<not> WdgM_internal_isAllowedForCalling caller s)"
      "\<not> (GlobalState s = WDGM_GLOBAL_STATUS_OK \<or> GlobalState s = WDGM_GLOBAL_STATUS_FAILED)"
    using assms not_le by blast
  then show ?thesis unfolding WdgM_SetMode_def en by cases (simp_all add: same_wdgm_det)
qed

lemma SetMode_accepted:
  assumes "mode_permitted m caller s"
  defines "t \<equiv> snd (WdgM_SetMode m caller s)" and "nm \<equiv> Modes (ConfigPtr s) ! unat m"
  assumes loop: "only_ses s (setmode_loop (length (SupervisedEntities (ConfigPtr s))) (SEConfigurations nm) 0 s)"
  shows "CurrentModePtr t = Some nm" and "ConfigPtr t = ConfigPtr s" and "isInitiated t = isInitiated s"
    and "length (rtModes t) = length (rtModes s)"
    and "SEs t = SEs (setmode_loop (length (SupervisedEntities (ConfigPtr s))) (SEConfigurations nm) 0 s)"
proof -
  define s1 where "s1 = setmode_loop (length (SupervisedEntities (ConfigPtr s))) (SEConfigurations nm) 0 s"
  define s2 where "s2 = WdgM_internal_ResetSEConfigsForMode (mode_index s1) s1"
  obtain rv s3 where d: "WdgM_internal_deactivateCurrentTriggers s2 = (rv, s3)"
    by (cases "WdgM_internal_deactivateCurrentTriggers s2")
  obtain rv' s4 where a: "WdgM_internal_activateTriggers (Triggers nm) s3 = (rv', s4)"
    by (cases "WdgM_internal_activateTriggers (Triggers nm) s3")
  have g: "isInitiated s" "\<not> length (Modes (ConfigPtr s)) \<le> unat m"
    "GlobalState s = WDGM_GLOBAL_STATUS_OK \<or> GlobalState s = WDGM_GLOBAL_STATUS_FAILED"
    "\<not> (DEFENSIVE_BEHAVIOR (ConfigPtr s) \<and> \<not> WdgM_internal_isAllowedForCalling caller s)"
    and en: "(if OFF_MODE_ENABLED (ConfigPtr s)
      then WdgM_internal_isAtLeastOneWdogEnabled (unat m) WDGM_SID_SETMODE WDGM_E_DISABLE_NOT_ALLOWED s
      else (True, s)) = (True, s)"
    using assms(1) by (simp_all add: WdgM_internal_isAtLeastOneWdogEnabled_def)
  have t: "t = (if rv = E_OK then s4 else s3)\<lparr>CurrentModePtr := Some nm\<rparr>"
    unfolding t_def WdgM_SetMode_def en Let_def prod.case nm_def [symmetric] s1_def [symmetric] s2_def [symmetric] d a
    using g by auto
  note f = only_ses_fields [OF loop, folded s1_def]
    deactivate_triggers_fields [of "Triggers (CurrentMode s2)" s2, folded WdgM_internal_deactivateCurrentTriggers_def,
      unfolded d snd_conv]
    activateTriggers_fields [of "Triggers nm" s3, unfolded a snd_conv]
  show "CurrentModePtr t = Some nm" by (simp add: t)
  show "ConfigPtr t = ConfigPtr s" "isInitiated t = isInitiated s" "length (rtModes t) = length (rtModes s)"
    "SEs t = SEs (setmode_loop (length (SupervisedEntities (ConfigPtr s))) (SEConfigurations nm) 0 s)"
    using f unfolding s1_def [symmetric] by (simp_all add: t s2_def)
qed

lemma conf_wf_mode:
  assumes "conf_wf c" and "m \<in> set (Modes c)"
  shows "sorted_wrt (<) (conf_ids (SEConfigurations m))"
    and "\<forall>k\<in>set (conf_ids (SEConfigurations m)). k < length (SupervisedEntities c)"
  using assms by (auto simp: conf_wf_def list_all_iff)

text \<open>C25: A permitted change of mode activates exactly the entities of the new mode: it is the
  current mode afterwards whatever the watchdog drivers answer, an entity the mode does not list is
  deactivated with its supervision reset, an entity that was deactivated starts in the local state OK,
  and an active one that stays active keeps its state.  The entities have to be listed by
  increasing identifier.\<close>

theorem SetMode_activates_mode:
  assumes "conf_wf (ConfigPtr s)" and "length (SEs s) = length (SupervisedEntities (ConfigPtr s))"
    and "mode_permitted m caller s"
  shows "CurrentMode (snd (WdgM_SetMode m caller s)) = Modes (ConfigPtr s) ! unat m
    \<and> length (SEs (snd (WdgM_SetMode m caller s))) = length (SEs s)
    \<and> (\<forall>k < length (SEs s). SEs (snd (WdgM_SetMode m caller s)) ! k =
         (if k \<in> set (conf_ids (SEConfigurations (Modes (ConfigPtr s) ! unat m)))
          then activate_se (SEs s ! k) else deact (SEs s ! k)))"
proof -
  let ?nm = "Modes (ConfigPtr s) ! unat m"
  have "?nm \<in> set (Modes (ConfigPtr s))" using assms(3) by simp
  note wf = conf_wf_mode [OF assms(1) this]
  have b: "\<forall>k\<in>set (conf_ids (SEConfigurations ?nm)). 0 \<le> k \<and> k < length (SEs s)" using wf(2) assms(2) by auto
  note loop = setmode_loop_effect [OF wf(1) b assms(2) [symmetric]]
  note acc = SetMode_accepted [OF assms(3) conjunct1 [OF loop]]
  show ?thesis unfolding acc(1,5) using loop assms(2) by (simp add: only_ses_def)
qed

lemma SetMode_activates_mode_witness:
  "LocalState (SEs (snd (WdgM_SetMode 1 7 (demo_wdg 1 1))) ! 0) = WDGM_LOCAL_STATUS_DEACTIVATED
   \<and> LocalState (SEs (snd (WdgM_SetMode 1 7 (demo_wdg 1 1))) ! 1) = WDGM_LOCAL_STATUS_OK"
proof -
  have "conf_wf (ConfigPtr (demo_wdg 1 1))" "mode_permitted 1 7 (demo_wdg 1 1)"
    "length (SEs (demo_wdg 1 1)) = length (SupervisedEntities (ConfigPtr (demo_wdg 1 1)))"
    by (simp_all add: conf_wf_def demo_wdg_def demo_wdg_conf_def WdgM_internal_isAllowedForCalling_def)
  note * = SetMode_activates_mode [OF this(1,3,2)]
  have "length (SEs (demo_wdg 1 1)) = 2" by (simp add: demo_wdg_def)
  then show ?thesis using * by (auto simp: demo_wdg_def demo_wdg_conf_def demo_se_def activate_se_def)
qed
section \<open>The invariant\<close>

definition wdgm_inv :: "WdgM_ConfigType \<Rightarrow> WdgM_instance \<Rightarrow> bool" where
  "wdgm_inv c s \<longleftrightarrow> conf_wf c \<and> length (SEs s) = length (SupervisedEntities c)
     \<and> length (rtModes s) = length (Modes c)
     \<and> DEFENSIVE_BEHAVIOR (ConfigPtr s) = DEFENSIVE_BEHAVIOR c
     \<and> (CurrentModePtr s \<noteq> None \<longrightarrow> ConfigPtr s = c \<and> CurrentMode s \<in> set (Modes c))
     \<and> (isInitiated s \<longrightarrow> CurrentModePtr s \<noteq> None
          \<and> (\<forall>k < length (SEs s). LocalState (SEs s ! k) \<noteq> WDGM_LOCAL_STATUS_DEACTIVATED
                \<longleftrightarrow> k \<in> set (conf_ids (confs s))))"

lemma wdgm_inv_same: "wdgm_inv c s \<Longrightarrow> same s t \<Longrightarrow> wdgm_inv c t"
  by (simp add: wdgm_inv_def same_def)

lemma sorted_ids_distinct:
  assumes "sorted_wrt (<) (conf_ids cs)" shows "distinct (conf_ids cs)"
  using assms by (simp only: strict_sorted_iff)

lemma map_se_index: "map (se_index s) [0..<length (confs s)] = conf_ids (confs s)"
  by (rule nth_equalityI) simp_all

lemma wdgm_inv_mode_ok:
  assumes inv: "wdgm_inv c s" and init: "isInitiated s" shows "mode_ok s"
proof -
  let ?n = "length (SupervisedEntities c)"
  have c: "conf_wf c" "CurrentMode s \<in> set (Modes c)" "length (SEs s) = ?n" "length (rtModes s) = length (Modes c)"
    using inv init by (simp_all add: wdgm_inv_def)
  note wf = conf_wf_mode [OF c(1,2)]
  have "length (conf_ids (confs s)) = card (set (conf_ids (confs s)))"
    using sorted_ids_distinct [OF wf(1)] by (simp only: distinct_card)
  also have "\<dots> \<le> card {..<?n}" using wf(2) by (intro card_mono) auto
  finally have "length (confs s) < 65536" using c(1) by (simp add: conf_wf_def)
  moreover have "mode_index s < length (rtModes s)"
  proof -
    obtain j where j: "j < length (Modes c)" "Modes c ! j = CurrentMode s" using c(2) by (auto simp: in_set_conv_nth)
    have "unat (mode_Id (Modes c ! j)) = j" using c(1) j(1) by (simp add: conf_wf_def list_all_iff)
    then show ?thesis using j c(4) by simp
  qed
  ultimately show ?thesis
    using sorted_ids_distinct [OF wf(1)] wf(2) c(3) inv init by (simp add: mode_ok_def map_se_index wdgm_inv_def)
qed

text \<open>The sizes of the tables never change.\<close>

definition same_size :: "WdgM_instance \<Rightarrow> WdgM_instance \<Rightarrow> bool" where
  "same_size s t \<longleftrightarrow> length (SEs t) = length (SEs s) \<and> length (rtModes t) = length (rtModes s)
     \<and> isInitiated t = isInitiated s \<and> ConfigPtr t = ConfigPtr s \<and> CurrentModePtr t = CurrentModePtr s"

lemma same_size_same: "same s t \<Longrightarrow> same_size s t"
  by (simp add: same_size_def same_def)

lemma same_size_trans: "same_size s t \<Longrightarrow> same_size t u \<Longrightarrow> same_size s u"
  by (simp add: same_size_def)

lemma same_size_CalculateGlobalState: "same_size s (WdgM_internal_CalculateGlobalState s)"
proof -
  have one: "same_size s (snd (snd (local_pass i (e, f, s))))" for i e f s
    by (simp add: same_size_def Let_def)
  have passes: "same_size s (snd (snd (fold local_pass is (e, f, s))))" for "is" e f
  proof (induction "is" arbitrary: e f s)
    case (Cons i "is")
    obtain e' f' u where u: "local_pass i (e, f, s) = (e', f', u)" by (metis prod_cases3)
    then have "same_size s u" using one [of s i e f] by simp
    then show ?case using same_size_trans Cons.IH [of u e' f'] by (simp only: fold_simps u)
  qed (simp add: same_size_def)
  obtain e f u where u: "fold local_pass [0..<length (confs s)] (0, 0, s) = (e, f, u)" by (metis prod_cases3)
  have "same_size u (WdgM_internal_updateFromGlobalOK e f u)" "same_size u (WdgM_internal_updateFromGlobalFAILED e f u)"
    "same_size u (WdgM_internal_updateFromGlobalEXPIRED e u)"
    by (simp_all add: same_size_def WdgM_internal_updateFromGlobalOK_def WdgM_internal_updateFromGlobalFAILED_def
        WdgM_internal_updateFromGlobalEXPIRED_def Let_def)
  moreover have "same_size s u" using passes [of "[0..<length (confs s)]" 0 0] u by simp
  ultimately show ?thesis
    unfolding WdgM_internal_CalculateGlobalState_def u prod.case by (auto dest: same_size_trans)
qed

lemma same_size_main_cycle: "same_size s (main_cycle s)"
proof -
  let ?s1 = "s\<lparr>CurrentTime := CurrentTime s + SupervisionCycle (CurrentMode s)\<rparr>"
  let ?s2 = "WdgM_internal_CalculateGlobalState (WdgM_internal_CheckAlives ?s1)"
  have "same_size s ?s1" by (simp add: same_size_def)
  then have "same_size s (set_triggers ?s2)"
    by (rule same_size_trans [OF same_size_trans [OF same_size_trans [OF _ same_size_same [OF same_CheckAlives]]
          same_size_CalculateGlobalState] same_size_same [OF same_set_triggers]])
  then show ?thesis by (simp add: main_cycle_def Let_def)
qed

lemma CalculateLocalState_active:
  "LocalState e \<noteq> WDGM_LOCAL_STATUS_DEACTIVATED \<Longrightarrow>
    LocalState (WdgM_internal_CalculateLocalState c rts e) \<noteq> WDGM_LOCAL_STATUS_DEACTIVATED"
  by (simp add: WdgM_internal_CalculateLocalState_def CalculateLocalState_FromFailedNoError_def
      CalculateLocalState_FromOKOneError_def CalculateLocalState_FromFailedOneError_def fail_once_def Let_def)

lemma inv_main_cycle:
  assumes inv: "wdgm_inv c s" and live: "GlobalState s \<noteq> WDGM_GLOBAL_STATUS_DEACTIVATED"
  shows "wdgm_inv c (main_cycle s)"
proof (cases "isInitiated s")
  case init: True
  then have True: "isInitiated s \<and> GlobalState s \<noteq> WDGM_GLOBAL_STATUS_DEACTIVATED" using live by simp
  let ?t = "main_cycle s"
  note main = MainFunction_effect [OF conjunct1 [OF True] conjunct2 [OF True] wdgm_inv_mode_ok [OF inv conjunct1 [OF True]]]
  have i: "conf_wf c" "CurrentMode s \<in> set (Modes c)"
    "\<And>k. k < length (SEs s) \<Longrightarrow> LocalState (SEs s ! k) \<noteq> WDGM_LOCAL_STATUS_DEACTIVATED \<longleftrightarrow> k \<in> set (conf_ids (confs s))"
    using inv True by (simp_all add: wdgm_inv_def)
  have "LocalState (SEs ?t ! k) \<noteq> WDGM_LOCAL_STATUS_DEACTIVATED \<longleftrightarrow> k \<in> set (conf_ids (confs s))"
    if k: "k < length (SEs s)" for k
  proof (cases "k \<in> set (conf_ids (confs s))")
    case in_mode: True
    then obtain j where j: "j < length (confs s)" "se_index s j = k" by (auto simp: in_set_conv_nth)
    then obtain cf rts e where "LocalState e = LocalState (SEs s ! k)"
      "LocalState (SEs ?t ! k) = LocalState (WdgM_internal_CalculateLocalState cf rts e)"
      using main(12) main(2) by metis
    then show ?thesis using CalculateLocalState_active i(3) [OF k] in_mode by metis
  next
    case False
    then have "k \<notin> se_index s ` {0..<length (confs s)}"
      using False arg_cong [OF map_se_index [of s], of set] by (simp del: map_eq_conv)
    then show ?thesis using main(11) i(3) [OF k] False k by simp
  qed
  then show ?thesis using inv main(2-6) True by (simp add: wdgm_inv_def)
next
  case False
  then show ?thesis using same_size_main_cycle [of s] inv by (simp add: wdgm_inv_def same_size_def)
qed

text \<open>The main function needs a mode, except in a defensive build.\<close>

lemma inv_MainFunction:
  assumes inv: "wdgm_inv c s" and ready: "DEFENSIVE_BEHAVIOR c \<or> CurrentModePtr s \<noteq> None"
  shows "\<exists>t. WdgM_MainFunction s = Some t \<and> wdgm_inv c t \<and> CurrentModePtr t = CurrentModePtr s"
proof -
  have "CurrentModePtr s \<noteq> None" if "isInitiated s" using inv that by (simp add: wdgm_inv_def)
  moreover have "DEFENSIVE_BEHAVIOR (ConfigPtr s) = DEFENSIVE_BEHAVIOR c" using inv by (simp add: wdgm_inv_def)
  ultimately show ?thesis
    using ready inv_main_cycle [OF inv] same_size_main_cycle [of s] inv
      wdgm_inv_same [OF inv same_wdgm_det [of s WDGM_SID_MAINFUNCTION WDGM_E_NO_INIT]]
    by (auto simp: WdgM_MainFunction_def same_size_def wdgm_det_def)
qed

lemma deactivateCurrentTriggers_CurrentMode:
  "CurrentModePtr (snd (WdgM_internal_deactivateCurrentTriggers s)) = CurrentModePtr s"
proof -
  have "CurrentModePtr (snd (deactivate_triggers ts s)) = CurrentModePtr s" for ts
    by (induction ts arbitrary: s) (simp_all add: Let_def wdgif_do_def)
  then show ?thesis by (simp add: WdgM_internal_deactivateCurrentTriggers_def)
qed

lemma inv_DeInit:
  assumes inv: "wdgm_inv c s"
  shows "wdgm_inv c (WdgM_DeInit s) \<and> (CurrentModePtr s \<noteq> None \<longrightarrow> CurrentModePtr (WdgM_DeInit s) \<noteq> None)"
proof (cases "isInitiated s \<and> GlobalState s = WDGM_GLOBAL_STATUS_OK")
  case True
  let ?s0 = "s\<lparr>GlobalState := WDGM_GLOBAL_STATUS_DEACTIVATED\<rparr>"
  obtain rv t where t: "WdgM_internal_deactivateCurrentTriggers ?s0 = (rv, t)"
    by (cases "WdgM_internal_deactivateCurrentTriggers ?s0")
  note f = deactivate_triggers_fields [of "Triggers (CurrentMode ?s0)" ?s0,
      folded WdgM_internal_deactivateCurrentTriggers_def, unfolded t snd_conv]
    deactivateCurrentTriggers_CurrentMode [of ?s0, unfolded t snd_conv]
  have "wdgm_inv c t" using inv f by (simp add: wdgm_inv_def)
  moreover have "wdgm_inv c ((stop_all_triggers t)\<lparr>isInitiated := False\<rparr>)"
    using wdgm_inv_same [OF \<open>wdgm_inv c t\<close> same_stop_all_triggers] by (simp add: wdgm_inv_def)
  moreover have "WdgM_DeInit s = (if rv = E_NOT_OK then t else (stop_all_triggers t)\<lparr>isInitiated := False\<rparr>)"
    using True t by (simp add: WdgM_DeInit_def)
  moreover have "CurrentModePtr (stop_all_triggers t) = CurrentModePtr t"
    using same_stop_all_triggers by (simp add: same_def)
  ultimately show ?thesis using f by simp
next
  case False
  then show ?thesis using inv wdgm_inv_same [OF inv same_wdgm_det] by (auto simp: WdgM_DeInit_def wdgm_det_def)
qed

lemma inv_SetMode:
  assumes inv: "wdgm_inv c s"
  shows "wdgm_inv c (snd (WdgM_SetMode m caller s))
    \<and> (CurrentModePtr s \<noteq> None \<longrightarrow> CurrentModePtr (snd (WdgM_SetMode m caller s)) \<noteq> None)"
proof (cases "mode_permitted m caller s")
  case True
  let ?nm = "Modes c ! unat m" and ?t = "snd (WdgM_SetMode m caller s)"
  have c: "ConfigPtr s = c" "conf_wf c" "length (SupervisedEntities c) = length (SEs s)"
    using inv True by (simp_all add: wdgm_inv_def)
  have nm: "?nm \<in> set (Modes c)" using True c(1) by simp
  note wf = conf_wf_mode [OF c(2) nm]
  have b: "\<forall>k\<in>set (conf_ids (SEConfigurations ?nm)). 0 \<le> k \<and> k < length (SEs s)" using wf(2) c(3) by auto
  note loop = setmode_loop_effect [OF wf(1) b c(3)]
  note acc = SetMode_accepted [OF True, unfolded c(1), OF conjunct1 [OF loop]]
  have "\<forall>k < length (SEs s). LocalState (SEs ?t ! k) \<noteq> WDGM_LOCAL_STATUS_DEACTIVATED
      \<longleftrightarrow> k \<in> set (conf_ids (SEConfigurations ?nm))"
    unfolding acc(5) using loop c(3) by (auto simp: activate_se_def)
  moreover have "length (SEs ?t) = length (SEs s)" unfolding acc(5) using loop by (simp add: only_ses_def)
  ultimately show ?thesis using inv nm acc(1-4) True by (simp add: wdgm_inv_def)
next
  case False
  then have same: "same s (snd (WdgM_SetMode m caller s))" by (rule SetMode_refused)
  with wdgm_inv_same [OF inv same] show ?thesis by (simp add: same_def)
qed

lemma activate_all:
  "only_ses s (fold (\<lambda>conf. upd_se (unat (SupervisedEntityId conf)) (LocalState_update (\<lambda>_. v))) cs s)
   \<and> (\<forall>k < length (SEs s). LocalState (SEs (fold (\<lambda>conf. upd_se (unat (SupervisedEntityId conf))
          (LocalState_update (\<lambda>_. v))) cs s) ! k)
        = (if k \<in> set (conf_ids cs) then v else LocalState (SEs s ! k)))"
proof (induction cs arbitrary: s)
  case (Cons c cs)
  define s1 where "s1 = upd_se (unat (SupervisedEntityId c)) (LocalState_update (\<lambda>_. v)) s"
  have s1: "only_ses s s1" "length (SEs s1) = length (SEs s)"
    "\<And>k. k < length (SEs s) \<Longrightarrow>
      LocalState (SEs s1 ! k) = (if k = unat (SupervisedEntityId c) then v else LocalState (SEs s ! k))"
    by (simp_all add: s1_def nth_list_update)
  show ?case
    unfolding fold_simps s1_def [symmetric] using Cons.IH [of s1] only_ses_trans [OF s1(1)] s1(2,3) by auto
qed simp

lemma inv_Init:
  assumes inv: "wdgm_inv c s" and cp: "cp \<noteq> None \<longrightarrow> cp = Some c"
  shows "wdgm_inv c (WdgM_Init cp s)
    \<and> (CurrentModePtr s \<noteq> None \<longrightarrow> CurrentModePtr (WdgM_Init cp s) \<noteq> None)"
proof (cases "cp = Some c \<and> \<not> isInitiated s")
  case False
  then show ?thesis using inv cp wdgm_inv_same [OF inv same_wdgm_det] by (auto simp: WdgM_Init_def wdgm_det_def)
next
  case new: True
  let ?im = "Modes c ! unat (initialModeId c)" and ?s1 = "s\<lparr>ConfigPtr := c\<rparr>"
  have c: "conf_wf c" "length (SEs s) = length (SupervisedEntities c)" "length (rtModes s) = length (Modes c)"
    using inv by (simp_all add: wdgm_inv_def)
  have im: "?im \<in> set (Modes c)" using c(1) by (simp add: conf_wf_def)
  note wf = conf_wf_mode [OF c(1) im]
  obtain en s2 where en: "(if OFF_MODE_ENABLED c then WdgM_internal_isAtLeastOneWdogEnabled (unat (mode_Id ?im))
      WDGM_SID_INIT WDGM_E_DISABLE_NOT_ALLOWED ?s1 else (True, ?s1)) = (en, s2)" by (metis prod.exhaust)
  have s2: "isInitiated s2 = isInitiated s" "SEs s2 = SEs s" "rtModes s2 = rtModes s" "ConfigPtr s2 = c"
    "CurrentModePtr s2 = CurrentModePtr s"
    using en by (auto simp: WdgM_internal_isAtLeastOneWdogEnabled_def wdgm_det_def Let_def split: if_splits)
  define s3 where "s3 = fold WdgM_internal_DeactivateAndResetSE [0..<length (SupervisedEntities c)] s2"
  define s4 where "s4 = fold (\<lambda>conf. upd_se (unat (SupervisedEntityId conf))
      (LocalState_update (\<lambda>_. WDGM_LOCAL_STATUS_OK))) (SEConfigurations ?im) s3"
  define s6 where "s6 = (WdgM_internal_ResetSEConfigsForMode (unat (mode_Id ?im)) s4)
    \<lparr>GlobalState := WDGM_GLOBAL_STATUS_OK, isFirstExpiredSet := False, firstExpiredSEID := 0,
                         CurrentModePtr := Some ?im, ResetInitiated := False, CurrentTime := 0\<rparr>"
  obtain rv s7 where s7: "WdgM_internal_activateTriggers (Triggers ?im) s6 = (rv, s7)"
    by (cases "WdgM_internal_activateTriggers (Triggers ?im) s6")
  have t: "WdgM_Init cp s = (if \<not> en then s2 else if rv = E_NOT_OK then s7 else s7\<lparr>isInitiated := True\<rparr>)"
    using new by (simp add: WdgM_Init_def Let_def en s3_def [symmetric] s4_def [symmetric] s6_def [symmetric] s7)
  have s3: "only_ses s2 s3" "\<forall>k < length (SEs s). LocalState (SEs s3 ! k) = WDGM_LOCAL_STATUS_DEACTIVATED"
    using deactivate_range [of "length (SupervisedEntities c)" s2 0] c(2) s2(2) by (simp_all add: s3_def)
  have len3: "length (SEs s3) = length (SEs s)" using only_ses_fields(6) [OF s3(1)] s2(2) by simp
  have s4: "only_ses s2 s4" "\<forall>k < length (SEs s). LocalState (SEs s4 ! k) =
      (if k \<in> set (conf_ids (SEConfigurations ?im)) then WDGM_LOCAL_STATUS_OK else WDGM_LOCAL_STATUS_DEACTIVATED)"
    using activate_all [of s3 WDGM_LOCAL_STATUS_OK "SEConfigurations ?im"] only_ses_trans [OF s3(1)] s3(2) len3
    unfolding s4_def by simp_all
  note f = only_ses_fields [OF s4(1)] s2 activateTriggers_fields [of "Triggers ?im" s6, unfolded s7 snd_conv]
  have "CurrentModePtr s7 = Some ?im" "ConfigPtr s7 = c" "length (SEs s7) = length (SEs s)" "SEs s7 = SEs s4"
    "length (rtModes s7) = length (rtModes s)" "\<not> isInitiated s7"
    using f new by (simp_all add: s6_def)
  moreover have "wdgm_inv c s2" using c s2 new inv by (auto simp: wdgm_inv_def)
  ultimately show ?thesis using c im s2(5) s4(2) unfolding t by (simp add: wdgm_inv_def)
qed
section \<open>Reporting checkpoints\<close>

text \<open>The calls a client may make: initialisation with the one configuration, and checkpoints and
  local states of any identifiers but the entity number just behind the table, which the range
  check lets through.\<close>

fun legal_call :: "WdgM_ConfigType \<Rightarrow> wdgm_call \<Rightarrow> bool" where
  "legal_call c (Call_Init cp) = (cp = None \<or> cp = Some c)"
| "legal_call c (Call_CheckpointReached k _) = (unat k \<noteq> length (SupervisedEntities c))"
| "legal_call c (Call_GetLocalStatus k _) = (unat k \<noteq> length (SupervisedEntities c))"
| "legal_call c _ = True"

text \<open>The main function has a mode to work on, or is built with the check that keeps it from it.\<close>

definition mode_ready :: "WdgM_ConfigType \<Rightarrow> WdgM_instance \<Rightarrow> bool" where
  "mode_ready c s \<longleftrightarrow> DEFENSIVE_BEHAVIOR c \<or> CurrentModePtr s \<noteq> None"

lemma CheckpointReached_defined:
  assumes inv: "wdgm_inv c s" and k: "unat k \<noteq> length (SupervisedEntities c)"
  shows "WdgM_CheckpointReached k cp s \<noteq> None"
proof
  assume none: "WdgM_CheckpointReached k cp s = None"
  then have init: "isInitiated s" by (auto simp: WdgM_CheckpointReached_def Let_def split: if_splits)
  then have c: "ConfigPtr s = c" "length (SEs s) = length (SupervisedEntities c)"
    "\<And>k. k < length (SEs s) \<Longrightarrow> LocalState (SEs s ! k) \<noteq> WDGM_LOCAL_STATUS_DEACTIVATED \<longleftrightarrow> k \<in> set (conf_ids (confs s))"
    using inv by (simp_all add: wdgm_inv_def)
  have "List.find (\<lambda>i. SupervisedEntityId (confs s ! i) = k) [0..<length (confs s)] = None"
    and "unat k < length (SEs s)" and "LocalState (SEs s ! unat k) \<noteq> WDGM_LOCAL_STATUS_DEACTIVATED"
    using none init k c(1,2) by (auto simp: WdgM_CheckpointReached_def Let_def split: if_splits option.splits)
  then have "\<forall>i < length (confs s). SupervisedEntityId (confs s ! i) \<noteq> k" and "unat k \<in> set (conf_ids (confs s))"
    using c(3) by (auto simp: find_None_iff)
  then show False by (auto simp: in_set_conv_nth word_unat_eq_iff)
qed

lemma UpdateAliveCounter_defined:
  assumes inv: "wdgm_inv c s" shows "WdgM_UpdateAliveCounter k s \<noteq> None"
proof
  assume none: "WdgM_UpdateAliveCounter k s = None"
  let ?s1 = "wdgm_det WDGM_SID_UPDATEALIVECOUNTER WDGM_E_DEPRECATED s"
  have init: "isInitiated s" using none by (auto simp: WdgM_UpdateAliveCounter_def split: if_splits)
  have inv1: "wdgm_inv c ?s1" by (rule wdgm_inv_same [OF inv same_wdgm_det])
  obtain cf where "List.find (\<lambda>c. SupervisedEntityId c = k) (confs ?s1) = Some cf"
    and bad: "WdgM_CheckpointReached k (CheckpointId (AliveSupervisions cf ! 0)) ?s1 = None"
    using none init by (auto simp: WdgM_UpdateAliveCounter_def Let_def split: option.splits if_splits)
  then have "cf \<in> set (confs ?s1)" "SupervisedEntityId cf = k" by (auto simp: find_Some_iff)
  moreover have "conf_wf c" "CurrentMode ?s1 \<in> set (Modes c)" using inv1 init by (simp_all add: wdgm_inv_def wdgm_det_def)
  ultimately have "unat k < length (SupervisedEntities c)" using conf_wf_mode(2) by fastforce
  then show False using CheckpointReached_defined [OF inv1, of k] bad by (metis less_irrefl)
qed

lemma GetLocalStatus_defined:
  assumes inv: "wdgm_inv c s" and k: "unat k \<noteq> length (SupervisedEntities c)"
  shows "WdgM_GetLocalStatus k null s \<noteq> None"
  using assms by (auto simp: WdgM_GetLocalStatus_def wdgm_inv_def)

lemma inv_same_call: "wdgm_inv c s \<Longrightarrow> same s t \<Longrightarrow>
    wdgm_inv c t \<and> (CurrentModePtr s \<noteq> None \<longrightarrow> CurrentModePtr t \<noteq> None)"
  using wdgm_inv_same by (simp add: same_def)

lemma inv_call:
  assumes inv: "wdgm_inv c s" and legal: "legal_call c call"
    and ready: "call = Call_MainFunction \<Longrightarrow> mode_ready c s"
  shows "\<exists>t. do_call call s = Some t \<and> wdgm_inv c t \<and> (mode_ready c s \<longrightarrow> mode_ready c t)"
proof -
  have "\<exists>t. do_call call s = Some t \<and> wdgm_inv c t \<and> (CurrentModePtr s \<noteq> None \<longrightarrow> CurrentModePtr t \<noteq> None)"
  proof (cases call)
    case (Call_CheckpointReached k cp)
    then obtain rv t where "WdgM_CheckpointReached k cp s = Some (rv, t)"
      using CheckpointReached_defined [OF inv, of k cp] legal by fastforce
    then show ?thesis using Call_CheckpointReached inv_same_call [OF inv same_CheckpointReached] by simp
  next
    case (Call_UpdateAliveCounter k)
    then obtain rv t where "WdgM_UpdateAliveCounter k s = Some (rv, t)"
      using UpdateAliveCounter_defined [OF inv, of k] by fastforce
    then show ?thesis using Call_UpdateAliveCounter inv_same_call [OF inv same_UpdateAliveCounter] by simp
  next
    case (Call_Init cp)
    then have "cp \<noteq> None \<longrightarrow> cp = Some c" using legal by auto
    from inv_Init [OF inv this] Call_Init show ?thesis by simp
  next
    case Call_PerformReset
    then show ?thesis using inv_same_call [OF inv same_PerformReset] by simp
  next
    case Call_MainFunction
    have "DEFENSIVE_BEHAVIOR c \<or> CurrentModePtr s \<noteq> None"
      using ready [OF Call_MainFunction] by (simp only: mode_ready_def)
    from inv_MainFunction [OF inv this] Call_MainFunction show ?thesis by auto
  next
    case (Call_GetLocalStatus k null)
    then have "unat k \<noteq> length (SupervisedEntities c)" using legal by simp
    then obtain r where "WdgM_GetLocalStatus k null s = Some r"
      using GetLocalStatus_defined [OF inv, of k null] by auto
    then show ?thesis using Call_GetLocalStatus inv_same_call [OF inv same_getters(4)] by simp
  next
    case (Call_SetMode m caller)
    then show ?thesis using inv_SetMode [OF inv] by simp
  next
    case Call_DeInit
    then show ?thesis using inv_DeInit [OF inv] by simp
  qed (use inv_same_call [OF inv] same_getters(1-3) in simp_all)
  then show ?thesis by (auto simp: mode_ready_def)
qed


lemma demo_wdgm_inv: "wdgm_inv demo_wdg_conf (demo_wdg 0 0)"
proof -
  have "conf_wf demo_wdg_conf" by (simp add: conf_wf_def demo_wdg_conf_def)
  moreover have "length (SEs (demo_wdg 0 0)) = 2" by (simp add: demo_wdg_def)
  moreover have "\<forall>k < 2. LocalState (SEs (demo_wdg 0 0) ! k) \<noteq> WDGM_LOCAL_STATUS_DEACTIVATED
      \<longleftrightarrow> k \<in> set (conf_ids (confs (demo_wdg 0 0)))"
    by (auto simp: less_2_cases_iff demo_wdg_def demo_wdg_conf_def demo_se_def)
  moreover have "isInitiated (demo_wdg 0 0)" "ConfigPtr (demo_wdg 0 0) = demo_wdg_conf"
    "CurrentMode (demo_wdg 0 0) \<in> set (Modes demo_wdg_conf)" "length (rtModes (demo_wdg 0 0)) = 2"
    "length (SupervisedEntities demo_wdg_conf) = 2" "length (Modes demo_wdg_conf) = 2"
    by (simp_all add: demo_wdg_def demo_wdg_conf_def)
  moreover have "CurrentModePtr (demo_wdg 0 0) \<noteq> None" by (simp add: demo_wdg_def)
  ultimately show ?thesis by (simp only: wdgm_inv_def simp_thms)
qed


text \<open>The main function before the first initialisation, in a build without the check.\<close>

lemma uninitialised_main_function:
  "WdgM_MainFunction ((demo_wdg 4 0)\<lparr>isInitiated := False, CurrentModePtr := None,
     ConfigPtr := demo_wdg_conf\<lparr>DEFENSIVE_BEHAVIOR := False\<rparr>\<rparr>) = None"
  by (simp add: WdgM_MainFunction_def demo_wdg_def demo_wdg_conf_def)

end
