(* ===== verification/ComPack.thy ===== *)
theory ComPack
  imports Pwc_Prelude
begin

text \<open>
  Signals in the buffer of a protocol data unit (\<open>core/communication/Com/Com_misc.c\<close>): writing a
  signal of up to 32 bits at any bit position in either byte order, and reading it back.  Memory is a
  function from addresses to bytes, so that an access next to the buffer is what it is in the
  program: an access to the neighbouring object.  A failed assertion is \<open>None\<close>.

  The lemmas characterise both routines bit by bit; the theorems say that a signal reads back as it
  was written and that a write touches no bit outside the signal's field.
\<close>

section \<open>Types\<close>

datatype Com_SignalType = BOOLEAN | UINT8 | UINT16 | UINT32 | UINT8_N | UINT8_DYN | SINT8 | SINT16 | SINT32

datatype ComSignalEndianess_type = COM_BIG_ENDIAN | COM_LITTLE_ENDIAN | COM_OPAQUE

type_synonym mem = "int \<Rightarrow> u8"

text \<open>Blocks of memory.\<close>

definition read_block :: "mem \<Rightarrow> int \<Rightarrow> nat \<Rightarrow> u8 list" where
  "read_block m p n = map (\<lambda>i. m (p + int i)) [0..<n]"

definition write_block :: "mem \<Rightarrow> int \<Rightarrow> u8 list \<Rightarrow> mem" where
  "write_block m p bs = (\<lambda>a. if p \<le> a \<and> a < p + int (length bs) then bs ! nat (a - p) else m a)"

text \<open>The client's variable: its bytes, least significant first.  Behind its end the bytes are 0.\<close>

definition client_byte :: "u8 list \<Rightarrow> nat \<Rightarrow> u8" where
  "client_byte d i = (if i < length d then d ! i else 0)"

definition load_bytes :: "u8 list \<Rightarrow> nat \<Rightarrow> u32" where
  "load_bytes d n = fold (\<lambda>i w. w OR push_bit (8 * i) (ucast (client_byte d i))) [0..<n] 0"

definition store_bytes :: "nat \<Rightarrow> u32 \<Rightarrow> u8 list" where
  "store_bytes n w = map (\<lambda>i. ucast (drop_bit (8 * i) w)) [0..<n]"

section \<open>Windows of five bytes\<close>

text \<open>The two byte orders differ in the address of the \<open>i\<close>-th byte of the window, counted from the
  least significant one; the fifth byte is used by signals that do not fit into four.\<close>

definition le_addr :: "int \<Rightarrow> nat \<Rightarrow> int" where "le_addr pduDataPtr i = pduDataPtr + int i"
definition be_addr :: "int \<Rightarrow> nat \<Rightarrow> int" where "be_addr pduDataPtr i = pduDataPtr + 3 - int i"

definition read_word :: "mem \<Rightarrow> (nat \<Rightarrow> int) \<Rightarrow> u32" where
  "read_word m a = fold (\<lambda>i pduData. push_bit 8 pduData OR ucast (m (a i))) [3, 2, 1, 0] 0"

definition write_word :: "mem \<Rightarrow> (nat \<Rightarrow> int) \<Rightarrow> u32 \<Rightarrow> mem" where
  "write_word m a newPduData =
     fst (fold (\<lambda>i (m, w). (m(a i := ucast w), drop_bit 8 w)) [0, 1, 2, 3] (m, newPduData))"

definition unpack :: "mem \<Rightarrow> (nat \<Rightarrow> int) \<Rightarrow> nat \<Rightarrow> nat \<Rightarrow> u32" where
  "unpack m a bitShift bitSize =
     (let pduData = drop_bit bitShift (read_word m a) in
      if 32 - bitShift < bitSize then pduData OR push_bit (32 - bitShift) (ucast (m (a 4))) else pduData)"

definition pack :: "mem \<Rightarrow> (nat \<Rightarrow> int) \<Rightarrow> nat \<Rightarrow> nat \<Rightarrow> u32 \<Rightarrow> u32 \<Rightarrow> mem \<times> bool" where
  "pack m a bitShift bitSize sigMask sigVal =
     (let pduData = read_word m a;
          sigLo = push_bit bitShift sigVal;
          maskLo = NOT (push_bit bitShift sigMask);
          newPduData = pduData AND maskLo OR sigLo;
          dataChanged = (newPduData \<noteq> pduData);
          m1 = write_word m a newPduData;
          maxBitsWritten = 32 - bitShift in
      if maxBitsWritten < bitSize then
        (let pduData = ucast (m1 (a 4)) :: u32;
             maskHi = NOT (drop_bit maxBitsWritten sigMask);
             sigHi = drop_bit maxBitsWritten sigVal;
             newPduData = pduData AND maskHi OR sigHi
         in (m1(a 4 := ucast newPduData), newPduData \<noteq> pduData \<or> dataChanged))
      else (m1, dataChanged))"

section \<open>The two routines\<close>

definition signal_mask :: "nat \<Rightarrow> u32" where
  "signal_mask bitSize = drop_bit (32 - bitSize) 0xFFFFFFFF"

text \<open>Where a signal starts: the window, and the shift within it.\<close>

definition be_lsbIndex :: "u16 \<Rightarrow> u16 \<Rightarrow> u32" where
  "be_lsbIndex bitPosition bitSize = ((ucast bitPosition XOR 7) + ucast bitSize - 1) XOR 7"

definition field_addr :: "ComSignalEndianess_type \<Rightarrow> int \<Rightarrow> u16 \<Rightarrow> u16 \<Rightarrow> nat \<Rightarrow> int" where
  "field_addr endian p bitPosition bitSize =
     (if endian = COM_BIG_ENDIAN then be_addr (p + int (unat (be_lsbIndex bitPosition bitSize) div 8) - 3)
      else le_addr (p + int (unat bitPosition div 8)))"

definition field_shift :: "ComSignalEndianess_type \<Rightarrow> u16 \<Rightarrow> u16 \<Rightarrow> nat" where
  "field_shift endian bitPosition bitSize =
     (if endian = COM_BIG_ENDIAN then unat (be_lsbIndex bitPosition bitSize) mod 8 else unat bitPosition mod 8)"

definition Com_Internal_ReadSignalDataFromPdu ::
  "mem \<Rightarrow> int \<Rightarrow> u16 \<Rightarrow> u16 \<Rightarrow> ComSignalEndianess_type \<Rightarrow> Com_SignalType \<Rightarrow> u8 list option" where
  "Com_Internal_ReadSignalDataFromPdu m comIPduDataPtr bitPosition bitSize endian signalType =
     (if endian = COM_OPAQUE \<or> signalType = UINT8_N
      then Some (read_block m (comIPduDataPtr + int (unat bitPosition div 8)) (unat bitSize div 8))
      else
       (let pduData = unpack m (field_addr endian comIPduDataPtr bitPosition bitSize)
                        (field_shift endian bitPosition bitSize) (unat bitSize);
            sigMask = signal_mask (unat bitSize);
            pduData = pduData AND sigMask;
            signmask = NOT (drop_bit 1 sigMask);
            extended = (if pduData AND signmask \<noteq> 0 then pduData OR signmask else pduData)
        in case signalType of
             SINT8 \<Rightarrow> Some (store_bytes 1 extended)
           | BOOLEAN \<Rightarrow> Some (store_bytes 1 pduData)
           | UINT8 \<Rightarrow> Some (store_bytes 1 pduData)
           | SINT16 \<Rightarrow> Some (store_bytes 2 extended)
           | UINT16 \<Rightarrow> Some (store_bytes 2 pduData)
           | SINT32 \<Rightarrow> Some (store_bytes 4 extended)
           | UINT32 \<Rightarrow> Some (store_bytes 4 pduData)
           | UINT8_N \<Rightarrow> None
           | UINT8_DYN \<Rightarrow> None))"

definition Com_WriteSignalDataToPdu ::
  "u8 list \<Rightarrow> Com_SignalType \<Rightarrow> mem \<Rightarrow> int \<Rightarrow> u16 \<Rightarrow> u16 \<Rightarrow> ComSignalEndianess_type \<Rightarrow> (mem \<times> bool) option" where
  "Com_WriteSignalDataToPdu SignalData signalType m comIPduDataPtr bitPosition bitSize endian =
     (if endian = COM_OPAQUE \<or> signalType = UINT8_N then
       (let p = comIPduDataPtr + int (unat bitPosition div 8);
            bs = map (client_byte SignalData) [0..<unat bitSize div 8]
        in Some (write_block m p bs, read_block m p (unat bitSize div 8) \<noteq> bs))
      else
       (let sigVal = (case signalType of
               BOOLEAN \<Rightarrow> Some (load_bytes SignalData 1)
             | UINT8 \<Rightarrow> Some (load_bytes SignalData 1)
             | SINT8 \<Rightarrow> Some (load_bytes SignalData 1)
             | UINT16 \<Rightarrow> Some (load_bytes SignalData 2)
             | SINT16 \<Rightarrow> Some (load_bytes SignalData 2)
             | UINT32 \<Rightarrow> Some (load_bytes SignalData 4)
             | SINT32 \<Rightarrow> Some (load_bytes SignalData 4)
             | UINT8_N \<Rightarrow> None
             | UINT8_DYN \<Rightarrow> None);
            sigMask = signal_mask (unat bitSize)
        in map_option (\<lambda>v. pack m (field_addr endian comIPduDataPtr bitPosition bitSize)
             (field_shift endian bitPosition bitSize) (unat bitSize) sigMask (v AND sigMask)) sigVal))"

section \<open>Bit by bit\<close>

text \<open>The bits of a window, least significant first.\<close>

definition window_bit :: "mem \<Rightarrow> (nat \<Rightarrow> int) \<Rightarrow> nat \<Rightarrow> bool" where
  "window_bit m a n = bit (m (a (n div 8))) (n mod 8)"

lemma byte_index_cases:
  fixes n :: nat
  assumes "n < 32"
  obtains "n div 8 = 0" "n mod 8 = n" "n < 8" | "n div 8 = 1" "n mod 8 = n - 8" "8 \<le> n" "n < 16"
    | "n div 8 = 2" "n mod 8 = n - 16" "16 \<le> n" "n < 24" | "n div 8 = 3" "n mod 8 = n - 24" "24 \<le> n"
proof -
  consider "n < 8" | "8 \<le> n" "n < 16" | "16 \<le> n" "n < 24" | "24 \<le> n" by linarith
  then show thesis
  proof cases
    case 2 then show ?thesis using that(2) by (simp add: div_nat_eqI le_mod_geq)
  next
    case 3
    have "n div 8 = 2" using 3 by (intro div_nat_eqI) simp_all
    then show ?thesis using that(3) 3 minus_div_mult_eq_mod [of n 8] by simp
  next
    case 4
    have "n div 8 = 3" using 4 assms by (intro div_nat_eqI) simp_all
    then show ?thesis using that(4) 4 minus_div_mult_eq_mod [of n 8] by simp
  qed (use that(1) in simp)
qed

lemma bit_read_word: "bit (read_word m a) n \<longleftrightarrow> n < 32 \<and> window_bit m a n"
proof (cases "n < 32")
  case True
  then show ?thesis
    by (cases rule: byte_index_cases)
       (auto simp: read_word_def window_bit_def bit_simps dest: bit_imp_le_length)
next
  case False
  then show ?thesis by (auto dest: bit_imp_le_length)
qed

lemma bit_signal_mask: "bit (signal_mask n) k \<longleftrightarrow> k < n \<and> k < 32"
proof -
  have "(0xFFFFFFFF :: u32) = mask 32" by (simp add: mask_eq_exp_minus_1)
  then have "signal_mask n = drop_bit (32 - n) (mask 32)" by (simp only: signal_mask_def)
  then show ?thesis by (auto simp: bit_simps)
qed
lemma write_word_eq:
  "write_word m a w = m(a 0 := ucast w, a 1 := ucast (drop_bit 8 w), a 2 := ucast (drop_bit 16 w),
     a 3 := ucast (drop_bit 24 w))"
  by (simp add: write_word_def)

lemma window_bit_write_word:
  assumes "inj a"
  shows "window_bit (write_word m a w) a n = (if n < 32 then bit w n else window_bit m a n)"
proof (cases "n < 32")
  case True
  have a: "a i = a j \<longleftrightarrow> i = j" for i j using assms by (simp add: inj_eq)
  from True show ?thesis
    by (cases rule: byte_index_cases) (use True in \<open>auto simp: window_bit_def write_word_eq bit_simps a\<close>)
next
  case False
  then have "4 \<le> n div 8" by linarith
  then have "a (n div 8) \<noteq> a 0" "a (n div 8) \<noteq> a 1" "a (n div 8) \<noteq> a 2" "a (n div 8) \<noteq> a 3"
    using assms by (simp_all add: inj_eq)
  then show ?thesis using False by (simp add: window_bit_def write_word_eq)
qed

lemma window_byte_4:
  assumes "32 \<le> n" "n < 40"
  shows "window_bit m a n = bit (m (a 4)) (n - 32)"
proof -
  have "n div 8 = 4" using assms by (intro div_nat_eqI) simp_all
  then show ?thesis using minus_div_mult_eq_mod [of n 8] by (simp add: window_bit_def)
qed

lemma bit_unpack:
  assumes "bitShift < 8" and "bitSize \<le> 32" and "j < bitSize"
  shows "bit (unpack m a bitShift bitSize) j \<longleftrightarrow> window_bit m a (bitShift + j)"
proof (cases "bitShift + j < 32")
  case True
  then show ?thesis using assms by (auto simp: unpack_def Let_def bit_simps bit_read_word)
next
  case False
  then have "j - (32 - bitShift) = bitShift + j - 32" "32 - bitShift \<le> j" "bitShift + j - 32 < 32"
    using assms by linarith+
  then show ?thesis
    using False assms window_byte_4 [of "bitShift + j" m a]
    by (simp add: unpack_def Let_def bit_simps bit_read_word)
qed

lemma window_eqI:
  assumes "\<And>n. n < 40 \<Longrightarrow> window_bit m a n = window_bit m' a n" and "i < 5"
  shows "m (a i) = m' (a i)"
proof (rule bit_word_eqI)
  fix k assume "k < LENGTH(8)"
  then show "bit (m (a i)) k \<longleftrightarrow> bit (m' (a i)) k"
    using assms(1) [of "8 * i + k"] assms(2) by (simp add: window_bit_def)
qed

lemma bit_pack:
  fixes m :: mem
  assumes a: "inj a" and s: "bitShift < 8" and z: "bitSize \<le> 32"
    and v: "\<And>j. bitSize \<le> j \<Longrightarrow> \<not> bit v j"
  defines "m' \<equiv> fst (pack m a bitShift bitSize (signal_mask bitSize) v)"
  shows "n < 40 \<Longrightarrow> window_bit m' a n =
      (if bitShift \<le> n \<and> n < bitShift + bitSize then bit v (n - bitShift) else window_bit m a n)"
    and "x \<notin> a ` {..<5} \<Longrightarrow> m' x = m x"
proof -
  let ?new = "read_word m a AND NOT (push_bit bitShift (signal_mask bitSize)) OR push_bit bitShift v"
  let ?m1 = "write_word m a ?new" and ?k = "32 - bitShift"
  let ?hi = "(ucast (?m1 (a 4)) :: u32) AND NOT (drop_bit ?k (signal_mask bitSize)) OR drop_bit ?k v"
  have m': "m' = (if ?k < bitSize then ?m1(a 4 := ucast ?hi) else ?m1)"
    by (simp add: m'_def pack_def Let_def)
  have lo: "window_bit ?m1 a n = (if bitShift \<le> n \<and> n < bitShift + bitSize then bit v (n - bitShift)
      else window_bit m a n)" if "n < 32" for n
    using that v by (auto simp: window_bit_write_word [OF a] bit_simps bit_read_word bit_signal_mask)
  have ne: "a (n div 8) \<noteq> a 4" if "n < 32" for n using that a by (auto simp: inj_eq)
  show "window_bit m' a n =
      (if bitShift \<le> n \<and> n < bitShift + bitSize then bit v (n - bitShift) else window_bit m a n)" if n: "n < 40"
  proof (cases "n < 32")
    case True
    then have "window_bit m' a n = window_bit ?m1 a n" using ne by (simp add: m' window_bit_def)
    then show ?thesis using lo [OF True] by simp
  next
    case False
    then have w: "window_bit x a n = bit (x (a 4)) (n - 32)" for x using window_byte_4 n by simp
    have same: "?m1 (a 4) = m (a 4)" using a by (simp add: write_word_eq inj_eq)
    have k: "n - 32 + ?k = n - bitShift" using False s by linarith
    show ?thesis
    proof (cases "?k < bitSize")
      case True
      then have "window_bit m' a n = (if n < bitShift + bitSize then bit v (n - bitShift) else bit (m (a 4)) (n - 32))"
        using False n s v k same z by (auto simp: w m' bit_simps bit_signal_mask add.commute)
      then show ?thesis using False s w by auto
    next
      case small: False
      then show ?thesis using False s same by (auto simp: w m')
    qed
  qed
  show "m' x = m x" if "x \<notin> a ` {..<5}"
  proof -
    have "x \<noteq> a 0" "x \<noteq> a 1" "x \<noteq> a 2" "x \<noteq> a 3" "x \<noteq> a 4" using that by auto
    then show ?thesis by (simp add: m' write_word_eq)
  qed
qed
section \<open>Reading back\<close>

lemma inj_field_addr [simp]: "inj (field_addr endian p bp bs)"
  by (auto simp: field_addr_def le_addr_def [abs_def] be_addr_def [abs_def] inj_on_def)

lemma field_shift_less [simp]: "field_shift endian bp bs < 8"
  by (simp add: field_shift_def)

lemma unpack_pack:
  assumes "inj a" and "bitShift < 8" and "bitSize \<le> 32" and "\<And>j. bitSize \<le> j \<Longrightarrow> \<not> bit v j"
  shows "unpack (fst (pack m a bitShift bitSize (signal_mask bitSize) v)) a bitShift bitSize
    AND signal_mask bitSize = v"
proof (rule bit_word_eqI)
  fix j assume "j < LENGTH(32)"
  show "bit (unpack (fst (pack m a bitShift bitSize (signal_mask bitSize) v)) a bitShift bitSize
      AND signal_mask bitSize) j = bit v j"
  proof (cases "j < bitSize")
    case True
    then show ?thesis
      using assms bit_pack(1) [OF assms, of "bitShift + j" m]
      by (simp add: bit_and_iff bit_signal_mask bit_unpack)
  next
    case False
    then show ?thesis using assms(4) by (simp add: bit_and_iff bit_signal_mask)
  qed
qed

lemma word32_eq_iff: "(x :: u32) = y \<longleftrightarrow> (\<forall>n<32. bit x n = bit y n)"
  by (auto intro: bit_word_eqI)

lemma word32_low_eq_iff:
  assumes "\<And>j. 8 \<le> j \<Longrightarrow> \<not> bit x j \<and> \<not> bit (y :: u32) j"
  shows "x = y \<longleftrightarrow> (\<forall>j<8. bit x j = bit y j)"
proof
  assume *: "\<forall>j<8. bit x j = bit y j"
  show "x = y"
  proof (rule bit_word_eqI)
    fix j show "bit x j = bit y j" using * assms [of j] by (cases "j < 8") auto
  qed
qed simp

text \<open>The flag says exactly whether a byte has changed.\<close>

lemma pack_changed:
  fixes m :: mem
  assumes a: "inj a" and s: "bitShift < 8" and z: "bitSize \<le> 32"
    and v: "\<And>j. bitSize \<le> j \<Longrightarrow> \<not> bit v j"
  defines "m' \<equiv> fst (pack m a bitShift bitSize (signal_mask bitSize) v)"
  shows "snd (pack m a bitShift bitSize (signal_mask bitSize) v) \<longleftrightarrow> m' \<noteq> m"
proof -
  let ?pdu = "read_word m a" and ?k = "32 - bitShift"
  let ?new = "?pdu AND NOT (push_bit bitShift (signal_mask bitSize)) OR push_bit bitShift v"
  let ?m1 = "write_word m a ?new"
  let ?old = "ucast (?m1 (a 4)) :: u32"
  let ?hi = "?old AND NOT (drop_bit ?k (signal_mask bitSize)) OR drop_bit ?k v"
  have m': "m' = (if ?k < bitSize then ?m1(a 4 := ucast ?hi) else ?m1)"
    and c: "snd (pack m a bitShift bitSize (signal_mask bitSize) v) \<longleftrightarrow> (?k < bitSize \<and> ?hi \<noteq> ?old) \<or> ?new \<noteq> ?pdu"
    by (simp_all add: m'_def pack_def Let_def)
  have ne: "a (n div 8) \<noteq> a 4" if "n < 32" for n using that a by (auto simp: inj_eq)
  have "window_bit m' a n = bit ?new n" if "n < 32" for n
  proof -
    have "window_bit m' a n = window_bit ?m1 a n" using ne [OF that] by (simp add: m' window_bit_def)
    then show ?thesis using that by (simp only: window_bit_write_word [OF a] if_True)
  qed
  then have lo: "?new = ?pdu \<longleftrightarrow> (\<forall>n<32. window_bit m' a n = window_bit m a n)"
    unfolding word32_eq_iff by (simp only: bit_read_word simp_thms cong: imp_cong)
  have old: "?m1 (a 4) = m (a 4)" using a by (simp add: write_word_eq inj_eq)
  have hi: "?hi = ?old \<longleftrightarrow> (\<forall>j<8. bit (m' (a 4)) j = bit (m (a 4)) j)" if k: "?k < bitSize"
  proof -
    define hi where "hi = ?hi"
    define old where "old = ?old"
    have "\<not> bit hi j \<and> \<not> bit old j" if "8 \<le> j" for j
    proof -
      have "\<not> bit v (?k + j)" using v [of "?k + j"] that s z by simp
      moreover have "\<not> bit ?old j" using that by (auto simp: bit_ucast_iff dest: bit_imp_le_length)
      ultimately show ?thesis by (simp add: hi_def old_def bit_simps)
    qed
    moreover have "bit (m' (a 4)) j = bit hi j \<and> bit (m (a 4)) j = bit old j" if "j < 8" for j
      using that k by (simp add: m' bit_ucast_iff old hi_def old_def)
    moreover have "?hi = hi" "?old = old" by (simp_all add: hi_def old_def)
    ultimately show ?thesis using word32_low_eq_iff [of hi old] by metis
  qed
  have four: "(\<forall>j<8. bit (m' (a 4)) j = bit (m (a 4)) j) \<longleftrightarrow> m' (a 4) = m (a 4)"
    by (auto intro: bit_word_eqI)
  have "snd (pack m a bitShift bitSize (signal_mask bitSize) v)
      \<longleftrightarrow> m' (a 4) \<noteq> m (a 4) \<or> (\<exists>n<32. window_bit m' a n \<noteq> window_bit m a n)"
    unfolding c using lo hi four old by (auto simp: m')
  also have "\<dots> \<longleftrightarrow> m' \<noteq> m"
  proof
    assume "m' \<noteq> m"
    then obtain x where x: "m' x \<noteq> m x" by blast
    then obtain i where i: "x = a i" "i < 5" using bit_pack(2) [OF a s z v, of x m] by (auto simp: m'_def)
    show "m' (a 4) \<noteq> m (a 4) \<or> (\<exists>n<32. window_bit m' a n \<noteq> window_bit m a n)"
    proof (rule ccontr)
      assume *: "\<not> ?thesis"
      then have "window_bit m' a n = window_bit m a n" if "n < 40" for n
        using that window_byte_4 [of n] by (cases "n < 32") auto
      then show False using window_eqI [of m' a m i] x i by simp
    qed
  qed auto
  finally show ?thesis .
qed
section \<open>The client's variable\<close>

lemma bit_client_byte: "bit (client_byte d i) k \<Longrightarrow> k < 8"
  using bit_imp_le_length [of "client_byte d i" k] by simp

lemma bit_load_bytes:
  "bit (load_bytes d n) j \<longleftrightarrow> j < 32 \<and> j < 8 * n \<and> bit (client_byte d (j div 8)) (j mod 8)"
proof (induction n)
  case (Suc n)
  have step: "load_bytes d (Suc n) = load_bytes d n OR push_bit (8 * n) (ucast (client_byte d n))"
    by (simp add: load_bytes_def)
  have new: "bit (push_bit (8 * n) (ucast (client_byte d n)) :: u32) j
      \<longleftrightarrow> j < 32 \<and> 8 * n \<le> j \<and> j < 8 * Suc n \<and> bit (client_byte d (j div 8)) (j mod 8)"
  proof (cases "8 * n \<le> j \<and> j < 8 * Suc n")
    case True
    then have "j div 8 = n" by (intro div_nat_eqI) auto
    then have "j mod 8 = j - 8 * n" using minus_mult_div_eq_mod [of j 8] by simp
    then show ?thesis using True \<open>j div 8 = n\<close> by (auto simp: bit_simps)
  next
    case False
    then show ?thesis using bit_client_byte [of d n "j - 8 * n"] by (auto simp: bit_simps)
  qed
  show ?case unfolding step by (simp add: bit_or_iff Suc.IH new) linarith
qed (simp add: load_bytes_def)

lemma length_store_bytes [simp]: "length (store_bytes n w) = n"
  by (simp add: store_bytes_def)

lemma bit_store_bytes:
  "i < n \<Longrightarrow> k < 8 \<Longrightarrow> bit (store_bytes n w ! i) k \<longleftrightarrow> bit w (8 * i + k)"
  by (simp add: store_bytes_def bit_simps)

lemma store_bytes_eqI:
  assumes "length d = n" and "\<And>j. j < 8 * n \<Longrightarrow> bit w j = bit (load_bytes d n) j" and "n \<le> 4"
  shows "store_bytes n w = d"
proof (rule nth_equalityI)
  fix i assume "i < length (store_bytes n w)"
  then have i: "i < n" by simp
  show "store_bytes n w ! i = d ! i"
  proof (rule bit_word_eqI)
    fix k assume "k < LENGTH(8)"
    then have k: "k < 8" by simp
    have "8 * i + k < 8 * n" using i k by linarith
    then show "bit (store_bytes n w ! i) k = bit (d ! i) k"
      using assms(1,3) i k by (simp add: bit_store_bytes assms(2) bit_load_bytes client_byte_def)
  qed
qed (simp add: assms(1))

text \<open>The C types a signal may have: size and sign; and the values that fit a field.\<close>

definition type_size :: "Com_SignalType \<Rightarrow> nat" where
  "type_size t = (if t = UINT16 \<or> t = SINT16 then 2 else if t = UINT32 \<or> t = SINT32 then 4 else 1)"

definition type_signed :: "Com_SignalType \<Rightarrow> bool" where
  "type_signed t \<longleftrightarrow> t = SINT8 \<or> t = SINT16 \<or> t = SINT32"

definition signal_value :: "Com_SignalType \<Rightarrow> u8 list \<Rightarrow> int" where
  "signal_value t d =
     (if type_signed t then signed_take_bit (8 * type_size t - 1) (uint (load_bytes d (type_size t)))
      else uint (load_bytes d (type_size t)))"

definition value_fits :: "Com_SignalType \<Rightarrow> nat \<Rightarrow> u8 list \<Rightarrow> bool" where
  "value_fits t bitSize d \<longleftrightarrow> length d = type_size t \<and>
     (if type_signed t then - (2 ^ (bitSize - 1)) \<le> signal_value t d \<and> signal_value t d < 2 ^ (bitSize - 1)
      else signal_value t d < 2 ^ bitSize)"

text \<open>What the read routine makes of the field: the bits of the field, extended by the sign bit where the
  type has one.\<close>

definition extend :: "nat \<Rightarrow> u32 \<Rightarrow> u32" where
  "extend bitSize w = (let signmask = NOT (drop_bit 1 (signal_mask bitSize)) in
     if w AND signmask \<noteq> 0 then w OR signmask else w)"

lemma bit_extend:
  assumes "1 \<le> bitSize" "bitSize \<le> 32" "\<And>j. bitSize \<le> j \<Longrightarrow> \<not> bit w j" "j < 32"
  shows "bit (extend bitSize w) j \<longleftrightarrow> bit w (min j (bitSize - 1))"
proof -
  have sm: "bit (NOT (drop_bit 1 (signal_mask bitSize))) k \<longleftrightarrow> bitSize - 1 \<le> k" if "k < 32" for k
    using assms(1,2) that by (auto simp: bit_simps bit_signal_mask)
  have "w AND NOT (drop_bit 1 (signal_mask bitSize)) \<noteq> 0 \<longleftrightarrow> bit w (bitSize - 1)"
  proof
    assume "w AND NOT (drop_bit 1 (signal_mask bitSize)) \<noteq> 0"
    then obtain k where k: "k < 32" "bit w k" "bitSize - 1 \<le> k"
      using sm by (auto simp: word32_eq_iff bit_and_iff)
    then have "k = bitSize - 1" using assms(3) [of k] by linarith
    then show "bit w (bitSize - 1)" using k by simp
  next
    assume "bit w (bitSize - 1)"
    then show "w AND NOT (drop_bit 1 (signal_mask bitSize)) \<noteq> 0"
      using sm [of "bitSize - 1"] assms(1,2) by (auto simp: word32_eq_iff bit_and_iff intro!: exI [of _ "bitSize - 1"])
  qed
  then show ?thesis
    using sm [OF assms(4)] assms(3) [of j] by (auto simp: extend_def Let_def bit_or_iff min_def not_le)
qed

lemma Read_numeric:
  assumes "endian \<noteq> COM_OPAQUE" and "t \<noteq> UINT8_N" and "t \<noteq> UINT8_DYN"
  shows "Com_Internal_ReadSignalDataFromPdu m p bp bs endian t = Some (store_bytes (type_size t)
    (let w = unpack m (field_addr endian p bp bs) (field_shift endian bp bs) (unat bs) AND signal_mask (unat bs)
     in if type_signed t then extend (unat bs) w else w))"
  using assms by (cases t) (simp_all add: Com_Internal_ReadSignalDataFromPdu_def Let_def type_size_def
      type_signed_def extend_def)

lemma Write_numeric:
  assumes "endian \<noteq> COM_OPAQUE" and "t \<noteq> UINT8_N" and "t \<noteq> UINT8_DYN"
  shows "Com_WriteSignalDataToPdu d t m p bp bs endian = Some (pack m (field_addr endian p bp bs)
    (field_shift endian bp bs) (unat bs) (signal_mask (unat bs)) (load_bytes d (type_size t) AND signal_mask (unat bs)))"
  using assms by (cases t) (simp_all add: Com_WriteSignalDataToPdu_def Let_def type_size_def)

lemma masked_bits: "unat bs \<le> j \<Longrightarrow> \<not> bit (w AND signal_mask (unat bs)) j"
  by (simp add: bit_and_iff bit_signal_mask)

lemma fits_bits:
  assumes fits: "value_fits t n d" and n: "1 \<le> n" "n \<le> 32" and j: "j < 8 * type_size t"
  shows "bit (load_bytes d (type_size t)) j
    = (if type_signed t then bit (load_bytes d (type_size t)) (min j (n - 1))
       else j < n \<and> bit (load_bytes d (type_size t)) j)"
proof -
  let ?w = "load_bytes d (type_size t)"
  have size: "type_size t \<le> 4" "1 \<le> type_size t" by (simp_all add: type_size_def)
  show ?thesis
  proof (cases "type_signed t")
    case True
    let ?s = "signed_take_bit (8 * type_size t - 1) (uint ?w)"
    have "signed_take_bit (n - 1) ?s = ?s"
      using fits True n by (intro signed_take_bit_int_eq_self) (simp_all add: value_fits_def signal_value_def)
    then have eq: "bit (signed_take_bit (n - 1) ?s) j = bit ?s j" by simp
    have bu: "bit (uint ?w) k = bit ?w k" for k by (auto simp: bit_uint_iff dest: bit_imp_le_length)
    have s: "bit ?s k = bit ?w k" if "k < 8 * type_size t" for k
    proof -
      have "min k (8 * type_size t - 1) = k" using that by linarith
      then show ?thesis by (simp add: bit_signed_take_bit_iff bu)
    qed
    have "bit (signed_take_bit (n - 1) ?s) j = bit ?s (min j (n - 1))"
      by (simp add: bit_signed_take_bit_iff min.assoc min.commute min.left_commute)
    also have "\<dots> = bit ?w (min j (n - 1))" using j by (intro s) simp
    finally show ?thesis using True eq s [OF j] by simp
  next
    case False
    then have "uint ?w < 2 ^ n" using fits by (simp add: value_fits_def signal_value_def)
    then have "take_bit n (uint ?w) = uint ?w" by (simp add: take_bit_int_eq_self)
    then have "bit (take_bit n (uint ?w)) j = bit (uint ?w) j" by simp
    then have "bit (uint ?w) j \<Longrightarrow> j < n" by (auto simp: bit_take_bit_iff)
    then show ?thesis using False by (auto simp: bit_uint_iff bit_load_bytes)
  qed
qed

lemma write_read:
  assumes "endian \<noteq> COM_OPAQUE" and "t \<noteq> UINT8_N" and "t \<noteq> UINT8_DYN"
    and "1 \<le> unat bs" and "unat bs \<le> 32" and "value_fits t (unat bs) d"
  shows "\<exists>m' changed. Com_WriteSignalDataToPdu d t m p bp bs endian = Some (m', changed)
    \<and> Com_Internal_ReadSignalDataFromPdu m' p bp bs endian t = Some d \<and> (changed \<longleftrightarrow> m' \<noteq> m)"
proof -
  let ?w = "load_bytes d (type_size t)" and ?a = "field_addr endian p bp bs" and ?s = "field_shift endian bp bs"
  let ?v = "?w AND signal_mask (unat bs)"
  let ?r = "pack m ?a ?s (unat bs) (signal_mask (unat bs)) ?v"
  have "unpack (fst ?r) ?a ?s (unat bs) AND signal_mask (unat bs) = ?v"
    using assms(5) masked_bits by (intro unpack_pack) simp_all
  then have read: "Com_Internal_ReadSignalDataFromPdu (fst ?r) p bp bs endian t =
      Some (store_bytes (type_size t) (if type_signed t then extend (unat bs) ?v else ?v))"
    by (simp add: Read_numeric [OF assms(1-3)])
  have size: "type_size t \<le> 4" "length d = type_size t" using assms(6) by (simp_all add: type_size_def value_fits_def)
  have "store_bytes (type_size t) (if type_signed t then extend (unat bs) ?v else ?v) = d"
  proof (rule store_bytes_eqI)
    fix j assume j: "j < 8 * type_size t"
    note bits = fits_bits [OF assms(6,4,5) j]
    show "bit (if type_signed t then extend (unat bs) ?v else ?v) j = bit ?w j"
    proof (cases "type_signed t")
      case True
      have "bit (extend (unat bs) ?v) j = bit ?v (min j (unat bs - 1))"
        using assms(4,5) masked_bits j size(1) by (intro bit_extend) simp_all
      also have "\<dots> = bit ?w (min j (unat bs - 1))" using assms(4,5) by (auto simp: bit_and_iff bit_signal_mask)
      finally show ?thesis using True bits by simp
    next
      case False
      then show ?thesis using bits assms(5) by (auto simp: bit_and_iff bit_signal_mask)
    qed
  qed (simp_all add: size)
  moreover have "snd ?r \<longleftrightarrow> fst ?r \<noteq> m" using assms(5) masked_bits by (intro pack_changed) simp_all
  moreover have "Com_WriteSignalDataToPdu d t m p bp bs endian = Some (fst ?r, snd ?r)"
    by (simp only: Write_numeric [OF assms(1-3)] prod.collapse)
  ultimately show ?thesis using read by (intro exI conjI) simp_all
qed

text \<open>C33: A signal reads back as it was written.  For either byte order, any bit position and any size
  of 1 to 32 bits, a value of any of the integer types that fits the field is stored and read back
  unchanged, negative values included, whatever the buffer held before; and the flag tells exactly
  whether the write has changed memory.\<close>

theorem signal_write_then_read:
  assumes "endian \<noteq> COM_OPAQUE" and "t \<noteq> UINT8_N" and "t \<noteq> UINT8_DYN"
    and "1 \<le> unat bs" and "unat bs \<le> 32" and "value_fits t (unat bs) d"
  shows "\<exists>m' changed. Com_WriteSignalDataToPdu d t m p bp bs endian = Some (m', changed)
    \<and> Com_Internal_ReadSignalDataFromPdu m' p bp bs endian t = Some d \<and> (changed \<longleftrightarrow> m' \<noteq> m)"
  by (rule write_read [OF assms])

lemma signal_write_then_read_witness:
  "\<exists>m' changed. Com_WriteSignalDataToPdu [0xFD, 0xFF] SINT16 (\<lambda>_. 0xA5) 0 10 5 COM_BIG_ENDIAN = Some (m', changed)
    \<and> Com_Internal_ReadSignalDataFromPdu m' 0 10 5 COM_BIG_ENDIAN SINT16 = Some [0xFD, 0xFF]
    \<and> (changed \<longleftrightarrow> m' \<noteq> (\<lambda>_. 0xA5))"
proof -
  have "[0..<2] = [0, Suc 0]" by (simp add: numeral_2_eq_2)
  then have "load_bytes [0xFD, 0xFF] 2 = 0xFFFD" by (simp add: load_bytes_def client_byte_def)
  then have "value_fits SINT16 5 [0xFD, 0xFF]"
    by (simp add: value_fits_def signal_value_def type_signed_def type_size_def)
  then show ?thesis by (intro signal_write_then_read) simp_all
qed
section \<open>Fields\<close>

text \<open>The bits a signal occupies: address and bit number of each, least significant first.\<close>

definition field_bits :: "ComSignalEndianess_type \<Rightarrow> int \<Rightarrow> u16 \<Rightarrow> u16 \<Rightarrow> (int \<times> nat) list" where
  "field_bits endian p bp bs =
     map (\<lambda>j. let n = field_shift endian bp bs + j in (field_addr endian p bp bs (n div 8), n mod 8)) [0..<unat bs]"

lemma window_bit_field:
  "window_bit m (field_addr endian p bp bs) (field_shift endian bp bs + j) =
     (case field_bit of (x, k) \<Rightarrow> bit (m x) k)"
  if "field_bit = (field_addr endian p bp bs ((field_shift endian bp bs + j) div 8), (field_shift endian bp bs + j) mod 8)"
  using that by (simp add: window_bit_def)

lemma set_field_bits:
  "set (field_bits endian p bp bs) =
     {(field_addr endian p bp bs (n div 8), n mod 8) |n. field_shift endian bp bs \<le> n \<and> n < field_shift endian bp bs + unat bs}"
proof -
  have "\<exists>j<unat bs. n = field_shift endian bp bs + j"
    if "field_shift endian bp bs \<le> n" "n < field_shift endian bp bs + unat bs" for n
    using that by (intro exI [of _ "n - field_shift endian bp bs"]) auto
  then show ?thesis by (fastforce simp: field_bits_def Let_def)
qed

lemma Write_frame:
  assumes t: "endian \<noteq> COM_OPAQUE" "t \<noteq> UINT8_N" "t \<noteq> UINT8_DYN" and z: "unat bs \<le> 32"
    and w: "Com_WriteSignalDataToPdu d t m p bp bs endian = Some (m', c)"
    and x: "(x, k) \<notin> set (field_bits endian p bp bs)" and k: "k < 8"
  shows "bit (m' x) k = bit (m x) k"
proof -
  let ?a = "field_addr endian p bp bs" and ?s = "field_shift endian bp bs"
  let ?v = "load_bytes d (type_size t) AND signal_mask (unat bs)"
  have m': "m' = fst (pack m ?a ?s (unat bs) (signal_mask (unat bs)) ?v)"
    using w by (simp add: Write_numeric [OF t])
  have pb: "window_bit m' ?a n = (if ?s \<le> n \<and> n < ?s + unat bs then bit ?v (n - ?s) else window_bit m ?a n)"
    if "n < 40" for n unfolding m' using that by (intro bit_pack(1)) (simp_all add: z masked_bits)
  show ?thesis
  proof (cases "x \<in> ?a ` {..<5}")
    case True
    then obtain i where i: "x = ?a i" "i < 5" by auto
    let ?n = "8 * i + k"
    have n: "?n < 40" "?n div 8 = i" "?n mod 8 = k" using i(2) k by simp_all
    have "\<not> (?s \<le> ?n \<and> ?n < ?s + unat bs)"
    proof
      assume "?s \<le> ?n \<and> ?n < ?s + unat bs"
      then have "(?a (?n div 8), ?n mod 8) \<in> set (field_bits endian p bp bs)" unfolding set_field_bits by blast
      then show False using x n i(1) by simp
    qed
    then have "window_bit m' ?a ?n = window_bit m ?a ?n" unfolding pb [OF n(1)] by (simp only: if_False)
    then show ?thesis using n i(1) by (simp add: window_bit_def)
  next
    case False
    have "m' x = m x" unfolding m' using False by (intro bit_pack(2)) (simp_all add: z masked_bits)
    then show ?thesis by simp
  qed
qed

lemma Read_field:
  assumes t: "endian \<noteq> COM_OPAQUE" "t \<noteq> UINT8_N" "t \<noteq> UINT8_DYN" and z: "unat bs \<le> 32"
    and eq: "\<And>x k. (x, k) \<in> set (field_bits endian p bp bs) \<Longrightarrow> bit (m' x) k = bit (m x) k"
  shows "Com_Internal_ReadSignalDataFromPdu m' p bp bs endian t = Com_Internal_ReadSignalDataFromPdu m p bp bs endian t"
proof -
  let ?a = "field_addr endian p bp bs" and ?s = "field_shift endian bp bs"
  have "unpack m' ?a ?s (unat bs) AND signal_mask (unat bs) = unpack m ?a ?s (unat bs) AND signal_mask (unat bs)"
  proof (rule bit_word_eqI)
    fix j assume "j < LENGTH(32)"
    show "bit (unpack m' ?a ?s (unat bs) AND signal_mask (unat bs)) j
        = bit (unpack m ?a ?s (unat bs) AND signal_mask (unat bs)) j"
    proof (cases "j < unat bs")
      case True
      then have "(?a ((?s + j) div 8), (?s + j) mod 8) \<in> set (field_bits endian p bp bs)"
        unfolding set_field_bits by auto
      then have "window_bit m' ?a (?s + j) = window_bit m ?a (?s + j)" using eq by (simp add: window_bit_def)
      then show ?thesis using True z by (simp add: bit_and_iff bit_unpack)
    qed (simp add: bit_and_iff bit_signal_mask)
  qed
  then show ?thesis by (simp add: Read_numeric [OF t])
qed

text \<open>C34: Signals are independent: writing one signal of a buffer leaves every bit outside its field as it
  was, so that a signal whose field shares no bit with it reads the same before and after, whatever
  the byte orders and alignments of the two.\<close>

theorem signals_independent:
  assumes "endian \<noteq> COM_OPAQUE" and "t \<noteq> UINT8_N" and "t \<noteq> UINT8_DYN" and "unat bs \<le> 32"
    and "endian' \<noteq> COM_OPAQUE" and "t' \<noteq> UINT8_N" and "t' \<noteq> UINT8_DYN" and "unat bs' \<le> 32"
    and "set (field_bits endian p bp bs) \<inter> set (field_bits endian' p' bp' bs') = {}"
    and "Com_WriteSignalDataToPdu d t m p bp bs endian = Some (m', changed)"
  shows "Com_Internal_ReadSignalDataFromPdu m' p' bp' bs' endian' t'
       = Com_Internal_ReadSignalDataFromPdu m p' bp' bs' endian' t'"
proof (rule Read_field [OF assms(5-8)])
  fix x k assume f: "(x, k) \<in> set (field_bits endian' p' bp' bs')"
  then have "(x, k) \<notin> set (field_bits endian p bp bs)" and "k < 8"
    using assms(9) by (auto simp: set_field_bits)
  then show "bit (m' x) k = bit (m x) k" by (rule Write_frame [OF assms(1-4,10)])
qed

lemma signals_independent_witness:
  "Com_Internal_ReadSignalDataFromPdu
     (fst (the (Com_WriteSignalDataToPdu [0xFF] UINT8 (\<lambda>_. 0x12) 0 3 5 COM_LITTLE_ENDIAN))) 0 10 6 COM_BIG_ENDIAN UINT16
   = Com_Internal_ReadSignalDataFromPdu (\<lambda>_. 0x12) 0 10 6 COM_BIG_ENDIAN UINT16"
proof -
  have "list_all (\<lambda>b. b \<notin> set (field_bits COM_BIG_ENDIAN 0 10 6)) (field_bits COM_LITTLE_ENDIAN 0 3 5)" by code_simp
  then have d: "set (field_bits COM_LITTLE_ENDIAN 0 3 5) \<inter> set (field_bits COM_BIG_ENDIAN 0 10 6) = {}"
    by (auto simp: list_all_iff)
  obtain m' c where w: "Com_WriteSignalDataToPdu [0xFF] UINT8 (\<lambda>_. 0x12) 0 3 5 COM_LITTLE_ENDIAN = Some (m', c)"
    by (auto simp: Write_numeric prod_eq_iff)
  show ?thesis using signals_independent [OF _ _ _ _ _ _ _ _ d w, of UINT16] by (simp add: w)
qed

end
