(* ===== verification/Com.thy ===== *)
theory Com
  imports ComPack "HOL-Library.Monad_Syntax"
begin

text \<open>
  The communication module (\<open>core/communication/Com\<close>): signals are packed into protocol data units,
  which the module transmits by its own schedule and fills from reception; deadlines of received
  signals, counters of units, update bits, signal groups and the interface of the transport layer.

  The static buffer \<open>Com_Arc_Buffer\<close> starts at address 0 of the memory; data pointers are addresses.
  Tables with an end mark are lists (of at most 255 signals where the loop counts in 8 bits), a reference table that is \<open>NULL\<close> is the empty list.  A callout
  table is a function that is \<open>None\<close> where the table has \<open>NULL\<close>.  The build is the project's:
  \<open>COM_DEV_ERROR_DETECT\<close> off, so that there are no reports, \<open>COM_IPDU_COUNTING_ENABLE\<close> on.
  The router below answers to a transmission with the function \<open>pdur_answer\<close> of the number of earlier
  transmissions, the identifier and the data.  Notifications are recorded; they do not call back
  into the module.  \<open>irq_off\<close> is the interrupt mask that \<open>Irq_Save\<close> sets and \<open>Irq_Restore\<close> puts back.
  \<open>None\<close> is a failed assertion or an access behind a table.
\<close>

section \<open>Configuration (\<open>include/Com_Types.h\<close>)\<close>

datatype Com_StatusType = COM_UNINIT | COM_INIT
datatype Com_IPduSignalProcessingMode = IMMEDIATE | DEFERRED
datatype Com_IPduDirection = RECEIVE | SEND
datatype ComTransferProperty_type = PENDING | TRIGGERED | TRIGGERED_WITHOUT_REPETITION
  | TRIGGERED_ON_CHANGE_WITHOUT_REPETITION | TRIGGERED_ON_CHANGE
datatype ComTxModeMode_type = DIRECT | MIXED | NONE | PERIODIC
datatype ComRxDataTimeoutAction_type = COM_TIMEOUT_DATA_ACTION_NONE | COM_TIMEOUT_DATA_ACTION_REPLACE

abbreviation COM_NO_FUNCTION_CALLOUT :: u32 where "COM_NO_FUNCTION_CALLOUT \<equiv> 0xFFFFFFFF"
abbreviation NO_PDU_REFERENCE :: u16 where "NO_PDU_REFERENCE \<equiv> 0xFFFF"
abbreviation COM_BUSY :: u8 where "COM_BUSY \<equiv> 0x81"
abbreviation COM_SERVICE_NOT_AVAILABLE :: u8 where "COM_SERVICE_NOT_AVAILABLE \<equiv> 0x80"

record ComGroupSignal_type =
  grp_BitPosition :: u16
  grp_BitSize :: u16
  grp_HandleId :: u8
  grp_Endianess :: ComSignalEndianess_type
  grp_InitValue :: "u8 list"
  grp_SignalType :: Com_SignalType

record ComSignal_type =
  ComBitPosition :: u16
  ComBitSize :: u16
  ComFirstTimeoutFactor :: u32
  ComHandleId :: u16
  ComNotification :: u32
  ComRxDataTimeoutAction :: ComRxDataTimeoutAction_type
  ComSignalEndianess :: ComSignalEndianess_type
  ComSignalInitValue :: "u8 list"
  ComSignalType :: Com_SignalType
  ComTimeoutFactor :: u32
  ComTimeoutNotification :: u32
  ComTransferProperty :: ComTransferProperty_type
  ComUpdateBitPosition :: u16
  ComSignalArcUseUpdateBit :: bool
  Com_Arc_IsSignalGroup :: bool
  ComGroupSignal :: "ComGroupSignal_type list"
  Com_Arc_ShadowBuffer_Mask :: "u8 list"
  ComIPduHandleId :: u16

record ComTxMode_type =
  ComTxModeMode :: ComTxModeMode_type
  ComTxModeNumberOfRepetitions :: u8
  ComTxModeRepetitionPeriodFactor :: u32
  ComTxModeTimeOffsetFactor :: u32
  ComTxModeTimePeriodFactor :: u32

record ComTxIPdu_type =
  ComTxIPduMinimumDelayFactor :: u32
  ComTxIPduUnusedAreasDefault :: u8
  ComTxModeTrue :: ComTxMode_type

record ComIPduCounter_type =
  ComIPduCntrRange :: u16
  ComIPduCntrStartPos :: u16
  ComIPduCntrThrshldStep :: u8
  ComIPduCntErrNotification :: u32
  ComIPduCntrIndex :: u16

record ComIPdu_type =
  ComRxIPduCallout :: u32
  ComTxIPduCallout :: u32
  ArcIPduOutgoingId :: u8
  ComIPduSignalProcessing :: Com_IPduSignalProcessingMode
  ComIPduSize :: u16
  ComIPduDirection :: Com_IPduDirection
  ComIPduGroupRefs :: "u16 list"
  ComTxIPdu :: ComTxIPdu_type
  ComIPduSignalRef :: "ComSignal_type list"
  ComIPduDynSignalRef :: "ComSignal_type option"
  ComIpduCounterRef :: "ComIPduCounter_type option"

record Com_ConfigType =
  ComNofIPdus :: u16
  ComNofSignals :: u16
  ComNofGroupSignals :: u16
  ComIPdu :: "ComIPdu_type list"
  ComSignal :: "ComSignal_type list"
  ComGroupSignals :: "ComGroupSignal_type list"
  ComRxIPduCallouts :: "u32 \<Rightarrow> (u16 \<Rightarrow> u8 list \<Rightarrow> bool) option"
  ComTxIPduCallouts :: "u32 \<Rightarrow> (u16 \<Rightarrow> u8 list \<Rightarrow> bool \<times> u8 list) option"
  has_notification :: "u32 \<Rightarrow> bool"
  pdur_answer :: "nat \<Rightarrow> u8 \<Rightarrow> u8 list \<Rightarrow> Std_ReturnType"

section \<open>Runtime data (\<open>Com_Arc_Types.h\<close>, \<open>Com_Internal.h\<close>)\<close>

record Com_Arc_Signal_type =
  Com_Arc_DeadlineCounter :: u32
  ComSignalUpdated :: bool
  sig_ShadowBuffer :: int

record Com_Arc_TxIPduTimer_type =
  ComTxIPduNumberOfRepetitionsLeft :: u8
  ComTxModeRepetitionPeriodTimer :: u32
  ComTxIPduMinimumDelayTimer :: u32
  ComTxModeTimePeriodTimer :: u32

record Com_Arc_IPdu_type =
  Com_Arc_TxIPduTimers :: Com_Arc_TxIPduTimer_type
  Com_Arc_IpduStarted :: bool
  Com_Arc_DynSignalLength :: u16
  ComIPduDataPtr :: int
  ComIPduDeferredDataPtr :: int

record Com_BufferPduStateType =
  currentPosition :: u16
  locked :: bool

record Com =
  initStatus :: Com_StatusType
  ComConfig :: Com_ConfigType
  mem :: mem
  ArcIPdu :: "Com_Arc_IPdu_type list"
  ArcSignal :: "Com_Arc_Signal_type list"
  ArcGroupShadow :: "int option list"
  Com_BufferPduState :: "Com_BufferPduStateType list"
  ComIPduCountRxStart :: "bool list"
  Com_IPdu_Counters :: "u8 list"
  irq_off :: bool
  sent :: "(u8 \<times> u8 list) list"
  notified :: "u32 list"

text \<open>Access to the tables; behind the end it is undefined.\<close>

definition look :: "'a list \<Rightarrow> nat \<Rightarrow> 'a option" where
  "look xs i = (if i < length xs then Some (xs ! i) else None)"

abbreviation GET_IPdu :: "u16 \<Rightarrow> Com \<Rightarrow> ComIPdu_type option" where
  "GET_IPdu i s \<equiv> look (ComIPdu (ComConfig s)) (unat i)"
abbreviation GET_ArcIPdu :: "u16 \<Rightarrow> Com \<Rightarrow> Com_Arc_IPdu_type option" where
  "GET_ArcIPdu i s \<equiv> look (ArcIPdu s) (unat i)"
abbreviation GET_Signal :: "u16 \<Rightarrow> Com \<Rightarrow> ComSignal_type option" where
  "GET_Signal i s \<equiv> look (ComSignal (ComConfig s)) (unat i)"
abbreviation GET_ArcSignal :: "u16 \<Rightarrow> Com \<Rightarrow> Com_Arc_Signal_type option" where
  "GET_ArcSignal i s \<equiv> look (ArcSignal s) (unat i)"
abbreviation PduState :: "u16 \<Rightarrow> Com \<Rightarrow> Com_BufferPduStateType option" where
  "PduState i s \<equiv> look (Com_BufferPduState s) (unat i)"

definition upd_ipdu :: "u16 \<Rightarrow> (Com_Arc_IPdu_type \<Rightarrow> Com_Arc_IPdu_type) \<Rightarrow> Com \<Rightarrow> Com" where
  "upd_ipdu i f s = s\<lparr>ArcIPdu := (ArcIPdu s)[unat i := f (ArcIPdu s ! unat i)]\<rparr>"

definition upd_timers :: "u16 \<Rightarrow> (Com_Arc_TxIPduTimer_type \<Rightarrow> Com_Arc_TxIPduTimer_type) \<Rightarrow> Com \<Rightarrow> Com" where
  "upd_timers i f = upd_ipdu i (Com_Arc_TxIPduTimers_update f)"

definition upd_sig :: "u16 \<Rightarrow> (Com_Arc_Signal_type \<Rightarrow> Com_Arc_Signal_type) \<Rightarrow> Com \<Rightarrow> Com" where
  "upd_sig i f s = s\<lparr>ArcSignal := (ArcSignal s)[unat i := f (ArcSignal s ! unat i)]\<rparr>"

definition upd_buf :: "u16 \<Rightarrow> (Com_BufferPduStateType \<Rightarrow> Com_BufferPduStateType) \<Rightarrow> Com \<Rightarrow> Com" where
  "upd_buf i f s = s\<lparr>Com_BufferPduState := (Com_BufferPduState s)[unat i := f (Com_BufferPduState s ! unat i)]\<rparr>"

definition UnlockTpBuffer :: "u16 \<Rightarrow> Com \<Rightarrow> Com" where
  "UnlockTpBuffer PduId = upd_buf PduId (\<lambda>b. b\<lparr>locked := False, currentPosition := 0\<rparr>)"

text \<open>A notification is called where one is configured.\<close>

definition notify :: "u32 \<Rightarrow> Com \<Rightarrow> Com" where
  "notify n s = (if n \<noteq> COM_NO_FUNCTION_CALLOUT \<and> has_notification (ComConfig s) n
                 then s\<lparr>notified := notified s @ [n]\<rparr> else s)"

fun ofold :: "('a \<Rightarrow> 's \<Rightarrow> 's option) \<Rightarrow> 'a list \<Rightarrow> 's \<Rightarrow> 's option" where
  "ofold f [] s = Some s"
| "ofold f (x # xs) s = (case f x s of None \<Rightarrow> None | Some t \<Rightarrow> ofold f xs t)"

section \<open>Update bits and groups\<close>

definition bit_byte :: "u16 \<Rightarrow> u8" where "bit_byte b = push_bit (unat b mod 8) 1"

definition TESTBIT :: "mem \<Rightarrow> int \<Rightarrow> u16 \<Rightarrow> bool" where
  "TESTBIT m source b \<longleftrightarrow> m (source + int (unat b div 8)) AND bit_byte b \<noteq> 0"
definition SETBIT :: "int \<Rightarrow> u16 \<Rightarrow> mem \<Rightarrow> mem" where
  "SETBIT dest b m = (let a = dest + int (unat b div 8) in m(a := m a OR bit_byte b))"
definition CLEARBIT :: "int \<Rightarrow> u16 \<Rightarrow> mem \<Rightarrow> mem" where
  "CLEARBIT dest b m = (let a = dest + int (unat b div 8) in m(a := m a AND NOT (bit_byte b)))"

definition upd_mem :: "(mem \<Rightarrow> mem) \<Rightarrow> Com \<Rightarrow> Com" where "upd_mem f s = s\<lparr>mem := f (mem s)\<rparr>"

definition copy_masked :: "u8 list \<Rightarrow> nat \<Rightarrow> int \<Rightarrow> int \<Rightarrow> mem \<Rightarrow> mem \<times> bool" where
  "copy_masked msk len buf pdu m =
     fold (\<lambda>i (m, dataChanged).
         let data = (NOT (client_byte msk i) AND m (pdu + int i)) OR (client_byte msk i AND m (buf + int i))
         in (m(pdu + int i := data), if m (pdu + int i) \<noteq> data then True else dataChanged)) [0..<len] (m, False)"

definition Com_CopySignalGroupDataFromShadowBufferToPdu :: "u16 \<Rightarrow> bool \<Rightarrow> Com \<Rightarrow> (bool \<times> Com) option" where
  "Com_CopySignalGroupDataFromShadowBufferToPdu signalGroupId deferredBufferDestination s = do {
     Signal \<leftarrow> GET_Signal signalGroupId s;
     IPdu \<leftarrow> GET_IPdu (ComIPduHandleId Signal) s;
     ArcSig \<leftarrow> GET_ArcSignal (ComHandleId Signal) s;
     ArcI \<leftarrow> GET_ArcIPdu (ComIPduHandleId Signal) s;
     let pduDataPtr = (if deferredBufferDestination then ComIPduDeferredDataPtr ArcI else ComIPduDataPtr ArcI);
     let (m, dataChanged) = copy_masked (Com_Arc_ShadowBuffer_Mask Signal) (unat (ComIPduSize IPdu))
                              (sig_ShadowBuffer ArcSig) pduDataPtr (mem s);
     Some (dataChanged, s\<lparr>mem := m\<rparr>) }"

definition Com_CopySignalGroupDataFromPduToShadowBuffer :: "u16 \<Rightarrow> Com \<Rightarrow> Com option" where
  "Com_CopySignalGroupDataFromPduToShadowBuffer signalGroupId s = do {
     Signal \<leftarrow> GET_Signal signalGroupId s;
     IPdu \<leftarrow> GET_IPdu (ComIPduHandleId Signal) s;
     ArcI \<leftarrow> GET_ArcIPdu (ComIPduHandleId Signal) s;
     ArcSig \<leftarrow> GET_ArcSignal (ComHandleId Signal) s;
     let pdu = (if ComIPduSignalProcessing IPdu = DEFERRED \<and> ComIPduDirection IPdu = RECEIVE
                then ComIPduDeferredDataPtr ArcI else ComIPduDataPtr ArcI);
     let buf = sig_ShadowBuffer ArcSig;
     Some (upd_mem (fold (\<lambda>i m. m(buf + int i := client_byte (Com_Arc_ShadowBuffer_Mask Signal) i AND m (pdu + int i)))
             [0..<unat (ComIPduSize IPdu)]) s) }"

definition Com_Internal_UpdateShadowSignal :: "u16 \<Rightarrow> u8 list \<Rightarrow> Com \<Rightarrow> Com option" where
  "Com_Internal_UpdateShadowSignal SignalId SignalData s = do {
     buf \<leftarrow> look (ArcGroupShadow s) (unat SignalId);
     GroupSignal \<leftarrow> look (ComGroupSignals (ComConfig s)) (unat SignalId);
     p \<leftarrow> buf;
     (m, dataChanged) \<leftarrow> Com_WriteSignalDataToPdu SignalData (grp_SignalType GroupSignal) (mem s) p
        (grp_BitPosition GroupSignal) (grp_BitSize GroupSignal) (grp_Endianess GroupSignal);
     Some (s\<lparr>mem := m\<rparr>) }"
section \<open>Counters of units (\<open>Com_Com.c\<close>)\<close>

definition ResetInternalCounter :: "u16 \<Rightarrow> Com \<Rightarrow> Com" where
  "ResetInternalCounter indx s = s\<lparr>Com_IPdu_Counters := (Com_IPdu_Counters s)[unat indx := 0]\<rparr>"

definition ReSetInternalRxStartSts :: "u16 \<Rightarrow> Com \<Rightarrow> Com" where
  "ReSetInternalRxStartSts indx s = s\<lparr>ComIPduCountRxStart := (ComIPduCountRxStart s)[unat indx := False]\<rparr>"

definition ResetInternalCounterRxStartSts :: "Com \<Rightarrow> Com" where
  "ResetInternalCounterRxStartSts s = s\<lparr>Com_IPdu_Counters := map (\<lambda>_. 0) (Com_IPdu_Counters s),
     ComIPduCountRxStart := map (\<lambda>_. False) (ComIPduCountRxStart s)\<rparr>"

text \<open>The new counter value, and the byte of the unit that carries it.\<close>

definition next_counter :: "u8 \<Rightarrow> u16 \<Rightarrow> u8" where
  "next_counter c rng = of_nat (Suc (unat c) mod unat rng)"

definition updateIPduCntr :: "ComIPduCounter_type \<Rightarrow> u8 \<Rightarrow> mem \<Rightarrow> int \<Rightarrow> u8 \<times> mem" where
  "updateIPduCntr CounterCfgRef current m sduPtr =
     (let startPos = unat (ComIPduCntrStartPos CounterCfgRef);
          a = sduPtr + int (startPos div 8);
          bitPos = startPos mod 8;
          cntrRng = ComIPduCntrRange CounterCfgRef;
          bitMask = NOT (push_bit bitPos (cntrRng - 1));
          cntrVal = next_counter current cntrRng
      in (cntrVal, m(a := (m a AND ucast bitMask) OR push_bit bitPos cntrVal)))"

definition extractIPduCntr :: "ComIPduCounter_type \<Rightarrow> u8 list \<Rightarrow> u8" where
  "extractIPduCntr CounterCfgRef sdu =
     (let startPos = unat (ComIPduCntrStartPos CounterCfgRef);
          val = client_byte sdu (startPos div 8)
      in drop_bit (startPos mod 8) val AND ucast (ComIPduCntrRange CounterCfgRef - 1))"

definition counter_diff :: "u8 \<Rightarrow> u8 \<Rightarrow> u16 \<Rightarrow> u16" where
  "counter_diff rxCntrVal cnt cntrRng =
     (if rxCntrVal \<ge> cnt then ucast rxCntrVal - ucast cnt else ucast rxCntrVal + cntrRng - ucast cnt)"

definition validateIPduCounter :: "ComIPduCounter_type \<Rightarrow> u8 list \<Rightarrow> Com \<Rightarrow> bool \<times> Com" where
  "validateIPduCounter CounterCfgRef sdu s =
     (let k = unat (ComIPduCntrIndex CounterCfgRef);
          cntrRng = ComIPduCntrRange CounterCfgRef;
          rxCntrVal = extractIPduCntr CounterCfgRef sdu;
          cnt = Com_IPdu_Counters s ! k;
          (ret, s1) =
            (if ComIPduCountRxStart s ! k then
               (counter_diff rxCntrVal cnt cntrRng \<le> ucast (ComIPduCntrThrshldStep CounterCfgRef), s)
             else (True, s\<lparr>ComIPduCountRxStart := (ComIPduCountRxStart s)[k := True]\<rparr>))
      in (ret, s1\<lparr>Com_IPdu_Counters := (Com_IPdu_Counters s1)[k := next_counter rxCntrVal cntrRng]\<rparr>))"

section \<open>Sending and receiving signals\<close>

text \<open>The part \<open>Com_SendSignal\<close>, \<open>Com_SendDynSignal\<close> and \<open>Com_SendSignalGroup\<close> share: the repetitions a
  signal triggers.\<close>

definition triggers :: "ComTransferProperty_type \<Rightarrow> bool \<Rightarrow> bool" where
  "triggers p dataChanged \<longleftrightarrow> p = TRIGGERED \<or> p = TRIGGERED_WITHOUT_REPETITION
     \<or> (p = TRIGGERED_ON_CHANGE \<or> p = TRIGGERED_ON_CHANGE_WITHOUT_REPETITION) \<and> dataChanged"

definition nofReps :: "ComTransferProperty_type \<Rightarrow> ComIPdu_type \<Rightarrow> u8" where
  "nofReps p IPdu = (case p of
       TRIGGERED \<Rightarrow> (let n = ComTxModeNumberOfRepetitions (ComTxModeTrue (ComTxIPdu IPdu)) in if n = 0 then 1 else n)
     | TRIGGERED_ON_CHANGE \<Rightarrow> (let n = ComTxModeNumberOfRepetitions (ComTxModeTrue (ComTxIPdu IPdu)) in if n = 0 then 1 else n)
     | TRIGGERED_WITHOUT_REPETITION \<Rightarrow> 1
     | TRIGGERED_ON_CHANGE_WITHOUT_REPETITION \<Rightarrow> 1
     | PENDING \<Rightarrow> 0)"

definition request_transmission :: "ComSignal_type \<Rightarrow> ComIPdu_type \<Rightarrow> bool \<Rightarrow> Com \<Rightarrow> Com" where
  "request_transmission Signal IPdu dataChanged =
     upd_timers (ComIPduHandleId Signal)
       (\<lambda>t. if triggers (ComTransferProperty Signal) dataChanged
             \<and> ComTxIPduNumberOfRepetitionsLeft t < nofReps (ComTransferProperty Signal) IPdu
            then t\<lparr>ComTxIPduNumberOfRepetitionsLeft := nofReps (ComTransferProperty Signal) IPdu\<rparr> else t)"

definition set_update_bit :: "ComSignal_type \<Rightarrow> int \<Rightarrow> Com \<Rightarrow> Com" where
  "set_update_bit Signal p s =
     (if ComSignalArcUseUpdateBit Signal then upd_mem (SETBIT p (ComUpdateBitPosition Signal)) s else s)"

definition Com_SendSignal :: "u16 \<Rightarrow> u8 list \<Rightarrow> Com \<Rightarrow> (u8 \<times> Com) option" where
  "Com_SendSignal SignalId SignalData s =
     (if initStatus s \<noteq> COM_INIT then Some (COM_SERVICE_NOT_AVAILABLE, s)
      else if SignalId \<ge> ComNofSignals (ComConfig s) then Some (COM_SERVICE_NOT_AVAILABLE, s)
      else do {
        Signal \<leftarrow> GET_Signal SignalId s;
        if ComIPduHandleId Signal = NO_PDU_REFERENCE then Some (COM_SERVICE_NOT_AVAILABLE, s)
        else do {
          buf \<leftarrow> PduState (ComIPduHandleId Signal) s;
          if locked buf then Some (COM_BUSY, s)
          else do {
            IPdu \<leftarrow> GET_IPdu (ComIPduHandleId Signal) s;
            ArcI \<leftarrow> GET_ArcIPdu (ComIPduHandleId Signal) s;
            let state = irq_off s;
            let s1 = s\<lparr>irq_off := True\<rparr>;
            (m, dataChanged) \<leftarrow> Com_WriteSignalDataToPdu SignalData (ComSignalType Signal) (mem s1) (ComIPduDataPtr ArcI)
               (ComBitPosition Signal) (ComBitSize Signal) (ComSignalEndianess Signal);
            let s2 = set_update_bit Signal (ComIPduDataPtr ArcI) (s1\<lparr>mem := m\<rparr>);
            let s3 = (if Com_Arc_IpduStarted ArcI then request_transmission Signal IPdu dataChanged s2 else s2);
            Some (if Com_Arc_IpduStarted ArcI then E_OK else COM_SERVICE_NOT_AVAILABLE, s3\<lparr>irq_off := state\<rparr>) }}})"

text \<open>A size table as in \<open>SignalTypeToSize\<close>.\<close>

definition SignalTypeToSize :: "Com_SignalType \<Rightarrow> nat \<Rightarrow> nat" where
  "SignalTypeToSize t len = (if t = UINT8_N then len else type_size t)"

definition Com_ReceiveSignal :: "u16 \<Rightarrow> Com \<Rightarrow> (u8 \<times> u8 list option) option" where
  "Com_ReceiveSignal SignalId s =
     (if initStatus s \<noteq> COM_INIT then Some (COM_SERVICE_NOT_AVAILABLE, None)
      else if SignalId \<ge> ComNofSignals (ComConfig s) then Some (COM_SERVICE_NOT_AVAILABLE, None)
      else do {
        Signal \<leftarrow> GET_Signal SignalId s;
        if ComIPduHandleId Signal = NO_PDU_REFERENCE
        then Some (E_OK, Some (map (client_byte (ComSignalInitValue Signal))
               [0..<SignalTypeToSize (ComSignalType Signal) (unat (ComBitSize Signal) div 8)]))
        else do {
          IPdu \<leftarrow> GET_IPdu (ComIPduHandleId Signal) s;
          ArcI \<leftarrow> GET_ArcIPdu (ComIPduHandleId Signal) s;
          buf \<leftarrow> PduState (ComIPduHandleId Signal) s;
          let deferred = (ComIPduSignalProcessing IPdu = DEFERRED \<and> ComIPduDirection IPdu = RECEIVE);
          let ret = (if \<not> deferred \<and> locked buf then COM_BUSY else E_OK);
          let pduBuffer = (if deferred then ComIPduDeferredDataPtr ArcI else ComIPduDataPtr ArcI);
          d \<leftarrow> Com_Internal_ReadSignalDataFromPdu (mem s) pduBuffer (ComBitPosition Signal) (ComBitSize Signal)
                 (ComSignalEndianess Signal) (ComSignalType Signal);
          Some (if \<not> Com_Arc_IpduStarted ArcI \<and> ret = E_OK then COM_SERVICE_NOT_AVAILABLE else ret, Some d) }})"

text \<open>The length is an argument and a result; where the buffer offered is too short, the interrupts are
  not restored.\<close>

definition Com_ReceiveDynSignal :: "u16 \<Rightarrow> u16 \<Rightarrow> Com \<Rightarrow> (u8 \<times> u8 list option \<times> u16 \<times> Com) option" where
  "Com_ReceiveDynSignal SignalId len s =
     (if initStatus s \<noteq> COM_INIT then Some (COM_SERVICE_NOT_AVAILABLE, None, len, s)
      else do {
        Signal \<leftarrow> GET_Signal SignalId s;
        if ComSignalType Signal \<noteq> UINT8_DYN then Some (COM_SERVICE_NOT_AVAILABLE, None, len, s)
        else do {
        ArcI \<leftarrow> GET_ArcIPdu (ComIPduHandleId Signal) s;
        IPdu \<leftarrow> GET_IPdu (ComIPduHandleId Signal) s;
        buf \<leftarrow> PduState (ComIPduHandleId Signal) s;
         (let state = irq_off s; s1 = s\<lparr>irq_off := True\<rparr> in
          if len \<ge> Com_Arc_DynSignalLength ArcI then
           (let n = Com_Arc_DynSignalLength ArcI;
                startFromPduByte = ucast (ComBitPosition Signal div 8) :: u8;
                deferred = (ComIPduSignalProcessing IPdu = DEFERRED \<and> ComIPduDirection IPdu = RECEIVE);
                ret = (if \<not> deferred \<and> locked buf then COM_BUSY else E_OK);
                p = (if deferred then ComIPduDeferredDataPtr ArcI else ComIPduDataPtr ArcI);
                d = read_block (mem s1) (p + int (unat startFromPduByte)) (unat n)
            in Some (if \<not> Com_Arc_IpduStarted ArcI \<and> ret = E_OK then COM_SERVICE_NOT_AVAILABLE else ret,
                     Some d, n, s1\<lparr>irq_off := state\<rparr>))
          else Some (E_NOT_OK, None, Com_Arc_DynSignalLength ArcI, s1)) }})"

definition Com_SendDynSignal :: "u16 \<Rightarrow> u8 list \<Rightarrow> u16 \<Rightarrow> Com \<Rightarrow> (u8 \<times> Com) option" where
  "Com_SendDynSignal SignalId SignalData len s =
     (if initStatus s \<noteq> COM_INIT then Some (COM_SERVICE_NOT_AVAILABLE, s)
      else do {
        Signal \<leftarrow> GET_Signal SignalId s;
        if ComSignalType Signal \<noteq> UINT8_DYN then Some (COM_SERVICE_NOT_AVAILABLE, s)
        else do {
        buf \<leftarrow> PduState (ComIPduHandleId Signal) s;
        ArcI \<leftarrow> GET_ArcIPdu (ComIPduHandleId Signal) s;
        IPdu \<leftarrow> GET_IPdu (ComIPduHandleId Signal) s;
        if locked buf then Some (COM_BUSY, s)
        else
         (let signalLength = ucast (ComBitSize Signal div 8) :: u8;
              startFromPduByte = ucast (ComBitPosition Signal div 8) :: u8;
              state = irq_off s; s1 = s\<lparr>irq_off := True\<rparr>;
              p = ComIPduDataPtr ArcI + int (unat startFromPduByte);
              bs = map (client_byte SignalData) [0..<unat len];
              dataChanged = (Com_Arc_DynSignalLength ArcI \<noteq> len \<or> read_block (mem s1) p (unat len) \<noteq> bs);
              s2 = upd_mem (\<lambda>m. write_block m p bs) s1;
              s3 = upd_ipdu (ComIPduHandleId Signal) (Com_Arc_DynSignalLength_update (\<lambda>_. len)) s2;
              s4 = set_update_bit Signal (ComIPduDataPtr ArcI) s3;
              s5 = (if Com_Arc_IpduStarted ArcI then request_transmission Signal IPdu dataChanged s4 else s4)
          in if ucast signalLength < len then Some (E_NOT_OK, s)
             else Some (if Com_Arc_IpduStarted ArcI then E_OK else COM_SERVICE_NOT_AVAILABLE, s5\<lparr>irq_off := state\<rparr>)) }})"

definition Com_TriggerTransmit :: "u16 \<Rightarrow> Com \<Rightarrow> (Std_ReturnType \<times> u8 list option) option" where
  "Com_TriggerTransmit TxPduId s =
     (if initStatus s \<noteq> COM_INIT then Some (E_NOT_OK, None)
      else if TxPduId \<ge> ComNofIPdus (ComConfig s) then Some (E_NOT_OK, None)
      else do {
        IPdu \<leftarrow> GET_IPdu TxPduId s;
        ArcI \<leftarrow> GET_ArcIPdu TxPduId s;
        Some (if Com_Arc_IpduStarted ArcI then E_OK else E_NOT_OK,
              Some (read_block (mem s) (ComIPduDataPtr ArcI) (unat (ComIPduSize IPdu)))) })"
section \<open>Transmission\<close>

text \<open>The length of the unit sent: a dynamic signal at its end counts with its current length.\<close>

definition sdu_length :: "ComIPdu_type \<Rightarrow> Com_Arc_IPdu_type \<Rightarrow> u16" where
  "sdu_length IPdu ArcI = (case ComIPduDynSignalRef IPdu of
       Some d \<Rightarrow> ComIPduSize IPdu - ComBitSize d div 8 + Com_Arc_DynSignalLength ArcI
     | None \<Rightarrow> ComIPduSize IPdu)"

definition clear_update_bits :: "ComIPdu_type \<Rightarrow> int \<Rightarrow> mem \<Rightarrow> mem" where
  "clear_update_bits IPdu p =
     fold (\<lambda>sig m. if ComSignalArcUseUpdateBit sig then CLEARBIT p (ComUpdateBitPosition sig) m else m)
       (ComIPduSignalRef IPdu)"

text \<open>The callout of a transmission may change the data and refuse it.\<close>

definition tx_callout :: "u16 \<Rightarrow> ComIPdu_type \<Rightarrow> int \<Rightarrow> Com \<Rightarrow> bool \<times> Com" where
  "tx_callout PduId IPdu p s =
     (if ComTxIPduCallout IPdu = COM_NO_FUNCTION_CALLOUT then (True, s)
      else case ComTxIPduCallouts (ComConfig s) (ComTxIPduCallout IPdu) of
        None \<Rightarrow> (True, s)
      | Some f \<Rightarrow> (let (ok, bs) = f PduId (read_block (mem s) p (unat (ComIPduSize IPdu)))
                   in (ok, upd_mem (\<lambda>m. write_block m p bs) s)))"

definition transmit :: "u16 \<Rightarrow> ComIPdu_type \<Rightarrow> Com_Arc_IPdu_type \<Rightarrow> Com \<Rightarrow> Com" where
  "transmit PduId IPdu ArcI s =
     (let p = ComIPduDataPtr ArcI;
          (cntrVal, s1) = (case ComIpduCounterRef IPdu of
             None \<Rightarrow> (0, s)
           | Some c \<Rightarrow> (let (v, m) = updateIPduCntr c (Com_IPdu_Counters s ! unat (ComIPduCntrIndex c)) (mem s) p
                        in (v, s\<lparr>mem := m\<rparr>)));
          sdu = read_block (mem s1) p (unat (sdu_length IPdu ArcI));
          answer = pdur_answer (ComConfig s1) (length (sent s1)) (ArcIPduOutgoingId IPdu) sdu;
          s2 = s1\<lparr>sent := sent s1 @ [(ArcIPduOutgoingId IPdu, sdu)]\<rparr>
      in if answer = E_OK then
           (let s3 = upd_mem (clear_update_bits IPdu p) s2 in
            case ComIpduCounterRef IPdu of
              None \<Rightarrow> s3
            | Some c \<Rightarrow> s3\<lparr>Com_IPdu_Counters := (Com_IPdu_Counters s3)[unat (ComIPduCntrIndex c) := cntrVal]\<rparr>)
         else UnlockTpBuffer PduId s2)"

definition Com_TriggerIPDUSend :: "u16 \<Rightarrow> Com \<Rightarrow> Com option" where
  "Com_TriggerIPDUSend PduId s =
     (if initStatus s \<noteq> COM_INIT then Some s
      else if PduId \<ge> ComNofIPdus (ComConfig s) then Some s
      else do {
        IPdu \<leftarrow> GET_IPdu PduId s;
        ArcI \<leftarrow> GET_ArcIPdu PduId s;
        let state = irq_off s;
        let s1 = s\<lparr>irq_off := True\<rparr>;
        if ComTxIPduMinimumDelayTimer (Com_Arc_TxIPduTimers ArcI) = 0 then
         (let (ok, s2) = tx_callout PduId IPdu (ComIPduDataPtr ArcI) s1 in
          if \<not> ok then Some (s2\<lparr>irq_off := state\<rparr>)
          else Some ((upd_timers PduId (ComTxIPduMinimumDelayTimer_update (\<lambda>_. ComTxIPduMinimumDelayFactor (ComTxIPdu IPdu)))
                       (transmit PduId IPdu ArcI s2))\<lparr>irq_off := state\<rparr>))
        else Some (s1\<lparr>irq_off := state\<rparr>) })"

section \<open>Reception\<close>

definition rx_process_signal :: "ComIPdu_type \<Rightarrow> Com_Arc_IPdu_type \<Rightarrow> ComSignal_type \<Rightarrow> Com \<Rightarrow> Com" where
  "rx_process_signal IPdu ArcI comSignal s =
     (if \<not> ComSignalArcUseUpdateBit comSignal \<or> TESTBIT (mem s) (ComIPduDataPtr ArcI) (ComUpdateBitPosition comSignal) then
       (let s1 = (if ComTimeoutFactor comSignal > 0
                  then upd_sig (ComHandleId comSignal) (Com_Arc_DeadlineCounter_update (\<lambda>_. ComTimeoutFactor comSignal)) s
                  else s)
        in if ComIPduSignalProcessing IPdu = IMMEDIATE then notify (ComNotification comSignal) s1
           else upd_sig (ComHandleId comSignal) (ComSignalUpdated_update (\<lambda>_. True)) s1)
      else s)"

definition Com_RxProcessSignals :: "ComIPdu_type \<Rightarrow> Com_Arc_IPdu_type \<Rightarrow> Com \<Rightarrow> Com" where
  "Com_RxProcessSignals IPdu ArcI = fold (rx_process_signal IPdu ArcI) (ComIPduSignalRef IPdu)"

text \<open>The data are copied in the configured length, whatever length is indicated.  Where the counter is
  not accepted, the interrupts are not restored.\<close>

definition Com_RxIndication :: "u16 \<Rightarrow> u8 list \<Rightarrow> Com \<Rightarrow> Com option" where
  "Com_RxIndication RxPduId sdu s =
     (if initStatus s \<noteq> COM_INIT then Some s
      else if RxPduId \<ge> ComNofIPdus (ComConfig s) then Some s
      else do {
        IPdu \<leftarrow> GET_IPdu RxPduId s;
        ArcI \<leftarrow> GET_ArcIPdu RxPduId s;
        let state = irq_off s;
        let s1 = s\<lparr>irq_off := True\<rparr>;
        let callout = (if ComRxIPduCallout IPdu = COM_NO_FUNCTION_CALLOUT then None
                       else ComRxIPduCallouts (ComConfig s) (ComRxIPduCallout IPdu));
        if \<not> Com_Arc_IpduStarted ArcI then Some (s1\<lparr>irq_off := state\<rparr>)
        else if (case callout of None \<Rightarrow> False | Some f \<Rightarrow> \<not> f RxPduId sdu) then Some (s1\<lparr>irq_off := state\<rparr>)
        else
         (let (ok, s2) = (case ComIpduCounterRef IPdu of None \<Rightarrow> (True, s1) | Some c \<Rightarrow> validateIPduCounter c sdu s1) in
          if \<not> ok then
            Some (case ComIpduCounterRef IPdu of None \<Rightarrow> s2
                  | Some c \<Rightarrow> if ComIPduCntErrNotification c \<noteq> COM_NO_FUNCTION_CALLOUT
                              then s2\<lparr>notified := notified s2 @ [ComIPduCntErrNotification c]\<rparr> else s2)
          else
           (let bs = map (client_byte sdu) [0..<unat (ComIPduSize IPdu)];
                s3 = upd_mem (\<lambda>m. write_block m (ComIPduDataPtr ArcI) bs) s2
            in Some ((Com_RxProcessSignals IPdu ArcI s3)\<lparr>irq_off := state\<rparr>))) })"

abbreviation NTFRSLT_OK :: u8 where "NTFRSLT_OK \<equiv> 0"

definition Com_TpRxIndication :: "u16 \<Rightarrow> u8 \<Rightarrow> Com \<Rightarrow> Com option" where
  "Com_TpRxIndication PduId Result s =
     (if initStatus s \<noteq> COM_INIT then Some s
      else if PduId \<ge> ComNofIPdus (ComConfig s) then Some s
      else do {
        IPdu \<leftarrow> GET_IPdu PduId s;
        ArcI \<leftarrow> GET_ArcIPdu PduId s;
        if \<not> Com_Arc_IpduStarted ArcI then Some (UnlockTpBuffer PduId s)
        else if Result = NTFRSLT_OK then
          Some (Com_RxProcessSignals IPdu ArcI
                  (if ComIPduSignalProcessing IPdu = IMMEDIATE then UnlockTpBuffer PduId s else s))
        else Some (UnlockTpBuffer PduId s) })"

definition Com_TpTxConfirmation :: "u16 \<Rightarrow> u8 \<Rightarrow> Com \<Rightarrow> Com" where
  "Com_TpTxConfirmation PduId Result s =
     (if initStatus s \<noteq> COM_INIT then s
      else if PduId \<ge> ComNofIPdus (ComConfig s) then s
      else UnlockTpBuffer PduId s)"

definition SetTxConfirmationStatus :: "ComIPdu_type \<Rightarrow> bool \<Rightarrow> Com \<Rightarrow> Com" where
  "SetTxConfirmationStatus IPdu value s =
     (case ComIPduSignalRef IPdu of [] \<Rightarrow> s
      | sig # _ \<Rightarrow> upd_sig (ComHandleId sig) (ComSignalUpdated_update (\<lambda>_. value)) s)"

definition GetTxConfirmationStatus :: "ComIPdu_type \<Rightarrow> Com \<Rightarrow> bool" where
  "GetTxConfirmationStatus IPdu s =
     (case ComIPduSignalRef IPdu of [] \<Rightarrow> False
      | sig # _ \<Rightarrow> ComSignalUpdated (ArcSignal s ! unat (ComHandleId sig)))"

definition notify_signals :: "ComIPdu_type \<Rightarrow> Com \<Rightarrow> Com" where
  "notify_signals IPdu = fold (\<lambda>sig. notify (ComNotification sig)) (ComIPduSignalRef IPdu)"

definition Com_TxConfirmation :: "u16 \<Rightarrow> Com \<Rightarrow> Com option" where
  "Com_TxConfirmation TxPduId s =
     (if initStatus s \<noteq> COM_INIT then Some s
      else if TxPduId \<ge> ComNofIPdus (ComConfig s) then Some s
      else do {
        IPdu \<leftarrow> GET_IPdu TxPduId s;
        Some (if ComIPduDirection IPdu = RECEIVE then s
              else if ComIPduSignalProcessing IPdu = IMMEDIATE then notify_signals IPdu s
              else SetTxConfirmationStatus IPdu True s) })"

section \<open>Signal groups\<close>

definition Com_SendSignalGroup :: "u8 \<Rightarrow> Com \<Rightarrow> (u8 \<times> Com) option" where
  "Com_SendSignalGroup SignalGroupId s =
     (if initStatus s \<noteq> COM_INIT then Some (COM_SERVICE_NOT_AVAILABLE, s)
      else do {
        Signal \<leftarrow> GET_Signal (ucast SignalGroupId) s;
        if ComIPduHandleId Signal = NO_PDU_REFERENCE then Some (COM_SERVICE_NOT_AVAILABLE, s)
        else do {
          ArcI \<leftarrow> GET_ArcIPdu (ComIPduHandleId Signal) s;
          IPdu \<leftarrow> GET_IPdu (ComIPduHandleId Signal) s;
          buf \<leftarrow> PduState (ComIPduHandleId Signal) s;
          if locked buf then Some (COM_BUSY, s)
          else do {
            let state = irq_off s;
            (dataChanged, s1) \<leftarrow> Com_CopySignalGroupDataFromShadowBufferToPdu (ucast SignalGroupId)
               (ComIPduSignalProcessing IPdu = DEFERRED \<and> ComIPduDirection IPdu = RECEIVE) (s\<lparr>irq_off := True\<rparr>);
            let s2 = set_update_bit Signal (ComIPduDataPtr ArcI) s1;
            let s3 = (if Com_Arc_IpduStarted ArcI then request_transmission Signal IPdu dataChanged s2 else s2);
            Some (if Com_Arc_IpduStarted ArcI then E_OK else COM_SERVICE_NOT_AVAILABLE, s3\<lparr>irq_off := state\<rparr>) }}})"

definition Com_ReceiveSignalGroup :: "u8 \<Rightarrow> Com \<Rightarrow> (u8 \<times> Com) option" where
  "Com_ReceiveSignalGroup SignalGroupId s =
     (if initStatus s \<noteq> COM_INIT then Some (COM_SERVICE_NOT_AVAILABLE, s)
      else do {
        Signal \<leftarrow> GET_Signal (ucast SignalGroupId) s;
        if ComIPduHandleId Signal = NO_PDU_REFERENCE then Some (COM_SERVICE_NOT_AVAILABLE, s)
        else do {
          buf \<leftarrow> PduState (ComIPduHandleId Signal) s;
          if locked buf then Some (COM_BUSY, s)
          else do {
            s1 \<leftarrow> Com_CopySignalGroupDataFromPduToShadowBuffer (ucast SignalGroupId) s;
            ArcI \<leftarrow> GET_ArcIPdu (ComIPduHandleId Signal) s1;
            Some (if Com_Arc_IpduStarted ArcI then E_OK else COM_SERVICE_NOT_AVAILABLE, s1) }}})"

definition Com_UpdateShadowSignal :: "u16 \<Rightarrow> u8 list \<Rightarrow> Com \<Rightarrow> Com option" where
  "Com_UpdateShadowSignal SignalId SignalData s =
     (if initStatus s \<noteq> COM_INIT then Some s
      else if SignalId \<ge> ComNofGroupSignals (ComConfig s) then Some s
      else do {
        buf \<leftarrow> look (ArcGroupShadow s) (unat SignalId);
        if buf \<noteq> None then Com_Internal_UpdateShadowSignal SignalId SignalData s else Some s })"

definition Com_ReceiveShadowSignal :: "u16 \<Rightarrow> Com \<Rightarrow> u8 list option option" where
  "Com_ReceiveShadowSignal SignalId s =
     (if initStatus s \<noteq> COM_INIT then Some None
      else if SignalId \<ge> ComNofGroupSignals (ComConfig s) then Some None
      else do {
        GroupSignal \<leftarrow> look (ComGroupSignals (ComConfig s)) (unat SignalId);
        buf \<leftarrow> look (ArcGroupShadow s) (unat SignalId);
        case buf of
          None \<Rightarrow> Some (Some (map (client_byte (grp_InitValue GroupSignal))
                   [0..<SignalTypeToSize (grp_SignalType GroupSignal) (unat (grp_BitSize GroupSignal) div 8)]))
        | Some p \<Rightarrow> do {
            d \<leftarrow> Com_Internal_ReadSignalDataFromPdu (mem s) p (grp_BitPosition GroupSignal) (grp_BitSize GroupSignal)
                   (grp_Endianess GroupSignal) (grp_SignalType GroupSignal);
            Some (Some d) }})"
section \<open>Main functions (\<open>Com_Sched.c\<close>)\<close>

definition timerDec :: "u32 \<Rightarrow> u32" where "timerDec timer = (if timer > 0 then timer - 1 else timer)"

text \<open>A signal whose deadline has passed: its initial value replaces the data where configured.\<close>

definition replace_data :: "ComSignal_type \<Rightarrow> int \<Rightarrow> Com \<Rightarrow> Com option" where
  "replace_data signal p s =
     (if Com_Arc_IsSignalGroup signal then
        ofold (\<lambda>g s. do {
            (m, _) \<leftarrow> Com_WriteSignalDataToPdu (grp_InitValue g) (grp_SignalType g) (mem s) p (grp_BitPosition g)
               (grp_BitSize g) (grp_Endianess g);
            Some (s\<lparr>mem := m\<rparr>) }) (ComGroupSignal signal) s
      else do {
        (m, _) \<leftarrow> Com_WriteSignalDataToPdu (ComSignalInitValue signal) (ComSignalType signal) (mem s) p
           (ComBitPosition signal) (ComBitSize signal) (ComSignalEndianess signal);
        Some (s\<lparr>mem := m\<rparr>) })"

definition deadline_passed :: "ComSignal_type \<Rightarrow> int \<Rightarrow> Com \<Rightarrow> Com option" where
  "deadline_passed signal p s = do {
     s1 \<leftarrow> (if ComRxDataTimeoutAction signal = COM_TIMEOUT_DATA_ACTION_REPLACE
            then map_option (upd_sig (ComHandleId signal) (ComSignalUpdated_update (\<lambda>_. True))) (replace_data signal p s)
            else Some s);
     Some (upd_sig (ComHandleId signal) (Com_Arc_DeadlineCounter_update (\<lambda>_. ComTimeoutFactor signal))
             (notify (ComTimeoutNotification signal) s1)) }"

definition monitor_signal :: "Com_Arc_IPdu_type \<Rightarrow> ComSignal_type \<Rightarrow> bool \<times> Com \<Rightarrow> (bool \<times> Com) option" where
  "monitor_signal ArcI signal = (\<lambda>(pduUpdated, s). do {
     _ \<leftarrow> GET_ArcSignal (ComHandleId signal) s;
     s2 \<leftarrow> (if Com_Arc_IpduStarted ArcI \<and> ComTimeoutFactor signal > 0 then
              (let s1 = upd_sig (ComHandleId signal) (Com_Arc_DeadlineCounter_update timerDec) s in
               if Com_Arc_DeadlineCounter (ArcSignal s1 ! unat (ComHandleId signal)) = 0
               then deadline_passed signal (ComIPduDataPtr ArcI) s1 else Some s1)
            else Some s);
     Some (pduUpdated \<or> ComSignalUpdated (ArcSignal s2 ! unat (ComHandleId signal)), s2) })"

definition deliver_signal :: "ComSignal_type \<Rightarrow> Com \<Rightarrow> Com" where
  "deliver_signal signal s =
     (if ComSignalUpdated (ArcSignal s ! unat (ComHandleId signal))
      then upd_sig (ComHandleId signal) (ComSignalUpdated_update (\<lambda>_. False)) (notify (ComNotification signal) s)
      else s)"

definition rx_pdu :: "u16 \<Rightarrow> Com \<Rightarrow> Com option" where
  "rx_pdu pduId s = do {
     IPdu \<leftarrow> GET_IPdu pduId s;
     ArcI \<leftarrow> GET_ArcIPdu pduId s;
     let state = irq_off s;
     (pduUpdated, s1) \<leftarrow> ofold (monitor_signal ArcI) (ComIPduSignalRef IPdu) (False, s\<lparr>irq_off := True\<rparr>);
     let s2 = (if pduUpdated \<and> ComIPduSignalProcessing IPdu = DEFERRED \<and> ComIPduDirection IPdu = RECEIVE then
                 fold deliver_signal (ComIPduSignalRef IPdu)
                   (upd_mem (\<lambda>m. write_block m (ComIPduDeferredDataPtr ArcI)
                                   (read_block m (ComIPduDataPtr ArcI) (unat (ComIPduSize IPdu))))
                     (UnlockTpBuffer pduId s1))
               else s1);
     Some (s2\<lparr>irq_off := state\<rparr>) }"

definition pdu_ids :: "Com \<Rightarrow> u16 list" where
  "pdu_ids s = map of_nat [0..<length (ComIPdu (ComConfig s))]"

definition Com_MainFunctionRx :: "Com \<Rightarrow> Com option" where
  "Com_MainFunctionRx s = (if initStatus s \<noteq> COM_INIT then Some s else ofold rx_pdu (pdu_ids s) s)"

text \<open>The transmission mode of one unit.  A transmission is tried when its timer has run out and the
  minimum delay has passed.\<close>

abbreviation timers_of :: "u16 \<Rightarrow> Com \<Rightarrow> Com_Arc_TxIPduTimer_type" where
  "timers_of i s \<equiv> Com_Arc_TxIPduTimers (ArcIPdu s ! unat i)"

definition tx_repetition :: "u16 \<Rightarrow> ComTxMode_type \<Rightarrow> Com \<Rightarrow> Com option" where
  "tx_repetition i mode s =
     (if ComTxIPduNumberOfRepetitionsLeft (timers_of i s) > 0 then
       (let s1 = upd_timers i (ComTxModeRepetitionPeriodTimer_update timerDec) s in
        if ComTxModeRepetitionPeriodTimer (timers_of i s1) = 0 \<and> ComTxIPduMinimumDelayTimer (timers_of i s1) = 0 then do {
          s2 \<leftarrow> Com_TriggerIPDUSend i s1;
          Some (upd_timers i (\<lambda>t. t\<lparr>ComTxModeRepetitionPeriodTimer := ComTxModeRepetitionPeriodFactor mode,
                 ComTxIPduNumberOfRepetitionsLeft := ComTxIPduNumberOfRepetitionsLeft t - 1\<rparr>) s2) }
        else Some s1)
      else Some s)"

definition tx_period :: "u16 \<Rightarrow> ComTxMode_type \<Rightarrow> Com \<Rightarrow> Com option" where
  "tx_period i mode s =
     (if ComTxModeTimePeriodTimer (timers_of i s) = 0 \<and> ComTxIPduMinimumDelayTimer (timers_of i s) = 0 then do {
        s1 \<leftarrow> Com_TriggerIPDUSend i s;
        Some (upd_timers i (ComTxModeTimePeriodTimer_update (\<lambda>_. ComTxModeTimePeriodFactor mode)) s1) }
      else Some s)"

definition tx_mode :: "u16 \<Rightarrow> ComTxMode_type \<Rightarrow> Com \<Rightarrow> Com option" where
  "tx_mode i mode s =
     (case ComTxModeMode mode of
        PERIODIC \<Rightarrow> tx_period i mode (upd_timers i (ComTxModeTimePeriodTimer_update timerDec) s)
      | MIXED \<Rightarrow> do {
          s1 \<leftarrow> tx_repetition i mode (upd_timers i (ComTxModeTimePeriodTimer_update timerDec) s);
          tx_period i mode s1 }
      | DIRECT \<Rightarrow> tx_repetition i mode s
      | NONE \<Rightarrow> Some s)"

definition tx_pdu :: "u16 \<Rightarrow> Com \<Rightarrow> Com option" where
  "tx_pdu i s = do {
     IPdu \<leftarrow> GET_IPdu i s;
     ArcI \<leftarrow> GET_ArcIPdu i s;
     let state = irq_off s;
     let s1 = s\<lparr>irq_off := True\<rparr>;
     s2 \<leftarrow> (if ComIPduDirection IPdu = SEND \<and> Com_Arc_IpduStarted ArcI
            then tx_mode i (ComTxModeTrue (ComTxIPdu IPdu)) (upd_timers i (ComTxIPduMinimumDelayTimer_update timerDec) s1)
            else Some s1);
     let s3 = s2\<lparr>irq_off := state\<rparr>;
     let confirmationStatus = GetTxConfirmationStatus IPdu s3;
     let s4 = SetTxConfirmationStatus IPdu False s3;
     Some (if confirmationStatus then notify_signals IPdu s4 else s4) }"

definition Com_MainFunctionTx :: "Com \<Rightarrow> Com option" where
  "Com_MainFunctionTx s = (if initStatus s \<noteq> COM_INIT then Some s else ofold tx_pdu (pdu_ids s) s)"

section \<open>Initialisation and control (\<open>Com.c\<close>)\<close>

definition init_group_signal :: "int \<Rightarrow> ComGroupSignal_type \<Rightarrow> Com \<Rightarrow> Com option" where
  "init_group_signal shadow g s =
     Com_Internal_UpdateShadowSignal (ucast (grp_HandleId g)) (grp_InitValue g)
       (s\<lparr>ArcGroupShadow := (ArcGroupShadow s)[unat (grp_HandleId g) := Some shadow]\<rparr>)"

text \<open>One signal of a unit: \<open>firstTimeout\<close>, whether a group was seen, and the state.\<close>

definition init_signal :: "int \<Rightarrow> int \<Rightarrow> ComSignal_type \<Rightarrow> u32 \<times> bool \<times> Com \<Rightarrow> (u32 \<times> bool \<times> Com) option" where
  "init_signal p shadow Signal = (\<lambda>(firstTimeout, pduHasGroupSignal, s). do {
     _ \<leftarrow> GET_ArcSignal (ComHandleId Signal) s;
     let s1 = (if ComTimeoutFactor Signal > 0 \<and> ComSignalArcUseUpdateBit Signal
               then upd_sig (ComHandleId Signal) (Com_Arc_DeadlineCounter_update (\<lambda>_. ComFirstTimeoutFactor Signal)) s
               else s);
     let firstTimeout = (if ComTimeoutFactor Signal > 0 \<and> \<not> ComSignalArcUseUpdateBit Signal
                            \<and> firstTimeout > ComFirstTimeoutFactor Signal
                         then ComFirstTimeoutFactor Signal else firstTimeout);
     let s2 = (if ComSignalArcUseUpdateBit Signal then upd_mem (CLEARBIT p (ComUpdateBitPosition Signal)) s1 else s1);
     if Com_Arc_IsSignalGroup Signal then do {
       s3 \<leftarrow> ofold (init_group_signal shadow) (ComGroupSignal Signal)
              (upd_sig (ComHandleId Signal) (sig_ShadowBuffer_update (\<lambda>_. shadow)) s2);
       (_, s4) \<leftarrow> Com_CopySignalGroupDataFromShadowBufferToPdu (ComHandleId Signal) False s3;
       Some (firstTimeout, True, s4) }
     else do {
       (m, _) \<leftarrow> Com_WriteSignalDataToPdu (ComSignalInitValue Signal) (ComSignalType Signal) (mem s2) p
          (ComBitPosition Signal) (ComBitSize Signal) (ComSignalEndianess Signal);
       Some (firstTimeout, pduHasGroupSignal, s2\<lparr>mem := m\<rparr>) } })"

definition init_deadline :: "u32 \<Rightarrow> ComSignal_type \<Rightarrow> Com \<Rightarrow> Com" where
  "init_deadline firstTimeout Signal s =
     (if ComTimeoutFactor Signal > 0 \<and> \<not> ComSignalArcUseUpdateBit Signal
      then upd_sig (ComHandleId Signal) (Com_Arc_DeadlineCounter_update (\<lambda>_. firstTimeout)) s else s)"

definition init_pdu :: "u16 \<Rightarrow> ComIPdu_type \<Rightarrow> u16 \<times> Com \<Rightarrow> (u16 \<times> Com) option" where
  "init_pdu i IPdu = (\<lambda>(bufferIndex, s). do {
     let p = int (unat bufferIndex);
     let bufferIndex = bufferIndex + ComIPduSize IPdu;
     let mode = ComTxModeTrue (ComTxIPdu IPdu);
     let s1 = upd_ipdu i (ComIPduDataPtr_update (\<lambda>_. p)) s;
     let s2 = (if ComIPduDirection IPdu = SEND \<and> (ComTxModeMode mode = PERIODIC \<or> ComTxModeMode mode = MIXED)
               then upd_timers i (ComTxModeTimePeriodTimer_update (\<lambda>_. ComTxModeTimeOffsetFactor mode)) s1 else s1);
     let s3 = (if ComIPduDirection IPdu = SEND
               then upd_mem (\<lambda>m. write_block m p (replicate (unat (ComIPduSize IPdu))
                      (ComTxIPduUnusedAreasDefault (ComTxIPdu IPdu)))) s2 else s2);
     (firstTimeout, pduHasGroupSignal, s4) \<leftarrow>
        ofold (init_signal p (int (unat bufferIndex))) (ComIPduSignalRef IPdu) (0xFFFFFFFF, False, s3);
     let bufferIndex = (if pduHasGroupSignal then bufferIndex + ComIPduSize IPdu else bufferIndex);
     let (bufferIndex, s5) =
       (if ComIPduDirection IPdu = RECEIVE \<and> ComIPduSignalProcessing IPdu = DEFERRED then
          (bufferIndex + ComIPduSize IPdu,
           upd_mem (\<lambda>m. write_block m (int (unat bufferIndex)) (read_block m p (unat (ComIPduSize IPdu))))
             (upd_ipdu i (ComIPduDeferredDataPtr_update (\<lambda>_. int (unat bufferIndex))) s4))
        else (bufferIndex, s4));
     Some (bufferIndex, fold (init_deadline firstTimeout) (ComIPduSignalRef IPdu) s5) })"

text \<open>The loop over the units; it stops with a failure at the first unit beyond \<open>ComNofIPdus\<close>.\<close>

fun init_pdus :: "u16 list \<Rightarrow> u16 \<times> Com \<Rightarrow> (bool \<times> Com) option" where
  "init_pdus [] (bufferIndex, s) = Some (False, s)"
| "init_pdus (i # is) (bufferIndex, s) = do {
     IPdu \<leftarrow> GET_IPdu i s;
     _ \<leftarrow> GET_ArcIPdu i s;
     let s1 = upd_ipdu i (Com_Arc_DynSignalLength_update (\<lambda>_. 0)) s;
     if i \<ge> ComNofIPdus (ComConfig s) then Some (True, s1)
     else do {
       r \<leftarrow> init_pdu i IPdu (bufferIndex, s1);
       init_pdus is r } }"

definition Com_Init :: "Com_ConfigType option \<Rightarrow> Com \<Rightarrow> Com option" where
  "Com_Init config s =
     (case config of
        None \<Rightarrow> Some s
      | Some c \<Rightarrow> do {
          let s0 = s\<lparr>ComConfig := c\<rparr>;
          (failure, s1) \<leftarrow> init_pdus (pdu_ids s0) (0, s0);
          let s2 = fold (\<lambda>i. upd_buf (of_nat i) (\<lambda>b. b\<lparr>currentPosition := 0, locked := False\<rparr>))
                     [0..<unat (ComNofIPdus c)] s1;
          let s3 = ResetInternalCounterRxStartSts s2;
          Some (if failure then s3 else s3\<lparr>initStatus := COM_INIT\<rparr>) })"

definition Com_DeInit :: "Com \<Rightarrow> Com" where
  "Com_DeInit s =
     (if initStatus s \<noteq> COM_INIT then s
      else (fold (\<lambda>i. upd_ipdu i (Com_Arc_IpduStarted_update (\<lambda>_. False))) (pdu_ids s) s)\<lparr>initStatus := COM_UNINIT\<rparr>)"

definition Com_GetStatus :: "Com \<Rightarrow> Com_StatusType" where "Com_GetStatus s = initStatus s"

text \<open>A group vector is a list of bytes.  The loop over the groups of a unit ends at the first that is
  set.\<close>

definition group_set :: "u8 list \<Rightarrow> u16 \<Rightarrow> bool" where
  "group_set v g \<longleftrightarrow> drop_bit (unat g mod 8) (client_byte v (unat g div 8)) AND 1 \<noteq> 0"

definition control_pdu :: "u8 list \<Rightarrow> bool \<Rightarrow> u16 \<Rightarrow> Com \<Rightarrow> Com option" where
  "control_pdu ipduGroupVector Initialize i s = do {
     IPdu \<leftarrow> GET_IPdu i s;
     _ \<leftarrow> GET_ArcIPdu i s;
     let started = list_ex (group_set ipduGroupVector) (ComIPduGroupRefs IPdu);
     let s1 = upd_ipdu i (Com_Arc_IpduStarted_update (\<lambda>_. started)) s;
     Some (case ComIpduCounterRef IPdu of
         None \<Rightarrow> s1
       | Some c \<Rightarrow> if Initialize \<and> started then
            (if ComIPduDirection IPdu = SEND then ResetInternalCounter (ComIPduCntrIndex c) s1
             else ReSetInternalRxStartSts (ComIPduCntrIndex c) s1)
          else s1) }"

definition Com_IpduGroupControl :: "u8 list \<Rightarrow> bool \<Rightarrow> Com \<Rightarrow> Com option" where
  "Com_IpduGroupControl ipduGroupVector Initialize s =
     (if initStatus s \<noteq> COM_INIT then Some s
      else ofold (control_pdu ipduGroupVector Initialize) (pdu_ids s) s)"

definition Com_ClearIpduGroupVector :: "u8 list \<Rightarrow> Com \<Rightarrow> u8 list" where
  "Com_ClearIpduGroupVector v s = (if initStatus s \<noteq> COM_INIT then v else replicate (length v) 0)"

definition Com_SetIpduGroup :: "u8 list \<Rightarrow> u16 \<Rightarrow> bool \<Rightarrow> Com \<Rightarrow> u8 list" where
  "Com_SetIpduGroup v g bitval s =
     (if initStatus s \<noteq> COM_INIT then v
      else (let byteIndex = unat (ucast (g div 8) :: u8); b = push_bit (unat g mod 8) 1 in
            if bitval then v[byteIndex := v ! byteIndex OR b] else v[byteIndex := v ! byteIndex AND NOT b]))"

section \<open>Transport layer\<close>

datatype BufReq_ReturnType = BUFREQ_OK | BUFREQ_NOT_OK | BUFREQ_BUSY | BUFREQ_OVFL

definition Com_CopyTxData :: "u16 \<Rightarrow> u16 \<Rightarrow> Com \<Rightarrow> (BufReq_ReturnType \<times> (u8 list \<times> u16) option \<times> Com) option" where
  "Com_CopyTxData PduId SduLength s =
     (if initStatus s \<noteq> COM_INIT then Some (BUFREQ_NOT_OK, None, s)
      else do {
        IPdu \<leftarrow> GET_IPdu PduId s;
        buf \<leftarrow> PduState PduId s;
        ArcI \<leftarrow> GET_ArcIPdu PduId s;
        let sizeOk = (unat (ComIPduSize IPdu) \<ge> unat (currentPosition buf) + unat SduLength);
        let s1 = upd_buf PduId (locked_update (\<lambda>_. True)) s;
        if ComIPduDirection IPdu = SEND \<and> sizeOk then
          Some (BUFREQ_OK,
            Some (read_block (mem s) (ComIPduDataPtr ArcI + int (unat (currentPosition buf))) (unat SduLength),
                  ComIPduSize IPdu - (currentPosition buf + SduLength)),
            upd_buf PduId (currentPosition_update (\<lambda>c. c + SduLength)) s1)
        else Some (BUFREQ_NOT_OK, None, s1) })"

definition Com_CopyRxData :: "u16 \<Rightarrow> u8 list \<Rightarrow> u16 \<Rightarrow> Com \<Rightarrow> (BufReq_ReturnType \<times> u16 option \<times> Com) option" where
  "Com_CopyRxData PduId sdu SduLength s =
     (if initStatus s \<noteq> COM_INIT then Some (BUFREQ_NOT_OK, None, s)
      else do {
        IPdu \<leftarrow> GET_IPdu PduId s;
        buf \<leftarrow> PduState PduId s;
        ArcI \<leftarrow> GET_ArcIPdu PduId s;
        let remainingBytes = (ucast (ComIPduSize IPdu - currentPosition buf) :: u8);
        if ComIPduDirection IPdu = RECEIVE \<and> locked buf \<and> ucast remainingBytes \<ge> SduLength then
          Some (BUFREQ_OK, Some (ComIPduSize IPdu - (currentPosition buf + SduLength)),
            upd_buf PduId (currentPosition_update (\<lambda>c. c + SduLength))
              (upd_mem (\<lambda>m. write_block m (ComIPduDataPtr ArcI + int (unat (currentPosition buf)))
                              (map (client_byte sdu) [0..<unat SduLength])) s))
        else Some (BUFREQ_NOT_OK, None, s) })"

definition Com_SetDynSignalLength :: "u16 \<Rightarrow> u16 \<Rightarrow> ComIPdu_type \<Rightarrow> Com \<Rightarrow> Com" where
  "Com_SetDynSignalLength ComRxPduId TpSduLength IPdu s =
     (case ComIPduDynSignalRef IPdu of
        None \<Rightarrow> s
      | Some d \<Rightarrow> upd_ipdu ComRxPduId (Com_Arc_DynSignalLength_update
          (\<lambda>_. if TpSduLength > ComBitPosition d div 8 then TpSduLength - ComBitPosition d div 8 else 0)) s)"

definition Com_StartOfReception :: "u16 \<Rightarrow> u16 \<Rightarrow> Com \<Rightarrow> (BufReq_ReturnType \<times> u16 option \<times> Com) option" where
  "Com_StartOfReception ComRxPduId TpSduLength s =
     (if initStatus s \<noteq> COM_INIT then Some (BUFREQ_NOT_OK, None, s)
      else do {
        ArcI \<leftarrow> GET_ArcIPdu ComRxPduId s;
        IPdu \<leftarrow> GET_IPdu ComRxPduId s;
        buf \<leftarrow> PduState ComRxPduId s;
        if \<not> Com_Arc_IpduStarted ArcI then Some (BUFREQ_NOT_OK, None, s)
        else if ComIPduDirection IPdu \<noteq> RECEIVE then Some (BUFREQ_OK, None, s)
        else if locked buf then Some (BUFREQ_BUSY, None, s)
        else if ComIPduSize IPdu < TpSduLength then Some (BUFREQ_OVFL, None, s)
        else Some (BUFREQ_OK, Some (ComIPduSize IPdu),
               Com_SetDynSignalLength ComRxPduId TpSduLength IPdu (upd_buf ComRxPduId (locked_update (\<lambda>_. True)) s)) })"

end
