(* ===== verification/ComFrame.thy ===== *)
theory ComFrame
  imports Com
begin

text \<open>
  What the services of the communication module leave alone: the state the transmission schedule
  depends on (only the main function, the direct transmission request and the control services change
  it), and the interrupt mask.
\<close>

section \<open>Every result\<close>

text \<open>A property of every result of a computation that may be undefined, with a rule for each construct.\<close>

definition results :: "('a \<Rightarrow> bool) \<Rightarrow> 'a option \<Rightarrow> bool" where
  "results P x \<longleftrightarrow> (\<forall>y. x = Some y \<longrightarrow> P y)"

named_theorems result_intros \<open>rules for the results of a computation\<close>

lemma results_None [result_intros, simp]: "results P None" by (simp add: results_def)
lemma results_Some [result_intros]: "P y \<Longrightarrow> results P (Some y)" by (simp add: results_def)
lemma results_bind [result_intros]: "(\<And>y. f = Some y \<Longrightarrow> results P (g y)) \<Longrightarrow> results P (Option.bind f g)"
  by (auto simp: results_def bind_eq_Some_conv)
lemma results_if [result_intros]:
  "(b \<Longrightarrow> results P x) \<Longrightarrow> (\<not> b \<Longrightarrow> results P y) \<Longrightarrow> results P (if b then x else y)" by simp
lemma results_prod [result_intros]: "results P (f (fst p) (snd p)) \<Longrightarrow> results P (case p of (x, y) \<Rightarrow> f x y)"
  by (simp add: case_prod_beta)
lemma results_option [result_intros]:
  "(x = None \<Longrightarrow> results P f) \<Longrightarrow> (\<And>y. x = Some y \<Longrightarrow> results P (g y)) \<Longrightarrow>
    results P (case x of None \<Rightarrow> f | Some y \<Rightarrow> g y)" by (cases x) simp_all

lemma resultsD: "results P x \<Longrightarrow> x = Some y \<Longrightarrow> P y" by (simp add: results_def)
lemma results_mono: "results P x \<Longrightarrow> (\<And>y. P y \<Longrightarrow> Q y) \<Longrightarrow> results Q x" by (simp add: results_def)

lemma results_ofold:
  assumes "\<And>x s. R s s" and "\<And>s t u. R s t \<Longrightarrow> R t u \<Longrightarrow> R s u" and "\<And>x s. results (R s) (f x s)"
  shows "results (R s) (ofold f xs s)"
proof (induction xs arbitrary: s)
  case (Cons x xs)
  then show ?case using assms(2,3) by (fastforce simp: results_def split: option.splits)
qed (simp add: assms(1) results_def)

section \<open>The transmission schedule\<close>

text \<open>The part of a unit's runtime data the schedule depends on, the repetitions left apart.\<close>

definition tx_view :: "Com_Arc_IPdu_type \<Rightarrow> u32 \<times> u32 \<times> u32 \<times> bool" where
  "tx_view a = (ComTxModeRepetitionPeriodTimer (Com_Arc_TxIPduTimers a), ComTxIPduMinimumDelayTimer (Com_Arc_TxIPduTimers a),
     ComTxModeTimePeriodTimer (Com_Arc_TxIPduTimers a), Com_Arc_IpduStarted a)"

text \<open>The sizes of the tables no service changes.\<close>

definition dims :: "Com \<Rightarrow> nat \<times> nat \<times> nat" where
  "dims s = (length (ArcSignal s), length (ArcGroupShadow s), length (Com_BufferPduState s))"

lemma dims_fields [simp]:
  "dims (t\<lparr>mem := m\<rparr>) = dims t" "dims (t\<lparr>irq_off := b\<rparr>) = dims t" "dims (t\<lparr>notified := n\<rparr>) = dims t"
  "dims (t\<lparr>ComIPduCountRxStart := rs\<rparr>) = dims t" "dims (t\<lparr>Com_IPdu_Counters := cs\<rparr>) = dims t"
  "dims (t\<lparr>sent := xs\<rparr>) = dims t" "dims (t\<lparr>initStatus := st\<rparr>) = dims t" "dims (upd_ipdu i f t) = dims t"
  "dims (upd_timers i g t) = dims t" "dims (upd_sig j h t) = dims t" "dims (upd_buf j k t) = dims t"
  "dims (upd_mem q t) = dims t" "dims (notify v t) = dims t" "dims (t\<lparr>ArcIPdu := as\<rparr>) = dims t"
  "dims (t\<lparr>ArcSignal := (ArcSignal t)[n' := a]\<rparr>) = dims t"
  by (simp_all add: dims_def upd_ipdu_def upd_timers_def upd_sig_def upd_buf_def upd_mem_def notify_def)

definition quiet :: "Com \<Rightarrow> Com \<Rightarrow> bool" where
  "quiet s t \<longleftrightarrow> ComConfig t = ComConfig s \<and> initStatus t = initStatus s \<and> sent t = sent s
     \<and> map tx_view (ArcIPdu t) = map tx_view (ArcIPdu s)
     \<and> dims t = dims s"

lemma quiet_refl [simp]: "quiet s s" by (simp add: quiet_def)
lemma quiet_trans: "quiet s t \<Longrightarrow> quiet t u \<Longrightarrow> quiet s u" by (simp add: quiet_def)

lemma map_list_update_same: "f (g (xs ! k)) = f (xs ! k) \<Longrightarrow> map f (xs[k := g (xs ! k)]) = map f xs"
  by (cases "k < length xs") (simp_all add: map_update list_update_beyond, metis list_update_id map_update nth_map)

lemma quiet_fields [simp]:
  "quiet s (t\<lparr>mem := m\<rparr>) = quiet s t" "quiet s (t\<lparr>irq_off := b\<rparr>) = quiet s t"
  "quiet s (t\<lparr>notified := n\<rparr>) = quiet s t" "quiet s (t\<lparr>ComIPduCountRxStart := rs\<rparr>) = quiet s t"
  "quiet s (t\<lparr>Com_IPdu_Counters := cs\<rparr>) = quiet s t"
  by (auto simp: quiet_def)

lemma quiet_sym: "quiet s t = quiet t s" by (auto simp: quiet_def)

lemma quiet_upd_ipdu:
  assumes "\<And>a. tx_view (f a) = tx_view a" shows "quiet s (upd_ipdu i f t) = quiet s t"
  using map_list_update_same [of tx_view f "ArcIPdu t" "unat i"] assms by (simp add: quiet_def) (simp add: upd_ipdu_def)

lemma quiet_upd [simp]:
  "quiet s (upd_sig j f1 t) = quiet s t" "quiet s (upd_buf j f2 t) = quiet s t" "quiet s (upd_mem f3 t) = quiet s t"
  "quiet s (UnlockTpBuffer j t) = quiet s t" "quiet s (notify n t) = quiet s t"
  "quiet s (set_update_bit sig p t) = quiet s t" "quiet s (request_transmission sig IPdu c t) = quiet s t"
  "quiet s (SetTxConfirmationStatus IPdu v t) = quiet s t" "quiet s (deliver_signal sig t) = quiet s t"
  "quiet s (rx_process_signal IPdu a sig t) = quiet s t" "quiet s (Com_SetDynSignalLength j len IPdu t) = quiet s t"
proof -
  show basic: "quiet s (upd_sig j f1 t) = quiet s t" "quiet s (upd_buf j f2 t) = quiet s t"
    "quiet s (upd_mem f3 t) = quiet s t" "quiet s (UnlockTpBuffer j t) = quiet s t" "quiet s (notify n t) = quiet s t"
    for j f1 f2 f3 n t
    by (simp_all add: quiet_def UnlockTpBuffer_def) (simp_all add: upd_sig_def upd_buf_def upd_mem_def notify_def)
  show "quiet s (set_update_bit sig p t) = quiet s t" by (simp add: set_update_bit_def basic)
  show "quiet s (request_transmission sig IPdu c t) = quiet s t"
    unfolding request_transmission_def upd_timers_def by (rule quiet_upd_ipdu) (simp add: tx_view_def)
  show "quiet s (SetTxConfirmationStatus IPdu v t) = quiet s t"
    by (simp add: SetTxConfirmationStatus_def basic split: list.split)
  show "quiet s (deliver_signal sig t) = quiet s t" by (simp add: deliver_signal_def basic)
  show "quiet s (rx_process_signal IPdu a sig t) = quiet s t" by (simp add: rx_process_signal_def Let_def basic)
  show "quiet s (Com_SetDynSignalLength j len IPdu t) = quiet s t"
    by (simp add: Com_SetDynSignalLength_def quiet_upd_ipdu tx_view_def split: option.split)
qed

lemma quiet_left [simp]:
  "quiet (s\<lparr>irq_off := b\<rparr>) t = quiet s t" "quiet (s\<lparr>mem := m\<rparr>) t = quiet s t"
  "quiet (upd_sig j f1 s) t = quiet s t" "quiet (upd_buf j f2 s) t = quiet s t" "quiet (upd_mem f3 s) t = quiet s t"
  "quiet (notify n s) t = quiet s t"
  by (simp_all add: quiet_sym [of _ t])

lemma quiet_fold: "(\<And>x t. quiet s (f x t) = quiet s t) \<Longrightarrow> quiet s (fold f xs t) = quiet s t"
  by (induction xs arbitrary: t) simp_all

lemma quiet_folds [simp]:
  "quiet s (Com_RxProcessSignals IPdu a t) = quiet s t" "quiet s (notify_signals IPdu t) = quiet s t"
  "quiet s (fold deliver_signal sigs t) = quiet s t"
  by (simp_all add: Com_RxProcessSignals_def notify_signals_def quiet_fold)

lemma quiet_ofold: "(\<And>x s. results (quiet s) (f x s)) \<Longrightarrow> results (quiet s) (ofold f xs s)"
  by (rule results_ofold) (auto intro: quiet_trans)

lemma quiet_validate: "quiet s (snd (validateIPduCounter c sdu s))"
  by (simp add: validateIPduCounter_def Let_def)

section \<open>Services that keep the schedule\<close>

abbreviation keeps2 :: "Com \<Rightarrow> ('r \<times> Com) option \<Rightarrow> bool" where
  "keeps2 s \<equiv> results (\<lambda>x. quiet s (snd x))"

lemma quiet_SendSignal: "keeps2 s (Com_SendSignal i d s)"
  unfolding Com_SendSignal_def Let_def by (intro result_intros) simp_all

lemma quiet_SendDynSignal: "keeps2 s (Com_SendDynSignal i d len s)"
  unfolding Com_SendDynSignal_def Let_def by (intro result_intros) (simp_all add: quiet_upd_ipdu tx_view_def)

lemma quiet_ReceiveDynSignal: "results (\<lambda>x. quiet s (snd (snd (snd x)))) (Com_ReceiveDynSignal i len s)"
  unfolding Com_ReceiveDynSignal_def Let_def by (intro result_intros) simp_all

lemma quiet_copy_group: "keeps2 s (Com_CopySignalGroupDataFromShadowBufferToPdu i b s)"
  unfolding Com_CopySignalGroupDataFromShadowBufferToPdu_def Let_def by (intro result_intros) simp_all

lemma quiet_SendSignalGroup: "keeps2 s (Com_SendSignalGroup i s)"
proof -
  have "Com_CopySignalGroupDataFromShadowBufferToPdu i b (s\<lparr>irq_off := True\<rparr>) = Some y \<Longrightarrow> quiet s (snd y)" for i b y
    using resultsD [OF quiet_copy_group [of "s\<lparr>irq_off := True\<rparr>"]] by fastforce
  then show ?thesis unfolding Com_SendSignalGroup_def Let_def by (intro result_intros) simp_all
qed

lemma quiet_ReceiveSignalGroup: "keeps2 s (Com_ReceiveSignalGroup i s)"
proof -
  have "results (quiet s) (Com_CopySignalGroupDataFromPduToShadowBuffer i s)" for i
    unfolding Com_CopySignalGroupDataFromPduToShadowBuffer_def Let_def by (intro result_intros) simp_all
  then show ?thesis unfolding Com_ReceiveSignalGroup_def Let_def
    by (intro result_intros) (auto dest: resultsD)
qed

lemma quiet_UpdateShadow: "results (quiet s) (Com_Internal_UpdateShadowSignal i d s)"
  unfolding Com_Internal_UpdateShadowSignal_def Let_def by (intro result_intros) simp_all

lemma quiet_UpdateShadowSignal: "results (quiet s) (Com_UpdateShadowSignal i d s)"
  unfolding Com_UpdateShadowSignal_def Let_def by (intro result_intros quiet_UpdateShadow) simp_all

lemma quiet_RxIndication: "results (quiet s) (Com_RxIndication i sdu s)"
proof -
  have "quiet s (snd (validateIPduCounter c sdu (s\<lparr>irq_off := True\<rparr>)))" for c
    using quiet_validate [of "s\<lparr>irq_off := True\<rparr>" c sdu] by simp
  then show ?thesis
    unfolding Com_RxIndication_def Let_def by (intro result_intros) (simp_all split: option.splits)
qed

lemma quiet_TpRxIndication: "results (quiet s) (Com_TpRxIndication i r s)"
  unfolding Com_TpRxIndication_def Let_def by (intro result_intros) simp_all

lemma quiet_TpTxConfirmation: "quiet s (Com_TpTxConfirmation i r s)"
  by (simp add: Com_TpTxConfirmation_def)

lemma quiet_TxConfirmation: "results (quiet s) (Com_TxConfirmation i s)"
  unfolding Com_TxConfirmation_def Let_def by (intro result_intros) simp_all

lemma quiet_CopyTxData: "results (\<lambda>x. quiet s (snd (snd x))) (Com_CopyTxData i n s)"
  unfolding Com_CopyTxData_def Let_def by (intro result_intros) simp_all

lemma quiet_CopyRxData: "results (\<lambda>x. quiet s (snd (snd x))) (Com_CopyRxData i sdu n s)"
  unfolding Com_CopyRxData_def Let_def by (intro result_intros) simp_all

lemma quiet_StartOfReception: "results (\<lambda>x. quiet s (snd (snd x))) (Com_StartOfReception i n s)"
  unfolding Com_StartOfReception_def Let_def by (intro result_intros) simp_all

lemma quiet_replace_data: "results (quiet s) (replace_data sig p s)"
  unfolding replace_data_def Let_def
  by (intro result_intros quiet_ofold) simp_all

lemma quiet_deadline_passed: "results (quiet s) (deadline_passed sig p s)"
proof -
  have "results (quiet s) (if b then map_option (upd_sig k f) (replace_data sig p s) else Some s)" for b k f
    using quiet_replace_data [of s sig p] by (auto simp: results_def)
  then show ?thesis unfolding deadline_passed_def by (intro result_intros) (auto dest: resultsD)
qed

lemma quiet_monitor_signal: "keeps2 (snd x) (monitor_signal a sig x)"
proof -
  obtain b s where x: "x = (b, s)" by (cases x)
  have "(if c then (if d then deadline_passed sig p (upd_sig k f s) else Some (upd_sig k f s)) else Some s) = Some y
    \<Longrightarrow> quiet s y" for c d p k f y
    using quiet_deadline_passed [of "upd_sig k f s" sig p] by (auto simp: results_def split: if_splits)
  then show ?thesis unfolding monitor_signal_def x Let_def prod.case
    by (intro result_intros) simp
qed

lemma quiet_rx_pdu: "results (quiet s) (rx_pdu i s)"
proof -
  have "results (\<lambda>y. quiet (snd x) (snd y)) (ofold (monitor_signal a) sigs x)" for a sigs x
    by (rule results_ofold) (auto intro: quiet_trans quiet_monitor_signal)
  then have "ofold (monitor_signal a) sigs (b, s\<lparr>irq_off := True\<rparr>) = Some y \<Longrightarrow> quiet s (snd y)" for a sigs b y
    using resultsD by fastforce
  then show ?thesis unfolding rx_pdu_def Let_def by (intro result_intros) simp_all
qed

lemma quiet_MainFunctionRx: "results (quiet s) (Com_MainFunctionRx s)"
  unfolding Com_MainFunctionRx_def by (intro result_intros quiet_ofold quiet_rx_pdu) simp

end
