(* ===== verification/ComTx.thy ===== *)
theory ComTx
  imports ComFrame
begin

text \<open>
  The transmission schedule: what a transmission request and one cycle of the main function do to a
  unit and to all others, sequences of calls, the minimum delay between two transmissions of a unit
  and the period of a periodic unit.
\<close>

section \<open>Calls\<close>

datatype com_call =
    Call_DeInit
  | Call_IpduGroupControl "u8 list" bool
  | Call_SendSignal u16 "u8 list"
  | Call_SendDynSignal u16 "u8 list" u16
  | Call_ReceiveDynSignal u16 u16
  | Call_SendSignalGroup u8
  | Call_ReceiveSignalGroup u8
  | Call_UpdateShadowSignal u16 "u8 list"
  | Call_TriggerIPDUSend u16
  | Call_RxIndication u16 "u8 list"
  | Call_TpRxIndication u16 u8
  | Call_TpTxConfirmation u16 u8
  | Call_TxConfirmation u16
  | Call_CopyTxData u16 u16
  | Call_CopyRxData u16 "u8 list" u16
  | Call_StartOfReception u16 u16
  | Call_MainFunctionRx
  | Call_MainFunctionTx

fun com_do :: "com_call \<Rightarrow> Com \<Rightarrow> Com option" where
  "com_do Call_DeInit s = Some (Com_DeInit s)"
| "com_do (Call_IpduGroupControl v b) s = Com_IpduGroupControl v b s"
| "com_do (Call_SendSignal i d) s = map_option snd (Com_SendSignal i d s)"
| "com_do (Call_SendDynSignal i d n) s = map_option snd (Com_SendDynSignal i d n s)"
| "com_do (Call_ReceiveDynSignal i n) s = map_option (\<lambda>x. snd (snd (snd x))) (Com_ReceiveDynSignal i n s)"
| "com_do (Call_SendSignalGroup i) s = map_option snd (Com_SendSignalGroup i s)"
| "com_do (Call_ReceiveSignalGroup i) s = map_option snd (Com_ReceiveSignalGroup i s)"
| "com_do (Call_UpdateShadowSignal i d) s = Com_UpdateShadowSignal i d s"
| "com_do (Call_TriggerIPDUSend i) s = Com_TriggerIPDUSend i s"
| "com_do (Call_RxIndication i d) s = Com_RxIndication i d s"
| "com_do (Call_TpRxIndication i r) s = Com_TpRxIndication i r s"
| "com_do (Call_TpTxConfirmation i r) s = Some (Com_TpTxConfirmation i r s)"
| "com_do (Call_TxConfirmation i) s = Com_TxConfirmation i s"
| "com_do (Call_CopyTxData i n) s = map_option (\<lambda>x. snd (snd x)) (Com_CopyTxData i n s)"
| "com_do (Call_CopyRxData i d n) s = map_option (\<lambda>x. snd (snd x)) (Com_CopyRxData i d n s)"
| "com_do (Call_StartOfReception i n) s = map_option (\<lambda>x. snd (snd x)) (Com_StartOfReception i n s)"
| "com_do Call_MainFunctionRx s = Com_MainFunctionRx s"
| "com_do Call_MainFunctionTx s = Com_MainFunctionTx s"

definition com_run :: "com_call list \<Rightarrow> Com \<Rightarrow> Com option" where
  "com_run = ofold com_do"

lemma com_run_simps [simp]:
  "com_run [] s = Some s"
  "com_run (c # cs) s = (case com_do c s of None \<Rightarrow> None | Some t \<Rightarrow> com_run cs t)"
  by (simp_all add: com_run_def split: option.split)

text \<open>The calls that keep the schedule of every unit.\<close>

fun quiet_call :: "com_call \<Rightarrow> bool" where
  "quiet_call Call_DeInit = False"
| "quiet_call (Call_IpduGroupControl v b) = False"
| "quiet_call (Call_TriggerIPDUSend i) = False"
| "quiet_call Call_MainFunctionTx = False"
| "quiet_call _ = True"

lemma results_map_option: "results (\<lambda>x. P (f x)) r \<Longrightarrow> results P (map_option f r)"
  by (auto simp: results_def)

lemma quiet_call: "quiet_call c \<Longrightarrow> results (quiet s) (com_do c s)"
  by (cases c)
     (auto simp: results_Some quiet_UpdateShadowSignal quiet_RxIndication quiet_TpRxIndication quiet_TpTxConfirmation
       quiet_TxConfirmation quiet_MainFunctionRx
       intro!: results_map_option quiet_SendSignal quiet_SendDynSignal quiet_ReceiveDynSignal quiet_SendSignalGroup
       quiet_ReceiveSignalGroup quiet_CopyTxData quiet_CopyRxData quiet_StartOfReception)

section \<open>One unit and the others\<close>

abbreviation unit_conf :: "u16 \<Rightarrow> Com \<Rightarrow> ComIPdu_type" where
  "unit_conf i s \<equiv> ComIPdu (ComConfig s) ! unat i"

abbreviation out_id :: "u16 \<Rightarrow> Com \<Rightarrow> u8" where
  "out_id i s \<equiv> ArcIPduOutgoingId (unit_conf i s)"

text \<open>Only unit \<open>i\<close> has changed, and only its data were sent.\<close>

definition unit_only :: "u16 \<Rightarrow> Com \<Rightarrow> Com \<Rightarrow> bool" where
  "unit_only i s t \<longleftrightarrow> ComConfig t = ComConfig s \<and> initStatus t = initStatus s
     \<and> length (ArcIPdu t) = length (ArcIPdu s) \<and> dims t = dims s
     \<and> (\<forall>j < length (ArcIPdu s). j \<noteq> unat i \<longrightarrow> ArcIPdu t ! j = ArcIPdu s ! j)
     \<and> (\<exists>xs. sent t = sent s @ xs \<and> (\<forall>x\<in>set xs. fst x = out_id i s))"

lemma unit_only_refl [simp]: "unit_only i s s" by (simp add: unit_only_def)

lemma unit_only_trans: "unit_only i s t \<Longrightarrow> unit_only i t u \<Longrightarrow> unit_only i s u"
  by (auto simp: unit_only_def)

lemma unit_only_timers [simp]: "unit_only i s (upd_timers i f t) = unit_only i s t"
  by (auto simp: unit_only_def upd_timers_def upd_ipdu_def)

lemma unit_only_simps [simp]:
  "unit_only i s (t\<lparr>irq_off := b\<rparr>) = unit_only i s t" "unit_only i s (upd_mem g t) = unit_only i s t"
  "unit_only i s (upd_sig j h t) = unit_only i s t" "unit_only i s (notify n t) = unit_only i s t"
  "unit_only i s (SetTxConfirmationStatus IPdu v t) = unit_only i s t"
  by (auto simp: unit_only_def upd_mem_def upd_sig_def notify_def SetTxConfirmationStatus_def split: list.splits)

lemma unit_only_notify_signals [simp]: "unit_only i s (notify_signals IPdu t) = unit_only i s t"
proof -
  have "unit_only i s (fold (\<lambda>sig. notify (ComNotification sig)) xs t) = unit_only i s t" for xs
    by (induction xs arbitrary: t) simp_all
  then show ?thesis by (simp add: notify_signals_def)
qed

text \<open>What a transmission changes besides the memory: one entry in the list of units sent, a counter, a
  lock.\<close>

lemma transmit_fields:
  "ComConfig (transmit i IPdu ArcI s) = ComConfig s" "initStatus (transmit i IPdu ArcI s) = initStatus s"
  "ArcIPdu (transmit i IPdu ArcI s) = ArcIPdu s" "ArcSignal (transmit i IPdu ArcI s) = ArcSignal s"
  "irq_off (transmit i IPdu ArcI s) = irq_off s" "dims (transmit i IPdu ArcI s) = dims s"
  "\<exists>sdu. sent (transmit i IPdu ArcI s) = sent s @ [(ArcIPduOutgoingId IPdu, sdu)]"
  by (auto simp: transmit_def Let_def UnlockTpBuffer_def split: option.split prod.split)
     (simp_all add: upd_buf_def upd_mem_def)

lemma tx_callout_fields:
  "ComConfig (snd (tx_callout i IPdu p s)) = ComConfig s" "initStatus (snd (tx_callout i IPdu p s)) = initStatus s"
  "ArcIPdu (snd (tx_callout i IPdu p s)) = ArcIPdu s" "ArcSignal (snd (tx_callout i IPdu p s)) = ArcSignal s"
  "irq_off (snd (tx_callout i IPdu p s)) = irq_off s" "dims (snd (tx_callout i IPdu p s)) = dims s" "sent (snd (tx_callout i IPdu p s)) = sent s"
  by (auto simp: tx_callout_def Let_def split: option.split prod.split) (simp_all add: upd_mem_def)

text \<open>The request: nothing happens within the minimum delay or when the callout refuses; otherwise the
  unit is sent once and the delay starts again.\<close>

definition sends_once :: "u16 \<Rightarrow> Com \<Rightarrow> Com \<Rightarrow> bool" where
  "sends_once i s t \<longleftrightarrow>
     (\<exists>sdu. sent t = sent s @ [(out_id i s, sdu)])
     \<and> ArcIPdu t ! unat i = Com_Arc_TxIPduTimers_update (ComTxIPduMinimumDelayTimer_update
         (\<lambda>_. ComTxIPduMinimumDelayFactor (ComTxIPdu (unit_conf i s)))) (ArcIPdu s ! unat i)"

lemma Trigger_effect:
  "results (\<lambda>t. unit_only i s t \<and>
      (sent t = sent s \<and> ArcIPdu t = ArcIPdu s \<or> ComTxIPduMinimumDelayTimer (timers_of i s) = 0 \<and> sends_once i s t))
    (Com_TriggerIPDUSend i s)"
proof -
  let ?ok = "\<lambda>t. unit_only i s t \<and>
      (sent t = sent s \<and> ArcIPdu t = ArcIPdu s \<or> ComTxIPduMinimumDelayTimer (timers_of i s) = 0 \<and> sends_once i s t)"
  have leaf: "?ok ((upd_timers i (ComTxIPduMinimumDelayTimer_update (\<lambda>_. ComTxIPduMinimumDelayFactor (ComTxIPdu IPdu)))
      (transmit i IPdu ArcI (snd (tx_callout i IPdu p (s\<lparr>irq_off := True\<rparr>)))))\<lparr>irq_off := b\<rparr>)"
    if "GET_IPdu i s = Some IPdu" "GET_ArcIPdu i s = Some ArcI"
      "ComTxIPduMinimumDelayTimer (Com_Arc_TxIPduTimers ArcI) = 0" for IPdu ArcI p b
  proof -
    let ?s2 = "snd (tx_callout i IPdu p (s\<lparr>irq_off := True\<rparr>))"
    have i: "unat i < length (ArcIPdu s)" "IPdu = unit_conf i s" "ArcI = ArcIPdu s ! unat i"
      using that by (auto simp: look_def split: if_splits)
    obtain sdu where sdu: "sent (transmit i IPdu ArcI ?s2) = sent s @ [(ArcIPduOutgoingId IPdu, sdu)]"
      using transmit_fields(7) [of i IPdu ArcI ?s2] by (auto simp: tx_callout_fields)
    then show ?thesis using i that(3)
      by (auto simp: unit_only_def sends_once_def upd_timers_def upd_ipdu_def transmit_fields tx_callout_fields)
  qed
  have refuse: "?ok ((snd (tx_callout i IPdu p (s\<lparr>irq_off := True\<rparr>)))\<lparr>irq_off := b\<rparr>)" for IPdu p b
    by (simp add: unit_only_def tx_callout_fields)
  show ?thesis
    unfolding Com_TriggerIPDUSend_def Let_def by (intro result_intros) (use leaf refuse in \<open>auto simp: unit_only_def\<close>)
qed
section \<open>One cycle of the main function\<close>

lemma unit_only_left [simp]: "unit_only i (upd_timers i f s) t = unit_only i s t"
  by (auto simp: unit_only_def upd_timers_def upd_ipdu_def)

lemma unit_only_left_irq [simp]: "unit_only i (s\<lparr>irq_off := b\<rparr>) t = unit_only i s t"
  by (simp add: unit_only_def)

lemma results_Trigger_unit: "results (unit_only i s) (Com_TriggerIPDUSend i s)"
  by (rule results_mono [OF Trigger_effect]) blast

lemma unit_tx_repetition: "results (unit_only i s) (tx_repetition i m s)"
  unfolding tx_repetition_def Let_def
  by (intro result_intros) (auto dest: resultsD [OF results_Trigger_unit])

lemma unit_tx_period: "results (unit_only i s) (tx_period i m s)"
  unfolding tx_period_def Let_def
  by (intro result_intros) (auto dest: resultsD [OF results_Trigger_unit])

lemma unit_tx_mode: "results (unit_only i s) (tx_mode i m s)"
proof (cases "ComTxModeMode m")
  case MIXED
  let ?s1 = "upd_timers i (ComTxModeTimePeriodTimer_update timerDec) s"
  have "results (unit_only i ?s1) (tx_period i m u)" if "tx_repetition i m ?s1 = Some u" for u
    by (rule results_mono [OF unit_tx_period]) (rule unit_only_trans [OF resultsD [OF unit_tx_repetition that]])
  then have "results (unit_only i ?s1) (tx_repetition i m ?s1 \<bind> (\<lambda>u. tx_period i m u))" by (rule results_bind)
  then show ?thesis using MIXED by (simp add: tx_mode_def results_def)
next
  case PERIODIC
  then show ?thesis using unit_tx_period [of i "upd_timers i (ComTxModeTimePeriodTimer_update timerDec) s" m]
    by (simp add: tx_mode_def results_def)
qed (simp_all add: tx_mode_def unit_tx_repetition results_Some)

lemma unit_tx_pdu: "results (unit_only i s) (tx_pdu i s)"
proof -
  have "(if b then tx_mode i m (upd_timers i f (s\<lparr>irq_off := True\<rparr>)) else Some (s\<lparr>irq_off := True\<rparr>)) = Some y
      \<Longrightarrow> unit_only i s y" for b m f y
    using resultsD [OF unit_tx_mode [of i "upd_timers i f (s\<lparr>irq_off := True\<rparr>)" m]] by (auto split: if_splits)
  then show ?thesis unfolding tx_pdu_def Let_def by (intro result_intros) simp
qed

text \<open>Seen from another unit.\<close>

definition sent_of :: "u16 \<Rightarrow> Com \<Rightarrow> (u8 \<times> u8 list) list" where
  "sent_of i s = filter (\<lambda>x. fst x = out_id i s) (sent s)"

definition unit_same :: "u16 \<Rightarrow> Com \<Rightarrow> Com \<Rightarrow> bool" where
  "unit_same i s t \<longleftrightarrow> ComConfig t = ComConfig s \<and> initStatus t = initStatus s
     \<and> length (ArcIPdu t) = length (ArcIPdu s) \<and> tx_view (ArcIPdu t ! unat i) = tx_view (ArcIPdu s ! unat i)
     \<and> sent_of i t = sent_of i s"

text \<open>The configuration: every unit has runtime data, there are at most 65535 units, and no two units
  are sent under the same identifier.\<close>

definition tx_wf :: "Com \<Rightarrow> bool" where
  "tx_wf s \<longleftrightarrow> length (ArcIPdu s) = length (ComIPdu (ComConfig s)) \<and> length (ComIPdu (ComConfig s)) < 65536
     \<and> distinct (map ArcIPduOutgoingId (ComIPdu (ComConfig s)))"

lemma unit_same_refl [simp]: "unit_same i s s" by (simp add: unit_same_def)
lemma unit_same_trans: "unit_same i s t \<Longrightarrow> unit_same i t u \<Longrightarrow> unit_same i s u" by (simp add: unit_same_def)

lemma unit_only_other:
  assumes "unit_only j s t" and "j \<noteq> i" and wf: "tx_wf s"
    and b: "unat i < length (ComIPdu (ComConfig s))" "unat j < length (ComIPdu (ComConfig s))"
  shows "unit_same i s t"
proof -
  have "unat j \<noteq> unat i" using assms(2) by (simp add: word_unat_eq_iff)
  then have "out_id j s \<noteq> out_id i s" using wf b by (auto simp: tx_wf_def distinct_conv_nth)
  then show ?thesis using assms(1) wf b \<open>unat j \<noteq> unat i\<close>
    by (fastforce simp: unit_only_def unit_same_def sent_of_def tx_wf_def filter_empty_conv)
qed

lemma unit_only_wf: "unit_only j s t \<Longrightarrow> tx_wf s \<Longrightarrow> tx_wf t"
  by (simp add: unit_only_def tx_wf_def)

lemma ofold_append: "ofold f (xs @ ys) s = (case ofold f xs s of None \<Rightarrow> None | Some t \<Rightarrow> ofold f ys t)"
  by (induction xs arbitrary: s) (auto split: option.split)

lemma others_same:
  assumes "i \<notin> set js" and "tx_wf s" and "unat i < length (ComIPdu (ComConfig s))"
    and "\<forall>j\<in>set js. unat j < length (ComIPdu (ComConfig s))"
  shows "results (\<lambda>t. unit_same i s t \<and> tx_wf t) (ofold tx_pdu js s)"
  using assms
proof (induction js arbitrary: s)
  case (Cons j js)
  show ?case
  proof (cases "tx_pdu j s")
    case (Some u)
    have u: "unit_only j s u" by (rule resultsD [OF unit_tx_pdu Some])
    have same: "unit_same i s u" using Cons.prems by (intro unit_only_other [OF u]) auto
    then have "ComConfig u = ComConfig s" by (simp add: unit_same_def)
    then have "results (\<lambda>t. unit_same i u t \<and> tx_wf t) (ofold tx_pdu js u)"
      using Cons.prems unit_only_wf [OF u] by (intro Cons.IH) auto
    then show ?thesis using Some same by (auto simp: results_def dest: unit_same_trans)
  qed simp
qed (simp add: results_Some)

lemma pdu_ids_split:
  assumes "unat i < length (ComIPdu (ComConfig s))" and "length (ComIPdu (ComConfig s)) < 65536"
  obtains xs ys where "pdu_ids s = xs @ i # ys" and "i \<notin> set xs" and "i \<notin> set ys"
    and "\<forall>j\<in>set xs \<union> set ys. unat j < length (ComIPdu (ComConfig s))"
proof -
  let ?n = "length (ComIPdu (ComConfig s))"
  have u: "unat (of_nat j :: u16) = j" if "j < ?n" for j
    using that assms(2) by (simp add: unsigned_of_nat take_bit_nat_eq_self)
  have d: "distinct (pdu_ids s)"
    unfolding pdu_ids_def distinct_map using u by (auto intro!: inj_on_inverseI [where g = unat])
  have b: "\<forall>j\<in>set (pdu_ids s). unat j < ?n" using u by (auto simp: pdu_ids_def)
  have "i = of_nat (unat i)" by simp
  then have "i \<in> set (pdu_ids s)" using assms(1) by (force simp: pdu_ids_def)
  then obtain xs ys where "pdu_ids s = xs @ i # ys" by (meson split_list)
  with d b that show ?thesis by auto
qed

text \<open>The main function does to a unit what its own pass does.\<close>

lemma MainFunctionTx_unit:
  assumes wf: "tx_wf s" and i: "unat i < length (ComIPdu (ComConfig s))" and init: "initStatus s = COM_INIT"
    and run: "Com_MainFunctionTx s = Some t"
  shows "\<exists>u v. unit_same i s u \<and> tx_wf u \<and> tx_pdu i u = Some v \<and> unit_same i v t \<and> tx_wf t"
proof -
  obtain xs ys where ids: "pdu_ids s = xs @ i # ys" "i \<notin> set xs" "i \<notin> set ys"
    "\<forall>j\<in>set xs \<union> set ys. unat j < length (ComIPdu (ComConfig s))"
    using pdu_ids_split [OF i] wf by (auto simp: tx_wf_def)
  have "ofold tx_pdu (pdu_ids s) s = Some t" using run init by (simp add: Com_MainFunctionTx_def)
  then obtain u v where u: "ofold tx_pdu xs s = Some u" and v: "tx_pdu i u = Some v" and t: "ofold tx_pdu ys v = Some t"
    unfolding ids(1) ofold_append by (auto split: option.splits)
  have su: "unit_same i s u \<and> tx_wf u" using ids wf i by (intro resultsD [OF others_same u]) auto
  have uv: "unit_only i u v" by (rule resultsD [OF unit_tx_pdu v])
  have c: "ComConfig u = ComConfig s" "ComConfig v = ComConfig s" using su uv by (simp_all add: unit_same_def unit_only_def)
  have "unit_same i v t \<and> tx_wf t"
    using ids i unit_only_wf [OF uv] su c by (intro resultsD [OF others_same t]) auto
  then show ?thesis using su v by blast
qed

end
