(* ===== verification/ComTotal.thy ===== *)
theory ComTotal
  imports ComTx
begin

text \<open>
  Every call of the communication module returns: in a state that fits its configuration, no service
  fails an assertion or reaches behind a table, and the state fits the configuration afterwards.
\<close>

section \<open>Configurations\<close>

text \<open>A type the pack routines know: a signal of dynamic length has to be opaque.\<close>

definition packable :: "Com_SignalType \<Rightarrow> ComSignalEndianess_type \<Rightarrow> bool" where
  "packable t e \<longleftrightarrow> e = COM_OPAQUE \<or> t \<noteq> UINT8_DYN"

definition group_signal_ok :: "ComGroupSignal_type \<Rightarrow> bool" where
  "group_signal_ok g \<longleftrightarrow> packable (grp_SignalType g) (grp_Endianess g)"

text \<open>A signal among \<open>n\<close> signals and \<open>k\<close> units.  The loops over the signals of a unit and of a group
  count in 8 bits: with 256 of them they would not end.\<close>

definition signal_ok :: "nat \<Rightarrow> nat \<Rightarrow> ComSignal_type \<Rightarrow> bool" where
  "signal_ok n k sig \<longleftrightarrow> unat (ComHandleId sig) < n \<and> packable (ComSignalType sig) (ComSignalEndianess sig)
     \<and> (ComIPduHandleId sig = NO_PDU_REFERENCE \<or> unat (ComIPduHandleId sig) < k)
     \<and> length (ComGroupSignal sig) < 256 \<and> list_all group_signal_ok (ComGroupSignal sig)"

definition com_wf :: "Com \<Rightarrow> bool" where
  "com_wf s \<longleftrightarrow> tx_wf s \<and>
     (let c = ComConfig s; n = length (ComSignal c); k = length (ComIPdu c) in
        unat (ComNofIPdus c) = k \<and> unat (ComNofSignals c) = n \<and> unat (ComNofGroupSignals c) = length (ComGroupSignals c)
        \<and> dims s = (n, length (ComGroupSignals c), k)
        \<and> list_all (signal_ok n k) (ComSignal c) \<and> list_all group_signal_ok (ComGroupSignals c)
        \<and> list_all (\<lambda>p. length (ComIPduSignalRef p) < 256 \<and> list_all (signal_ok n k) (ComIPduSignalRef p)) (ComIPdu c))"

text \<open>The identifiers the services do not check themselves.\<close>

fun legal :: "Com_ConfigType \<Rightarrow> com_call \<Rightarrow> bool" where
  "legal c (Call_SendDynSignal i d n) = (unat i < length (ComSignal c) \<and> ComIPduHandleId (ComSignal c ! unat i) \<noteq> NO_PDU_REFERENCE)"
| "legal c (Call_ReceiveDynSignal i n) = (unat i < length (ComSignal c) \<and> ComIPduHandleId (ComSignal c ! unat i) \<noteq> NO_PDU_REFERENCE)"
| "legal c (Call_SendSignalGroup i) = (unat i < length (ComSignal c))"
| "legal c (Call_ReceiveSignalGroup i) = (unat i < length (ComSignal c))"
| "legal c (Call_CopyTxData i n) = (unat i < length (ComIPdu c))"
| "legal c (Call_CopyRxData i d n) = (unat i < length (ComIPdu c))"
| "legal c (Call_StartOfReception i n) = (unat i < length (ComIPdu c))"
| "legal c _ = True"

section \<open>A configuration\<close>

text \<open>Two units of four bytes with one signal each: a periodic one, every three cycles with a minimum
  delay of two, and one that is sent when its signal is written.  The state is one after initialisation.\<close>

definition sample_signal :: "u16 \<Rightarrow> ComSignal_type" where
  "sample_signal i = \<lparr>ComBitPosition = 3, ComBitSize = 10, ComFirstTimeoutFactor = 0, ComHandleId = i,
     ComNotification = COM_NO_FUNCTION_CALLOUT, ComRxDataTimeoutAction = COM_TIMEOUT_DATA_ACTION_NONE,
     ComSignalEndianess = COM_LITTLE_ENDIAN, ComSignalInitValue = [0, 0], ComSignalType = UINT16, ComTimeoutFactor = 0,
     ComTimeoutNotification = COM_NO_FUNCTION_CALLOUT, ComTransferProperty = TRIGGERED, ComUpdateBitPosition = 0,
     ComSignalArcUseUpdateBit = False, Com_Arc_IsSignalGroup = False, ComGroupSignal = [], Com_Arc_ShadowBuffer_Mask = [],
     ComIPduHandleId = i\<rparr>"

definition sample_unit :: "u16 \<Rightarrow> u8 \<Rightarrow> ComTxModeMode_type \<Rightarrow> ComIPdu_type" where
  "sample_unit i out m = \<lparr>ComRxIPduCallout = COM_NO_FUNCTION_CALLOUT, ComTxIPduCallout = COM_NO_FUNCTION_CALLOUT,
     ArcIPduOutgoingId = out, ComIPduSignalProcessing = IMMEDIATE, ComIPduSize = 4, ComIPduDirection = SEND,
     ComIPduGroupRefs = [0],
     ComTxIPdu = \<lparr>ComTxIPduMinimumDelayFactor = 2, ComTxIPduUnusedAreasDefault = 0xFF,
       ComTxModeTrue = \<lparr>ComTxModeMode = m, ComTxModeNumberOfRepetitions = 3, ComTxModeRepetitionPeriodFactor = 1,
         ComTxModeTimeOffsetFactor = 2, ComTxModeTimePeriodFactor = 3\<rparr>\<rparr>,
     ComIPduSignalRef = [sample_signal i], ComIPduDynSignalRef = None, ComIpduCounterRef = None\<rparr>"

definition sample_config :: Com_ConfigType where
  "sample_config = \<lparr>ComNofIPdus = 2, ComNofSignals = 2, ComNofGroupSignals = 0,
     ComIPdu = [sample_unit 0 7 PERIODIC, sample_unit 1 8 DIRECT],
     ComSignal = [sample_signal 0, sample_signal 1], ComGroupSignals = [], ComRxIPduCallouts = (\<lambda>_. None),
     ComTxIPduCallouts = (\<lambda>_. None), has_notification = (\<lambda>_. False), pdur_answer = (\<lambda>_ _ _. E_OK)\<rparr>"

definition sample_runtime :: "int \<Rightarrow> Com_Arc_IPdu_type" where
  "sample_runtime p = \<lparr>Com_Arc_TxIPduTimers = \<lparr>ComTxIPduNumberOfRepetitionsLeft = 0, ComTxModeRepetitionPeriodTimer = 0,
         ComTxIPduMinimumDelayTimer = 0, ComTxModeTimePeriodTimer = 2\<rparr>, Com_Arc_IpduStarted = True,
       Com_Arc_DynSignalLength = 0, ComIPduDataPtr = p, ComIPduDeferredDataPtr = 0\<rparr>"

definition sample_com :: Com where
  "sample_com = \<lparr>initStatus = COM_INIT, ComConfig = sample_config, mem = (\<lambda>_. 0),
     ArcIPdu = [sample_runtime 0, sample_runtime 4],
     ArcSignal = replicate 2 \<lparr>Com_Arc_DeadlineCounter = 0, ComSignalUpdated = False, sig_ShadowBuffer = 0\<rparr>,
     ArcGroupShadow = [], Com_BufferPduState = replicate 2 \<lparr>currentPosition = 0, locked = False\<rparr>,
     ComIPduCountRxStart = [], Com_IPdu_Counters = [], irq_off = False, sent = [], notified = []\<rparr>"

lemmas sample_defs = sample_com_def sample_config_def sample_unit_def sample_signal_def sample_runtime_def

lemma sample_com_wf: "com_wf sample_com"
  by (simp add: sample_defs com_wf_def tx_wf_def dims_def signal_ok_def packable_def Let_def)

section \<open>What stays\<close>

definition same_shape :: "Com \<Rightarrow> Com \<Rightarrow> bool" where
  "same_shape s t \<longleftrightarrow> ComConfig t = ComConfig s \<and> length (ArcIPdu t) = length (ArcIPdu s) \<and> dims t = dims s"

lemma same_shape_refl [simp]: "same_shape s s" by (simp add: same_shape_def)
lemma same_shape_trans: "same_shape s t \<Longrightarrow> same_shape t u \<Longrightarrow> same_shape s u" by (simp add: same_shape_def)

lemma same_shape_wf: "same_shape s t \<Longrightarrow> com_wf t = com_wf s"
  by (simp add: same_shape_def com_wf_def tx_wf_def Let_def)

lemma quiet_shape: "quiet s t \<Longrightarrow> same_shape s t"
  by (auto simp: quiet_def same_shape_def dest: map_eq_imp_length_eq)

lemma unit_only_shape: "unit_only i s t \<Longrightarrow> same_shape s t"
  by (simp add: unit_only_def same_shape_def)

lemma shape_tx_pdu: "results (same_shape s) (tx_pdu i s)"
  by (rule results_mono [OF unit_tx_pdu unit_only_shape])

lemma shape_control: "results (same_shape s) (Com_IpduGroupControl v b s)"
proof -
  have "results (same_shape s) (control_pdu v b i s)" for i s
    unfolding control_pdu_def Let_def
    by (intro result_intros) (auto simp: same_shape_def upd_ipdu_def ResetInternalCounter_def ReSetInternalRxStartSts_def split: option.split)
  then show ?thesis unfolding Com_IpduGroupControl_def
    by (intro result_intros results_ofold) (auto intro: same_shape_trans)
qed

lemma shape_DeInit: "same_shape s (Com_DeInit s)"
proof -
  have "same_shape s (fold (\<lambda>i. upd_ipdu i (Com_Arc_IpduStarted_update (\<lambda>_. False))) xs t) = same_shape s t" for xs t
    by (induction xs arbitrary: t) (simp_all add: same_shape_def, simp add: upd_ipdu_def)
  then show ?thesis by (simp add: Com_DeInit_def same_shape_def)
qed

lemma shape_call: "results (same_shape s) (com_do c s)"
proof (cases "quiet_call c")
  case True
  show ?thesis by (rule results_mono [OF quiet_call [OF True] quiet_shape])
next
  case False
  have "results (same_shape s) (Com_MainFunctionTx s)"
    unfolding Com_MainFunctionTx_def by (intro result_intros results_ofold shape_tx_pdu) (auto intro: same_shape_trans)
  then show ?thesis
    using False shape_control shape_DeInit results_mono [OF results_Trigger_unit unit_only_shape]
    by (cases c) (auto simp: results_Some)
qed

section \<open>Calls return\<close>

definition returns :: "'a option \<Rightarrow> bool" where "returns x \<longleftrightarrow> x \<noteq> None"

named_theorems returns_intros \<open>rules for computations that return\<close>

lemma returns_Some [returns_intros, simp]: "returns (Some y)" by (simp add: returns_def)
lemma returns_bind [returns_intros]: "returns f \<Longrightarrow> (\<And>y. f = Some y \<Longrightarrow> returns (g y)) \<Longrightarrow> returns (Option.bind f g)"
  by (auto simp: returns_def)
lemma returns_if [returns_intros]: "(b \<Longrightarrow> returns x) \<Longrightarrow> (\<not> b \<Longrightarrow> returns y) \<Longrightarrow> returns (if b then x else y)" by simp
lemma returns_prod [returns_intros]: "returns (f (fst p) (snd p)) \<Longrightarrow> returns (case p of (x, y) \<Rightarrow> f x y)"
  by (simp add: case_prod_beta)
lemma returns_option [returns_intros]:
  "returns f \<Longrightarrow> (\<And>y. x = Some y \<Longrightarrow> returns (g y)) \<Longrightarrow> returns (case x of None \<Rightarrow> f | Some y \<Rightarrow> g y)"
  by (cases x) simp_all
lemma returns_look [returns_intros]: "i < length xs \<Longrightarrow> returns (look xs i)" by (simp add: returns_def look_def)
lemma returns_map_option [simp]: "returns (map_option f x) = returns x" by (simp add: returns_def)

lemma returns_ofold:
  assumes "\<And>x s. x \<in> set xs \<Longrightarrow> I s \<Longrightarrow> returns (f x s)" and "\<And>x s t. x \<in> set xs \<Longrightarrow> I s \<Longrightarrow> f x s = Some t \<Longrightarrow> I t" and "I s"
  shows "returns (ofold f xs s)"
  using assms
proof (induction xs arbitrary: s)
  case (Cons x xs)
  obtain t where "f x s = Some t" using Cons.prems(1,3) by (auto simp: returns_def)
  then show ?case using Cons.prems(2,3) Cons.IH [of t] Cons.prems(1) by (simp, metis)
qed simp

lemma returns_pack [returns_intros]:
  "packable t e \<Longrightarrow> returns (Com_WriteSignalDataToPdu d t m p bp bs e)"
  "packable t e \<Longrightarrow> returns (Com_Internal_ReadSignalDataFromPdu m p bp bs e t)"
  by (cases t; simp add: packable_def Com_WriteSignalDataToPdu_def Com_Internal_ReadSignalDataFromPdu_def Let_def)+

lemma look_Some: "look xs i = Some y \<longleftrightarrow> i < length xs \<and> y = xs ! i" by (auto simp: look_def)

lemma com_wf_dims:
  assumes "com_wf s"
  shows "length (ArcIPdu s) = length (ComIPdu (ComConfig s))" "length (Com_BufferPduState s) = length (ComIPdu (ComConfig s))"
    "length (ArcSignal s) = length (ComSignal (ComConfig s))" "length (ArcGroupShadow s) = length (ComGroupSignals (ComConfig s))"
    "tx_wf s"
    "\<not> ComNofIPdus (ComConfig s) \<le> i \<longleftrightarrow> unat i < length (ComIPdu (ComConfig s))"
    "\<not> ComNofSignals (ComConfig s) \<le> i \<longleftrightarrow> unat i < length (ComSignal (ComConfig s))"
    "\<not> ComNofGroupSignals (ComConfig s) \<le> i \<longleftrightarrow> unat i < length (ComGroupSignals (ComConfig s))"
  using assms by (simp_all add: com_wf_def tx_wf_def dims_def Let_def not_le word_less_nat_alt)

lemma com_wf_signal:
  assumes "com_wf s"
  shows "look (ComSignal (ComConfig s)) k = Some sig \<Longrightarrow> signal_ok (length (ComSignal (ComConfig s))) (length (ComIPdu (ComConfig s))) sig"
    and "GET_IPdu i s = Some p \<Longrightarrow> list_all (signal_ok (length (ComSignal (ComConfig s))) (length (ComIPdu (ComConfig s)))) (ComIPduSignalRef p)"
    and "look (ComGroupSignals (ComConfig s)) j = Some g \<Longrightarrow> group_signal_ok g"
  using assms by (auto simp: com_wf_def Let_def look_Some list_all_length)

lemma signal_in_range:
  assumes "com_wf s" "look (ComSignal (ComConfig s)) k = Some sig"
  shows "unat (ComHandleId sig) < length (ComSignal (ComConfig s))" "packable (ComSignalType sig) (ComSignalEndianess sig)"
    "ComIPduHandleId sig \<noteq> NO_PDU_REFERENCE \<Longrightarrow> unat (ComIPduHandleId sig) < length (ComIPdu (ComConfig s))"
  using com_wf_signal(1) [OF assms] by (auto simp: signal_ok_def)

lemma com_wf_irq [simp]: "com_wf (s\<lparr>irq_off := b\<rparr>) = com_wf s"
  by (rule same_shape_wf) (simp add: same_shape_def)

lemma returns_SendSignal: "com_wf s \<Longrightarrow> returns (Com_SendSignal i d s)"
  unfolding Com_SendSignal_def Let_def
  by (intro returns_intros) (auto simp: com_wf_dims signal_in_range)

lemma returns_SendDynSignal: "com_wf s \<Longrightarrow> legal (ComConfig s) (Call_SendDynSignal i d n) \<Longrightarrow> returns (Com_SendDynSignal i d n s)"
  unfolding Com_SendDynSignal_def Let_def
  by (intro returns_intros) (auto simp: com_wf_dims signal_in_range look_Some)

lemma returns_ReceiveDynSignal: "com_wf s \<Longrightarrow> legal (ComConfig s) (Call_ReceiveDynSignal i n) \<Longrightarrow> returns (Com_ReceiveDynSignal i n s)"
  unfolding Com_ReceiveDynSignal_def Let_def
  by (intro returns_intros) (auto simp: com_wf_dims signal_in_range look_Some)

lemma unat_u8_u16: "unat (ucast (i :: u8) :: u16) = unat i"
proof -
  have "unat i < 2 ^ 8" by (rule order_less_le_trans [OF unsigned_less]) simp
  then show ?thesis by (simp add: unsigned_ucast_eq take_bit_nat_eq_self)
qed

lemma returns_SendSignalGroup:
  "com_wf s \<Longrightarrow> legal (ComConfig s) (Call_SendSignalGroup i) \<Longrightarrow> returns (Com_SendSignalGroup i s)"
  unfolding Com_SendSignalGroup_def Com_CopySignalGroupDataFromShadowBufferToPdu_def Let_def
  by (intro returns_intros) (auto simp: com_wf_dims signal_in_range unat_u8_u16)

lemma returns_copy_to_shadow:
  assumes w: "com_wf s" and r: "look (ComSignal (ComConfig s)) (unat j) = Some sig" "ComIPduHandleId sig \<noteq> NO_PDU_REFERENCE"
  shows "returns (Com_CopySignalGroupDataFromPduToShadowBuffer j s)"
  using assms unfolding Com_CopySignalGroupDataFromPduToShadowBuffer_def Let_def
  by (intro returns_intros) (auto simp: com_wf_dims signal_in_range look_Some)

lemma returns_ReceiveSignalGroup:
  assumes w: "com_wf s" and l: "legal (ComConfig s) (Call_ReceiveSignalGroup i)" shows "returns (Com_ReceiveSignalGroup i s)"
proof -
  have a: "length (ArcIPdu u) = length (ComIPdu (ComConfig s))" if "Com_CopySignalGroupDataFromPduToShadowBuffer j s = Some u" for j u
    using that com_wf_dims(1) [OF w]
    by (auto simp: Com_CopySignalGroupDataFromPduToShadowBuffer_def bind_eq_Some_conv upd_mem_def Let_def)
  show ?thesis
    using w l unfolding Com_ReceiveSignalGroup_def
    by (intro returns_intros returns_copy_to_shadow [OF w])
       (auto simp: com_wf_dims signal_in_range unat_u8_u16 dest: a)
qed

lemma returns_UpdateShadowSignal: "com_wf s \<Longrightarrow> returns (Com_UpdateShadowSignal i d s)"
  unfolding Com_UpdateShadowSignal_def Com_Internal_UpdateShadowSignal_def
  by (intro returns_intros) (auto simp: com_wf_dims look_Some returns_def dest: com_wf_signal(3) simp flip: group_signal_ok_def)

lemma returns_RxIndication: "com_wf s \<Longrightarrow> returns (Com_RxIndication i d s)"
  unfolding Com_RxIndication_def Let_def by (intro returns_intros) (auto simp: com_wf_dims)

lemma returns_TpRxIndication: "com_wf s \<Longrightarrow> returns (Com_TpRxIndication i r s)"
  unfolding Com_TpRxIndication_def Let_def by (intro returns_intros) (auto simp: com_wf_dims)

lemma returns_TxConfirmation: "com_wf s \<Longrightarrow> returns (Com_TxConfirmation i s)"
  unfolding Com_TxConfirmation_def Let_def by (intro returns_intros) (auto simp: com_wf_dims)

lemma returns_CopyTxData: "com_wf s \<Longrightarrow> legal (ComConfig s) (Call_CopyTxData i n) \<Longrightarrow> returns (Com_CopyTxData i n s)"
  unfolding Com_CopyTxData_def Let_def by (intro returns_intros) (auto simp: com_wf_dims)

lemma returns_CopyRxData: "com_wf s \<Longrightarrow> legal (ComConfig s) (Call_CopyRxData i d n) \<Longrightarrow> returns (Com_CopyRxData i d n s)"
  unfolding Com_CopyRxData_def Let_def by (intro returns_intros) (auto simp: com_wf_dims)

lemma returns_StartOfReception:
  "com_wf s \<Longrightarrow> legal (ComConfig s) (Call_StartOfReception i n) \<Longrightarrow> returns (Com_StartOfReception i n s)"
  unfolding Com_StartOfReception_def Let_def by (intro returns_intros) (auto simp: com_wf_dims)

lemma returns_Trigger: "com_wf s \<Longrightarrow> returns (Com_TriggerIPDUSend i s)"
  unfolding Com_TriggerIPDUSend_def Let_def by (intro returns_intros) (auto simp: com_wf_dims)

section \<open>The main functions return\<close>

lemma com_wf_upd [simp]:
  "com_wf (upd_timers i f s) = com_wf s" "com_wf (upd_sig i g s) = com_wf s"
  by (rule same_shape_wf, simp add: same_shape_def, simp add: upd_timers_def upd_ipdu_def upd_sig_def)+

lemma pdu_ids_range:
  assumes "com_wf s" and "i \<in> set (pdu_ids s)" shows "unat i < length (ComIPdu (ComConfig s))"
  using assms by (auto simp: pdu_ids_def com_wf_def tx_wf_def unsigned_of_nat take_bit_nat_eq_self)

lemma wf_Trigger: "com_wf s \<Longrightarrow> Com_TriggerIPDUSend i s = Some t \<Longrightarrow> com_wf t"
  using same_shape_wf [OF unit_only_shape [OF resultsD [OF results_Trigger_unit]]] by blast

lemma returns_repetition: "com_wf s \<Longrightarrow> returns (tx_repetition i m s)"
  unfolding tx_repetition_def Let_def by (intro returns_intros) (simp_all add: returns_Trigger)

lemma returns_period: "com_wf s \<Longrightarrow> returns (tx_period i m s)"
  unfolding tx_period_def Let_def by (intro returns_intros) (simp_all add: returns_Trigger)

lemma wf_repetition: "com_wf s \<Longrightarrow> tx_repetition i m s = Some t \<Longrightarrow> com_wf t"
  using same_shape_wf [OF unit_only_shape [OF resultsD [OF unit_tx_repetition]]] by blast

lemma returns_tx_pdu: "com_wf s \<Longrightarrow> unat i < length (ComIPdu (ComConfig s)) \<Longrightarrow> returns (tx_pdu i s)"
proof -
  assume w: "com_wf s" and i: "unat i < length (ComIPdu (ComConfig s))"
  have m: "returns (tx_mode i m u)" if "com_wf u" for m u
    using that by (cases "ComTxModeMode m")
      (auto simp: tx_mode_def returns_repetition intro!: returns_intros returns_period dest: wf_repetition [rotated])
  show ?thesis unfolding tx_pdu_def Let_def
    using w i by (intro returns_intros m) (simp_all add: com_wf_dims)
qed

lemma returns_replace_data:
  assumes "signal_ok n k sig" shows "returns (replace_data sig p s)"
proof -
  have g: "packable (grp_SignalType g) (grp_Endianess g)" if "g \<in> set (ComGroupSignal sig)" for g
    using assms that by (auto simp: signal_ok_def list_all_iff group_signal_ok_def)
  show ?thesis unfolding replace_data_def
    using assms by (intro returns_intros returns_ofold [where I = "\<lambda>_. True"]) (auto simp: signal_ok_def g)
qed

lemma returns_monitor_signal:
  assumes "signal_ok n k sig" and "length (ArcSignal s) = n" shows "returns (monitor_signal a sig (b, s))"
  unfolding monitor_signal_def prod.case Let_def deadline_passed_def
  using assms returns_replace_data [OF assms(1)] by (intro returns_intros) (simp_all add: signal_ok_def)

lemma returns_rx_pdu:
  assumes w: "com_wf s" and i: "unat i < length (ComIPdu (ComConfig s))" shows "returns (rx_pdu i s)"
proof -
  let ?ok = "signal_ok (length (ComSignal (ComConfig s))) (length (ComIPdu (ComConfig s)))"
  have "returns (ofold (monitor_signal a) xs (False, s\<lparr>irq_off := True\<rparr>))" if "list_all ?ok xs" for a xs
  proof (rule returns_ofold [where I = "\<lambda>x :: bool \<times> Com. same_shape s (snd x)"])
    fix sig and x :: "bool \<times> Com" assume sig: "sig \<in> set xs" and x: "same_shape s (snd x)"
    obtain b u where u: "x = (b, u)" by (cases x)
    show "returns (monitor_signal a sig x)" unfolding u
    proof (rule returns_monitor_signal)
      show "?ok sig" using that sig by (simp add: list_all_iff)
      show "length (ArcSignal u) = length (ComSignal (ComConfig s))"
        using x w by (simp add: u com_wf_dims(3) [OF w, symmetric] same_shape_def dims_def)
    qed
    show "same_shape s (snd y)" if "monitor_signal a sig x = Some y" for y
      using resultsD [OF quiet_monitor_signal that] x by (blast intro: same_shape_trans quiet_shape)
  qed (simp add: same_shape_def)
  then show ?thesis unfolding rx_pdu_def Let_def
    using w i com_wf_signal(2) [OF w] by (intro returns_intros) (auto simp: com_wf_dims)
qed

lemma returns_main:
  assumes w: "com_wf s" and f: "\<And>i s. com_wf s \<Longrightarrow> unat i < length (ComIPdu (ComConfig s)) \<Longrightarrow> returns (f i s)"
    and keep: "\<And>i s. results (same_shape s) (f i s)"
  shows "returns (ofold f (pdu_ids s) s)"
proof (rule returns_ofold [where I = "same_shape s"])
  fix i u assume i: "i \<in> set (pdu_ids s)" and u: "same_shape s u"
  show "returns (f i u)"
    using f [of u i] u same_shape_wf [OF u] pdu_ids_range [OF w i] w by (simp add: same_shape_def)
  show "same_shape s v" if "f i u = Some v" for v
    using u resultsD [OF keep that] by (rule same_shape_trans)
qed simp

section \<open>Every legal call returns\<close>

lemma returns_control: "com_wf s \<Longrightarrow> returns (Com_IpduGroupControl v b s)"
proof -
  assume w: "com_wf s"
  have "returns (control_pdu v b i s)" if "com_wf s" "unat i < length (ComIPdu (ComConfig s))" for i s
    unfolding control_pdu_def Let_def using that by (intro returns_intros) (simp_all add: com_wf_dims)
  moreover have "results (same_shape s) (control_pdu v b i s)" for i s
    unfolding control_pdu_def Let_def
    by (intro result_intros) (auto simp: same_shape_def upd_ipdu_def ResetInternalCounter_def ReSetInternalRxStartSts_def split: option.split)
  ultimately show ?thesis unfolding Com_IpduGroupControl_def
    using w by (intro returns_intros returns_main) simp_all
qed

lemma call_returns:
  assumes w: "com_wf s" and l: "legal (ComConfig s) c" shows "returns (com_do c s)"
proof -
  have "returns (Com_MainFunctionTx s)"
    unfolding Com_MainFunctionTx_def using w by (intro returns_intros returns_main returns_tx_pdu shape_tx_pdu)
  moreover have "returns (Com_MainFunctionRx s)"
    unfolding Com_MainFunctionRx_def
    using w by (intro returns_intros returns_main returns_rx_pdu results_mono [OF quiet_rx_pdu quiet_shape])
  ultimately show ?thesis using w l
    by (cases c)
       (simp_all add: returns_SendSignal returns_SendDynSignal returns_ReceiveDynSignal returns_SendSignalGroup
          returns_ReceiveSignalGroup returns_UpdateShadowSignal returns_RxIndication returns_TpRxIndication
          returns_TxConfirmation returns_CopyTxData returns_CopyRxData returns_StartOfReception returns_Trigger returns_control)
qed

lemma run_returns:
  assumes "com_wf s" and "list_all (legal (ComConfig s)) cs"
  shows "\<exists>t. com_run cs s = Some t \<and> com_wf t \<and> ComConfig t = ComConfig s"
  using assms
proof (induction cs arbitrary: s)
  case (Cons c cs)
  obtain u where u: "com_do c s = Some u" using call_returns [OF Cons.prems(1), of c] Cons.prems(2) by (auto simp: returns_def)
  have k: "same_shape s u" by (rule resultsD [OF shape_call u])
  have "com_wf u" "ComConfig u = ComConfig s" using same_shape_wf [OF k] k Cons.prems(1) by (simp_all add: same_shape_def)
  then show ?case using Cons.IH [of u] Cons.prems(2) u by simp
qed simp




end
