(* ===== verification/ComTxProps.thy ===== *)
theory ComTxProps
  imports ComTotal
begin

text \<open>
  Two guarantees of the transmission schedule: transmissions of a unit keep the minimum delay
  whatever is called, and a periodic unit is sent exactly once per period.
\<close>

section \<open>The minimum delay\<close>

abbreviation md :: "u16 \<Rightarrow> Com \<Rightarrow> u32" where
  "md i s \<equiv> ComTxIPduMinimumDelayTimer (timers_of i s)"

abbreviation min_delay :: "u16 \<Rightarrow> Com \<Rightarrow> u32" where
  "min_delay i s \<equiv> ComTxIPduMinimumDelayFactor (ComTxIPdu (unit_conf i s))"

definition spaced :: "u16 \<Rightarrow> Com \<Rightarrow> Com \<Rightarrow> bool" where
  "spaced i s t \<longleftrightarrow> ComConfig t = ComConfig s \<and>
     (sent t = sent s \<and> md i t = md i s
      \<or> md i s = 0 \<and> (\<exists>sdu. sent t = sent s @ [(out_id i s, sdu)]) \<and> md i t = min_delay i s)"

lemma spaced_refl [simp]: "spaced i s s" by (simp add: spaced_def)

lemma spaced_trans: "min_delay i s \<noteq> 0 \<Longrightarrow> spaced i s t \<Longrightarrow> spaced i t u \<Longrightarrow> spaced i s u"
  by (auto simp: spaced_def)

lemma timers_of_upd:
  "timers_of i (upd_timers i f s) = (if unat i < length (ArcIPdu s) then f (timers_of i s) else timers_of i s)"
  by (simp add: upd_timers_def upd_ipdu_def list_update_beyond)

lemma upd_timers_fields [simp]:
  "ComConfig (upd_timers i f s) = ComConfig s" "sent (upd_timers i f s) = sent s"
  "initStatus (upd_timers i f s) = initStatus s" "length (ArcIPdu (upd_timers i f s)) = length (ArcIPdu s)"
  by (simp_all add: upd_timers_def upd_ipdu_def)

lemma spaced_upd:
  assumes "\<And>x. ComTxIPduMinimumDelayTimer (f x) = ComTxIPduMinimumDelayTimer x"
  shows "spaced i s (upd_timers i f t) = spaced i s t" and "spaced i (upd_timers i f s) t = spaced i s t"
  using assms by (simp_all add: spaced_def timers_of_upd)

lemma spaced_irq [simp]:
  "spaced i s (t\<lparr>irq_off := b\<rparr>) = spaced i s t" "spaced i (s\<lparr>irq_off := b\<rparr>) t = spaced i s t"
  by (simp_all add: spaced_def)

lemma spaced_Trigger: "results (spaced i s) (Com_TriggerIPDUSend i s)"
  by (rule results_mono [OF Trigger_effect]) (auto simp: spaced_def unit_only_def sends_once_def)

lemma spaced_repetition: "results (spaced i s) (tx_repetition i m s)"
  unfolding tx_repetition_def Let_def
  by (intro result_intros) (auto simp: spaced_upd dest: resultsD [OF spaced_Trigger])

lemma spaced_period: "results (spaced i s) (tx_period i m s)"
  unfolding tx_period_def Let_def
  by (intro result_intros) (auto simp: spaced_upd dest: resultsD [OF spaced_Trigger])

lemma spaced_mode:
  assumes d: "min_delay i s \<noteq> 0" shows "results (spaced i s) (tx_mode i m s)"
proof (cases "ComTxModeMode m")
  case MIXED
  let ?s1 = "upd_timers i (ComTxModeTimePeriodTimer_update timerDec) s"
  have "results (spaced i ?s1) (tx_period i m u)" if "tx_repetition i m ?s1 = Some u" for u
    using d by (intro results_mono [OF spaced_period] spaced_trans [OF _ resultsD [OF spaced_repetition that]]) simp_all
  then have "results (spaced i ?s1) (tx_repetition i m ?s1 \<bind> (\<lambda>u. tx_period i m u))" by (rule results_bind)
  then show ?thesis using MIXED by (simp add: tx_mode_def results_def spaced_upd)
next
  case PERIODIC
  then show ?thesis using spaced_period [of i "upd_timers i (ComTxModeTimePeriodTimer_update timerDec) s" m]
    by (simp add: tx_mode_def results_def spaced_upd)
qed (simp_all add: tx_mode_def spaced_repetition results_Some)

text \<open>One call, seen from the unit: the timer loses at most one tick per cycle of the main function; the
  unit is sent at most once, only when the timer runs out in this call, and the timer starts again.\<close>

definition tick :: "com_call \<Rightarrow> nat" where "tick c = (if c = Call_MainFunctionTx then 1 else 0)"

definition keeps_delay :: "nat \<Rightarrow> u16 \<Rightarrow> Com \<Rightarrow> Com \<Rightarrow> bool" where
  "keeps_delay k i s t \<longleftrightarrow> ComConfig t = ComConfig s \<and> tx_wf t \<and>
     (sent_of i t = sent_of i s \<and> unat (md i s) \<le> unat (md i t) + k
      \<or> unat (md i s) \<le> k \<and> length (sent_of i t) = Suc (length (sent_of i s)) \<and> md i t = min_delay i s)"

lemma unit_same_delay:
  assumes "unit_same i s t" shows "md i t = md i s" "sent_of i t = sent_of i s" "ComConfig t = ComConfig s"
  using assms by (simp_all add: unit_same_def tx_view_def)

lemma unat_timerDec: "unat w \<le> unat (timerDec w) + 1"
  by (auto simp: timerDec_def unat_minus_one word_gt_0)

lemma unit_same_upd [simp]:
  "unit_same i s (SetTxConfirmationStatus IPdu v t) = unit_same i s t" "unit_same i s (notify_signals IPdu t) = unit_same i s t"
proof -
  have n: "unit_same i s (notify n t) = unit_same i s t" for n t by (simp add: unit_same_def notify_def sent_of_def)
  show "unit_same i s (SetTxConfirmationStatus IPdu v t) = unit_same i s t"
    by (auto simp: unit_same_def SetTxConfirmationStatus_def upd_sig_def sent_of_def split: list.split)
  have "unit_same i s (fold (\<lambda>sig. notify (ComNotification sig)) xs t) = unit_same i s t" for xs
    by (induction xs arbitrary: t) (simp_all add: n)
  then show "unit_same i s (notify_signals IPdu t) = unit_same i s t" by (simp add: notify_signals_def)
qed

lemma unit_same_irq [simp]: "unit_same i s (t\<lparr>irq_off := b\<rparr>) = unit_same i s t"
  by (simp add: unit_same_def sent_of_def)

lemma tx_wf_upd [simp]:
  "tx_wf (t\<lparr>irq_off := b\<rparr>) = tx_wf t" "tx_wf (upd_timers i f t) = tx_wf t"
  "tx_wf (SetTxConfirmationStatus IPdu v t) = tx_wf t" "tx_wf (notify_signals IPdu t) = tx_wf t"
proof -
  have n: "tx_wf (notify n t) = tx_wf t" for n t by (simp add: tx_wf_def notify_def)
  have "tx_wf (fold (\<lambda>sig. notify (ComNotification sig)) xs t) = tx_wf t" for xs
    by (induction xs arbitrary: t) (simp_all add: n)
  then show "tx_wf (notify_signals IPdu t) = tx_wf t" by (simp add: notify_signals_def)
qed (auto simp: tx_wf_def upd_timers_def upd_ipdu_def SetTxConfirmationStatus_def upd_sig_def split: list.split)

lemma delay_tx_pdu:
  assumes d: "min_delay i s \<noteq> 0" and wf: "tx_wf s" and i: "unat i < length (ComIPdu (ComConfig s))"
  shows "results (keeps_delay 1 i s) (tx_pdu i s)"
proof -
  have len: "unat i < length (ArcIPdu s)" using wf i by (simp add: tx_wf_def)
  have inner: "tx_wf y"
    if "(if b then tx_mode i m (upd_timers i f (s\<lparr>irq_off := True\<rparr>)) else Some (s\<lparr>irq_off := True\<rparr>)) = Some y" for b m f y
  proof (cases b)
    case True
    then have "unit_only i s y" using that resultsD [OF unit_tx_mode [of i "upd_timers i f (s\<lparr>irq_off := True\<rparr>)" m]] by simp
    then show ?thesis by (rule unit_only_wf [OF _ wf])
  qed (use that wf in \<open>auto simp: tx_wf_def\<close>)
  have leaf: "keeps_delay 1 i s t"
    if r: "(if b then tx_mode i m (upd_timers i (ComTxIPduMinimumDelayTimer_update timerDec) (s\<lparr>irq_off := True\<rparr>))
            else Some (s\<lparr>irq_off := True\<rparr>)) = Some y" and t: "unit_same i y t" "tx_wf t = tx_wf y" for b m y t
  proof -
    have wt: "tx_wf t" using inner [OF r] t(2) by simp
    show ?thesis
  proof (cases b)
    case True
    let ?s1 = "upd_timers i (ComTxIPduMinimumDelayTimer_update timerDec) (s\<lparr>irq_off := True\<rparr>)"
    have "spaced i ?s1 y" using r True d by (intro resultsD [OF spaced_mode]) simp_all
    moreover have "md i ?s1 = timerDec (md i s)" using len by (simp add: timers_of_upd)
    ultimately show ?thesis
      using unat_timerDec [of "md i s"] unit_same_delay [OF t(1)] wt
      by (auto simp: keeps_delay_def spaced_def sent_of_def)
  next
    case False
    then show ?thesis using r unit_same_delay [OF t(1)] wt by (auto simp: keeps_delay_def sent_of_def)
    qed
  qed
  show ?thesis
    unfolding tx_pdu_def Let_def
    by (intro result_intros) (erule leaf; simp)
qed

lemma quiet_unit_same: "quiet s t \<Longrightarrow> tx_wf s \<Longrightarrow> unat i < length (ComIPdu (ComConfig s)) \<Longrightarrow> unit_same i s t \<and> tx_wf t"
  by (auto simp: quiet_def unit_same_def tx_wf_def sent_of_def dest: map_eq_imp_length_eq) (metis map_eq_imp_length_eq nth_map)

lemma keeps_delay_same: "unit_same i s t \<Longrightarrow> tx_wf t \<Longrightarrow> keeps_delay k i s t"
  by (simp add: keeps_delay_def unit_same_delay)

lemma keeps_delay_md:
  assumes "ComConfig t = ComConfig s" "sent t = sent s" "length (ArcIPdu t) = length (ArcIPdu s)" "tx_wf s"
    and "\<And>j. Com_Arc_TxIPduTimers (ArcIPdu t ! j) = Com_Arc_TxIPduTimers (ArcIPdu s ! j)"
  shows "keeps_delay k i s t"
  using assms by (simp add: keeps_delay_def sent_of_def tx_wf_def)

text \<open>Starting and stopping units leaves the timers alone.\<close>

definition timers_kept :: "Com \<Rightarrow> Com \<Rightarrow> bool" where
  "timers_kept s t \<longleftrightarrow> ComConfig t = ComConfig s \<and> sent t = sent s \<and> length (ArcIPdu t) = length (ArcIPdu s)
     \<and> (\<forall>j. Com_Arc_TxIPduTimers (ArcIPdu t ! j) = Com_Arc_TxIPduTimers (ArcIPdu s ! j))"

lemma timers_kept_started [simp]:
  "timers_kept s (upd_ipdu i (Com_Arc_IpduStarted_update f) t) = timers_kept s t"
proof -
  have "Com_Arc_TxIPduTimers ((ArcIPdu t)[k := Com_Arc_IpduStarted_update f (ArcIPdu t ! k)] ! j) = Com_Arc_TxIPduTimers (ArcIPdu t ! j)" for k j
    by (cases "k < length (ArcIPdu t)"; cases "j = k") (simp_all add: list_update_beyond)
  then show ?thesis by (simp add: timers_kept_def upd_ipdu_def)
qed

lemma timers_kept_DeInit: "timers_kept s (Com_DeInit s)"
proof -
  have "timers_kept s (fold (\<lambda>i. upd_ipdu i (Com_Arc_IpduStarted_update (\<lambda>_. False))) xs t) = timers_kept s t" for xs t
    by (induction xs arbitrary: t) simp_all
  then show ?thesis by (simp add: Com_DeInit_def timers_kept_def)
qed

lemma timers_kept_control: "results (timers_kept s) (Com_IpduGroupControl v b s)"
proof -
  have c: "timers_kept s (ResetInternalCounter k t) = timers_kept s t"
    "timers_kept s (ReSetInternalRxStartSts k t) = timers_kept s t" for k s t
    by (simp_all add: timers_kept_def ResetInternalCounter_def ReSetInternalRxStartSts_def)
  have r: "timers_kept s s" for s by (simp add: timers_kept_def)
  have "results (timers_kept s) (control_pdu v b i s)" for i s
    unfolding control_pdu_def Let_def by (intro result_intros) (simp add: c r split: option.split)
  then have "results (timers_kept s) (ofold (control_pdu v b) xs s)" for xs
    by (rule results_ofold [rotated 2]) (simp_all add: timers_kept_def)
  then show ?thesis unfolding Com_IpduGroupControl_def by (intro result_intros) (simp_all add: r)
qed

lemma timers_kept_delay: "timers_kept s t \<Longrightarrow> tx_wf s \<Longrightarrow> keeps_delay k i s t"
  by (rule keeps_delay_md) (simp_all add: timers_kept_def)

lemma delay_Trigger:
  assumes wf: "tx_wf s" and i: "unat i < length (ComIPdu (ComConfig s))"
  shows "results (keeps_delay 0 i s) (Com_TriggerIPDUSend j s)"
proof (cases "j = i")
  case True
  then show ?thesis
    using results_mono [OF Trigger_effect [of i s]] wf i
    by (auto intro!: results_mono [OF Trigger_effect [of i s]]
        simp: keeps_delay_def unit_only_def sends_once_def sent_of_def tx_wf_def)
next
  case False
  show ?thesis
  proof (cases "unat j < length (ComIPdu (ComConfig s))")
    case True
    show ?thesis
      by (rule results_mono [OF results_Trigger_unit])
         (rule keeps_delay_same [OF unit_only_other [OF _ False wf i True] unit_only_wf [OF _ wf]])
  next
    case j: False
    then show ?thesis using wf i
      by (simp add: Com_TriggerIPDUSend_def look_def results_Some keeps_delay_same)
  qed
qed

lemma delay_MainFunctionTx:
  assumes d: "min_delay i s \<noteq> 0" and wf: "tx_wf s" and i: "unat i < length (ComIPdu (ComConfig s))"
  shows "results (keeps_delay 1 i s) (Com_MainFunctionTx s)"
proof (cases "initStatus s = COM_INIT")
  case True
  have "keeps_delay 1 i s t" if run: "Com_MainFunctionTx s = Some t" for t
  proof -
    obtain u v where u: "unit_same i s u" "tx_wf u" and v: "tx_pdu i u = Some v" and t: "unit_same i v t" "tx_wf t"
      using MainFunctionTx_unit [OF wf i True run] by auto
    note c = unit_same_delay [OF u(1)] unit_same_delay [OF t(1)]
    have "keeps_delay 1 i u v" using d i c u(2) by (intro resultsD [OF delay_tx_pdu v]) simp_all
    then show ?thesis using c t(2) by (simp add: keeps_delay_def)
  qed
  then show ?thesis by (simp add: results_def)
next
  case False
  then show ?thesis using wf by (simp add: Com_MainFunctionTx_def results_Some keeps_delay_same)
qed

text \<open>Every call keeps the delay.\<close>

lemma delay_call:
  assumes d: "min_delay i s \<noteq> 0" and wf: "tx_wf s" and i: "unat i < length (ComIPdu (ComConfig s))"
  shows "results (keeps_delay (tick c) i s) (com_do c s)"
proof (cases "quiet_call c")
  case True
  show ?thesis by (rule results_mono [OF quiet_call [OF True]]) (auto intro: keeps_delay_same dest: quiet_unit_same [OF _ wf i])
next
  case False
  then show ?thesis
    using delay_Trigger [OF wf i] delay_MainFunctionTx [OF d wf i] timers_kept_delay [OF timers_kept_DeInit wf]
      results_mono [OF timers_kept_control timers_kept_delay [OF _ wf]]
    by (cases c) (auto simp: tick_def results_Some)
qed

lemma delay_run:
  assumes "com_run cs s = Some t" and "min_delay i s \<noteq> 0" and "tx_wf s" and "unat i < length (ComIPdu (ComConfig s))"
    and "count_list cs Call_MainFunctionTx < unat (md i s)"
  shows "sent_of i t = sent_of i s"
  using assms
proof (induction cs arbitrary: s)
  case (Cons c cs)
  obtain u where u: "com_do c s = Some u" and t: "com_run cs u = Some t" using Cons.prems(1) by (auto split: option.splits)
  have k: "keeps_delay (tick c) i s u" by (rule resultsD [OF delay_call [OF Cons.prems(2-4)] u])
  have lt: "tick c + count_list cs Call_MainFunctionTx < unat (md i s)" using Cons.prems(5) by (simp add: tick_def split: if_splits)
  have "sent_of i u = sent_of i s" "unat (md i s) \<le> unat (md i u) + tick c" using k lt by (auto simp: keeps_delay_def)
  moreover have "sent_of i t = sent_of i u"
    using Cons.prems k lt calculation by (intro Cons.IH [OF t]) (simp_all add: keeps_delay_def)
  ultimately show ?case by simp
qed simp

section \<open>The period\<close>

text \<open>A started periodic unit whose transmission no callout can refuse.\<close>

definition periodic_unit :: "u16 \<Rightarrow> Com \<Rightarrow> bool" where
  "periodic_unit i s \<longleftrightarrow> initStatus s = COM_INIT \<and> tx_wf s \<and> unat i < length (ComIPdu (ComConfig s))
     \<and> i < ComNofIPdus (ComConfig s) \<and> ComIPduDirection (unit_conf i s) = SEND \<and> Com_Arc_IpduStarted (ArcIPdu s ! unat i)
     \<and> ComTxModeMode (ComTxModeTrue (ComTxIPdu (unit_conf i s))) = PERIODIC
     \<and> ComTxIPduCallout (unit_conf i s) = COM_NO_FUNCTION_CALLOUT"

abbreviation period :: "u16 \<Rightarrow> Com \<Rightarrow> nat" where
  "period i s \<equiv> unat (ComTxModeTimePeriodFactor (ComTxModeTrue (ComTxIPdu (unit_conf i s))))"

abbreviation pt :: "u16 \<Rightarrow> Com \<Rightarrow> nat" where
  "pt i s \<equiv> unat (ComTxModeTimePeriodTimer (timers_of i s))"

text \<open>The transmissions in \<open>n\<close> cycles: the first when the timer runs out, then one per period.\<close>

definition cycles_sent :: "nat \<Rightarrow> nat \<Rightarrow> nat \<Rightarrow> nat" where
  "cycles_sent p first n = (if n < max 1 first then 0 else (n - max 1 first) div p + 1)"

lemma cycles_sent_0 [simp]: "cycles_sent p f 0 = 0" by (simp add: cycles_sent_def)

lemma cycles_sent_due: "0 < p \<Longrightarrow> f \<le> 1 \<Longrightarrow> cycles_sent p f (Suc n) = Suc (cycles_sent p p n)"
  by (auto simp: cycles_sent_def max_def div_if [of n p])

lemma cycles_sent_wait: "1 < f \<Longrightarrow> cycles_sent p f (Suc n) = cycles_sent p (f - 1) n"
  by (auto simp: cycles_sent_def max_def)

text \<open>Calls that leave the unit to its period: every service but the control services and the direct
  request for the unit.\<close>

fun leaves_to_period :: "u16 \<Rightarrow> com_call \<Rightarrow> bool" where
  "leaves_to_period i Call_DeInit = False"
| "leaves_to_period i (Call_IpduGroupControl v b) = False"
| "leaves_to_period i (Call_TriggerIPDUSend j) = (j \<noteq> i)"
| "leaves_to_period i _ = True"

lemma unit_same_periodic:
  assumes "unit_same i s t" "tx_wf t" "periodic_unit i s"
  shows "periodic_unit i t \<and> pt i t = pt i s \<and> md i t = md i s \<and> sent_of i t = sent_of i s \<and> ComConfig t = ComConfig s"
  using assms by (simp add: unit_same_def tx_view_def periodic_unit_def)

lemma Trigger_sends:
  assumes "periodic_unit i s" and "md i s = 0"
  shows "results (\<lambda>t. unit_only i s t \<and> sends_once i s t) (Com_TriggerIPDUSend i s)"
proof -
  have i: "unat i < length (ArcIPdu s)" "unat i < length (ComIPdu (ComConfig s))"
    using assms(1) by (simp_all add: periodic_unit_def tx_wf_def)
  have "sent t \<noteq> sent s" if "Com_TriggerIPDUSend i s = Some t" for t
  proof -
    let ?tr = "transmit i (unit_conf i s) (ArcIPdu s ! unat i) (s\<lparr>irq_off := True\<rparr>)"
    have n: "\<not> ComNofIPdus (ComConfig s) \<le> i" using assms(1) by (simp add: periodic_unit_def not_le)
    have "results (\<lambda>t. sent t = sent ?tr) (Com_TriggerIPDUSend i s)"
      using assms i n by (simp add: Com_TriggerIPDUSend_def periodic_unit_def look_def tx_callout_def Let_def results_Some)
    then have "sent t = sent ?tr" using that by (rule resultsD)
    then show ?thesis using transmit_fields(7) [of i "unit_conf i s" "ArcIPdu s ! unat i" "s\<lparr>irq_off := True\<rparr>"] by auto
  qed
  then show ?thesis using Trigger_effect [of i s] by (auto simp: results_def)
qed

text \<open>One pass over the unit.\<close>

definition period_step :: "u16 \<Rightarrow> Com \<Rightarrow> Com \<Rightarrow> bool" where
  "period_step i s t \<longleftrightarrow> periodic_unit i t \<and> ComConfig t = ComConfig s \<and>
     (if pt i s \<le> 1
      then length (sent_of i t) = Suc (length (sent_of i s)) \<and> pt i t = period i s \<and> md i t = min_delay i s
      else sent_of i t = sent_of i s \<and> pt i t = pt i s - 1 \<and> unat (md i t) \<le> unat (md i s) - 1)"

lemma timerDec_nat: "unat (timerDec w) = unat w - 1"
  by (auto simp: timerDec_def unat_minus_one word_gt_0)

lemma timerDec_0: "timerDec w = 0 \<longleftrightarrow> unat w \<le> 1"
  using timerDec_nat [of w] by (auto simp: word_unat_eq_iff)

lemma periodic_unit_upd [simp]:
  "periodic_unit i (upd_timers j f s) = periodic_unit i s" "periodic_unit i (s\<lparr>irq_off := b\<rparr>) = periodic_unit i s"
proof -
  have "Com_Arc_IpduStarted ((ArcIPdu s)[k := Com_Arc_TxIPduTimers_update f (ArcIPdu s ! k)] ! m) = Com_Arc_IpduStarted (ArcIPdu s ! m)" for k m
    by (cases "k < length (ArcIPdu s)"; cases "m = k") (simp_all add: list_update_beyond)
  then show "periodic_unit i (upd_timers j f s) = periodic_unit i s"
    by (simp add: periodic_unit_def) (simp add: upd_timers_def upd_ipdu_def)
qed (simp add: periodic_unit_def)

lemma sent_of_upd [simp]: "sent_of i (upd_timers j f s) = sent_of i s" "sent_of i (s\<lparr>irq_off := b\<rparr>) = sent_of i s"
  by (simp_all add: sent_of_def)

lemma pass_period:
  assumes p: "periodic_unit i s" and le: "unat (md i s) \<le> pt i s"
  shows "results (period_step i s) (tx_pdu i s)"
proof -
  let ?s1 = "upd_timers i (ComTxModeTimePeriodTimer_update timerDec)
    (upd_timers i (ComTxIPduMinimumDelayTimer_update timerDec) (s\<lparr>irq_off := True\<rparr>))"
  have i: "unat i < length (ArcIPdu s)" "unat i < length (ComIPdu (ComConfig s))"
    using p by (simp_all add: periodic_unit_def tx_wf_def)
  have timers: "pt i ?s1 = pt i s - 1" "unat (md i ?s1) = unat (md i s) - 1"
    using i by (simp_all add: timers_of_upd timerDec_nat)
  have wait: "period_step i s t" if "\<not> pt i s \<le> 1" "unit_same i ?s1 t" "tx_wf t" for t
    using that timers p unit_same_periodic [OF that(2,3)] by (simp add: period_step_def)
  have send: "period_step i s t" if le1: "pt i s \<le> 1" and u: "Com_TriggerIPDUSend i ?s1 = Some u"
    and t: "unit_same i (upd_timers i (ComTxModeTimePeriodTimer_update (\<lambda>_. ComTxModeTimePeriodFactor (ComTxModeTrue (ComTxIPdu (unit_conf i s))))) u) t"
    "tx_wf t = tx_wf u" for u t
  proof -
    have "unat (md i ?s1) = 0" using timers le le1 by simp
    then have "md i ?s1 = 0" by (simp only: unsigned_eq_0_iff)
    then have u1: "unit_only i ?s1 u" "sends_once i ?s1 u" using resultsD [OF Trigger_sends u] p by simp_all
    have l: "length (ArcIPdu u) = length (ArcIPdu s)" and c: "ComConfig u = ComConfig s" and n: "initStatus u = initStatus s"
      using u1(1) by (simp_all add: unit_only_def)
    have w: "tx_wf u" using unit_only_wf [OF u1(1)] p by (simp add: periodic_unit_def)
    have a: "ArcIPdu u ! unat i = Com_Arc_TxIPduTimers_update (ComTxIPduMinimumDelayTimer_update (\<lambda>_. min_delay i s)) (ArcIPdu ?s1 ! unat i)"
      and sent: "\<exists>sdu. sent u = sent s @ [(out_id i s, sdu)]"
      using u1(2) by (simp_all add: sends_once_def)
    have "Com_Arc_IpduStarted (ArcIPdu ?s1 ! unat i)" using p i by (simp add: upd_timers_def upd_ipdu_def periodic_unit_def)
    then have "periodic_unit i u" using p a c n w by (simp add: periodic_unit_def)
    moreover have "md i u = min_delay i s" using a by simp
    moreover have "length (sent_of i u) = Suc (length (sent_of i s))" using sent c by (auto simp: sent_of_def)
    ultimately show ?thesis
      using le1 l c w t(2) i unit_same_periodic [OF t(1)] by (simp add: period_step_def timers_of_upd)
  qed
  define fin where "fin u = (let s3 = u\<lparr>irq_off := irq_off s\<rparr>; s4 = SetTxConfirmationStatus (unit_conf i s) False s3 in
      if GetTxConfirmationStatus (unit_conf i s) s3 then notify_signals (unit_conf i s) s4 else s4)" for u
  have fin: "unit_same i u (fin u)" "tx_wf (fin u) = tx_wf u" for u by (simp_all add: fin_def Let_def)
  have eq: "tx_pdu i s = Option.bind (tx_period i (ComTxModeTrue (ComTxIPdu (unit_conf i s))) ?s1) (\<lambda>u. Some (fin u))"
    using p i by (simp add: tx_pdu_def look_def tx_mode_def fin_def Let_def periodic_unit_def)
  have due: "ComTxModeTimePeriodTimer (timers_of i ?s1) = 0 \<longleftrightarrow> pt i s \<le> 1" "pt i s \<le> 1 \<Longrightarrow> md i ?s1 = 0"
    using i le by (simp_all add: timers_of_upd timerDec_0)
  show ?thesis unfolding eq tx_period_def
  proof (intro result_intros, goal_cases)
    case (1 u)
    show ?case
    proof (cases "pt i s \<le> 1")
      case True
      then obtain v where "Com_TriggerIPDUSend i ?s1 = Some v" "u = upd_timers i (ComTxModeTimePeriodTimer_update
          (\<lambda>_. ComTxModeTimePeriodFactor (ComTxModeTrue (ComTxIPdu (unit_conf i s))))) v"
        using 1 due by (auto simp: bind_eq_Some_conv)
      then show ?thesis using True fin by (intro send) auto
    next
      case False
      then have u: "u = ?s1" using 1 due by simp
      show ?thesis using False fin p unfolding u by (intro wait) (simp_all add: periodic_unit_def)
    qed
  qed
qed

lemma pass_cycle:
  assumes p: "periodic_unit i s" and le: "unat (md i s) \<le> pt i s"
  shows "results (period_step i s) (Com_MainFunctionTx s)"
proof -
  have "period_step i s t" if run: "Com_MainFunctionTx s = Some t" for t
  proof -
    have w: "tx_wf s" "unat i < length (ComIPdu (ComConfig s))" "initStatus s = COM_INIT" using p by (simp_all add: periodic_unit_def)
    obtain u v where u: "unit_same i s u" "tx_wf u" and v: "tx_pdu i u = Some v" and t: "unit_same i v t" "tx_wf t"
      using MainFunctionTx_unit [OF w run] by auto
    note su = unit_same_periodic [OF u p]
    then have "period_step i u v" using le by (intro resultsD [OF pass_period v]) simp_all
    then show ?thesis using su unit_same_periodic [OF t] by (auto simp: period_step_def)
  qed
  then show ?thesis by (simp add: results_def)
qed

lemma other_call_same:
  assumes p: "periodic_unit i s" and c: "leaves_to_period i c" "c \<noteq> Call_MainFunctionTx"
  shows "results (\<lambda>t. unit_same i s t \<and> tx_wf t) (com_do c s)"
proof (cases "quiet_call c")
  case True
  show ?thesis using p by (intro results_mono [OF quiet_call [OF True]] quiet_unit_same) (simp_all add: periodic_unit_def)
next
  case False
  then obtain j where j: "c = Call_TriggerIPDUSend j" "j \<noteq> i" using c by (cases c) auto
  have w: "tx_wf s" "unat i < length (ComIPdu (ComConfig s))" using p by (simp_all add: periodic_unit_def)
  show ?thesis
  proof (cases "unat j < length (ComIPdu (ComConfig s))")
    case True
    then show ?thesis using j w
      by (auto intro!: results_mono [OF results_Trigger_unit] intro: unit_only_other unit_only_wf)
  next
    case False
    then show ?thesis using j w by (simp add: Com_TriggerIPDUSend_def look_def results_Some)
  qed
qed

section \<open>The two guarantees\<close>

lemma sample_periodic: "periodic_unit 0 sample_com"
  using sample_com_wf unfolding com_wf_def by (simp add: periodic_unit_def sample_defs)

text \<open>C31: The minimum delay between two transmissions of a unit is kept, whatever is called.  When a call
  sends a unit it sends it once, and no sequence of calls of the module's services with fewer cycles of the
  transmission main function than the unit's minimum delay sends it again: neither a direct request, nor
  the repetitions of a triggered signal, nor the period of the unit, nor stopping and restarting it.\<close>

theorem minimum_delay_kept:
  assumes "tx_wf s" and "unat i < length (ComIPdu (ComConfig s))"
    and "com_do c s = Some u" and "sent_of i u \<noteq> sent_of i s"
    and "com_run cs u = Some t" and "count_list cs Call_MainFunctionTx < unat (min_delay i s)"
  shows "length (sent_of i u) = Suc (length (sent_of i s)) \<and> sent_of i t = sent_of i u"
proof -
  have d: "min_delay i s \<noteq> 0" using assms(6) by auto
  have k: "keeps_delay (tick c) i s u" by (rule resultsD [OF delay_call [OF d assms(1,2)] assms(3)])
  then have u: "length (sent_of i u) = Suc (length (sent_of i s))" "md i u = min_delay i s" "tx_wf u" "ComConfig u = ComConfig s"
    using assms(4) by (auto simp: keeps_delay_def)
  have "sent_of i t = sent_of i u" using assms d u by (intro delay_run [OF assms(5)]) simp_all
  with u show ?thesis by simp
qed

lemma minimum_delay_kept_witness:
  "\<exists>u t. com_do (Call_TriggerIPDUSend 0) sample_com = Some u \<and> length (sent_of 0 u) = 1
     \<and> com_run [Call_MainFunctionTx, Call_TriggerIPDUSend 0] u = Some t \<and> sent_of 0 t = sent_of 0 u"
proof -
  let ?cs = "[Call_MainFunctionTx, Call_TriggerIPDUSend 0]"
  have none: "sent_of 0 sample_com = []" by (simp add: sent_of_def sample_defs)
  obtain u where u: "com_do (Call_TriggerIPDUSend 0) sample_com = Some u"
    using call_returns [OF sample_com_wf, of "Call_TriggerIPDUSend 0"] by (auto simp: returns_def)
  have k: "same_shape sample_com u" by (rule resultsD [OF shape_call u])
  have w: "com_wf u" "ComConfig u = ComConfig sample_com"
    using same_shape_wf [OF k] sample_com_wf k by (simp_all add: same_shape_def)
  obtain t where t: "com_run ?cs u = Some t" using run_returns [OF w(1), of ?cs] by auto
  have "sends_once 0 sample_com u"
    using u resultsD [OF Trigger_sends [OF sample_periodic]] by (simp add: sample_defs)
  then have sent: "sent_of 0 u \<noteq> sent_of 0 sample_com" using w(2) by (auto simp: sent_of_def sends_once_def)
  have "length (sent_of 0 u) = Suc (length (sent_of 0 sample_com)) \<and> sent_of 0 t = sent_of 0 u"
    by (rule minimum_delay_kept [OF _ _ u sent t]) (use sample_com_wf in \<open>simp_all add: com_wf_def sample_defs\<close>)
  then show ?thesis using u t none by auto
qed




end
