(* ===== verification/ComRx.thy ===== *)
theory ComRx
  imports ComTotal
begin

text \<open>
  Reception: the services as critical sections, the counter that detects lost units, and a signal on its
  way from one module to another.
\<close>

section \<open>Critical sections\<close>

text \<open>The two ways through the services that leave the interrupts disabled: a received unit whose counter is
  not accepted, and a buffer that is too short for a dynamic signal.\<close>

fun interrupts_left :: "com_call \<Rightarrow> Com \<Rightarrow> bool" where
  "interrupts_left (Call_RxIndication i d) s \<longleftrightarrow> initStatus s = COM_INIT \<and> i < ComNofIPdus (ComConfig s)
     \<and> Com_Arc_IpduStarted (ArcIPdu s ! unat i)
     \<and> (ComRxIPduCallout (unit_conf i s) = COM_NO_FUNCTION_CALLOUT
        \<or> (case ComRxIPduCallouts (ComConfig s) (ComRxIPduCallout (unit_conf i s)) of None \<Rightarrow> True | Some f \<Rightarrow> f i d))
     \<and> (case ComIpduCounterRef (unit_conf i s) of None \<Rightarrow> False | Some c \<Rightarrow> \<not> fst (validateIPduCounter c d s))"
| "interrupts_left (Call_ReceiveDynSignal i n) s \<longleftrightarrow> initStatus s = COM_INIT
     \<and> ComSignalType (ComSignal (ComConfig s) ! unat i) = UINT8_DYN
     \<and> n < Com_Arc_DynSignalLength (ArcIPdu s ! unat (ComIPduHandleId (ComSignal (ComConfig s) ! unat i)))"
| "interrupts_left _ s = False"

abbreviation same_irq :: "Com \<Rightarrow> Com \<Rightarrow> bool" where "same_irq s t \<equiv> irq_off t = irq_off s"

lemma irq_upd [simp]:
  "irq_off (upd_timers i f s) = irq_off s" "irq_off (upd_ipdu i g s) = irq_off s" "irq_off (upd_sig j h s) = irq_off s"
  "irq_off (upd_buf j k s) = irq_off s" "irq_off (upd_mem q s) = irq_off s" "irq_off (notify n s) = irq_off s"
  "irq_off (UnlockTpBuffer j s) = irq_off s" "irq_off (set_update_bit sig p s) = irq_off s"
  "irq_off (request_transmission sig IPdu c s) = irq_off s" "irq_off (SetTxConfirmationStatus IPdu v s) = irq_off s"
  "irq_off (Com_SetDynSignalLength j len IPdu s) = irq_off s" "irq_off (ResetInternalCounter x s) = irq_off s"
  "irq_off (ReSetInternalRxStartSts x s) = irq_off s"
  by (simp_all add: upd_timers_def upd_ipdu_def upd_sig_def upd_buf_def upd_mem_def notify_def UnlockTpBuffer_def
      set_update_bit_def request_transmission_def SetTxConfirmationStatus_def Com_SetDynSignalLength_def
      ResetInternalCounter_def ReSetInternalRxStartSts_def split: list.split option.split)

lemma irq_fold: "(\<And>x t. irq_off (f x t) = irq_off t) \<Longrightarrow> irq_off (fold f xs s) = irq_off s"
  by (induction xs arbitrary: s) simp_all

lemma irq_folds [simp]:
  "irq_off (notify_signals IPdu s) = irq_off s" "irq_off (Com_RxProcessSignals IPdu a s) = irq_off s"
  "irq_off (rx_process_signal IPdu a sig s) = irq_off s" "irq_off (deliver_signal sig s) = irq_off s"
  by (simp_all add: notify_signals_def Com_RxProcessSignals_def rx_process_signal_def deliver_signal_def Let_def irq_fold)

lemma irq_ofold: "(\<And>x t. results (same_irq t) (f x t)) \<Longrightarrow> results (same_irq s) (ofold f xs s)"
  by (rule results_ofold) simp_all

lemma irq_group_copy:
  "Com_CopySignalGroupDataFromPduToShadowBuffer i s = Some t \<Longrightarrow> irq_off t = irq_off s"
  "Com_Internal_UpdateShadowSignal j d s = Some t \<Longrightarrow> irq_off t = irq_off s"
  by (auto simp: Com_CopySignalGroupDataFromPduToShadowBuffer_def Com_Internal_UpdateShadowSignal_def bind_eq_Some_conv Let_def)

lemma irq_Trigger: "results (same_irq s) (Com_TriggerIPDUSend i s)"
  unfolding Com_TriggerIPDUSend_def Let_def by (intro result_intros) simp_all

lemma irq_tx_pdu: "results (same_irq s) (tx_pdu i s)"
  unfolding tx_pdu_def Let_def by (intro result_intros) simp

lemma irq_rx_pdu: "results (same_irq s) (rx_pdu i s)"
  unfolding rx_pdu_def Let_def by (intro result_intros) simp_all

lemma irq_control: "results (same_irq s) (control_pdu v b i s)"
  unfolding control_pdu_def Let_def by (intro result_intros) (simp split: option.split)

lemma irq_DeInit: "irq_off (Com_DeInit s) = irq_off s"
  by (simp add: Com_DeInit_def irq_fold)

lemma validate_irq: "fst (validateIPduCounter c d (s\<lparr>irq_off := b\<rparr>)) = fst (validateIPduCounter c d s)"
  "irq_off (snd (validateIPduCounter c d s)) = irq_off s"
  by (simp_all add: validateIPduCounter_def Let_def)

lemma irq_RxIndication:
  "results (\<lambda>t. irq_off t \<longleftrightarrow> irq_off s \<or> interrupts_left (Call_RxIndication i d) s) (Com_RxIndication i d s)"
  unfolding Com_RxIndication_def Let_def
  by (intro result_intros) (auto simp: look_Some validate_irq not_le split: option.splits if_splits)

lemma irq_ReceiveDynSignal:
  "results (\<lambda>x. irq_off (snd (snd (snd x))) \<longleftrightarrow> irq_off s \<or> interrupts_left (Call_ReceiveDynSignal i n) s)
     (Com_ReceiveDynSignal i n s)"
  unfolding Com_ReceiveDynSignal_def Let_def
  by (intro result_intros) (auto simp: look_Some not_le)

lemma irq_main: "results (same_irq s) (Com_MainFunctionTx s)" "results (same_irq s) (Com_MainFunctionRx s)"
  "results (same_irq s) (Com_IpduGroupControl v b s)"
  unfolding Com_MainFunctionTx_def Com_MainFunctionRx_def Com_IpduGroupControl_def
  by (intro result_intros irq_ofold irq_tx_pdu irq_rx_pdu irq_control; simp)+

lemma irq_others:
  "results (\<lambda>x. same_irq s (snd x)) (Com_SendSignal i d s)" "results (\<lambda>x. same_irq s (snd x)) (Com_SendDynSignal i d n s)"
  "results (\<lambda>x. same_irq s (snd x)) (Com_SendSignalGroup k s)" "results (\<lambda>x. same_irq s (snd x)) (Com_ReceiveSignalGroup k s)"
  "results (same_irq s) (Com_UpdateShadowSignal i d s)" "results (same_irq s) (Com_TpRxIndication i r s)"
  "results (same_irq s) (Com_TxConfirmation i s)" "results (\<lambda>x. same_irq s (snd (snd x))) (Com_CopyTxData i n s)"
  "results (\<lambda>x. same_irq s (snd (snd x))) (Com_CopyRxData i d n s)" "results (\<lambda>x. same_irq s (snd (snd x))) (Com_StartOfReception i n s)"
  unfolding Com_SendSignal_def Com_SendDynSignal_def Com_SendSignalGroup_def Com_ReceiveSignalGroup_def
    Com_UpdateShadowSignal_def Com_TpRxIndication_def Com_TxConfirmation_def Com_CopyTxData_def Com_CopyRxData_def
    Com_StartOfReception_def Let_def
  by (intro result_intros; simp add: irq_group_copy results_def)+

lemma irq_TpTxConfirmation: "irq_off (Com_TpTxConfirmation i r s) = irq_off s"
  by (simp add: Com_TpTxConfirmation_def)

lemma irq_call: "results (\<lambda>t. irq_off t \<longleftrightarrow> irq_off s \<or> interrupts_left c s) (com_do c s)"
  using irq_RxIndication irq_ReceiveDynSignal irq_Trigger irq_main irq_others irq_DeInit irq_TpTxConfirmation
  by (cases c) (auto simp: results_Some intro!: results_map_option)

text \<open>C35: The services are critical sections: each returns with the interrupt mask as it found it, except a
  reception indication whose counter is not accepted and a request for a dynamic signal with too short a
  buffer, and those two return with the interrupts disabled.\<close>

theorem interrupts_restored:
  assumes "com_wf s" and "legal (ComConfig s) c"
  shows "\<exists>t. com_do c s = Some t \<and> (irq_off t \<longleftrightarrow> irq_off s \<or> interrupts_left c s)"
  using call_returns [OF assms] irq_call by (auto simp: returns_def dest: resultsD)

lemma interrupts_restored_witness:
  "\<exists>t. com_do (Call_SendSignal 1 [5, 1]) sample_com = Some t \<and> \<not> irq_off t"
proof -
  have "\<exists>t. com_do (Call_SendSignal 1 [5, 1]) sample_com = Some t
      \<and> (irq_off t \<longleftrightarrow> irq_off sample_com \<or> interrupts_left (Call_SendSignal 1 [5, 1]) sample_com)"
    by (rule interrupts_restored [OF sample_com_wf]) simp
  then show ?thesis by (simp add: sample_defs)
qed

section \<open>Counters of units\<close>

text \<open>The counter of a unit keeps the contract of the sequence counters, for every range of up to 8 bits;
  the receiver keeps the value it expects, not the last one.\<close>

lemma unat_ucast_u8: "unat (ucast (c :: u8) :: u16) = unat c"
  by (rule unat_u8_u16)

lemma counter_diff_unat:
  assumes "unat r < p" "unat l < p" "p \<le> 256" "unat rng = p"
  shows "unat (counter_diff r l rng) = (unat r + p - unat l) mod p"
proof (cases "l \<le> r")
  case True
  then have "unat (counter_diff r l rng) = unat r - unat l"
    by (simp add: counter_diff_def unat_sub word_le_nat_alt unat_ucast_u8)
  then show ?thesis using True assms by (simp add: plain_difference word_le_nat_alt)
next
  case False
  then have lt: "unat r < unat l" by (simp add: word_le_nat_alt)
  have s: "unat (ucast r + rng :: u16) = unat r + p"
    using assms by (simp add: unat_word_ariths unat_ucast_u8)
  have "unat (counter_diff r l rng) = unat r + p - unat l"
    using False assms by (simp add: counter_diff_def unat_sub word_le_nat_alt s unat_ucast_u8)
  then show ?thesis using lt assms by simp
qed

lemma next_counter_unat:
  assumes "unat rng = p" "0 < p" "p \<le> 256"
  shows "unat (next_counter c rng) = (unat c + 1) mod p"
proof -
  have "Suc (unat c) mod p < 256" using mod_less_divisor [OF assms(2), of "Suc (unat c)"] assms(3) by linarith
  then show ?thesis using assms(1) by (simp add: next_counter_def unsigned_of_nat take_bit_nat_eq_self)
qed

lemma unat_range: "unat (2 ^ (k mod 9) :: u16) = 2 ^ (k mod 9)"
proof -
  have "k mod 9 < 16" by (rule order_less_le_trans [OF mod_less_divisor]) simp_all
  then have lt: "(2 :: nat) ^ (k mod 9) < 2 ^ 16" by (rule power_strict_increasing) simp
  have "unat (of_nat (2 ^ (k mod 9)) :: u16) = 2 ^ (k mod 9)"
    unfolding unsigned_of_nat using lt by (simp add: take_bit_nat_eq_self)
  then show ?thesis by simp
qed

interpretation com_counter: e2e_counter "2 ^ (k mod 9)" "\<lambda>c. next_counter c (2 ^ (k mod 9))"
    "\<lambda>r l. ucast (counter_diff r l (2 ^ (k mod 9)))" for k
proof
  have k: "k mod 9 \<le> 8" by (simp add: less_Suc_eq_le [symmetric])
  then have "(2 :: nat) ^ (k mod 9) \<le> 2 ^ 8" by (rule power_increasing) simp
  then show le: "(2 :: nat) ^ (k mod 9) \<le> 256" by simp
  show "unat (next_counter c (2 ^ (k mod 9))) = (unat c + 1) mod 2 ^ (k mod 9)" for c
    by (rule next_counter_unat [OF unat_range _ le]) simp
  show "unat (ucast (counter_diff r l (2 ^ (k mod 9))) :: u8) = (unat r + 2 ^ (k mod 9) - unat l) mod 2 ^ (k mod 9)"
    if "unat r < 2 ^ (k mod 9)" "unat l < 2 ^ (k mod 9)" for r l
  proof -
    have d: "unat (counter_diff r l (2 ^ (k mod 9))) = (unat r + 2 ^ (k mod 9) - unat l) mod 2 ^ (k mod 9)"
      by (rule counter_diff_unat [OF that le unat_range])
    moreover have "(unat r + 2 ^ (k mod 9) - unat l) mod 2 ^ (k mod 9) < 256"
      by (rule order_less_le_trans [OF mod_less_divisor le]) simp
    ultimately show ?thesis by (simp add: unsigned_ucast_eq take_bit_nat_eq_self)
  qed
qed simp

text \<open>The byte that carries the counter.\<close>

lemma extract_update:
  assumes rng: "ComIPduCntrRange cfg = 2 ^ k" and k: "unat (ComIPduCntrStartPos cfg) mod 8 + k \<le> 8"
    and n: "unat (ComIPduCntrStartPos cfg) div 8 < n" and v: "unat (next_counter c (2 ^ k)) < 2 ^ k"
  shows "extractIPduCntr cfg (read_block (snd (updateIPduCntr cfg c m p)) p n) = fst (updateIPduCntr cfg c m p)"
proof -
  let ?b = "unat (ComIPduCntrStartPos cfg) mod 8" and ?a = "p + int (unat (ComIPduCntrStartPos cfg) div 8)"
  let ?v = "next_counter c (2 ^ k)"
  let ?w = "(m ?a AND ucast (NOT (push_bit ?b (2 ^ k - 1 :: u16)))) OR push_bit ?b ?v"
  have bit_v: "j < k" if "bit ?v j" for j
  proof -
    have "bit (unat ?v) j" using that by (simp add: bit_unsigned_iff possible_bit_def bit_imp_le_length)
    then have "bit (take_bit k (unat ?v)) j" using v by (simp add: take_bit_nat_eq_self)
    then show ?thesis by (simp add: bit_take_bit_iff)
  qed
  have m: "(2 ^ k - 1 :: u16) = mask k" by (simp add: mask_eq_exp_minus_1)
  have "drop_bit ?b ?w AND ucast (2 ^ k - 1 :: u16) = ?v"
  proof (rule bit_word_eqI)
    fix j assume j: "j < LENGTH(8)"
    show "bit (drop_bit ?b ?w AND ucast (2 ^ k - 1 :: u16)) j = bit ?v j"
    proof (cases "j < k")
      case True
      then show ?thesis using k j by (auto simp: m bit_simps)
    next
      case False
      then show ?thesis using bit_v j by (auto simp: m bit_simps)
    qed
  qed
  moreover have "client_byte (read_block (snd (updateIPduCntr cfg c m p)) p n) (unat (ComIPduCntrStartPos cfg) div 8) = ?w"
    using n by (simp add: client_byte_def read_block_def updateIPduCntr_def rng Let_def)
  ultimately show ?thesis
    by (simp add: extractIPduCntr_def updateIPduCntr_def rng Let_def)
qed

definition counter_after :: "u16 \<Rightarrow> nat \<Rightarrow> u8 \<Rightarrow> u8" where
  "counter_after rng n = (\<lambda>c. next_counter c rng) ^^ n"

text \<open>C36: The counter of a unit tells the receiver how many units were lost.  When the receiver expects the
  successor of the sender's counter, and the sender has sent \<open>j\<close> units that did not arrive, the next one is
  accepted exactly when \<open>j\<close>, modulo the counter's range, does not exceed the configured step; and
  accepted or not, the receiver expects the successor of the counter it has just seen, so that one rejected
  unit puts it back into step.  The counter field may have up to 8 bits at any position within a byte.\<close>

theorem lost_units_counted:
  assumes "ComIPduCntrRange cfg = 2 ^ k" and "unat (ComIPduCntrStartPos cfg) mod 8 + k \<le> 8"
    and "unat (ComIPduCntrStartPos cfg) div 8 < n" and "unat c < 2 ^ k"
    and "unat (ComIPduCntrIndex cfg) < length (Com_IPdu_Counters r)" and "ComIPduCountRxStart r ! unat (ComIPduCntrIndex cfg)"
    and "Com_IPdu_Counters r ! unat (ComIPduCntrIndex cfg) = next_counter c (2 ^ k)"
    and "updateIPduCntr cfg (counter_after (2 ^ k) j c) m p = (v, m')"
    and "validateIPduCounter cfg (read_block m' p n) r = (accepted, r')"
  shows "(accepted \<longleftrightarrow> j mod 2 ^ k \<le> unat (ComIPduCntrThrshldStep cfg))
    \<and> Com_IPdu_Counters r' ! unat (ComIPduCntrIndex cfg) = next_counter v (2 ^ k)"
proof -
  have k: "k mod 9 = k" using assms(2) by simp
  note nx = com_counter.nxts_below [of _ k, unfolded k] and dn = com_counter.delta_nxts [of _ k, unfolded k]
  let ?e = "next_counter c (2 ^ k)"
  have e: "unat ?e < 2 ^ k" using nx [of c 1] assms(4) by simp
  have vn: "v = next_counter (counter_after (2 ^ k) j c) (2 ^ k)" using assms(8) by (simp add: updateIPduCntr_def assms(1) Let_def)
  have v: "v = ((\<lambda>c. next_counter c (2 ^ k)) ^^ j) ?e" unfolding vn by (simp add: counter_after_def funpow_swap1 [of "\<lambda>c. next_counter c (2 ^ k)"])
  then have vlt: "unat v < 2 ^ k" using nx [OF e] by simp
  have x: "extractIPduCntr cfg (read_block m' p n) = v"
    using extract_update [OF assms(1-3) vlt [unfolded vn], of m p] unfolding assms(8) by simp
  have "unat (counter_diff v ?e (2 ^ k)) = j mod 2 ^ k"
  proof -
    have le: "(2 :: nat) ^ k \<le> 256" using power_increasing [of k 8 "2 :: nat"] assms(2) by simp
    have "unat (counter_diff v ?e (2 ^ k)) = (unat v + 2 ^ k - unat ?e) mod 2 ^ k"
      by (rule counter_diff_unat [OF vlt e le unat_range [of k, unfolded k]])
    also have "\<dots> = unat (ucast (counter_diff v ?e (2 ^ k)) :: u8)"
      using com_counter.delta_unat [of v k ?e, unfolded k, OF vlt e] by simp
    finally show ?thesis using dn [OF e, of j] v by simp
  qed
  then have "counter_diff v ?e (2 ^ k) \<le> ucast (ComIPduCntrThrshldStep cfg) \<longleftrightarrow> j mod 2 ^ k \<le> unat (ComIPduCntrThrshldStep cfg)"
    by (simp add: word_le_nat_alt unat_u8_u16)
  then show ?thesis using assms(5-7,9) by (auto simp: validateIPduCounter_def x assms(1) Let_def)
qed

lemma lost_units_counted_witness:
  "\<not> fst (validateIPduCounter
      \<lparr>ComIPduCntrRange = 16, ComIPduCntrStartPos = 12, ComIPduCntrThrshldStep = 1,
        ComIPduCntErrNotification = 3, ComIPduCntrIndex = 0\<rparr>
      (read_block (snd (updateIPduCntr
         \<lparr>ComIPduCntrRange = 16, ComIPduCntrStartPos = 12, ComIPduCntrThrshldStep = 1,
           ComIPduCntErrNotification = 3, ComIPduCntrIndex = 0\<rparr> (counter_after 16 2 15) (\<lambda>_. 0xA5) 0)) 0 4)
      (sample_com\<lparr>Com_IPdu_Counters := [0], ComIPduCountRxStart := [True]\<rparr>))"
proof -
  let ?cfg = "\<lparr>ComIPduCntrRange = 16, ComIPduCntrStartPos = 12, ComIPduCntrThrshldStep = 1,
        ComIPduCntErrNotification = 3, ComIPduCntrIndex = 0\<rparr>"
  let ?r = "sample_com\<lparr>Com_IPdu_Counters := [0], ComIPduCountRxStart := [True]\<rparr>"
  let ?u = "updateIPduCntr ?cfg (counter_after (2 ^ 4) 2 15) (\<lambda>_. 0xA5) 0"
  let ?x = "validateIPduCounter ?cfg (read_block (snd ?u) 0 4) ?r"
  have e: "next_counter 15 16 = 0" by (simp add: next_counter_def)
  have "(fst ?x \<longleftrightarrow> 2 mod 2 ^ 4 \<le> unat (ComIPduCntrThrshldStep ?cfg))
      \<and> Com_IPdu_Counters (snd ?x) ! unat (ComIPduCntrIndex ?cfg) = next_counter (fst ?u) (2 ^ 4)"
    by (rule lost_units_counted [where c = 15 and m = "\<lambda>_. 0xA5" and p = 0 and n = 4 and r = ?r and m' = "snd ?u"])
       (simp_all add: e del: One_nat_def)
  then show ?thesis by simp
qed

end
