(* ===== verification/ComEnd.thy ===== *)
theory ComEnd
  imports ComTxProps ComRx
begin

text \<open>
  Two modules, a sender and a receiver: a signal written on one side, transmitted, indicated and read on
  the other.
\<close>

section \<open>Reading at another address\<close>

lemma unpack_cong:
  assumes "\<And>i. i < 5 \<Longrightarrow> m (a i) = m' (a' i)" shows "unpack m a sh n = unpack m' a' sh n"
  using assms by (simp add: unpack_def read_word_def Let_def)

lemma Read_shift:
  "Com_Internal_ReadSignalDataFromPdu m p bp bs e t = Com_Internal_ReadSignalDataFromPdu (\<lambda>x. m (p + x)) 0 bp bs e t"
proof -
  have "unpack m (field_addr e p bp bs) sh n = unpack (\<lambda>x. m (p + x)) (field_addr e 0 bp bs) sh n" for sh n
    by (rule unpack_cong) (simp add: field_addr_def be_addr_def le_addr_def algebra_simps)
  then show ?thesis
    by (simp add: Com_Internal_ReadSignalDataFromPdu_def read_block_def algebra_simps cong: if_cong Com_SignalType.case_cong)
qed

text \<open>A signal whose field lies within the bytes of a unit reads the same wherever the bytes are.\<close>

definition within :: "nat \<Rightarrow> ComSignal_type \<Rightarrow> bool" where
  "within n sig \<longleftrightarrow> list_all (\<lambda>(x, k). 0 \<le> x \<and> x < int n)
     (field_bits (ComSignalEndianess sig) 0 (ComBitPosition sig) (ComBitSize sig))"

abbreviation read_signal :: "mem \<Rightarrow> int \<Rightarrow> ComSignal_type \<Rightarrow> u8 list option" where
  "read_signal m p sig \<equiv> Com_Internal_ReadSignalDataFromPdu m p (ComBitPosition sig) (ComBitSize sig)
     (ComSignalEndianess sig) (ComSignalType sig)"

definition integer_signal :: "ComSignal_type \<Rightarrow> bool" where
  "integer_signal sig \<longleftrightarrow> ComSignalEndianess sig \<noteq> COM_OPAQUE \<and> ComSignalType sig \<noteq> UINT8_N \<and> ComSignalType sig \<noteq> UINT8_DYN
     \<and> 1 \<le> unat (ComBitSize sig) \<and> unat (ComBitSize sig) \<le> 32"

lemma Read_copied:
  assumes sig: "integer_signal sig" "within n sig" and eq: "\<And>i. i < n \<Longrightarrow> m' (q + int i) = m (p + int i)"
  shows "read_signal m' q sig = read_signal m p sig"
proof -
  have "m' (q + x) = m (p + x)"
    if "(x, k) \<in> set (field_bits (ComSignalEndianess sig) 0 (ComBitPosition sig) (ComBitSize sig))" for x k
  proof -
    have "0 \<le> x" "x < int n" using that sig(2) by (auto simp: within_def list_all_iff)
    then show ?thesis using eq [of "nat x"] by simp
  qed
  then show ?thesis
    unfolding Read_shift [of m'] Read_shift [of m]
    by (intro Read_field) (use sig(1) in \<open>simp_all add: integer_signal_def\<close>)
qed

section \<open>The way of a signal\<close>

text \<open>A unit whose transmission is due and which no callout, counter or dynamic signal concerns, and a
  received unit of that kind.\<close>

definition plain_tx :: "u16 \<Rightarrow> Com \<Rightarrow> bool" where
  "plain_tx i s \<longleftrightarrow> Com_Arc_IpduStarted (ArcIPdu s ! unat i) \<and> md i s = 0
     \<and> ComTxIPduCallout (unit_conf i s) = COM_NO_FUNCTION_CALLOUT
     \<and> ComIPduDynSignalRef (unit_conf i s) = None \<and> ComIpduCounterRef (unit_conf i s) = None"

definition plain_rx :: "u16 \<Rightarrow> Com \<Rightarrow> bool" where
  "plain_rx i s \<longleftrightarrow> Com_Arc_IpduStarted (ArcIPdu s ! unat i) \<and> ComRxIPduCallout (unit_conf i s) = COM_NO_FUNCTION_CALLOUT
     \<and> ComIPduSignalProcessing (unit_conf i s) = IMMEDIATE \<and> ComIpduCounterRef (unit_conf i s) = None"

text \<open>Signal \<open>k\<close> of a module, in a unit of \<open>n\<close> bytes that no transfer of the transport layer has locked.\<close>

definition carries :: "u16 \<Rightarrow> ComSignal_type \<Rightarrow> nat \<Rightarrow> Com \<Rightarrow> bool" where
  "carries k sig n s \<longleftrightarrow> com_wf s \<and> initStatus s = COM_INIT \<and> unat k < length (ComSignal (ComConfig s))
     \<and> ComSignal (ComConfig s) ! unat k = sig \<and> ComIPduHandleId sig \<noteq> NO_PDU_REFERENCE
     \<and> \<not> locked (Com_BufferPduState s ! unat (ComIPduHandleId sig))
     \<and> unat (ComIPduSize (unit_conf (ComIPduHandleId sig) s)) = n"

lemma carriesD:
  assumes "carries k sig n s"
  shows "com_wf s" "initStatus s = COM_INIT" "GET_Signal k s = Some sig" "\<not> ComNofSignals (ComConfig s) \<le> k"
    "PduState (ComIPduHandleId sig) s = Some (Com_BufferPduState s ! unat (ComIPduHandleId sig))"
    "\<not> locked (Com_BufferPduState s ! unat (ComIPduHandleId sig))"
    "GET_IPdu (ComIPduHandleId sig) s = Some (unit_conf (ComIPduHandleId sig) s)"
    "GET_ArcIPdu (ComIPduHandleId sig) s = Some (ArcIPdu s ! unat (ComIPduHandleId sig))"
    "unat (ComIPduHandleId sig) < length (ArcIPdu s)" "\<not> ComNofIPdus (ComConfig s) \<le> ComIPduHandleId sig"
    "ComIPduHandleId sig \<noteq> NO_PDU_REFERENCE" "unat (ComIPduSize (unit_conf (ComIPduHandleId sig) s)) = n"
proof -
  show w: "com_wf s" and s: "GET_Signal k s = Some sig" "initStatus s = COM_INIT" "ComIPduHandleId sig \<noteq> NO_PDU_REFERENCE"
    "\<not> locked (Com_BufferPduState s ! unat (ComIPduHandleId sig))" "unat (ComIPduSize (unit_conf (ComIPduHandleId sig) s)) = n"
    using assms by (simp_all add: carries_def look_Some)
  have r: "unat (ComIPduHandleId sig) < length (ComIPdu (ComConfig s))" by (rule signal_in_range(3) [OF w s(1,3)])
  show "\<not> ComNofSignals (ComConfig s) \<le> k" using assms com_wf_dims(7) [OF w] by (simp add: carries_def)
  show "PduState (ComIPduHandleId sig) s = Some (Com_BufferPduState s ! unat (ComIPduHandleId sig))"
    "GET_IPdu (ComIPduHandleId sig) s = Some (unit_conf (ComIPduHandleId sig) s)"
    "GET_ArcIPdu (ComIPduHandleId sig) s = Some (ArcIPdu s ! unat (ComIPduHandleId sig))"
    "unat (ComIPduHandleId sig) < length (ArcIPdu s)" "\<not> ComNofIPdus (ComConfig s) \<le> ComIPduHandleId sig"
    using r com_wf_dims [OF w] by (simp_all add: look_Some)
qed

text \<open>Writing the signal.\<close>

definition sent_state :: "Com \<Rightarrow> ComSignal_type \<Rightarrow> mem \<Rightarrow> bool \<Rightarrow> Com" where
  "sent_state s sig m changed =
     (request_transmission sig (unit_conf (ComIPduHandleId sig) s) changed (s\<lparr>irq_off := True, mem := m\<rparr>))\<lparr>irq_off := irq_off s\<rparr>"

lemma SendSignal_effect:
  assumes c: "carries k sig n s" and t: "plain_tx (ComIPduHandleId sig) s" and u: "\<not> ComSignalArcUseUpdateBit sig"
    and w: "Com_WriteSignalDataToPdu d (ComSignalType sig) (mem s) (ComIPduDataPtr (ArcIPdu s ! unat (ComIPduHandleId sig)))
       (ComBitPosition sig) (ComBitSize sig) (ComSignalEndianess sig) = Some (m, changed)"
  shows "Com_SendSignal k d s = Some (E_OK, sent_state s sig m changed)"
  using t u w carriesD [OF c]
  by (simp add: Com_SendSignal_def sent_state_def plain_tx_def set_update_bit_def Let_def)

lemma sent_state_fields:
  assumes "unat (ComIPduHandleId sig) < length (ArcIPdu s)"
  shows "ComConfig (sent_state s sig m ch) = ComConfig s" "initStatus (sent_state s sig m ch) = initStatus s"
    "mem (sent_state s sig m ch) = m" "sent (sent_state s sig m ch) = sent s"
    "length (ArcIPdu (sent_state s sig m ch)) = length (ArcIPdu s)"
    "ComIPduDataPtr (ArcIPdu (sent_state s sig m ch) ! unat (ComIPduHandleId sig)) = ComIPduDataPtr (ArcIPdu s ! unat (ComIPduHandleId sig))"
    "md (ComIPduHandleId sig) (sent_state s sig m ch) = md (ComIPduHandleId sig) s"
  using assms by (simp_all add: sent_state_def request_transmission_def upd_timers_def upd_ipdu_def)

text \<open>Transmitting the unit.\<close>

lemma Trigger_plain:
  assumes "initStatus s = COM_INIT" and "\<not> ComNofIPdus (ComConfig s) \<le> i" and "unat i < length (ComIPdu (ComConfig s))"
    and "unat i < length (ArcIPdu s)" and "md i s = 0" and "ComTxIPduCallout (unit_conf i s) = COM_NO_FUNCTION_CALLOUT"
    and "ComIPduDynSignalRef (unit_conf i s) = None" and "ComIpduCounterRef (unit_conf i s) = None"
  shows "\<exists>t. Com_TriggerIPDUSend i s = Some t \<and> sent t = sent s
     @ [(out_id i s, read_block (mem s) (ComIPduDataPtr (ArcIPdu s ! unat i)) (unat (ComIPduSize (unit_conf i s))))]"
  using assms
  by (simp add: Com_TriggerIPDUSend_def look_def tx_callout_def transmit_def sdu_length_def Let_def UnlockTpBuffer_def)
     (simp add: upd_mem_def upd_buf_def)

text \<open>Receiving the unit.\<close>

lemma RxProcessSignals_frame:
  "mem (Com_RxProcessSignals IPdu a s) = mem s \<and> ArcIPdu (Com_RxProcessSignals IPdu a s) = ArcIPdu s
   \<and> ComConfig (Com_RxProcessSignals IPdu a s) = ComConfig s \<and> initStatus (Com_RxProcessSignals IPdu a s) = initStatus s
   \<and> Com_BufferPduState (Com_RxProcessSignals IPdu a s) = Com_BufferPduState s"
proof -
  have "mem (fold (rx_process_signal IPdu a) xs s) = mem s \<and> ArcIPdu (fold (rx_process_signal IPdu a) xs s) = ArcIPdu s
     \<and> ComConfig (fold (rx_process_signal IPdu a) xs s) = ComConfig s
     \<and> initStatus (fold (rx_process_signal IPdu a) xs s) = initStatus s
     \<and> Com_BufferPduState (fold (rx_process_signal IPdu a) xs s) = Com_BufferPduState s" for xs
    by (induction xs arbitrary: s) (simp_all add: rx_process_signal_def upd_sig_def notify_def Let_def)
  then show ?thesis by (simp add: Com_RxProcessSignals_def)
qed

lemma RxIndication_plain:
  assumes c: "carries k sig n r" and p: "plain_rx (ComIPduHandleId sig) r"
  shows "\<exists>t. Com_RxIndication (ComIPduHandleId sig) sdu r = Some t \<and> initStatus t = COM_INIT \<and> ComConfig t = ComConfig r
     \<and> ArcIPdu t = ArcIPdu r \<and> Com_BufferPduState t = Com_BufferPduState r
     \<and> mem t = write_block (mem r) (ComIPduDataPtr (ArcIPdu r ! unat (ComIPduHandleId sig))) (map (client_byte sdu) [0..<n])"
  using p carriesD [OF c]
  by (simp add: Com_RxIndication_def plain_rx_def RxProcessSignals_frame Let_def) (simp add: upd_mem_def)

lemma ReceiveSignal_plain:
  assumes c: "carries k sig n r" and p: "plain_rx (ComIPduHandleId sig) r"
    and t: "initStatus t = COM_INIT" "ComConfig t = ComConfig r" "ArcIPdu t = ArcIPdu r" "Com_BufferPduState t = Com_BufferPduState r"
    and d: "read_signal (mem t) (ComIPduDataPtr (ArcIPdu r ! unat (ComIPduHandleId sig))) sig = Some d"
  shows "Com_ReceiveSignal k t = Some (E_OK, Some d)"
  using p t d carriesD [OF c] by (simp add: Com_ReceiveSignal_def plain_rx_def)



end
