(* ===== verification/ComM.thy ===== *)
theory ComM
  imports Pwc_Prelude
begin

text \<open>
  The communication manager (\<open>core/communication/ComM\<close>): users request communication modes, the network
  management and the bus state managers indicate what happens on the bus, and the manager keeps a state
  machine per channel from which it requests modes of the bus and the network.

  The build: error reports, mode limitation, both bus state managers and the network management are on, the
  callbacks to the mode manager and to diagnostics off.  What is requested of the bus state managers and of
  the network management is recorded; they answer by functions of the configuration and call back later.
  The channel count and the user count are the lengths of the two tables.  \<open>None\<close> is an access behind a
  table, where a service does not check the channel it is given.
\<close>

section \<open>Types (\<open>include/ComM_Types.h\<close>, \<open>include/ComM_ConfigTypes.h\<close>, \<open>ComM_Internal.h\<close>)\<close>

datatype ComM_StateType = COMM_NO_COM_NO_PENDING_REQUEST | COMM_NO_COM_REQUEST_PENDING
  | COMM_FULL_COM_NETWORK_REQUESTED | COMM_FULL_COM_READY_SLEEP | COMM_SILENT_COM
datatype ComM_InitStatusType = COMM_UNINIT | COMM_INIT
datatype ComM_BusTypeType = COMM_BUS_TYPE_CAN | COMM_BUS_TYPE_FR | COMM_BUS_TYPE_INTERNAL | COMM_BUS_TYPE_LIN
datatype ComM_NmVariantType = COMM_NM_VARIANT_NONE | COMM_NM_VARIANT_LIGHT | COMM_NM_VARIANT_PASSIVE | COMM_NM_VARIANT_FULL

abbreviation COMM_NO_COMMUNICATION :: u8 where "COMM_NO_COMMUNICATION \<equiv> 0"
abbreviation COMM_SILENT_COMMUNICATION :: u8 where "COMM_SILENT_COMMUNICATION \<equiv> 1"
abbreviation COMM_FULL_COMMUNICATION :: u8 where "COMM_FULL_COMMUNICATION \<equiv> 2"

abbreviation INHIBIT_WAKE_UP :: nat where "INHIBIT_WAKE_UP \<equiv> 0"
abbreviation INHIBIT_NO_COMMUNICATION :: nat where "INHIBIT_NO_COMMUNICATION \<equiv> 1"

text \<open>The masks are single bits, named here by their number.\<close>

abbreviation NM_NETWORK_MODE :: nat where "NM_NETWORK_MODE \<equiv> 0"
abbreviation NM_PREPARE_BUS_SLEEP :: nat where "NM_PREPARE_BUS_SLEEP \<equiv> 1"
abbreviation NM_BUS_SLEEP :: nat where "NM_BUS_SLEEP \<equiv> 2"
abbreviation NM_RESTART :: nat where "NM_RESTART \<equiv> 3"

abbreviation ret_UNINIT :: Std_ReturnType where "ret_UNINIT \<equiv> 3"
abbreviation det_NOT_INITED :: u8 where "det_NOT_INITED \<equiv> 1"
abbreviation det_WRONG_PARAMETERS :: u8 where "det_WRONG_PARAMETERS \<equiv> 2"

record ComM_ChannelType =
  BusType :: ComM_BusTypeType
  BusSMNetworkHandle :: u8
  NmChannelHandle :: u8
  NmVariant :: ComM_NmVariantType
  MainFunctionPeriod :: u32
  LightTimeout :: u32
  Number :: u8

record ComM_ConfigType =
  ChannelTable :: "ComM_ChannelType list"
  UserTable :: "ComM_ChannelType list list"
  T_MIN_FULL_COM_MODE_DURATION :: u32
  bussm_answer :: "nat \<Rightarrow> ComM_BusTypeType \<Rightarrow> u8 \<Rightarrow> u8 \<Rightarrow> Std_ReturnType"
  bussm_mode :: "ComM_BusTypeType \<Rightarrow> u8 \<Rightarrow> Std_ReturnType \<times> u8"
  nm_answer :: "nat \<Rightarrow> u8 \<Rightarrow> bool \<Rightarrow> Std_ReturnType"

record ComM_Internal_ChannelType =
  Mode :: u8
  SubMode :: ComM_StateType
  UserRequestMask :: u32
  InhibitionStatus :: u8
  FullComMinDurationTimeLeft :: u32
  LightTimeoutTimeLeft :: u32
  NmIndicationMask :: u8
  CommunicationAllowed :: bool
  DCM_Requested :: bool
  RequestedSubMode :: ComM_StateType

record ComM_InternalType =
  InitStatus :: ComM_InitStatusType
  ComM_Config :: ComM_ConfigType
  Channels :: "ComM_Internal_ChannelType list"
  Users :: "u8 list"
  NoCommunication :: bool
  InhibitCounter :: u16
  reports :: "(u8 \<times> u8) list"
  bus_requests :: "(ComM_BusTypeType \<times> u8 \<times> u8) list"
  nm_requests :: "(u8 \<times> bool) list"

section \<open>The runtime data of a channel\<close>

abbreviation chan :: "u8 \<Rightarrow> ComM_InternalType \<Rightarrow> ComM_Internal_ChannelType" where
  "chan n s \<equiv> Channels s ! unat n"

definition upd_chan :: "u8 \<Rightarrow> (ComM_Internal_ChannelType \<Rightarrow> ComM_Internal_ChannelType) \<Rightarrow> ComM_InternalType \<Rightarrow> ComM_InternalType" where
  "upd_chan n f s = s\<lparr>Channels := (Channels s)[unat n := f (chan n s)]\<rparr>"

abbreviation indicated :: "nat \<Rightarrow> u8 \<Rightarrow> ComM_InternalType \<Rightarrow> bool" where
  "indicated b n s \<equiv> bit (NmIndicationMask (chan n s)) b"

definition set_indication :: "nat \<Rightarrow> u8 \<Rightarrow> ComM_InternalType \<Rightarrow> ComM_InternalType" where
  "set_indication b n = upd_chan n (NmIndicationMask_update (set_bit b))"

definition clear_indication :: "nat \<Rightarrow> u8 \<Rightarrow> ComM_InternalType \<Rightarrow> ComM_InternalType" where
  "clear_indication b n = upd_chan n (NmIndicationMask_update (unset_bit b))"

definition Det_report :: "u8 \<Rightarrow> u8 \<Rightarrow> ComM_InternalType \<Rightarrow> ComM_InternalType" where
  "Det_report service err s = s\<lparr>reports := reports s @ [(service, err)]\<rparr>"

section \<open>Requests to other modules\<close>

definition ComM_Internal_PropagateComMode :: "ComM_ChannelType \<Rightarrow> u8 \<Rightarrow> ComM_InternalType \<Rightarrow> Std_ReturnType \<times> ComM_InternalType" where
  "ComM_Internal_PropagateComMode c m s =
     (if BusType c = COMM_BUS_TYPE_CAN \<or> BusType c = COMM_BUS_TYPE_LIN then
        (bussm_answer (ComM_Config s) (length (bus_requests s)) (BusType c) (BusSMNetworkHandle c) m,
         s\<lparr>bus_requests := bus_requests s @ [(BusType c, BusSMNetworkHandle c, m)]\<rparr>)
      else (E_NOT_OK, s))"

definition request_nm :: "u8 \<Rightarrow> bool \<Rightarrow> ComM_InternalType \<Rightarrow> Std_ReturnType \<times> ComM_InternalType" where
  "request_nm h b s = (nm_answer (ComM_Config s) (length (nm_requests s)) h b, s\<lparr>nm_requests := nm_requests s @ [(h, b)]\<rparr>)"

definition ComM_Internal_NotifyNm :: "ComM_ChannelType \<Rightarrow> ComM_InternalType \<Rightarrow> Std_ReturnType \<times> ComM_InternalType" where
  "ComM_Internal_NotifyNm c s =
     (let ch = chan (Number c) s in
      if Mode ch \<noteq> COMM_FULL_COMMUNICATION then (E_OK, s)
      else if NmVariant c = COMM_NM_VARIANT_FULL then
        (if SubMode ch = COMM_FULL_COM_NETWORK_REQUESTED then request_nm (NmChannelHandle c) True s
         else if SubMode ch = COMM_FULL_COM_READY_SLEEP then request_nm (NmChannelHandle c) False s
         else (E_OK, s))
      else if NmVariant c = COMM_NM_VARIANT_NONE \<or> NmVariant c = COMM_NM_VARIANT_LIGHT then
        (if SubMode ch = COMM_FULL_COM_NETWORK_REQUESTED then
           (E_OK, upd_chan (Number c) (FullComMinDurationTimeLeft_update (\<lambda>_. T_MIN_FULL_COM_MODE_DURATION (ComM_Config s))) s)
         else if SubMode ch = COMM_FULL_COM_READY_SLEEP then
           (E_OK, upd_chan (Number c) (LightTimeoutTimeLeft_update (\<lambda>_. LightTimeout c)) s)
         else (E_OK, s))
      else (E_OK, s))"

section \<open>Transitions\<close>

definition ComM_Internal_Enter_NoCom :: "ComM_ChannelType \<Rightarrow> ComM_InternalType \<Rightarrow> Std_ReturnType \<times> ComM_InternalType" where
  "ComM_Internal_Enter_NoCom c s =
     ComM_Internal_PropagateComMode c COMM_NO_COMMUNICATION
       (upd_chan (Number c) (RequestedSubMode_update (\<lambda>_. COMM_NO_COM_NO_PENDING_REQUEST)) s)"

definition ComM_Internal_Enter_SilentCom :: "ComM_ChannelType \<Rightarrow> ComM_InternalType \<Rightarrow> Std_ReturnType \<times> ComM_InternalType" where
  "ComM_Internal_Enter_SilentCom c s =
     ComM_Internal_PropagateComMode c COMM_SILENT_COMMUNICATION
       (upd_chan (Number c) (RequestedSubMode_update (\<lambda>_. COMM_SILENT_COM)) s)"

definition ComM_Internal_Enter_NetworkRequested :: "ComM_ChannelType \<Rightarrow> ComM_InternalType \<Rightarrow> Std_ReturnType \<times> ComM_InternalType" where
  "ComM_Internal_Enter_NetworkRequested c s =
     (let s1 = (if SubMode (chan (Number c) s) = COMM_NO_COM_NO_PENDING_REQUEST
                then upd_chan (Number c) (SubMode_update (\<lambda>_. COMM_NO_COM_REQUEST_PENDING)) s else s) in
      if CommunicationAllowed (chan (Number c) s1) then
        (let (status, s2) = ComM_Internal_PropagateComMode c COMM_FULL_COMMUNICATION s1 in
         (status, if status = E_OK
                  then upd_chan (Number c) (RequestedSubMode_update (\<lambda>_. COMM_FULL_COM_NETWORK_REQUESTED)) s2 else s2))
      else (E_OK, s1))"

definition ComM_Internal_Enter_ReadySleep :: "ComM_ChannelType \<Rightarrow> ComM_InternalType \<Rightarrow> Std_ReturnType \<times> ComM_InternalType" where
  "ComM_Internal_Enter_ReadySleep c s =
     (if Mode (chan (Number c) s) \<noteq> COMM_FULL_COMMUNICATION then
        ComM_Internal_PropagateComMode c COMM_FULL_COMMUNICATION
          (upd_chan (Number c) (RequestedSubMode_update (\<lambda>_. COMM_FULL_COM_READY_SLEEP)) s)
      else ComM_Internal_NotifyNm c (upd_chan (Number c) (SubMode_update (\<lambda>_. COMM_FULL_COM_READY_SLEEP)) s))"

definition ComM_Internal_FullComMinTime_AllowsExit :: "ComM_ChannelType \<Rightarrow> ComM_Internal_ChannelType \<Rightarrow> bool" where
  "ComM_Internal_FullComMinTime_AllowsExit c ch =
     (if NmVariant c = COMM_NM_VARIANT_LIGHT \<or> NmVariant c = COMM_NM_VARIANT_NONE
      then FullComMinDurationTimeLeft ch = 0 else True)"

text \<open>The guards the three updates share.\<close>

definition inhibited :: "u8 \<Rightarrow> ComM_InternalType \<Rightarrow> bool" where
  "inhibited n s \<longleftrightarrow> (bit (InhibitionStatus (chan n s)) INHIBIT_NO_COMMUNICATION \<or> NoCommunication s) \<and> \<not> DCM_Requested (chan n s)"

definition requested :: "u8 \<Rightarrow> ComM_InternalType \<Rightarrow> bool" where
  "requested n s \<longleftrightarrow> UserRequestMask (chan n s) \<noteq> 0 \<or> DCM_Requested (chan n s)"

definition count_inhibited :: "bool \<Rightarrow> ComM_InternalType \<Rightarrow> ComM_InternalType" where
  "count_inhibited isRequest s =
     (if isRequest \<and> InhibitCounter s < 65535 then s\<lparr>InhibitCounter := InhibitCounter s + 1\<rparr> else s)"

definition ComM_Internal_UpdateFromNoCom :: "ComM_ChannelType \<Rightarrow> bool \<Rightarrow> ComM_InternalType \<Rightarrow> Std_ReturnType \<times> ComM_InternalType" where
  "ComM_Internal_UpdateFromNoCom c isRequest s =
     (let n = Number c in
      if indicated NM_RESTART n s then
        (let (status, s1) = ComM_Internal_Enter_NetworkRequested c s in (status, clear_indication NM_RESTART n s1))
      else if (bit (InhibitionStatus (chan n s)) INHIBIT_NO_COMMUNICATION \<or> bit (InhibitionStatus (chan n s)) INHIBIT_WAKE_UP
               \<or> NoCommunication s) \<and> \<not> DCM_Requested (chan n s) then (E_OK, count_inhibited isRequest s)
      else if requested n s then ComM_Internal_Enter_NetworkRequested c s
      else (E_OK, upd_chan n (SubMode_update (\<lambda>_. COMM_NO_COM_NO_PENDING_REQUEST)) s))"

definition ComM_Internal_UpdateFromSilentCom :: "ComM_ChannelType \<Rightarrow> bool \<Rightarrow> ComM_InternalType \<Rightarrow> Std_ReturnType \<times> ComM_InternalType" where
  "ComM_Internal_UpdateFromSilentCom c isRequest s =
     (let n = Number c in
      if indicated NM_RESTART n s then
        (let (status, s1) = ComM_Internal_Enter_ReadySleep c s in (status, clear_indication NM_RESTART n s1))
      else if indicated NM_BUS_SLEEP n s then
        (let (status, s1) = ComM_Internal_Enter_NoCom c s in (status, clear_indication NM_BUS_SLEEP n s1))
      else if indicated NM_NETWORK_MODE n s then
        (let (status, s1) = ComM_Internal_Enter_ReadySleep c s in (status, clear_indication NM_NETWORK_MODE n s1))
      else if inhibited n s then (E_OK, count_inhibited isRequest s)
      else if requested n s then ComM_Internal_Enter_NetworkRequested c s
      else (E_OK, s))"

definition leave_full :: "ComM_ChannelType \<Rightarrow> ComM_InternalType \<Rightarrow> Std_ReturnType \<times> ComM_InternalType" where
  "leave_full c s =
     (let ch = chan (Number c) s in
      if ComM_Internal_FullComMinTime_AllowsExit c ch then
        (if SubMode ch = COMM_FULL_COM_READY_SLEEP then
           (if NmVariant c = COMM_NM_VARIANT_LIGHT \<and> LightTimeoutTimeLeft ch = 0 then ComM_Internal_Enter_NoCom c s else (E_OK, s))
         else ComM_Internal_Enter_ReadySleep c s)
      else (E_OK, s))"

definition ComM_Internal_UpdateFromFullCom :: "ComM_ChannelType \<Rightarrow> bool \<Rightarrow> ComM_InternalType \<Rightarrow> Std_ReturnType \<times> ComM_InternalType" where
  "ComM_Internal_UpdateFromFullCom c isRequest s =
     (let n = Number c; ch = chan n s in
      if indicated NM_BUS_SLEEP n s then
        (let (status, s1) = ComM_Internal_Enter_NoCom c s in (status, clear_indication NM_BUS_SLEEP n s1))
      else if indicated NM_PREPARE_BUS_SLEEP n s
         \<and> (SubMode ch = COMM_FULL_COM_NETWORK_REQUESTED \<and> NmVariant c = COMM_NM_VARIANT_PASSIVE \<or> SubMode ch = COMM_FULL_COM_READY_SLEEP) then
        (let (status, s1) = ComM_Internal_Enter_SilentCom c s in (status, clear_indication NM_PREPARE_BUS_SLEEP n s1))
      else if inhibited n s then
        (let (status, s1) = leave_full c s in (status, count_inhibited isRequest s1))
      else if \<not> requested n s then leave_full c s
      else if SubMode ch \<noteq> COMM_FULL_COM_NETWORK_REQUESTED then ComM_Internal_Enter_NetworkRequested c s
      else (E_OK, s))"

definition ComM_Internal_UpdateChannelState :: "ComM_ChannelType \<Rightarrow> bool \<Rightarrow> ComM_InternalType \<Rightarrow> Std_ReturnType \<times> ComM_InternalType" where
  "ComM_Internal_UpdateChannelState c isRequest s =
     (let m = Mode (chan (Number c) s) in
      if m = COMM_NO_COMMUNICATION then ComM_Internal_UpdateFromNoCom c isRequest s
      else if m = COMM_SILENT_COMMUNICATION then ComM_Internal_UpdateFromSilentCom c isRequest s
      else if m = COMM_FULL_COMMUNICATION then ComM_Internal_UpdateFromFullCom c isRequest s
      else (E_NOT_OK, s))"

section \<open>Services\<close>

text \<open>The validation that opens a service: not initialised, then a channel or user out of range.\<close>

definition validated :: "u8 \<Rightarrow> bool \<Rightarrow> ComM_InternalType \<Rightarrow> (Std_ReturnType \<times> ComM_InternalType) \<Rightarrow> Std_ReturnType \<times> ComM_InternalType" where
  "validated service ok s body =
     (if InitStatus s \<noteq> COMM_INIT then (ret_UNINIT, Det_report service det_NOT_INITED s)
      else if \<not> ok then (E_NOT_OK, Det_report service det_WRONG_PARAMETERS s)
      else body)"

abbreviation channel_ok :: "u8 \<Rightarrow> ComM_InternalType \<Rightarrow> bool" where "channel_ok n s \<equiv> unat n < length (Channels s)"
abbreviation user_ok :: "u8 \<Rightarrow> ComM_InternalType \<Rightarrow> bool" where "user_ok u s \<equiv> unat u < length (Users s)"
abbreviation conf :: "u8 \<Rightarrow> ComM_InternalType \<Rightarrow> ComM_ChannelType" where "conf n s \<equiv> ChannelTable (ComM_Config s) ! unat n"

definition init_channel :: "ComM_Internal_ChannelType \<Rightarrow> ComM_Internal_ChannelType" where
  "init_channel ch = ch\<lparr>Mode := COMM_NO_COMMUNICATION, SubMode := COMM_NO_COM_NO_PENDING_REQUEST,
     RequestedSubMode := COMM_NO_COM_NO_PENDING_REQUEST, UserRequestMask := 0, DCM_Requested := False,
     InhibitionStatus := 0, NmIndicationMask := 0, CommunicationAllowed := False\<rparr>"

definition ComM_Init :: "ComM_ConfigType option \<Rightarrow> ComM_InternalType \<Rightarrow> ComM_InternalType" where
  "ComM_Init config s =
     (case config of
        None \<Rightarrow> Det_report 0x01 det_WRONG_PARAMETERS s
      | Some c \<Rightarrow> s\<lparr>ComM_Config := c, Channels := map init_channel (Channels s),
          Users := map (\<lambda>_. COMM_NO_COMMUNICATION) (Users s), InhibitCounter := 0, InitStatus := COMM_INIT\<rparr>)"

definition ComM_DeInit :: "ComM_InternalType \<Rightarrow> ComM_InternalType" where
  "ComM_DeInit s = snd (validated 0x02 True s (E_OK, s\<lparr>InitStatus := COMM_UNINIT\<rparr>))"

definition ComM_GetState :: "u8 \<Rightarrow> ComM_InternalType \<Rightarrow> (Std_ReturnType \<times> ComM_StateType option \<times> ComM_InternalType) option" where
  "ComM_GetState n s =
     (if InitStatus s \<noteq> COMM_INIT then Some (ret_UNINIT, None, Det_report 0x34 det_NOT_INITED s)
      else if channel_ok n s then Some (E_OK, Some (SubMode (chan n s)), s) else None)"

definition ComM_GetStatus :: "ComM_InternalType \<Rightarrow> Std_ReturnType \<times> ComM_InitStatusType" where
  "ComM_GetStatus s = (E_OK, InitStatus s)"

definition ComM_GetInhibitionStatus :: "u8 \<Rightarrow> ComM_InternalType \<Rightarrow> (Std_ReturnType \<times> u8 option \<times> ComM_InternalType) option" where
  "ComM_GetInhibitionStatus n s =
     (if InitStatus s \<noteq> COMM_INIT then Some (ret_UNINIT, None, Det_report 0x04 det_NOT_INITED s)
      else if channel_ok n s then Some (E_OK, Some (InhibitionStatus (chan n s)), s) else None)"

text \<open>A request of a user: it is noted in every channel of the user, and each is updated.\<close>

definition note_request :: "u8 \<Rightarrow> u8 \<Rightarrow> u32 \<Rightarrow> u32" where
  "note_request u m w = (if m = COMM_NO_COMMUNICATION then unset_bit (unat u) w
     else if m = COMM_FULL_COMMUNICATION then set_bit (unat u) w else w)"

definition request_channel :: "u8 \<Rightarrow> u8 \<Rightarrow> ComM_ChannelType \<Rightarrow> Std_ReturnType \<times> ComM_InternalType \<Rightarrow> Std_ReturnType \<times> ComM_InternalType" where
  "request_channel u m c = (\<lambda>(requestStatus, s).
     let (status, s1) = ComM_Internal_UpdateChannelState c True (upd_chan (Number c) (UserRequestMask_update (note_request u m)) s)
     in (if status > requestStatus then status else requestStatus, s1))"

definition ComM_Internal_RequestComMode :: "u8 \<Rightarrow> u8 \<Rightarrow> ComM_InternalType \<Rightarrow> Std_ReturnType \<times> ComM_InternalType" where
  "ComM_Internal_RequestComMode u m s =
     fold (request_channel u m) (UserTable (ComM_Config s) ! unat u) (E_OK, s\<lparr>Users := (Users s)[unat u := m]\<rparr>)"

definition ComM_RequestComMode :: "u8 \<Rightarrow> u8 \<Rightarrow> ComM_InternalType \<Rightarrow> Std_ReturnType \<times> ComM_InternalType" where
  "ComM_RequestComMode u m s =
     validated 0x05 (user_ok u s \<and> m \<noteq> COMM_SILENT_COMMUNICATION) s (ComM_Internal_RequestComMode u m s)"

definition ComM_GetMaxComMode :: "u8 \<Rightarrow> ComM_InternalType \<Rightarrow> Std_ReturnType \<times> ComM_InternalType" where
  "ComM_GetMaxComMode u s = validated 0x06 (user_ok u s) s (E_NOT_OK, s)"

definition ComM_GetRequestedComMode :: "u8 \<Rightarrow> ComM_InternalType \<Rightarrow> u8 option \<times> Std_ReturnType \<times> ComM_InternalType" where
  "ComM_GetRequestedComMode u s =
     (if InitStatus s = COMM_INIT \<and> user_ok u s then Some (Users s ! unat u) else None, validated 0x07 (user_ok u s) s (E_OK, s))"

text \<open>The least mode of the user's channels.\<close>

definition ComM_Internal_PropagateGetCurrentComMode :: "u8 \<Rightarrow> ComM_InternalType \<Rightarrow> u8 \<times> Std_ReturnType" where
  "ComM_Internal_PropagateGetCurrentComMode u s =
     fold (\<lambda>c (requestMode, totalStatus).
         let (status, m) = (if BusType c = COMM_BUS_TYPE_CAN \<or> BusType c = COMM_BUS_TYPE_LIN
               then bussm_mode (ComM_Config s) (BusType c) (BusSMNetworkHandle c) else (E_NOT_OK, COMM_FULL_COMMUNICATION))
         in if status = E_OK then (if m < requestMode then m else requestMode, totalStatus) else (requestMode, status))
       (UserTable (ComM_Config s) ! unat u) (COMM_FULL_COMMUNICATION, E_OK)"

definition ComM_GetCurrentComMode :: "u8 \<Rightarrow> ComM_InternalType \<Rightarrow> u8 option \<times> Std_ReturnType \<times> ComM_InternalType" where
  "ComM_GetCurrentComMode u s =
     (let (m, st) = ComM_Internal_PropagateGetCurrentComMode u s in
      (if InitStatus s = COMM_INIT \<and> user_ok u s then Some m else None, validated 0x08 (user_ok u s) s (st, s)))"

definition set_inhibition :: "nat \<Rightarrow> bool \<Rightarrow> u8 \<Rightarrow> ComM_InternalType \<Rightarrow> ComM_InternalType" where
  "set_inhibition b Status n = upd_chan n (InhibitionStatus_update (if Status then set_bit b else unset_bit b))"

definition ComM_PreventWakeUp :: "u8 \<Rightarrow> bool \<Rightarrow> ComM_InternalType \<Rightarrow> Std_ReturnType \<times> ComM_InternalType" where
  "ComM_PreventWakeUp n Status s = validated 0x09 (channel_ok n s) s (E_OK, set_inhibition INHIBIT_WAKE_UP Status n s)"

definition ComM_LimitChannelToNoComMode :: "u8 \<Rightarrow> bool \<Rightarrow> ComM_InternalType \<Rightarrow> Std_ReturnType \<times> ComM_InternalType" where
  "ComM_LimitChannelToNoComMode n Status s =
     validated 0x0b (channel_ok n s) s
       (ComM_Internal_UpdateChannelState (conf n s) False (set_inhibition INHIBIT_NO_COMMUNICATION Status n s))"

definition update_all :: "ComM_InternalType \<Rightarrow> Std_ReturnType \<times> ComM_InternalType" where
  "update_all s = fold (\<lambda>i (totalStatus, s).
       let (status, s1) = ComM_Internal_UpdateChannelState (ChannelTable (ComM_Config s) ! i) False s
       in (if status > totalStatus then status else totalStatus, s1)) [0..<length (Channels s)] (E_OK, s)"

definition ComM_LimitECUToNoComMode :: "bool \<Rightarrow> ComM_InternalType \<Rightarrow> Std_ReturnType \<times> ComM_InternalType" where
  "ComM_LimitECUToNoComMode Status s = validated 0x0c True s (update_all (s\<lparr>NoCommunication := Status\<rparr>))"

definition ComM_ReadInhibitCounter :: "ComM_InternalType \<Rightarrow> u16 option \<times> Std_ReturnType \<times> ComM_InternalType" where
  "ComM_ReadInhibitCounter s = (if InitStatus s = COMM_INIT then Some (InhibitCounter s) else None, validated 0x0d True s (E_OK, s))"

definition ComM_ResetInhibitCounter :: "ComM_InternalType \<Rightarrow> Std_ReturnType \<times> ComM_InternalType" where
  "ComM_ResetInhibitCounter s = validated 0x0e True s (E_OK, s\<lparr>InhibitCounter := 0\<rparr>)"

definition ComM_SetECUGroupClassification :: "ComM_InternalType \<Rightarrow> Std_ReturnType \<times> ComM_InternalType" where
  "ComM_SetECUGroupClassification s = validated 0x0f True s (E_NOT_OK, s)"

section \<open>Indications\<close>

text \<open>The indications of the network management: noted, then the channel is updated.\<close>

definition nm_indication :: "u8 \<Rightarrow> nat \<Rightarrow> bool \<Rightarrow> u8 \<Rightarrow> ComM_InternalType \<Rightarrow> ComM_InternalType" where
  "nm_indication service b isRequest n s =
     snd (validated service (channel_ok n s) s (ComM_Internal_UpdateChannelState (conf n s) isRequest (set_indication b n s)))"

definition ComM_Nm_NetworkStartIndication :: "u8 \<Rightarrow> ComM_InternalType \<Rightarrow> ComM_InternalType" where
  "ComM_Nm_NetworkStartIndication = nm_indication 0x15 NM_RESTART False"
definition ComM_Nm_NetworkMode :: "u8 \<Rightarrow> ComM_InternalType \<Rightarrow> ComM_InternalType" where
  "ComM_Nm_NetworkMode = nm_indication 0x18 NM_NETWORK_MODE False"
definition ComM_Nm_PrepareBusSleepMode :: "u8 \<Rightarrow> ComM_InternalType \<Rightarrow> ComM_InternalType" where
  "ComM_Nm_PrepareBusSleepMode = nm_indication 0x19 NM_PREPARE_BUS_SLEEP False"
definition ComM_Nm_BusSleepMode :: "u8 \<Rightarrow> ComM_InternalType \<Rightarrow> ComM_InternalType" where
  "ComM_Nm_BusSleepMode = nm_indication 0x1a NM_BUS_SLEEP False"
definition ComM_Nm_RestartIndication :: "u8 \<Rightarrow> ComM_InternalType \<Rightarrow> ComM_InternalType" where
  "ComM_Nm_RestartIndication = nm_indication 0x1b NM_RESTART True"

definition ComM_EcuM_WakeUpIndication :: "u8 \<Rightarrow> ComM_InternalType \<Rightarrow> ComM_InternalType" where
  "ComM_EcuM_WakeUpIndication n s = snd (validated 0x2a (channel_ok n s) s (E_OK, s))"

definition dcm_indication :: "u8 \<Rightarrow> bool \<Rightarrow> u8 \<Rightarrow> ComM_InternalType \<Rightarrow> ComM_InternalType" where
  "dcm_indication service active n s =
     snd (validated service (channel_ok n s) s
       (ComM_Internal_UpdateChannelState (conf n s) False (upd_chan n (DCM_Requested_update (\<lambda>_. active)) s)))"

definition ComM_DCM_ActiveDiagnostic :: "u8 \<Rightarrow> ComM_InternalType \<Rightarrow> ComM_InternalType" where
  "ComM_DCM_ActiveDiagnostic = dcm_indication 0x1f True"
definition ComM_DCM_InactiveDiagnostic :: "u8 \<Rightarrow> ComM_InternalType \<Rightarrow> ComM_InternalType" where
  "ComM_DCM_InactiveDiagnostic = dcm_indication 0x20 False"

definition ComM_BusSM_ModeIndication :: "u8 \<Rightarrow> u8 \<Rightarrow> ComM_InternalType \<Rightarrow> ComM_InternalType" where
  "ComM_BusSM_ModeIndication n m s =
     snd (validated 0x33 (channel_ok n s) s
       (let s1 = upd_chan n (\<lambda>ch. ch\<lparr>Mode := m, SubMode := RequestedSubMode ch\<rparr>) s in
        if m = COMM_FULL_COMMUNICATION then ComM_Internal_NotifyNm (conf n s1) s1 else (E_OK, s1)))"

definition ComM_CommunicationAllowed :: "u8 \<Rightarrow> bool \<Rightarrow> ComM_InternalType \<Rightarrow> ComM_InternalType" where
  "ComM_CommunicationAllowed n Allowed s =
     snd (validated 0x35 (channel_ok n s) s (E_OK, upd_chan n (CommunicationAllowed_update (\<lambda>_. Allowed)) s))"

section \<open>The main function\<close>

definition ComM_Internal_TickFullComMinTime :: "ComM_ChannelType \<Rightarrow> u8 \<Rightarrow> ComM_InternalType \<Rightarrow> Std_ReturnType \<times> ComM_InternalType" where
  "ComM_Internal_TickFullComMinTime c n s =
     (if Mode (chan n s) = COMM_FULL_COMMUNICATION then
        (if MainFunctionPeriod c \<ge> FullComMinDurationTimeLeft (chan n s) then
           ComM_Internal_UpdateChannelState c False (upd_chan n (FullComMinDurationTimeLeft_update (\<lambda>_. 0)) s)
         else (E_OK, upd_chan n (FullComMinDurationTimeLeft_update (\<lambda>t. t - MainFunctionPeriod c)) s))
      else (E_OK, s))"

definition ComM_Internal_TickLightTime :: "ComM_ChannelType \<Rightarrow> u8 \<Rightarrow> ComM_InternalType \<Rightarrow> Std_ReturnType \<times> ComM_InternalType" where
  "ComM_Internal_TickLightTime c n s =
     (if Mode (chan n s) = COMM_FULL_COMMUNICATION \<and> SubMode (chan n s) = COMM_FULL_COM_READY_SLEEP then
        (if MainFunctionPeriod c \<ge> LightTimeoutTimeLeft (chan n s) then
           ComM_Internal_UpdateChannelState c False (upd_chan n (LightTimeoutTimeLeft_update (\<lambda>_. 0)) s)
         else (E_OK, upd_chan n (LightTimeoutTimeLeft_update (\<lambda>t. t - MainFunctionPeriod c)) s))
      else (E_OK, s))"

text \<open>The main function of a channel checks neither the initialisation nor the channel.\<close>

definition ComM_MainFunction :: "u8 \<Rightarrow> ComM_InternalType \<Rightarrow> ComM_InternalType option" where
  "ComM_MainFunction n s =
     (if \<not> channel_ok n s \<or> \<not> unat n < length (ChannelTable (ComM_Config s)) then None
      else
       (let c = conf n s;
            s1 = (if NmVariant c = COMM_NM_VARIANT_NONE \<or> NmVariant c = COMM_NM_VARIANT_LIGHT
                  then snd (ComM_Internal_TickFullComMinTime c n s) else s);
            s2 = (if NmVariant c = COMM_NM_VARIANT_LIGHT then snd (ComM_Internal_TickLightTime c n s1) else s1)
        in Some (if Mode (chan n s2) = COMM_NO_COMMUNICATION \<and> SubMode (chan n s2) = COMM_NO_COM_REQUEST_PENDING
                 then snd (ComM_Internal_UpdateChannelState c False s2) else s2)))"

end
