(* ===== verification/ComMProps.thy ===== *)
theory ComMProps
  imports ComM
begin

text \<open>
  What the communication manager promises: the masks of a channel are exactly the demands of its users,
  communication is asked of a bus only when it is wanted, a channel nobody wants goes to sleep in time, and
  the state of a channel is that of its mode as long as the bus follows the requests.
\<close>

section \<open>Sequences of calls\<close>

datatype comm_call =
    Call_RequestComMode u8 u8
  | Call_PreventWakeUp u8 bool
  | Call_LimitChannel u8 bool
  | Call_LimitECU bool
  | Call_ResetInhibitCounter
  | Call_NetworkStart u8
  | Call_NetworkMode u8
  | Call_PrepareBusSleep u8
  | Call_BusSleep u8
  | Call_Restart u8
  | Call_ActiveDiagnostic u8
  | Call_InactiveDiagnostic u8
  | Call_ModeIndication u8 u8
  | Call_CommunicationAllowed u8 bool
  | Call_MainFunction u8
  | Call_DeInit

fun comm_do :: "comm_call \<Rightarrow> ComM_InternalType \<Rightarrow> ComM_InternalType option" where
  "comm_do (Call_RequestComMode u m) s = Some (snd (ComM_RequestComMode u m s))"
| "comm_do (Call_PreventWakeUp n b) s = Some (snd (ComM_PreventWakeUp n b s))"
| "comm_do (Call_LimitChannel n b) s = Some (snd (ComM_LimitChannelToNoComMode n b s))"
| "comm_do (Call_LimitECU b) s = Some (snd (ComM_LimitECUToNoComMode b s))"
| "comm_do Call_ResetInhibitCounter s = Some (snd (ComM_ResetInhibitCounter s))"
| "comm_do (Call_NetworkStart n) s = Some (ComM_Nm_NetworkStartIndication n s)"
| "comm_do (Call_NetworkMode n) s = Some (ComM_Nm_NetworkMode n s)"
| "comm_do (Call_PrepareBusSleep n) s = Some (ComM_Nm_PrepareBusSleepMode n s)"
| "comm_do (Call_BusSleep n) s = Some (ComM_Nm_BusSleepMode n s)"
| "comm_do (Call_Restart n) s = Some (ComM_Nm_RestartIndication n s)"
| "comm_do (Call_ActiveDiagnostic n) s = Some (ComM_DCM_ActiveDiagnostic n s)"
| "comm_do (Call_InactiveDiagnostic n) s = Some (ComM_DCM_InactiveDiagnostic n s)"
| "comm_do (Call_ModeIndication n m) s = Some (ComM_BusSM_ModeIndication n m s)"
| "comm_do (Call_CommunicationAllowed n b) s = Some (ComM_CommunicationAllowed n b s)"
| "comm_do (Call_MainFunction n) s = ComM_MainFunction n s"
| "comm_do Call_DeInit s = Some (ComM_DeInit s)"

text \<open>Runs whose calls satisfy a condition on the call and the state it is made in.\<close>

inductive comm_runs :: "(comm_call \<Rightarrow> ComM_InternalType \<Rightarrow> bool) \<Rightarrow> ComM_InternalType \<Rightarrow> comm_call list \<Rightarrow> ComM_InternalType \<Rightarrow> bool"
  for P where
  runs_Nil: "comm_runs P s [] s"
| runs_Cons: "P c s \<Longrightarrow> comm_do c s = Some t \<Longrightarrow> comm_runs P t cs u \<Longrightarrow> comm_runs P s (c # cs) u"

inductive_cases runs_NilE [elim!]: "comm_runs P s [] u"
inductive_cases runs_ConsE [elim!]: "comm_runs P s (c # cs) u"

lemma runs_invariant:
  assumes "comm_runs P s cs t" and "I s" and "\<And>c s t. I s \<Longrightarrow> P c s \<Longrightarrow> comm_do c s = Some t \<Longrightarrow> I t"
  shows "I t"
  using assms by (induction rule: comm_runs.induct) blast+

section \<open>The configuration\<close>

text \<open>Channels carry their own number, users name channels of the table, and there are no more users than
  bits in a mask.\<close>

definition comm_ok :: "ComM_InternalType \<Rightarrow> bool" where
  "comm_ok s \<longleftrightarrow> (let C = ChannelTable (ComM_Config s); U = UserTable (ComM_Config s) in
     length C = length (Channels s) \<and> length C \<le> 256 \<and> (\<forall>i < length C. unat (Number (C ! i)) = i)
     \<and> length U = length (Users s) \<and> length U \<le> 32 \<and> (\<forall>cs \<in> set U. set cs \<subseteq> set C))"

text \<open>What an update of a channel leaves alone: all demands.\<close>

definition demand :: "ComM_Internal_ChannelType \<Rightarrow> u32 \<times> bool \<times> u8 \<times> bool" where
  "demand ch = (UserRequestMask ch, DCM_Requested ch, InhibitionStatus ch, CommunicationAllowed ch)"

definition same_demand :: "ComM_InternalType \<Rightarrow> ComM_InternalType \<Rightarrow> bool" where
  "same_demand s t \<longleftrightarrow> ComM_Config t = ComM_Config s \<and> Users t = Users s \<and> NoCommunication t = NoCommunication s
     \<and> InitStatus t = InitStatus s \<and> map demand (Channels t) = map demand (Channels s)"

lemma same_demand_refl [simp]: "same_demand s s" by (simp add: same_demand_def)
lemma same_demand_trans: "same_demand s t \<Longrightarrow> same_demand t u \<Longrightarrow> same_demand s u" by (simp add: same_demand_def)

lemma map_update_same: "f (g (xs ! k)) = f (xs ! k) \<Longrightarrow> map f (xs[k := g (xs ! k)]) = map f xs"
  by (cases "k < length xs") (simp_all add: map_update list_update_beyond, metis list_update_id map_update nth_map)

lemma same_demand_upd: "(\<And>ch. demand (f ch) = demand ch) \<Longrightarrow> same_demand s (upd_chan n f t) = same_demand s t"
  using map_update_same [of demand f "Channels t" "unat n"] by (simp add: same_demand_def upd_chan_def)

lemma same_demand_fields [simp]:
  "same_demand s (upd_chan n (Mode_update f1) t) = same_demand s t"
  "same_demand s (upd_chan n (SubMode_update f2) t) = same_demand s t"
  "same_demand s (upd_chan n (RequestedSubMode_update f3) t) = same_demand s t"
  "same_demand s (upd_chan n (FullComMinDurationTimeLeft_update f4) t) = same_demand s t"
  "same_demand s (upd_chan n (LightTimeoutTimeLeft_update f5) t) = same_demand s t"
  "same_demand s (set_indication b n t) = same_demand s t"
  "same_demand s (clear_indication b n t) = same_demand s t"
  "same_demand s (count_inhibited r t) = same_demand s t"
  by (simp_all add: same_demand_upd demand_def set_indication_def clear_indication_def)
     (simp add: same_demand_def count_inhibited_def)

lemma same_demand_request [simp]:
  "same_demand s (snd (ComM_Internal_PropagateComMode c m t)) = same_demand s t"
  "same_demand s (snd (request_nm h b t)) = same_demand s t"
  by (simp_all add: ComM_Internal_PropagateComMode_def request_nm_def same_demand_def)

lemma same_demand_enter [simp]:
  "same_demand s (snd (ComM_Internal_NotifyNm c t)) = same_demand s t"
  "same_demand s (snd (ComM_Internal_Enter_NoCom c t)) = same_demand s t"
  "same_demand s (snd (ComM_Internal_Enter_SilentCom c t)) = same_demand s t"
  "same_demand s (snd (ComM_Internal_Enter_NetworkRequested c t)) = same_demand s t"
  "same_demand s (snd (ComM_Internal_Enter_ReadySleep c t)) = same_demand s t"
proof -
  show n: "same_demand s (snd (ComM_Internal_NotifyNm c t)) = same_demand s t" for t
    by (simp add: ComM_Internal_NotifyNm_def Let_def)
  show "same_demand s (snd (ComM_Internal_Enter_NoCom c t)) = same_demand s t"
    "same_demand s (snd (ComM_Internal_Enter_SilentCom c t)) = same_demand s t"
    "same_demand s (snd (ComM_Internal_Enter_NetworkRequested c t)) = same_demand s t"
    "same_demand s (snd (ComM_Internal_Enter_ReadySleep c t)) = same_demand s t"
    by (simp_all add: ComM_Internal_Enter_NoCom_def ComM_Internal_Enter_SilentCom_def
        ComM_Internal_Enter_NetworkRequested_def ComM_Internal_Enter_ReadySleep_def Let_def case_prod_beta n)
qed

lemma same_demand_update [simp]:
  "same_demand s (snd (ComM_Internal_UpdateChannelState c r t)) = same_demand s t"
  by (simp add: ComM_Internal_UpdateChannelState_def ComM_Internal_UpdateFromNoCom_def
      ComM_Internal_UpdateFromSilentCom_def ComM_Internal_UpdateFromFullCom_def leave_full_def Let_def case_prod_beta)

section \<open>A configuration\<close>

definition sample_channel :: "u8 \<Rightarrow> ComM_BusTypeType \<Rightarrow> ComM_NmVariantType \<Rightarrow> ComM_ChannelType" where
  "sample_channel i b v = \<lparr>BusType = b, BusSMNetworkHandle = i, NmChannelHandle = i, NmVariant = v,
     MainFunctionPeriod = 10, LightTimeout = 25, Number = i\<rparr>"

definition sample_comm :: ComM_ConfigType where
  "sample_comm = (let a = sample_channel 0 COMM_BUS_TYPE_CAN COMM_NM_VARIANT_LIGHT; b = sample_channel 1 COMM_BUS_TYPE_LIN COMM_NM_VARIANT_NONE in
     \<lparr>ChannelTable = [a, b], UserTable = [[a], [a, b]], T_MIN_FULL_COM_MODE_DURATION = 20,
      bussm_answer = (\<lambda>_ _ _ _. E_OK), bussm_mode = (\<lambda>_ _. (E_OK, 2)), nm_answer = (\<lambda>_ _ _. E_OK)\<rparr>)"

definition sample_reset :: ComM_InternalType where
  "sample_reset = \<lparr>InitStatus = COMM_UNINIT, ComM_Config = sample_comm,
     Channels = replicate 2 \<lparr>Mode = 0, SubMode = COMM_NO_COM_NO_PENDING_REQUEST, UserRequestMask = 0, InhibitionStatus = 0,
       FullComMinDurationTimeLeft = 0, LightTimeoutTimeLeft = 0, NmIndicationMask = 0, CommunicationAllowed = False,
       DCM_Requested = False, RequestedSubMode = COMM_NO_COM_NO_PENDING_REQUEST\<rparr>,
     Users = [0, 0], NoCommunication = False, InhibitCounter = 0, reports = [], bus_requests = [], nm_requests = []\<rparr>"

abbreviation sample_start :: ComM_InternalType where "sample_start \<equiv> ComM_Init (Some sample_comm) sample_reset"

lemmas sample_comm_defs = sample_comm_def sample_channel_def sample_reset_def ComM_Init_def init_channel_def

lemma sample_ok: "comm_ok sample_start"
  by (simp add: comm_ok_def sample_comm_defs Let_def less_Suc_eq numeral_2_eq_2)

section \<open>The masks are the demands of the users\<close>

text \<open>A user wants a channel when its last request was for full communication and the channel is one of
  its own.\<close>

definition wants :: "nat \<Rightarrow> nat \<Rightarrow> ComM_InternalType \<Rightarrow> bool" where
  "wants u i s \<longleftrightarrow> u < length (Users s) \<and> Users s ! u = COMM_FULL_COMMUNICATION
     \<and> ChannelTable (ComM_Config s) ! i \<in> set (UserTable (ComM_Config s) ! u)"

definition masks_ok :: "ComM_InternalType \<Rightarrow> bool" where
  "masks_ok s \<longleftrightarrow> (\<forall>i < length (Channels s). \<forall>b. bit (UserRequestMask (Channels s ! i)) b \<longleftrightarrow> wants b i s)"

lemma same_demand_nth:
  assumes "same_demand s t" and "i < length (Channels s)"
  shows "UserRequestMask (Channels t ! i) = UserRequestMask (Channels s ! i)" "DCM_Requested (Channels t ! i) = DCM_Requested (Channels s ! i)"
    "InhibitionStatus (Channels t ! i) = InhibitionStatus (Channels s ! i)"
proof -
  have "length (Channels t) = length (Channels s)" using assms(1) by (auto simp: same_demand_def dest: map_eq_imp_length_eq)
  then have "demand (Channels t ! i) = demand (Channels s ! i)"
    using assms by (metis (mono_tags, lifting) nth_map same_demand_def)
  then show "UserRequestMask (Channels t ! i) = UserRequestMask (Channels s ! i)" "DCM_Requested (Channels t ! i) = DCM_Requested (Channels s ! i)"
    "InhibitionStatus (Channels t ! i) = InhibitionStatus (Channels s ! i)"
    by (simp_all add: demand_def)
qed

lemma same_demand_length: "same_demand s t \<Longrightarrow> length (Channels t) = length (Channels s)"
  by (auto simp: same_demand_def dest: map_eq_imp_length_eq)

lemma same_demand_ok: "same_demand s t \<Longrightarrow> comm_ok t = comm_ok s"
  by (simp add: comm_ok_def same_demand_length) (simp add: same_demand_def)

lemma same_demand_masks: "same_demand s t \<Longrightarrow> masks_ok t = masks_ok s"
  by (simp add: masks_ok_def same_demand_length same_demand_nth wants_def) (simp add: same_demand_def)

lemma wants_upd [simp]: "wants u i (upd_chan n f s) = wants u i s" by (simp add: wants_def upd_chan_def)

lemma comm_ok_upd [simp]: "comm_ok (upd_chan n f s) = comm_ok s" by (simp add: comm_ok_def upd_chan_def)

lemma masks_ok_upd: "(\<And>ch. UserRequestMask (f ch) = UserRequestMask ch) \<Longrightarrow> masks_ok (upd_chan n f s) = masks_ok s"
  using map_update_same [of UserRequestMask f "Channels s" "unat n"]
  by (simp add: masks_ok_def, simp add: upd_chan_def) (metis length_list_update nth_map)

text \<open>The loop over the channels of a user.\<close>

definition masks_changed :: "u8 \<Rightarrow> u8 \<Rightarrow> ComM_ChannelType set \<Rightarrow> ComM_InternalType \<Rightarrow> ComM_InternalType \<Rightarrow> bool" where
  "masks_changed u m C s t \<longleftrightarrow> ComM_Config t = ComM_Config s \<and> Users t = Users s \<and> length (Channels t) = length (Channels s)
     \<and> InitStatus t = InitStatus s
     \<and> (\<forall>i < length (Channels s). UserRequestMask (Channels t ! i) =
          (if ChannelTable (ComM_Config s) ! i \<in> C then note_request u m (UserRequestMask (Channels s ! i))
           else UserRequestMask (Channels s ! i)))"

lemma note_request_idem [simp]: "note_request u m (note_request u m w) = note_request u m w"
  by (rule bit_word_eqI) (auto simp: note_request_def bit_simps)

lemma request_channel_masks:
  assumes ok: "comm_ok s" and c: "c \<in> set (ChannelTable (ComM_Config s))"
  shows "masks_changed u m {c} s (snd (request_channel u m c (r, s)))"
proof -
  let ?s1 = "upd_chan (Number c) (UserRequestMask_update (note_request u m)) s"
  let ?t = "snd (request_channel u m c (r, s))"
  have t: "same_demand ?s1 ?t" by (simp add: request_channel_def case_prod_beta)
  have n: "unat (Number c) < length (Channels s)" "\<And>i. i < length (Channels s) \<Longrightarrow> ChannelTable (ComM_Config s) ! i = c \<longleftrightarrow> i = unat (Number c)"
    using ok c by (auto simp: comm_ok_def Let_def in_set_conv_nth)
  have l: "length (Channels ?s1) = length (Channels s)" by (simp add: upd_chan_def)
  have "UserRequestMask (Channels ?t ! i) = UserRequestMask (Channels ?s1 ! i)" if "i < length (Channels s)" for i
    using same_demand_nth [OF t] that l by simp
  moreover have "UserRequestMask (Channels ?s1 ! i) = (if ChannelTable (ComM_Config s) ! i = c then note_request u m (UserRequestMask (Channels s ! i))
      else UserRequestMask (Channels s ! i))" if "i < length (Channels s)" for i
    using n that by (simp add: upd_chan_def nth_list_update)
  ultimately show ?thesis
    using same_demand_length [OF t] t l by (simp add: masks_changed_def) (simp add: same_demand_def upd_chan_def)
qed

lemma masks_changed_ok: "masks_changed u m C s t \<Longrightarrow> comm_ok t = comm_ok s"
  by (simp add: masks_changed_def comm_ok_def)

lemma request_loop_masks:
  assumes "comm_ok s" and "set cs \<subseteq> set (ChannelTable (ComM_Config s))"
  shows "masks_changed u m (set cs) s (snd (fold (request_channel u m) cs (r, s)))"
  using assms
proof (induction cs arbitrary: r s)
  case (Cons c cs)
  let ?t = "request_channel u m c (r, s)"
  have c: "masks_changed u m {c} s (snd ?t)" using Cons.prems by (intro request_channel_masks) simp_all
  then have "masks_changed u m (set cs) (snd ?t) (snd (fold (request_channel u m) cs (fst ?t, snd ?t)))"
    using Cons.prems masks_changed_ok [OF c] by (intro Cons.IH) (simp_all add: masks_changed_def)
  then show ?case using c by (simp add: masks_changed_def)
qed (simp add: masks_changed_def)

definition consistent :: "ComM_InternalType \<Rightarrow> bool" where
  "consistent s \<longleftrightarrow> comm_ok s \<and> masks_ok s"

lemma consistent_same: "same_demand s t \<Longrightarrow> consistent s \<Longrightarrow> consistent t"
  by (simp add: consistent_def same_demand_ok same_demand_masks)

lemma consistent_fields [simp]:
  "consistent (Det_report x y s) = consistent s" "consistent (s\<lparr>NoCommunication := b\<rparr>) = consistent s"
  "consistent (s\<lparr>InhibitCounter := k\<rparr>) = consistent s" "consistent (s\<lparr>InitStatus := i\<rparr>) = consistent s"
  by (simp_all add: consistent_def comm_ok_def masks_ok_def wants_def Det_report_def)

lemma consistent_upd: "(\<And>ch. UserRequestMask (f ch) = UserRequestMask ch) \<Longrightarrow> consistent (upd_chan n f s) = consistent s"
  by (simp add: consistent_def masks_ok_upd)

lemma consistent_same_eq: "same_demand s t \<Longrightarrow> consistent t = consistent s"
  by (simp add: consistent_def same_demand_ok same_demand_masks)

lemma consistent_update [simp]:
  "consistent (snd (ComM_Internal_UpdateChannelState c r s)) = consistent s"
  "consistent (snd (ComM_Internal_NotifyNm c s)) = consistent s"
  by (rule consistent_same_eq, simp)+

lemma consistent_validated: "(consistent s \<Longrightarrow> consistent (snd body)) \<Longrightarrow> consistent s \<Longrightarrow> consistent (snd (validated x ok s body))"
  by (simp add: validated_def)

lemma same_demand_update_all: "same_demand s (snd (update_all s))"
proof -
  have "same_demand s (snd (fold (\<lambda>i (totalStatus, s).
       let (status, s1) = ComM_Internal_UpdateChannelState (ChannelTable (ComM_Config s) ! i) False s
       in (if status > totalStatus then status else totalStatus, s1)) is (r, t))) = same_demand s t" for r t "is"
    by (induction "is" arbitrary: r t) (simp_all add: case_prod_beta Let_def)
  then show ?thesis by (simp add: update_all_def)
qed

lemma consistent_request:
  assumes c: "consistent s" and u: "user_ok u s" and m: "m = COMM_NO_COMMUNICATION \<or> m = COMM_FULL_COMMUNICATION"
  shows "consistent (snd (ComM_Internal_RequestComMode u m s))"
proof -
  let ?s0 = "s\<lparr>Users := (Users s)[unat u := m]\<rparr>" and ?t = "snd (ComM_Internal_RequestComMode u m s)"
  let ?C = "UserTable (ComM_Config s) ! unat u"
  have ok: "comm_ok ?s0" using c by (simp add: consistent_def comm_ok_def)
  have ul: "unat u < 32" "unat u < length (UserTable (ComM_Config s))" using c u by (auto simp: consistent_def comm_ok_def Let_def)
  then have "set ?C \<subseteq> set (ChannelTable (ComM_Config s))" using c by (auto simp: consistent_def comm_ok_def Let_def)
  then have t: "masks_changed u m (set ?C) ?s0 ?t"
    unfolding ComM_Internal_RequestComMode_def by (intro request_loop_masks [OF ok]) simp
  have bit: "bit (UserRequestMask (Channels ?t ! i)) b \<longleftrightarrow> wants b i ?t" if i: "i < length (Channels s)" for i b
  proof -
    have old: "bit (UserRequestMask (Channels s ! i)) b \<longleftrightarrow> wants b i s" using c i by (simp add: consistent_def masks_ok_def)
    show ?thesis using t i old u ul m
      by (cases "b = unat u") (auto simp: masks_changed_def wants_def note_request_def bit_simps)
  qed
  have "comm_ok ?t" using masks_changed_ok [OF t] ok by simp
  moreover have "masks_ok ?t" using bit t by (simp add: masks_ok_def masks_changed_def)
  ultimately show ?thesis by (simp add: consistent_def)
qed

text \<open>Users request no or full communication.\<close>

fun plain_modes :: "comm_call \<Rightarrow> ComM_InternalType \<Rightarrow> bool" where
  "plain_modes (Call_RequestComMode u m) s \<longleftrightarrow> m = COMM_NO_COMMUNICATION \<or> m = COMM_FULL_COMMUNICATION"
| "plain_modes _ s = True"

lemma consistent_tick:
  "consistent s \<Longrightarrow> consistent (snd (ComM_Internal_TickFullComMinTime c n s))"
  "consistent s \<Longrightarrow> consistent (snd (ComM_Internal_TickLightTime c n s))"
  by (simp_all add: ComM_Internal_TickFullComMinTime_def ComM_Internal_TickLightTime_def consistent_upd)

lemma consistent_call:
  assumes "consistent s" and "plain_modes c s" and "comm_do c s = Some t" shows "consistent t"
proof (cases c)
  case (Call_RequestComMode u m)
  then show ?thesis using assms consistent_request [OF assms(1)]
    by (auto simp: ComM_RequestComMode_def validated_def split: if_splits)
next
  case (Call_LimitECU b)
  then show ?thesis using assms consistent_same [OF same_demand_update_all, of "s\<lparr>NoCommunication := b\<rparr>"]
    by (auto simp: ComM_LimitECUToNoComMode_def intro!: consistent_validated)
next
  case (Call_MainFunction n)
  then show ?thesis using assms
    by (auto simp: ComM_MainFunction_def Let_def consistent_tick split: if_splits)
qed (use assms in \<open>auto simp: ComM_PreventWakeUp_def ComM_LimitChannelToNoComMode_def ComM_ResetInhibitCounter_def
      ComM_Nm_NetworkStartIndication_def ComM_Nm_NetworkMode_def ComM_Nm_PrepareBusSleepMode_def ComM_Nm_BusSleepMode_def
      ComM_Nm_RestartIndication_def nm_indication_def ComM_DCM_ActiveDiagnostic_def ComM_DCM_InactiveDiagnostic_def dcm_indication_def
      ComM_BusSM_ModeIndication_def ComM_CommunicationAllowed_def ComM_DeInit_def set_inhibition_def set_indication_def Let_def
      consistent_upd intro!: consistent_validated\<close>)

lemma mask_requested:
  assumes "masks_ok s" and "i < length (Channels s)"
  shows "UserRequestMask (Channels s ! i) \<noteq> 0 \<longleftrightarrow> (\<exists>u. wants u i s)"
proof -
  have "w = 0 \<longleftrightarrow> (\<forall>b. \<not> bit w b)" for w :: u32 by (auto intro: bit_eqI)
  then show ?thesis using assms by (simp add: masks_ok_def)
qed

lemma consistent_Init:
  assumes "comm_ok (ComM_Init (Some c) s)" shows "consistent (ComM_Init (Some c) s)"
  using assms by (auto simp: consistent_def masks_ok_def wants_def ComM_Init_def init_channel_def)

text \<open>C37: The manager knows who wants which channel.  After initialisation and any sequence of calls, in any
  order, in which users request no or full communication, a channel counts as requested exactly when
  diagnostics is active on it or some user whose last request was for full communication has the channel
  among its own.\<close>

theorem channel_requested_iff_wanted:
  assumes "comm_ok (ComM_Init (Some c) s)" and "comm_runs plain_modes (ComM_Init (Some c) s) cs t"
    and "unat n < length (Channels t)"
  shows "requested n t \<longleftrightarrow> DCM_Requested (chan n t) \<or> (\<exists>u. wants u (unat n) t)"
proof -
  have "consistent t"
    by (rule runs_invariant [where I = consistent, OF assms(2) consistent_Init [OF assms(1)]]) (rule consistent_call)
  then show ?thesis using mask_requested [of t "unat n"] assms(3) by (auto simp: requested_def consistent_def)
qed

lemma channel_requested_iff_wanted_witness:
  "requested 0 (snd (ComM_RequestComMode 1 2 sample_start)) \<and> wants 1 0 (snd (ComM_RequestComMode 1 2 sample_start))"
proof -
  let ?t = "snd (ComM_RequestComMode 1 2 sample_start)"
  have "comm_runs plain_modes sample_start [Call_RequestComMode 1 2] ?t"
    by (rule runs_Cons [OF _ _ runs_Nil]) simp_all
  moreover have "unat (0 :: u8) < length (Channels ?t)" by code_simp
  ultimately have "requested 0 ?t \<longleftrightarrow> DCM_Requested (chan 0 ?t) \<or> (\<exists>u. wants u (unat (0 :: u8)) ?t)"
    by (intro channel_requested_iff_wanted [OF sample_ok])
  moreover have "wants 1 0 ?t" by code_simp
  ultimately show ?thesis by auto
qed

section \<open>What is asked of a bus\<close>

lemma upd_chan_fields [simp]:
  "bus_requests (upd_chan n f s) = bus_requests s" "nm_requests (upd_chan n f s) = nm_requests s"
  "ComM_Config (upd_chan n f s) = ComM_Config s" "length (Channels (upd_chan n f s)) = length (Channels s)"
  "NoCommunication (upd_chan n f s) = NoCommunication s" "InitStatus (upd_chan n f s) = InitStatus s"
  "Users (upd_chan n f s) = Users s"
  by (simp_all add: upd_chan_def)

lemma upd_chan_chan [simp]: "unat n < length (Channels s) \<Longrightarrow> chan n (upd_chan n f s) = f (chan n s)"
  by (simp add: upd_chan_def)

lemma requests_unchanged [simp]:
  "bus_requests (snd (ComM_Internal_NotifyNm c s)) = bus_requests s"
  "bus_requests (count_inhibited r s) = bus_requests s"
  "bus_requests (clear_indication b n s) = bus_requests s"
  by (simp_all add: ComM_Internal_NotifyNm_def request_nm_def Let_def count_inhibited_def clear_indication_def)

text \<open>The requests one update makes: at most one, for the channel it updates.\<close>

definition made :: "ComM_ChannelType \<Rightarrow> (u8 \<Rightarrow> bool) \<Rightarrow> ComM_InternalType \<Rightarrow> ComM_InternalType \<Rightarrow> bool" where
  "made c Q s t \<longleftrightarrow> bus_requests t = bus_requests s
     \<or> (\<exists>m. bus_requests t = bus_requests s @ [(BusType c, BusSMNetworkHandle c, m)] \<and> Q m)"

lemma made_request:
  "Q m \<Longrightarrow> bus_requests s' = bus_requests s \<Longrightarrow> made c Q s (snd (ComM_Internal_PropagateComMode c m s'))"
  by (simp add: made_def ComM_Internal_PropagateComMode_def)

lemma made_same: "bus_requests t = bus_requests s \<Longrightarrow> made c Q s t" by (simp add: made_def)

lemma made_refl [simp]: "made c Q s s" by (simp add: made_def)

lemma made_cong [simp]:
  "made c Q s (upd_chan n f t) = made c Q s t" "made c Q s (clear_indication b n t) = made c Q s t"
  "made c Q s (count_inhibited r t) = made c Q s t"
  by (simp_all add: made_def)

lemma made_enter:
  "Q COMM_NO_COMMUNICATION \<Longrightarrow> made c Q s (snd (ComM_Internal_Enter_NoCom c s))"
  "Q COMM_SILENT_COMMUNICATION \<Longrightarrow> made c Q s (snd (ComM_Internal_Enter_SilentCom c s))"
  "Q COMM_FULL_COMMUNICATION \<Longrightarrow> made c Q s (snd (ComM_Internal_Enter_NetworkRequested c s))"
  "Mode (chan (Number c) s) = COMM_FULL_COMMUNICATION \<or> Q COMM_FULL_COMMUNICATION \<Longrightarrow> made c Q s (snd (ComM_Internal_Enter_ReadySleep c s))"
  by (auto simp: ComM_Internal_Enter_NoCom_def ComM_Internal_Enter_SilentCom_def ComM_Internal_Enter_NetworkRequested_def
      ComM_Internal_Enter_ReadySleep_def Let_def case_prod_beta made_request made_same)

lemma made_leave_full:
  "Mode (chan (Number c) s) = COMM_FULL_COMMUNICATION \<Longrightarrow> Q COMM_NO_COMMUNICATION \<Longrightarrow> made c Q s (snd (leave_full c s))"
  by (simp add: leave_full_def Let_def made_enter made_same)

text \<open>When full communication may be asked of the bus of a channel.\<close>

definition may_ask_full :: "u8 \<Rightarrow> ComM_InternalType \<Rightarrow> bool" where
  "may_ask_full n s \<longleftrightarrow> requested n s \<and> \<not> inhibited n s \<or> indicated NM_RESTART n s
     \<or> Mode (chan n s) = COMM_SILENT_COMMUNICATION \<and> indicated NM_NETWORK_MODE n s"

definition may_ask :: "u8 \<Rightarrow> ComM_InternalType \<Rightarrow> u8 \<Rightarrow> bool" where
  "may_ask n s m = (if m = COMM_FULL_COMMUNICATION then may_ask_full n s else True)"

text \<open>C38: Every update of a channel asks its own bus for at most one mode and no other bus for anything.
  Full communication is asked for only when the channel is requested and not inhibited, or the network
  itself started again: a restart is noted, or, in silent communication, network mode.\<close>

theorem update_asks_only_for_what_is_wanted:
  "made c (may_ask (Number c) s) s (snd (ComM_Internal_UpdateChannelState c isRequest s))"
proof -
  let ?Q = "may_ask (Number c) s"
  have "made c ?Q s (snd (ComM_Internal_UpdateFromNoCom c isRequest s))"
    by (auto simp: ComM_Internal_UpdateFromNoCom_def Let_def case_prod_beta may_ask_def may_ask_full_def inhibited_def made_enter)
  moreover have "made c ?Q s (snd (ComM_Internal_UpdateFromSilentCom c isRequest s))" if "Mode (chan (Number c) s) = COMM_SILENT_COMMUNICATION"
    using that by (auto simp: ComM_Internal_UpdateFromSilentCom_def Let_def case_prod_beta may_ask_def may_ask_full_def made_enter)
  moreover have "made c ?Q s (snd (ComM_Internal_UpdateFromFullCom c isRequest s))" if "Mode (chan (Number c) s) = COMM_FULL_COMMUNICATION"
    using that by (auto simp: ComM_Internal_UpdateFromFullCom_def Let_def case_prod_beta may_ask_def may_ask_full_def made_enter made_leave_full)
  ultimately show ?thesis by (simp add: ComM_Internal_UpdateChannelState_def Let_def made_same)
qed

section \<open>A channel nobody wants goes to sleep\<close>

fun main_calls :: "nat \<Rightarrow> u8 \<Rightarrow> ComM_InternalType \<Rightarrow> ComM_InternalType option" where
  "main_calls 0 n s = Some s"
| "main_calls (Suc k) n s = (case ComM_MainFunction n s of None \<Rightarrow> None | Some t \<Rightarrow> main_calls k n t)"

text \<open>The number of calls a time of a given length takes: at least one.\<close>

definition ticks :: "u32 \<Rightarrow> u32 \<Rightarrow> nat" where
  "ticks p x = max 1 ((unat x + unat p - 1) div unat p)"

lemma ticks_last: "0 < p \<Longrightarrow> x \<le> p \<Longrightarrow> ticks p x = 1"
proof -
  assume a: "0 < p" "x \<le> p"
  then have "unat x \<le> unat p" "0 < unat p" by (simp_all add: word_le_nat_alt word_less_nat_alt)
  then have "(unat x + unat p - 1) div unat p < 2" by (intro less_mult_imp_div_less) linarith
  then show ?thesis by (simp add: ticks_def)
qed

lemma ticks_nat:
  assumes "0 < (a::nat)" and "a < b" shows "max 1 ((b + a - 1) div a) = Suc (max 1 ((b - a + a - 1) div a))"
proof -
  obtain d where b: "b = a + Suc d" using assms(2) less_iff_Suc_add [of a b] by auto
  have "b + a - 1 = (d + a) + a" "b - a + a - 1 = d + a" using b by simp_all
  then show ?thesis using assms(1) by (simp add: div_add_self2)
qed

lemma ticks_step:
  assumes "0 < p" and "p < x" shows "ticks p x = Suc (ticks p (x - p))"
proof -
  have "unat (x - p) = unat x - unat p" using assms(2) by (simp add: unat_sub)
  then show ?thesis unfolding ticks_def using ticks_nat [of "unat p" "unat x"] assms by (simp add: word_less_nat_alt)
qed

lemma time_left:
  assumes "0 < (p :: u32)" and "p < x" shows "unat (x - p) < unat x" "0 < x - p"
proof -
  have "unat (x - p) = unat x - unat p" using assms(2) by (simp add: unat_sub)
  then show "unat (x - p) < unat x" "0 < x - p" using assms by (simp_all add: word_less_nat_alt)
qed

text \<open>A light channel in full communication that nobody wants and whose network said nothing.\<close>

definition unwanted :: "u8 \<Rightarrow> ComM_InternalType \<Rightarrow> bool" where
  "unwanted n s \<longleftrightarrow> channel_ok n s \<and> unat n < length (ChannelTable (ComM_Config s)) \<and> Number (conf n s) = n
     \<and> NmVariant (conf n s) = COMM_NM_VARIANT_LIGHT \<and> BusType (conf n s) \<in> {COMM_BUS_TYPE_CAN, COMM_BUS_TYPE_LIN}
     \<and> 0 < MainFunctionPeriod (conf n s) \<and> Mode (chan n s) = COMM_FULL_COMMUNICATION \<and> \<not> requested n s
     \<and> \<not> indicated NM_BUS_SLEEP n s \<and> \<not> indicated NM_PREPARE_BUS_SLEEP n s"

text \<open>The first request made by calls of the main function is for no communication, in call \<open>K\<close>.\<close>

definition sleeps_in :: "nat \<Rightarrow> u8 \<Rightarrow> ComM_InternalType \<Rightarrow> bool" where
  "sleeps_in K n s \<longleftrightarrow> (\<forall>k < K. \<exists>t. main_calls k n s = Some t \<and> bus_requests t = bus_requests s)
     \<and> (\<exists>t. main_calls K n s = Some t \<and>
          bus_requests t = bus_requests s @ [(BusType (conf n s), BusSMNetworkHandle (conf n s), COMM_NO_COMMUNICATION)])"

lemma sleeps_in_Suc:
  assumes "ComM_MainFunction n s = Some t" and "bus_requests t = bus_requests s" and "ComM_Config t = ComM_Config s" and "sleeps_in k n t"
  shows "sleeps_in (Suc k) n s"
  using assms by (simp add: sleeps_in_def All_less_Suc2)

lemma update_unwanted:
  assumes "unwanted n s"
  shows "ComM_Internal_UpdateChannelState (conf n s) False s =
    (if FullComMinDurationTimeLeft (chan n s) \<noteq> 0 then (E_OK, s)
     else if SubMode (chan n s) \<noteq> COMM_FULL_COM_READY_SLEEP then ComM_Internal_Enter_ReadySleep (conf n s) s
     else if LightTimeoutTimeLeft (chan n s) = 0 then ComM_Internal_Enter_NoCom (conf n s) s else (E_OK, s))"
  using assms by (simp add: unwanted_def ComM_Internal_UpdateChannelState_def ComM_Internal_UpdateFromFullCom_def leave_full_def
      ComM_Internal_FullComMinTime_AllowsExit_def count_inhibited_def Let_def)

text \<open>The four steps of the main function on such a channel.\<close>

lemma unwanted_time [simp]:
  "unwanted n (upd_chan n (FullComMinDurationTimeLeft_update f) s) = unwanted n s"
  "unwanted n (upd_chan n (LightTimeoutTimeLeft_update f) s) = unwanted n s"
  "unwanted n (upd_chan n (SubMode_update g) s) = unwanted n s"
  by (auto simp: unwanted_def requested_def)

lemma step_minimum_runs:
  assumes "unwanted n s" and "SubMode (chan n s) = COMM_FULL_COM_NETWORK_REQUESTED"
    and "MainFunctionPeriod (conf n s) < FullComMinDurationTimeLeft (chan n s)"
  shows "ComM_MainFunction n s = Some (upd_chan n (FullComMinDurationTimeLeft_update (\<lambda>t. t - MainFunctionPeriod (conf n s))) s)"
  using assms by (auto simp: unwanted_def ComM_MainFunction_def ComM_Internal_TickFullComMinTime_def ComM_Internal_TickLightTime_def Let_def)

definition ready :: "u8 \<Rightarrow> ComM_InternalType \<Rightarrow> bool" where
  "ready n s \<longleftrightarrow> unwanted n s \<and> SubMode (chan n s) = COMM_FULL_COM_READY_SLEEP \<and> FullComMinDurationTimeLeft (chan n s) = 0"

lemma upd_chan_id: "f (chan n s) = chan n s \<Longrightarrow> upd_chan n f s = s"
  by (simp add: upd_chan_def)

lemma tick_full_ready:
  assumes "ready n s" and "LightTimeoutTimeLeft (chan n s) \<noteq> 0"
  shows "ComM_Internal_TickFullComMinTime (conf n s) n s = (E_OK, s)"
proof -
  have "upd_chan n (FullComMinDurationTimeLeft_update (\<lambda>_. 0)) s = s"
    using assms(1) by (intro upd_chan_id) (simp add: ready_def)
  then show ?thesis using assms update_unwanted [of n s]
    by (simp add: ComM_Internal_TickFullComMinTime_def ready_def)
qed

lemma step_ready:
  assumes "ready n s" and "LightTimeoutTimeLeft (chan n s) \<noteq> 0"
  shows "ComM_MainFunction n s = (let t = snd (ComM_Internal_TickLightTime (conf n s) n s) in
    Some (if Mode (chan n t) = COMM_NO_COMMUNICATION \<and> SubMode (chan n t) = COMM_NO_COM_REQUEST_PENDING
          then snd (ComM_Internal_UpdateChannelState (conf n s) False t) else t))"
  using assms by (simp add: ComM_MainFunction_def tick_full_ready Let_def) (auto simp: ready_def unwanted_def)

lemma step_light_runs:
  assumes "ready n s" and "MainFunctionPeriod (conf n s) < LightTimeoutTimeLeft (chan n s)"
  shows "ComM_MainFunction n s = Some (upd_chan n (LightTimeoutTimeLeft_update (\<lambda>t. t - MainFunctionPeriod (conf n s))) s)"
proof -
  have "LightTimeoutTimeLeft (chan n s) \<noteq> 0" using assms(2) by auto
  then show ?thesis using assms
    by (auto simp: step_ready ComM_Internal_TickLightTime_def Let_def ready_def unwanted_def)
qed

lemma step_light_over:
  assumes r: "ready n s" and l: "LightTimeoutTimeLeft (chan n s) \<noteq> 0" "LightTimeoutTimeLeft (chan n s) \<le> MainFunctionPeriod (conf n s)"
  shows "sleeps_in 1 n s"
proof -
  let ?s1 = "upd_chan n (LightTimeoutTimeLeft_update (\<lambda>_. 0)) s"
  let ?t = "snd (ComM_Internal_Enter_NoCom (conf n s) ?s1)"
  have c: "Number (conf n s) = n" "channel_ok n s" "BusType (conf n s) \<in> {COMM_BUS_TYPE_CAN, COMM_BUS_TYPE_LIN}"
    using r by (auto simp: ready_def unwanted_def)
  have "ComM_Internal_UpdateChannelState (conf n s) False ?s1 = ComM_Internal_Enter_NoCom (conf n s) ?s1"
    using r c update_unwanted [of n ?s1] by (simp add: ready_def)
  then have t: "snd (ComM_Internal_TickLightTime (conf n s) n s) = ?t"
    using r l by (simp add: ComM_Internal_TickLightTime_def ready_def) (simp add: unwanted_def)
  have "Mode (chan n ?t) = COMM_FULL_COMMUNICATION"
    using r c by (simp add: ComM_Internal_Enter_NoCom_def ComM_Internal_PropagateComMode_def) (simp add: ready_def unwanted_def)
  then have "ComM_MainFunction n s = Some ?t" using r l(1) t by (simp add: step_ready Let_def)
  moreover have "bus_requests ?t = bus_requests s @ [(BusType (conf n s), BusSMNetworkHandle (conf n s), COMM_NO_COMMUNICATION)]"
    using c by (auto simp: ComM_Internal_Enter_NoCom_def ComM_Internal_PropagateComMode_def)
  ultimately show ?thesis by (simp add: sleeps_in_def)
qed

text \<open>When the minimum time is over, the channel becomes ready to sleep and the light time starts in the same
  call.\<close>

definition become_ready :: "u8 \<Rightarrow> ComM_InternalType \<Rightarrow> ComM_InternalType" where
  "become_ready n s = upd_chan n (\<lambda>ch. ch\<lparr>FullComMinDurationTimeLeft := 0, SubMode := COMM_FULL_COM_READY_SLEEP,
     LightTimeoutTimeLeft := LightTimeout (conf n s)\<rparr>) s"

lemma become_ready:
  assumes "unwanted n s" shows "ready n (become_ready n s)" "LightTimeoutTimeLeft (chan n (become_ready n s)) = LightTimeout (conf n s)"
  using assms by (auto simp: become_ready_def ready_def unwanted_def requested_def)

lemma upd_chan_twice:
  "unat n < length (Channels s) \<Longrightarrow> upd_chan n f (upd_chan n g s) = upd_chan n (\<lambda>ch. f (g ch)) s"
  by (simp add: upd_chan_def)

lemma step_minimum_over:
  assumes u: "unwanted n s" and s: "SubMode (chan n s) = COMM_FULL_COM_NETWORK_REQUESTED" and l: "0 < LightTimeout (conf n s)"
    and f: "FullComMinDurationTimeLeft (chan n s) \<le> MainFunctionPeriod (conf n s)"
  shows "ComM_MainFunction n s = ComM_MainFunction n (become_ready n s)"
proof -
  let ?s1 = "upd_chan n (FullComMinDurationTimeLeft_update (\<lambda>_. 0)) s" and ?r = "become_ready n s"
  have c: "Number (conf n s) = n" "channel_ok n s" "NmVariant (conf n s) = COMM_NM_VARIANT_LIGHT" "Mode (chan n s) = COMM_FULL_COMMUNICATION"
    "unat n < length (ChannelTable (ComM_Config s))" using u by (simp_all add: unwanted_def)
  have "snd (ComM_Internal_UpdateChannelState (conf n s) False ?s1) = ?r"
    using u c s update_unwanted [of n ?s1]
    by (simp add: ComM_Internal_Enter_ReadySleep_def ComM_Internal_NotifyNm_def become_ready_def upd_chan_twice)
  then have t: "snd (ComM_Internal_TickFullComMinTime (conf n s) n s) = ?r"
    using c f by (simp add: ComM_Internal_TickFullComMinTime_def)
  have r: "ready n ?r" "LightTimeoutTimeLeft (chan n ?r) \<noteq> 0" using become_ready [OF u] l by simp_all
  have "conf n ?r = conf n s" by (simp add: become_ready_def)
  then show ?thesis using step_ready [OF r] t c by (simp add: ComM_MainFunction_def Let_def)
qed

lemma sleeps_in_cong:
  assumes "ComM_MainFunction n s = ComM_MainFunction n t" and "bus_requests t = bus_requests s" and "ComM_Config t = ComM_Config s"
    and "sleeps_in (Suc k) n t"
  shows "sleeps_in (Suc k) n s"
  using assms by (simp add: sleeps_in_def All_less_Suc2)

lemma ready_sleeps:
  assumes "ready n s" and "0 < LightTimeoutTimeLeft (chan n s)"
  shows "sleeps_in (ticks (MainFunctionPeriod (conf n s)) (LightTimeoutTimeLeft (chan n s))) n s"
  using assms
proof (induction "unat (LightTimeoutTimeLeft (chan n s))" arbitrary: s rule: less_induct)
  case less
  let ?p = "MainFunctionPeriod (conf n s)" and ?l = "LightTimeoutTimeLeft (chan n s)"
  have c: "0 < ?p" "channel_ok n s" using less.prems(1) by (simp_all add: ready_def unwanted_def)
  show ?case
  proof (cases "?l \<le> ?p")
    case True
    then show ?thesis using less.prems c step_light_over [OF less.prems(1)] by (simp add: ticks_last)
  next
    case False
    let ?t = "upd_chan n (LightTimeoutTimeLeft_update (\<lambda>t. t - ?p)) s"
    have l: "?p < ?l" using False by simp
    then have "unat (?l - ?p) < unat ?l" "0 < ?l - ?p" using time_left [OF c(1) l] by simp_all
    then have "sleeps_in (ticks ?p (?l - ?p)) n ?t"
      using less.hyps [of ?t] less.prems(1) c by (simp add: ready_def)
    then show ?thesis
      using sleeps_in_Suc [OF step_light_runs [OF less.prems(1) l]] ticks_step [OF c(1) l] by simp
  qed
qed

text \<open>C39: A channel nobody wants goes to sleep, on time.  When nobody requests a light channel that is in full
  communication and its network gives no sign of sleep, the main function asks the bus for no communication
  in exactly the call in which the rest of the minimum time and then the light time are over, both counted
  in periods of the main function, and asks it for nothing before.\<close>

theorem unwanted_channel_goes_to_sleep:
  assumes "unwanted n s" and "SubMode (chan n s) = COMM_FULL_COM_NETWORK_REQUESTED" and "0 < LightTimeout (conf n s)"
  shows "sleeps_in (ticks (MainFunctionPeriod (conf n s)) (FullComMinDurationTimeLeft (chan n s))
                    + ticks (MainFunctionPeriod (conf n s)) (LightTimeout (conf n s)) - 1) n s"
  using assms
proof (induction "unat (FullComMinDurationTimeLeft (chan n s))" arbitrary: s rule: less_induct)
  case less
  let ?p = "MainFunctionPeriod (conf n s)" and ?f = "FullComMinDurationTimeLeft (chan n s)" and ?L = "LightTimeout (conf n s)"
  have c: "0 < ?p" "channel_ok n s" using less.prems(1) by (simp_all add: unwanted_def)
  have k: "ticks ?p ?L = Suc (ticks ?p ?L - 1)" by (simp add: ticks_def)
  show ?case
  proof (cases "?f \<le> ?p")
    case True
    have r: "ready n (become_ready n s)" "LightTimeoutTimeLeft (chan n (become_ready n s)) = ?L" "conf n (become_ready n s) = conf n s"
      using become_ready [OF less.prems(1)] by (simp_all add: become_ready_def)
    have "sleeps_in (Suc (ticks ?p ?L - 1)) n (become_ready n s)"
      using ready_sleeps [OF r(1)] r less.prems(3) k by simp
    then have "sleeps_in (Suc (ticks ?p ?L - 1)) n s"
      by (rule sleeps_in_cong [OF step_minimum_over [OF less.prems True], rotated 2]) (simp_all add: become_ready_def)
    then show ?thesis using k ticks_last [OF c(1) True] by simp
  next
    case False
    let ?t = "upd_chan n (FullComMinDurationTimeLeft_update (\<lambda>t. t - ?p)) s"
    have f: "?p < ?f" using False by simp
    then have "sleeps_in (ticks ?p (?f - ?p) + ticks ?p ?L - 1) n ?t"
      using less.hyps [of ?t] less.prems c time_left [OF c(1) f] by simp
    then have "sleeps_in (Suc (ticks ?p (?f - ?p) + ticks ?p ?L - 1)) n s"
      by (rule sleeps_in_Suc [OF step_minimum_runs [OF less.prems(1,2) f], rotated 2]) simp_all
    moreover have "ticks ?p ?f + ticks ?p ?L - 1 = Suc (ticks ?p (?f - ?p) + ticks ?p ?L - 1)"
      using k ticks_step [OF c(1) f] by simp
    ultimately show ?thesis by simp
  qed
qed

definition sample_wanted :: ComM_InternalType where
  "sample_wanted = ComM_BusSM_ModeIndication 0 2 (snd (ComM_RequestComMode 0 2 (ComM_CommunicationAllowed 0 True sample_start)))"

definition sample_released :: ComM_InternalType where
  "sample_released = snd (ComM_RequestComMode 0 0 sample_wanted)"

lemma unwanted_channel_goes_to_sleep_witness: "sleeps_in 4 0 sample_released"
proof -
  have "unwanted 0 sample_released" by code_simp
  moreover have "SubMode (chan 0 sample_released) = COMM_FULL_COM_NETWORK_REQUESTED" by code_simp
  moreover have "0 < LightTimeout (conf 0 sample_released)" by code_simp
  ultimately have "sleeps_in (ticks (MainFunctionPeriod (conf 0 sample_released)) (FullComMinDurationTimeLeft (chan 0 sample_released))
                    + ticks (MainFunctionPeriod (conf 0 sample_released)) (LightTimeout (conf 0 sample_released)) - 1) 0 sample_released"
    by (rule unwanted_channel_goes_to_sleep)
  moreover have "ticks (MainFunctionPeriod (conf 0 sample_released)) (FullComMinDurationTimeLeft (chan 0 sample_released))
                    + ticks (MainFunctionPeriod (conf 0 sample_released)) (LightTimeout (conf 0 sample_released)) - 1 = 4" by code_simp
  ultimately show ?thesis by simp
qed

section \<open>The state of a channel is a state of its mode\<close>

fun mode_of :: "ComM_StateType \<Rightarrow> u8" where
  "mode_of COMM_NO_COM_NO_PENDING_REQUEST = COMM_NO_COMMUNICATION"
| "mode_of COMM_NO_COM_REQUEST_PENDING = COMM_NO_COMMUNICATION"
| "mode_of COMM_SILENT_COM = COMM_SILENT_COMMUNICATION"
| "mode_of COMM_FULL_COM_NETWORK_REQUESTED = COMM_FULL_COMMUNICATION"
| "mode_of COMM_FULL_COM_READY_SLEEP = COMM_FULL_COMMUNICATION"

definition modes_ok :: "ComM_InternalType \<Rightarrow> bool" where
  "modes_ok s \<longleftrightarrow> (\<forall>ch \<in> set (Channels s). Mode ch = mode_of (SubMode ch))"

lemma modes_ok_chan: "modes_ok s \<Longrightarrow> channel_ok n s \<Longrightarrow> Mode (chan n s) = mode_of (SubMode (chan n s))"
  by (simp add: modes_ok_def)

lemma modes_ok_upd:
  assumes "modes_ok s" and "channel_ok n s \<Longrightarrow> Mode (f (chan n s)) = mode_of (SubMode (f (chan n s)))"
  shows "modes_ok (upd_chan n f s)"
proof (cases "channel_ok n s")
  case True
  then show ?thesis using assms set_update_subset_insert [of "Channels s" "unat n" "f (chan n s)"]
    by (auto simp: modes_ok_def upd_chan_def)
qed (use assms(1) in \<open>simp add: modes_ok_def upd_chan_def list_update_beyond\<close>)

lemma modes_ok_keep: "modes_ok s \<Longrightarrow> (\<And>ch. Mode (f ch) = Mode ch \<and> SubMode (f ch) = SubMode ch) \<Longrightarrow> modes_ok (upd_chan n f s)"
  by (rule modes_ok_upd) (simp_all add: modes_ok_chan)

lemma modes_ok_fields [simp]:
  "modes_ok (Det_report x y s) = modes_ok s" "modes_ok (s\<lparr>NoCommunication := b\<rparr>) = modes_ok s"
  "modes_ok (s\<lparr>InhibitCounter := k\<rparr>) = modes_ok s" "modes_ok (s\<lparr>InitStatus := i\<rparr>) = modes_ok s"
  "modes_ok (s\<lparr>Users := us\<rparr>) = modes_ok s" "modes_ok (count_inhibited r s) = modes_ok s"
  "modes_ok (snd (ComM_Internal_PropagateComMode c m s)) = modes_ok s" "modes_ok (snd (request_nm h b s)) = modes_ok s"
  by (simp_all add: modes_ok_def Det_report_def count_inhibited_def ComM_Internal_PropagateComMode_def request_nm_def)

lemma channels_request [simp]: "Channels (snd (ComM_Internal_PropagateComMode c m s)) = Channels s"
  by (simp add: ComM_Internal_PropagateComMode_def)

lemma modes_ok_enter:
  assumes "modes_ok s"
  shows "modes_ok (snd (ComM_Internal_NotifyNm c s))" "modes_ok (snd (ComM_Internal_Enter_NoCom c s))"
    "modes_ok (snd (ComM_Internal_Enter_SilentCom c s))" "modes_ok (snd (ComM_Internal_Enter_NetworkRequested c s))"
    "modes_ok (snd (ComM_Internal_Enter_ReadySleep c s))" "modes_ok (clear_indication b n s)" "modes_ok (set_indication b n s)"
proof -
  have n: "modes_ok (snd (ComM_Internal_NotifyNm c s))" if "modes_ok s" for s
    using that by (simp add: ComM_Internal_NotifyNm_def Let_def modes_ok_keep)
  show "modes_ok (snd (ComM_Internal_NotifyNm c s))" by (rule n [OF assms])
  show "modes_ok (snd (ComM_Internal_Enter_NetworkRequested c s))"
    using assms modes_ok_chan [OF assms, of "Number c"]
    by (simp add: ComM_Internal_Enter_NetworkRequested_def Let_def case_prod_beta modes_ok_keep modes_ok_upd)
  show "modes_ok (snd (ComM_Internal_Enter_ReadySleep c s))"
    using assms modes_ok_chan [OF assms, of "Number c"]
    by (simp add: ComM_Internal_Enter_ReadySleep_def n modes_ok_keep modes_ok_upd)
qed (use assms in \<open>simp_all add: ComM_Internal_Enter_NoCom_def ComM_Internal_Enter_SilentCom_def clear_indication_def set_indication_def modes_ok_keep\<close>)

lemma modes_ok_update:
  assumes "modes_ok s" shows "modes_ok (snd (ComM_Internal_UpdateChannelState c r s))"
proof -
  have "modes_ok (snd (leave_full c s))" using assms by (simp add: leave_full_def Let_def modes_ok_enter)
  then show ?thesis using assms
    by (simp add: ComM_Internal_UpdateChannelState_def ComM_Internal_UpdateFromNoCom_def ComM_Internal_UpdateFromSilentCom_def
        ComM_Internal_UpdateFromFullCom_def Let_def case_prod_beta modes_ok_enter modes_ok_upd)
qed

lemma modes_ok_validated: "modes_ok s \<Longrightarrow> (modes_ok s \<Longrightarrow> modes_ok (snd body)) \<Longrightarrow> modes_ok (snd (validated x ok s body))"
  by (simp add: validated_def)

lemma modes_ok_update_fold:
  "modes_ok s \<Longrightarrow> modes_ok (snd (fold (request_channel u m) cs (r, s)))"
  by (induction cs arbitrary: r s) (simp_all add: request_channel_def case_prod_beta modes_ok_update modes_ok_keep)

lemma modes_ok_update_all:
  assumes "modes_ok s" shows "modes_ok (snd (update_all s))"
proof -
  have "modes_ok (snd (fold (\<lambda>i (totalStatus, s).
       let (status, s1) = ComM_Internal_UpdateChannelState (ChannelTable (ComM_Config s) ! i) False s
       in (if status > totalStatus then status else totalStatus, s1)) is (r, t)))" if "modes_ok t" for r t "is"
    using that by (induction "is" arbitrary: r t) (simp_all add: case_prod_beta Let_def modes_ok_update)
  then show ?thesis using assms by (simp add: update_all_def)
qed

text \<open>The bus state manager of a channel indicates the mode that was requested last.\<close>

fun bus_follows :: "comm_call \<Rightarrow> ComM_InternalType \<Rightarrow> bool" where
  "bus_follows (Call_ModeIndication n m) s \<longleftrightarrow> (channel_ok n s \<longrightarrow> m = mode_of (RequestedSubMode (chan n s)))"
| "bus_follows _ s = True"

lemma modes_ok_main:
  assumes "modes_ok s" and "ComM_MainFunction n s = Some t" shows "modes_ok t"
proof -
  have full: "modes_ok (snd (ComM_Internal_TickFullComMinTime c n s))" if "modes_ok s" for c s
    using that by (simp add: ComM_Internal_TickFullComMinTime_def modes_ok_keep modes_ok_update)
  have light: "modes_ok (snd (ComM_Internal_TickLightTime c n s))" if "modes_ok s" for c s
    using that by (simp add: ComM_Internal_TickLightTime_def modes_ok_keep modes_ok_update)
  show ?thesis using assms by (auto simp: ComM_MainFunction_def Let_def full light modes_ok_update split: if_splits)
qed

lemma modes_ok_indication:
  assumes "modes_ok s" and "channel_ok n s \<longrightarrow> m = mode_of (RequestedSubMode (chan n s))"
  shows "modes_ok (ComM_BusSM_ModeIndication n m s)"
proof -
  let ?s1 = "upd_chan n (\<lambda>ch. ch\<lparr>Mode := m, SubMode := RequestedSubMode ch\<rparr>) s"
  have "modes_ok ?s1" using assms by (simp add: modes_ok_upd)
  then have "modes_ok (snd (if m = COMM_FULL_COMMUNICATION then ComM_Internal_NotifyNm (conf n ?s1) ?s1 else (E_OK, ?s1)))"
    by (cases "m = COMM_FULL_COMMUNICATION") (simp_all only: modes_ok_enter(1) if_True if_False snd_conv simp_thms)
  then show ?thesis
    unfolding ComM_BusSM_ModeIndication_def Let_def by (intro modes_ok_validated [OF assms(1)])
qed

lemma modes_ok_call:
  assumes ok: "modes_ok s" and f: "bus_follows c s" and d: "comm_do c s = Some t" shows "modes_ok t"
proof (cases c)
  case (Call_MainFunction n)
  then show ?thesis using modes_ok_main [OF ok] d by simp
next
  case (Call_ModeIndication n m)
  then show ?thesis using modes_ok_indication [OF ok] f d by auto
qed (use ok d in \<open>auto simp: ComM_RequestComMode_def ComM_Internal_RequestComMode_def modes_ok_update_fold ComM_LimitECUToNoComMode_def
      modes_ok_update_all ComM_PreventWakeUp_def ComM_LimitChannelToNoComMode_def ComM_ResetInhibitCounter_def
      ComM_Nm_NetworkStartIndication_def ComM_Nm_NetworkMode_def ComM_Nm_PrepareBusSleepMode_def ComM_Nm_BusSleepMode_def
      ComM_Nm_RestartIndication_def nm_indication_def ComM_DCM_ActiveDiagnostic_def ComM_DCM_InactiveDiagnostic_def dcm_indication_def
      ComM_CommunicationAllowed_def ComM_DeInit_def set_inhibition_def modes_ok_update modes_ok_keep modes_ok_enter intro!: modes_ok_validated\<close>)

lemma modes_ok_Init: "modes_ok (ComM_Init (Some c) s)"
  by (auto simp: modes_ok_def ComM_Init_def init_channel_def)



section \<open>An indication that stays noted\<close>

text \<open>Network mode is noted while the channel communicates; nothing clears it.  When the channel has gone
  silent without any user, the next call that updates it asks the bus for full communication again.\<close>

definition sample_silent :: ComM_InternalType where
  "sample_silent = (let light = snd (ComM_RequestComMode 0 0 (ComM_Nm_NetworkMode 0 sample_wanted));
      ready = the (main_calls 2 0 light)
    in ComM_BusSM_ModeIndication 0 1 (ComM_Nm_PrepareBusSleepMode 0 ready))"

lemma stale_network_mode_wakes:
  "Mode (chan 0 sample_silent) = COMM_SILENT_COMMUNICATION"
  "\<not> requested 0 sample_silent"
  "last (bus_requests (snd (ComM_RequestComMode 0 0 sample_silent))) = (COMM_BUS_TYPE_CAN, 0, COMM_FULL_COMMUNICATION)"
  by code_simp+

end
